(* ===== verification/Prelude.thy ===== *)
theory Prelude
  imports Main "HOL-Library.List_Lexorder" "HOL-Library.Char_ord"
begin

text \<open>
  Shared vocabulary of the development: the errors the Python code raises, the
  error-or-value results in which every \<^verbatim>\<open>raise\<close> is a value, sequencing of
  fallible steps, constructor validation (a frozen dataclass runs its
  \<^verbatim>\<open>__post_init__\<close> whenever it is built or rebuilt with \<^verbatim>\<open>replace\<close>), and the
  generic facts on results, lists and maps that the component theories share.
\<close>

section \<open>Errors and results\<close>

text \<open>
  \<^verbatim>\<open>ControllerInvariantError\<close>, \<^verbatim>\<open>TransactionProtocolError\<close>,
  \<^verbatim>\<open>LayoutPlanningError\<close>, \<^verbatim>\<open>StateCodecError\<close> and \<^verbatim>\<open>JSONDecodeError\<close> are subclasses of
  \<^verbatim>\<open>ValueError\<close> in the source; the message each \<^verbatim>\<open>raise\<close> carries is kept, but for the
  position a \<^verbatim>\<open>JSONDecodeError\<close> names.
\<close>

datatype error =
    ValueError string
  | TypeError string
  | ControllerInvariantError string
  | UnknownEventError string
  | AmbiguousBijectionError
  | TransactionProtocolError string
  | LayoutPlanningError string
  | IndexError string
  | StateCodecError string
  | JSONDecodeError

type_synonym 'a result = "error + 'a"

definition bindE :: "'a result \<Rightarrow> ('a \<Rightarrow> 'b result) \<Rightarrow> 'b result" where
  "bindE r f = (case r of Inl e \<Rightarrow> Inl e | Inr x \<Rightarrow> f x)"

text \<open>A single guarded raise, and a sequence of guarded raises in source order.\<close>

definition check :: "bool \<Rightarrow> error \<Rightarrow> unit result" where
  "check b e = (if b then Inr () else Inl e)"

primrec checks :: "unit result list \<Rightarrow> unit result" where
  "checks [] = Inr ()"
| "checks (c # cs) = bindE c (\<lambda>_. checks cs)"

text \<open>Building a validated value: run the validator, then return the value.\<close>

definition construct :: "('a \<Rightarrow> unit result) \<Rightarrow> 'a \<Rightarrow> 'a result" where
  "construct post_init x = bindE (post_init x) (\<lambda>_. Inr x)"

section \<open>Reasoning about results\<close>

text \<open>
  \<open>passes c\<close> is "the validator does not raise"; \<open>returns r P\<close> is total
  correctness (no raise, and the value satisfies \<open>P\<close>); \<open>provided r P\<close> is partial
  correctness (if a value is returned it satisfies \<open>P\<close>).
\<close>

definition passes :: "unit result \<Rightarrow> bool" where
  "passes r \<longleftrightarrow> r = Inr ()"

definition returns :: "'a result \<Rightarrow> ('a \<Rightarrow> bool) \<Rightarrow> bool" where
  "returns r P \<longleftrightarrow> (\<exists>x. r = Inr x \<and> P x)"

definition provided :: "'a result \<Rightarrow> ('a \<Rightarrow> bool) \<Rightarrow> bool" where
  "provided r P \<longleftrightarrow> (\<forall>x. r = Inr x \<longrightarrow> P x)"

named_theorems passes_simps \<open>what it means for a validator to pass\<close>
named_theorems wp \<open>weakest-precondition rules for results\<close>

lemma bindE_Inr [simp]: "bindE (Inr x) f = f x"
  by (simp add: bindE_def)

lemma bindE_Inl [simp]: "bindE (Inl e) f = Inl e"
  by (simp add: bindE_def)

lemma bindE_return [simp]: "bindE r Inr = r"
  by (simp add: bindE_def split: sum.split)

lemma bindE_assoc: "bindE (bindE r f) g = bindE r (\<lambda>x. bindE (f x) g)"
  by (simp add: bindE_def split: sum.split)

lemma bindE_eq_Inr: "bindE r f = Inr y \<longleftrightarrow> (\<exists>x. r = Inr x \<and> f x = Inr y)"
  by (simp add: bindE_def split: sum.split)

lemma bindE_InrE:
  assumes "bindE r f = Inr y"
  obtains x where "r = Inr x" and "f x = Inr y"
  using assms by (auto simp: bindE_eq_Inr)

lemma bindE_cong [fundef_cong]:
  "r = r' \<Longrightarrow> (\<And>x. r' = Inr x \<Longrightarrow> f x = f' x) \<Longrightarrow> bindE r f = bindE r' f'"
  by (auto simp: bindE_def split: sum.split)

lemma passes_check [simp, passes_simps]: "passes (check b e) \<longleftrightarrow> b"
  by (simp add: passes_def check_def)

lemma check_True [simp]: "check True e = Inr ()"
  and check_False [simp]: "check False e = Inl e"
  by (simp_all add: check_def)

lemma check_eq_Inr [simp]: "check b e = Inr u \<longleftrightarrow> b"
  by (simp add: check_def)

lemma passes_bindE [simp, passes_simps]:
  "passes (bindE r (\<lambda>_. q)) \<longleftrightarrow> passes r \<and> passes q"
  by (auto simp: passes_def bindE_eq_Inr)

lemma checks_eq_Inr [simp]: "checks cs = Inr () \<longleftrightarrow> (\<forall>c \<in> set cs. passes c)"
  by (induction cs) (auto simp: bindE_eq_Inr passes_def)

lemma passes_checks [simp, passes_simps]: "passes (checks cs) \<longleftrightarrow> (\<forall>c \<in> set cs. passes c)"
  by (simp add: passes_def[of "checks cs"])

lemma passes_Inr [simp]: "passes (Inr u)"
  by (simp add: passes_def)

lemma passes_Inl [simp]: "\<not> passes (Inl e)"
  by (simp add: passes_def)

lemma passes_if [simp]: "passes (if b then c else d) \<longleftrightarrow> (if b then passes c else passes d)"
  by simp

lemma construct_eq_Inr [simp]: "construct p x = Inr y \<longleftrightarrow> passes (p x) \<and> y = x"
  by (auto simp: construct_def bindE_eq_Inr passes_def)

lemma construct_passes [simp]: "passes (p x) \<Longrightarrow> construct p x = Inr x"
  by simp

lemma construct_raises: "\<not> passes (p x) \<Longrightarrow> \<exists>e. construct p x = Inl e"
  by (cases "construct p x") auto

text \<open>The rule sets: total and partial correctness of sequencing.\<close>

lemma returns_bindE [wp]: "returns (bindE r f) P \<longleftrightarrow> returns r (\<lambda>x. returns (f x) P)"
  by (auto simp: returns_def bindE_eq_Inr)

lemma returns_Inr [wp]: "returns (Inr x) P \<longleftrightarrow> P x"
  by (simp add: returns_def)

lemma returns_Inl [wp]: "\<not> returns (Inl e) P"
  by (simp add: returns_def)

lemma returns_construct [wp]: "returns (construct p x) P \<longleftrightarrow> passes (p x) \<and> P x"
  by (auto simp: returns_def)

lemma returns_if [wp]:
  "returns (if b then r else q) P \<longleftrightarrow> (b \<longrightarrow> returns r P) \<and> (\<not> b \<longrightarrow> returns q P)"
  by simp

lemma returns_mono: "returns r P \<Longrightarrow> (\<And>x. r = Inr x \<Longrightarrow> P x \<Longrightarrow> Q x) \<Longrightarrow> returns r Q"
  by (auto simp: returns_def)

lemma provided_bindE [wp]: "provided (bindE r f) P \<longleftrightarrow> provided r (\<lambda>x. provided (f x) P)"
  by (auto simp: provided_def bindE_eq_Inr)

lemma provided_Inr [wp]: "provided (Inr x) P \<longleftrightarrow> P x"
  by (simp add: provided_def)

lemma provided_Inl [wp]: "provided (Inl e) P"
  by (simp add: provided_def)

lemma provided_construct [wp]: "provided (construct p x) P \<longleftrightarrow> (passes (p x) \<longrightarrow> P x)"
  by (auto simp: provided_def)

lemma provided_if [wp]:
  "provided (if b then r else q) P \<longleftrightarrow> (b \<longrightarrow> provided r P) \<and> (\<not> b \<longrightarrow> provided q P)"
  by simp

lemma provided_mono: "provided r P \<Longrightarrow> (\<And>x. r = Inr x \<Longrightarrow> P x \<Longrightarrow> Q x) \<Longrightarrow> provided r Q"
  by (auto simp: provided_def)

lemma providedD: "provided r P \<Longrightarrow> r = Inr x \<Longrightarrow> P x"
  by (simp add: provided_def)

section \<open>Lists, options and sets\<close>

text \<open>
  \<^verbatim>\<open>next((item for item in xs if p(item)), None)\<close> is the library's \<open>find\<close>;
  \<^verbatim>\<open>tuple(sorted(set(xs)))\<close> is \<open>sorted_set\<close>.
\<close>

definition sorted_set :: "'a::linorder list \<Rightarrow> 'a list" where
  "sorted_set xs = sort (remdups xs)"

lemma sorted_set_props [simp]:
  "sorted (sorted_set xs)" "distinct (sorted_set xs)" "set (sorted_set xs) = set xs"
  by (simp_all add: sorted_set_def)

lemma eq_sorted_set_iff: "xs = sorted_set xs \<longleftrightarrow> sorted xs \<and> distinct xs"
proof
  assume "xs = sorted_set xs"
  then show "sorted xs \<and> distinct xs" by (metis sorted_set_props(1,2))
next
  assume "sorted xs \<and> distinct xs"
  then show "xs = sorted_set xs" by (simp add: sorted_set_def sorted_sort_id distinct_remdups_id)
qed

lemma eq_sort_iff: "xs = sort xs \<longleftrightarrow> sorted xs"
  by (metis sorted_sort sorted_sort_id)

lemma find_Some_in: "find P xs = Some x \<Longrightarrow> x \<in> set xs \<and> P x"
  by (induction xs) (auto split: if_splits)

lemma find_None_iff_all: "find P xs = None \<longleftrightarrow> (\<forall>x \<in> set xs. \<not> P x)"
  by (induction xs) auto

text \<open>The present values of a tuple of optional fields, in order.\<close>

fun somes :: "'a option list \<Rightarrow> 'a list" where
  "somes [] = []"
| "somes (None # xs) = somes xs"
| "somes (Some x # xs) = x # somes xs"

lemma set_somes: "x \<in> set (somes xs) \<longleftrightarrow> Some x \<in> set xs"
  by (induction xs rule: somes.induct) auto

lemma length_somes_le: "length (somes xs) \<le> length xs"
  by (induction xs rule: somes.induct) auto

text \<open>A value of an optional field is checked only when it is present.\<close>

definition on_some :: "('a \<Rightarrow> unit result) \<Rightarrow> 'a option \<Rightarrow> unit result" where
  "on_some p x = (case x of None \<Rightarrow> Inr () | Some v \<Rightarrow> p v)"

lemma passes_on_some [simp, passes_simps]:
  "passes (on_some p x) \<longleftrightarrow> (\<forall>v. x = Some v \<longrightarrow> passes (p v))"
  by (simp add: on_some_def split: option.split)

text \<open>
  How the code generator and \<^verbatim>\<open>code_simp\<close> evaluate results: with \<open>bindE\<close> unfolded to its
  case distinction, a continuation is not touched before the step it waits for.
\<close>

declare bindE_def [code_unfold] construct_def [code_unfold]

lemma pred_option_code [code]:
  "pred_option P None = True" "pred_option P (Some x) = P x"
  by simp_all

lemma returns_code [code]: "returns r P = (case r of Inl e \<Rightarrow> False | Inr x \<Rightarrow> P x)"
  by (simp add: returns_def split: sum.split)

lemma provided_code [code]: "provided r P = (case r of Inl e \<Rightarrow> True | Inr x \<Rightarrow> P x)"
  by (simp add: provided_def split: sum.split)

end
