(* ===== verification/Py_Strings.thy ===== *)
theory Py_Strings
  imports Prelude "HOL-Library.Word" "HOL-Library.Sublist"
begin

text \<open>
  The Python string operations the monitor controller uses, on HOL strings read as
  the code points U+0000 to U+00FF, and the string validators of
  \<^verbatim>\<open>monitor_controller/model.py\<close>. Comparison of strings is by code point, as in
  Python. \<open>normalize_display\<close> models \<^verbatim>\<open>_normalize_display\<close>.
\<close>

section \<open>Character classes\<close>

text \<open>
  \<^verbatim>\<open>str.isspace\<close>, \<^verbatim>\<open>str.isdigit\<close>, \<^verbatim>\<open>str.isascii\<close> and \<^verbatim>\<open>str.isalnum\<close> on one
  code point below U+0100. The digits include the superscripts two, three and one.
  \<open>ascii_alnum\<close> is \<^verbatim>\<open>isalnum\<close> restricted to ASCII, which is how the source uses it.
\<close>

definition char_isspace :: "char \<Rightarrow> bool" where
  "char_isspace c \<longleftrightarrow> of_char c \<in> {9, 10, 11, 12, 13, 28, 29, 30, 31, 32, 133, 160 :: nat}"

definition char_isdigit :: "char \<Rightarrow> bool" where
  "char_isdigit c \<longleftrightarrow>
     (let n = (of_char c :: nat) in (48 \<le> n \<and> n \<le> 57) \<or> n = 178 \<or> n = 179 \<or> n = 185)"

definition char_isascii :: "char \<Rightarrow> bool" where
  "char_isascii c \<longleftrightarrow> (of_char c :: nat) < 128"

definition ascii_alnum :: "char \<Rightarrow> bool" where
  "ascii_alnum c \<longleftrightarrow>
     (let n = (of_char c :: nat)
      in (48 \<le> n \<and> n \<le> 57) \<or> (65 \<le> n \<and> n \<le> 90) \<or> (97 \<le> n \<and> n \<le> 122))"

definition str_isspace :: "string \<Rightarrow> bool" where
  "str_isspace s \<longleftrightarrow> s \<noteq> [] \<and> list_all char_isspace s"

definition str_isdigit :: "string \<Rightarrow> bool" where
  "str_isdigit s \<longleftrightarrow> s \<noteq> [] \<and> list_all char_isdigit s"

section \<open>Splitting and joining\<close>

text \<open>
  \<^verbatim>\<open>s.partition(c)\<close> and \<^verbatim>\<open>s.rpartition(c)\<close> for a one-character separator: the
  flag says whether the separator occurs.
\<close>

fun partition_at :: "char \<Rightarrow> string \<Rightarrow> string \<times> bool \<times> string" where
  "partition_at c [] = ([], False, [])"
| "partition_at c (x # xs) =
     (if x = c then ([], True, xs)
      else (case partition_at c xs of (l, found, r) \<Rightarrow> (x # l, found, r)))"

definition rpartition_at :: "char \<Rightarrow> string \<Rightarrow> string \<times> bool \<times> string" where
  "rpartition_at c s =
     (case partition_at c (rev s) of
        (l, found, r) \<Rightarrow> if found then (rev r, True, rev l) else ([], False, s))"

text \<open>\<^verbatim>\<open>s.lstrip("0")\<close> and \<^verbatim>\<open>sep.join(parts)\<close>.\<close>

definition lstrip_zeros :: "string \<Rightarrow> string" where
  "lstrip_zeros s = dropWhile (\<lambda>c. c = CHR ''0'') s"

fun join_str :: "string \<Rightarrow> string list \<Rightarrow> string" where
  "join_str sep [] = []"
| "join_str sep [x] = x"
| "join_str sep (x # y # xs) = x @ sep @ join_str sep (y # xs)"

abbreviation NUL :: char where
  "NUL \<equiv> CHR 0x00"

text \<open>Decimal rendering of integers (\<^verbatim>\<open>f"{n}"\<close> and \<^verbatim>\<open>f"{n:020d}"\<close>).\<close>

definition digit_char :: "nat \<Rightarrow> char" where
  "digit_char d = char_of (48 + d)"

fun nat_decimal :: "nat \<Rightarrow> string" where
  "nat_decimal n = (if n < 10 then [digit_char n]
                    else nat_decimal (n div 10) @ [digit_char (n mod 10)])"

declare nat_decimal.simps [simp del]

definition int_decimal :: "int \<Rightarrow> string" where
  "int_decimal i = (if i < 0 then CHR ''-'' # nat_decimal (nat (- i)) else nat_decimal (nat i))"

text \<open>Digits of a non-negative integer, computed on binary integers.\<close>

function int_digits :: "int \<Rightarrow> string" where
  "int_digits n =
     (if n < 10 then [digit_char (nat n)]
      else int_digits (n div 10) @ [digit_char (nat (n mod 10))])"
  by auto
termination
  by (relation "measure nat") auto

declare int_digits.simps [simp del]

lemma int_digits_nat: "int_digits (int n) = nat_decimal n"
proof (induction n rule: nat_decimal.induct)
  case (1 n)
  have *: "int n div 10 = int (n div 10)" "nat (int n mod 10) = n mod 10"
    by (simp_all add: zdiv_int nat_mod_as_int)
  show ?case
    using 1 by (subst int_digits.simps, subst nat_decimal.simps) (simp add: *)
qed

lemma int_decimal_code [code]:
  "int_decimal i = (if i < 0 then CHR ''-'' # int_digits (- i) else int_digits i)"
  using int_digits_nat [of "nat (- i)"] int_digits_nat [of "nat i"]
  by (auto simp: int_decimal_def split: if_splits)

definition pad_zeros :: "nat \<Rightarrow> string \<Rightarrow> string" where
  "pad_zeros w s = replicate (w - length s) (CHR ''0'') @ s"

definition int_decimal_020 :: "int \<Rightarrow> string" where
  "int_decimal_020 i = (if i < 0 then CHR ''-'' # pad_zeros 19 (nat_decimal (nat (- i)))
                        else pad_zeros 20 (nat_decimal (nat i)))"

text \<open>\<^verbatim>\<open>UUID.hex\<close>: the 128-bit value as 32 lower-case hexadecimal digits.\<close>

type_synonym uuid = "128 word"

definition hex_char :: "nat \<Rightarrow> char" where
  "hex_char d = (if d < 10 then char_of (48 + d) else char_of (87 + d))"

fun hex_digits :: "nat \<Rightarrow> nat \<Rightarrow> string" where
  "hex_digits 0 n = []"
| "hex_digits (Suc k) n = hex_digits k (n div 16) @ [hex_char (n mod 16)]"

definition uuid_hex :: "uuid \<Rightarrow> string" where
  "uuid_hex u = hex_digits 32 (unat u)"

section \<open>The validators of model.py\<close>

definition is_blank :: "string \<Rightarrow> bool" where
  "is_blank s \<longleftrightarrow> s = [] \<or> str_isspace s"

definition require_nonempty :: "string \<Rightarrow> string \<Rightarrow> unit result" where
  "require_nonempty v field = check (\<not> is_blank v) (ValueError (field @ '' must not be empty''))"

definition require_nonnegative :: "int \<Rightarrow> string \<Rightarrow> unit result" where
  "require_nonnegative v field = check (\<not> v < 0) (ValueError (field @ '' must be non-negative''))"

definition require_sorted_unique_strings :: "string list \<Rightarrow> string \<Rightarrow> unit result" where
  "require_sorted_unique_strings values field = checks
     [check (values = sorted_set values)
        (ValueError (field @ '' must be sorted and contain no duplicates'')),
      check (\<not> list_ex is_blank values)
        (ValueError (field @ '' must contain non-empty values''))]"

definition require_sorted_unique_keys :: "string list \<Rightarrow> string \<Rightarrow> unit result" where
  "require_sorted_unique_keys keys field =
     check (length (remdups keys) = length keys \<and> keys = sort keys)
       (ValueError (field @ '' must be sorted and contain no duplicates''))"

definition require_unique_keys :: "string list \<Rightarrow> string \<Rightarrow> unit result" where
  "require_unique_keys keys field =
     check (length (remdups keys) = length keys)
       (ValueError (''valid observation requires unique '' @ field))"

lemma passes_require_nonempty [simp, passes_simps]:
  "passes (require_nonempty v f) \<longleftrightarrow> \<not> is_blank v"
  by (simp add: require_nonempty_def)

lemma passes_require_nonnegative [simp, passes_simps]:
  "passes (require_nonnegative v f) \<longleftrightarrow> 0 \<le> v"
  by (auto simp: require_nonnegative_def)

lemma length_remdups_eq: "length (remdups xs) = length xs \<longleftrightarrow> distinct xs"
  by (metis distinct_card distinct_remdups length_remdups_card_conv card_distinct)

lemma passes_require_sorted_unique_strings [simp, passes_simps]:
  "passes (require_sorted_unique_strings vs f) \<longleftrightarrow>
     sorted vs \<and> distinct vs \<and> (\<forall>v \<in> set vs. \<not> is_blank v)"
  by (auto simp: require_sorted_unique_strings_def eq_sorted_set_iff list_ex_iff)

lemma passes_require_sorted_unique_keys [simp, passes_simps]:
  "passes (require_sorted_unique_keys ks f) \<longleftrightarrow> sorted ks \<and> distinct ks"
  by (auto simp: require_sorted_unique_keys_def length_remdups_eq eq_sort_iff)

lemma passes_require_unique_keys [simp, passes_simps]:
  "passes (require_unique_keys ks f) \<longleftrightarrow> distinct ks"
  by (simp add: require_unique_keys_def length_remdups_eq)

section \<open>Canonical display addresses\<close>

definition normalize_display :: "string \<Rightarrow> string" where
  "normalize_display value =
     (case rpartition_at (CHR '':'') value of (host, separator, rest) \<Rightarrow>
        if \<not> separator \<or> rest = [] then value
        else (case partition_at (CHR ''.'') rest of (display, dot, screen) \<Rightarrow>
          if \<not> dot \<or> \<not> str_isdigit display \<or> \<not> str_isdigit screen then value
          else if lstrip_zeros screen \<noteq> [] then value
          else host @ '':'' @ display))"

end
