(* ===== verification/Model_Values.thy ===== *)
theory Model_Values
  imports Py_Strings
begin

text \<open>
  The immutable domain values of \<^verbatim>\<open>monitor_controller/model.py\<close> below the state:
  enumerations, identities, keys, mappings and profile evidence. A dataclass that
  the source builds positionally is a datatype with the class's constructor, one
  built by keyword or rebuilt with \<^verbatim>\<open>replace\<close> is a record. \<open>C_post_init\<close> models the
  \<^verbatim>\<open>__post_init__\<close> of class \<open>C\<close>.
\<close>

section \<open>Enumerations\<close>

datatype controller_phase =
    RECOVERING | QUIESCENT | DISCOVER_FAST | PROBE_PENDING | PROBING | PROBE_FAILED
  | APPLY_PENDING | APPLYING | APPLY_FAILED | VERIFYING | WAIT_SLOW | UNSUPPORTED
  | FINALIZE_PENDING | FINALIZING | FINALIZE_STOPPING | FINALIZE_FAILED

datatype planning_state = PLAN_IDLE | PLAN_PENDING | PLANNING | PLAN_READY | PLAN_FAILED

datatype preparation_state =
    PREPARE_IDLE | PREPARE_PENDING | PREPARING | PREPARED | PREPARE_STOPPING | PREPARE_FAILED

datatype profile_scope = INTERNAL_ONLY | EXTERNAL_ONLY | MIXED

datatype edid_integrity =
    EDID_ABSENT | BASE_INVALID | BASE_VALID_EXTENSIONS_INCOMPLETE
  | BASE_VALID_EXTENSIONS_INVALID | EDID_COMPLETE

datatype observation_validity = VALID | INVALID

datatype observation_invalidity_reason =
    EVENT_GENERATION_CHANGED | TOPOLOGY_CHANGED | COMMAND_TIMED_OUT | PARSE_FAILED
  | INCONSISTENT_EVIDENCE

datatype raw_evidence_source =
    DRM_CONNECTORS | DRM_EDID | XRANDR_QUERY | XRANDR_PROPERTIES
  | AUTORANDR_FINGERPRINT | AUTORANDR_PROFILES | DPMS

datatype display_power = POWER_ON | ASLEEP

datatype action_kind = PLAN | PROBE | APPLICATION | PREPARATION | FINALIZATION

datatype action_lifecycle =
    ADMITTED | DISPATCHED | STOPPING | RESULT_PENDING
  | COMPLETED | FAILED | CANCELLED | UNKNOWN | TIMED_OUT

datatype worker_outcome = OUTCOME_SUCCEEDED | OUTCOME_FAILED | OUTCOME_CANCELLED

datatype wake_reason =
    STARTUP | DRM_HINT | TIMER | WORKER_COMPLETED | RECOVERY | DIRTY_ADMISSION

definition BROKEN_EXTENSION_EDID_INTEGRITIES :: "edid_integrity set" where
  "BROKEN_EXTENSION_EDID_INTEGRITIES =
     {BASE_VALID_EXTENSIONS_INCOMPLETE, BASE_VALID_EXTENSIONS_INVALID}"

definition PROBE_ADMISSIBLE_EDID_INTEGRITIES :: "edid_integrity set" where
  "PROBE_ADMISSIBLE_EDID_INTEGRITIES = BROKEN_EXTENSION_EDID_INTEGRITIES \<union> {EDID_COMPLETE}"

definition TERMINAL_ACTION_LIFECYCLES :: "action_lifecycle set" where
  "TERMINAL_ACTION_LIFECYCLES = {COMPLETED, FAILED, CANCELLED, UNKNOWN, TIMED_OUT}"

lemma terminal_lifecycle_simps [simp]:
  "COMPLETED \<in> TERMINAL_ACTION_LIFECYCLES" "FAILED \<in> TERMINAL_ACTION_LIFECYCLES"
  "CANCELLED \<in> TERMINAL_ACTION_LIFECYCLES" "UNKNOWN \<in> TERMINAL_ACTION_LIFECYCLES"
  "TIMED_OUT \<in> TERMINAL_ACTION_LIFECYCLES"
  "ADMITTED \<notin> TERMINAL_ACTION_LIFECYCLES" "DISPATCHED \<notin> TERMINAL_ACTION_LIFECYCLES"
  "STOPPING \<notin> TERMINAL_ACTION_LIFECYCLES" "RESULT_PENDING \<notin> TERMINAL_ACTION_LIFECYCLES"
  by (simp_all add: TERMINAL_ACTION_LIFECYCLES_def)

text \<open>The wire values of the enumerations that take part in sort keys and identities.\<close>

fun profile_scope_value :: "profile_scope \<Rightarrow> string" where
  "profile_scope_value INTERNAL_ONLY = ''internal_only''"
| "profile_scope_value EXTERNAL_ONLY = ''external_only''"
| "profile_scope_value MIXED = ''mixed''"

fun edid_integrity_value :: "edid_integrity \<Rightarrow> string" where
  "edid_integrity_value EDID_ABSENT = ''absent''"
| "edid_integrity_value BASE_INVALID = ''base_invalid''"
| "edid_integrity_value BASE_VALID_EXTENSIONS_INCOMPLETE = ''base_valid_extensions_incomplete''"
| "edid_integrity_value BASE_VALID_EXTENSIONS_INVALID = ''base_valid_extensions_invalid''"
| "edid_integrity_value EDID_COMPLETE = ''complete''"

fun raw_evidence_source_value :: "raw_evidence_source \<Rightarrow> string" where
  "raw_evidence_source_value DRM_CONNECTORS = ''drm_connectors''"
| "raw_evidence_source_value DRM_EDID = ''drm_edid''"
| "raw_evidence_source_value XRANDR_QUERY = ''xrandr_query''"
| "raw_evidence_source_value XRANDR_PROPERTIES = ''xrandr_properties''"
| "raw_evidence_source_value AUTORANDR_FINGERPRINT = ''autorandr_fingerprint''"
| "raw_evidence_source_value AUTORANDR_PROFILES = ''autorandr_profiles''"
| "raw_evidence_source_value DPMS = ''dpms''"

fun action_kind_value :: "action_kind \<Rightarrow> string" where
  "action_kind_value PLAN = ''plan''"
| "action_kind_value PROBE = ''probe''"
| "action_kind_value APPLICATION = ''application''"
| "action_kind_value PREPARATION = ''preparation''"
| "action_kind_value FINALIZATION = ''finalization''"

section \<open>Identities\<close>

datatype boot_id = BootId uuid

datatype controller_instance_id = ControllerInstanceId (instance_value: uuid)

datatype display_identity = DisplayIdentity (display_value: string)

text \<open>The constructor canonicalises its argument after validating it.\<close>

definition mk_display_identity :: "string \<Rightarrow> display_identity result" where
  "mk_display_identity value =
     bindE (require_nonempty value ''display identity'')
       (\<lambda>_. Inr (DisplayIdentity (normalize_display value)))"

datatype graphical_session_id = GraphicalSessionId (session_value: string)

definition GraphicalSessionId_post_init :: "graphical_session_id \<Rightarrow> unit result" where
  "GraphicalSessionId_post_init g = checks
     [require_nonempty (session_value g) ''graphical session ID'',
      check (\<not> list_ex (\<lambda>c. \<not> char_isascii c \<or> \<not> (ascii_alnum c \<or> c \<in> set ''_.-''))
               (session_value g))
        (ValueError ''graphical session ID contains unsafe characters'')]"

text \<open>The two generation counters are ordered dataclasses (\<^verbatim>\<open>order=True\<close>).\<close>

datatype observation_generation = ObservationGeneration (observation_generation_value: int)

definition ObservationGeneration_post_init :: "observation_generation \<Rightarrow> unit result" where
  "ObservationGeneration_post_init g =
     require_nonnegative (observation_generation_value g) ''observation generation''"

datatype event_generation = EventGeneration (event_generation_value: int)

definition EventGeneration_post_init :: "event_generation \<Rightarrow> unit result" where
  "EventGeneration_post_init g =
     require_nonnegative (event_generation_value g) ''event generation''"

instantiation observation_generation :: linorder
begin

definition less_eq_observation_generation ::
  "observation_generation \<Rightarrow> observation_generation \<Rightarrow> bool" where
  "less_eq_observation_generation a b \<longleftrightarrow>
     observation_generation_value a \<le> observation_generation_value b"

definition less_observation_generation ::
  "observation_generation \<Rightarrow> observation_generation \<Rightarrow> bool" where
  "less_observation_generation a b \<longleftrightarrow>
     observation_generation_value a < observation_generation_value b"

instance
  by standard
    (auto simp: less_eq_observation_generation_def less_observation_generation_def
          intro: observation_generation.expand)

end

instantiation event_generation :: linorder
begin

definition less_eq_event_generation :: "event_generation \<Rightarrow> event_generation \<Rightarrow> bool" where
  "less_eq_event_generation a b \<longleftrightarrow> event_generation_value a \<le> event_generation_value b"

definition less_event_generation :: "event_generation \<Rightarrow> event_generation \<Rightarrow> bool" where
  "less_event_generation a b \<longleftrightarrow> event_generation_value a < event_generation_value b"

instance
  by standard
    (auto simp: less_eq_event_generation_def less_event_generation_def
          intro: event_generation.expand)

end

datatype observation_key = ObservationKey (observation_key_value: string)

definition ObservationKey_post_init :: "observation_key \<Rightarrow> unit result" where
  "ObservationKey_post_init k = require_nonempty (observation_key_value k) ''observation key''"

datatype physical_token = PhysicalToken (physical_token_value: string)

definition PhysicalToken_post_init :: "physical_token \<Rightarrow> unit result" where
  "PhysicalToken_post_init t = require_nonempty (physical_token_value t) ''physical token''"

datatype plan_hash = PlanHash (plan_hash_value: string)

definition PlanHash_post_init :: "plan_hash \<Rightarrow> unit result" where
  "PlanHash_post_init h = require_nonempty (plan_hash_value h) ''plan hash''"

datatype transition_key = TransitionKey (transition_key_value: string)

definition TransitionKey_post_init :: "transition_key \<Rightarrow> unit result" where
  "TransitionKey_post_init k = require_nonempty (transition_key_value k) ''transition key''"

datatype action_id =
  ActionId (aid_instance: controller_instance_id) (aid_kind: action_kind) (aid_sequence: int)

definition ActionId_post_init :: "action_id \<Rightarrow> unit result" where
  "ActionId_post_init a =
     check (\<not> aid_sequence a \<le> 0) (ValueError ''action sequence must be positive'')"

definition action_id_value :: "action_id \<Rightarrow> string" where
  "action_id_value a =
     action_kind_value (aid_kind a) @ ''-'' @ uuid_hex (instance_value (aid_instance a)) @ ''-'' @
     int_decimal (aid_sequence a)"

datatype transition_id =
  TransitionId (tid_instance: controller_instance_id) (tid_sequence: int)

definition TransitionId_post_init :: "transition_id \<Rightarrow> unit result" where
  "TransitionId_post_init t =
     check (\<not> tid_sequence t \<le> 0) (ValueError ''transition sequence must be positive'')"

definition transition_id_value :: "transition_id \<Rightarrow> string" where
  "transition_id_value t =
     ''transition-'' @ uuid_hex (instance_value (tid_instance t)) @ ''-'' @
     int_decimal (tid_sequence t)"

lemmas identity_post_init_defs [passes_simps] =
  GraphicalSessionId_post_init_def ObservationGeneration_post_init_def
  EventGeneration_post_init_def ObservationKey_post_init_def PhysicalToken_post_init_def
  PlanHash_post_init_def TransitionKey_post_init_def ActionId_post_init_def
  TransitionId_post_init_def

section \<open>Mappings and evidence\<close>

datatype output_mapping = OutputMapping (saved_output: string) (live_output: string)

definition OutputMapping_post_init :: "output_mapping \<Rightarrow> unit result" where
  "OutputMapping_post_init m = checks
     [require_nonempty (saved_output m) ''saved output'',
      require_nonempty (live_output m) ''live output'']"

definition mapping_sort_keys :: "output_mapping list \<Rightarrow> string list" where
  "mapping_sort_keys ms = map (\<lambda>m. saved_output m @ [NUL] @ live_output m) ms"

definition mapping_is_bijection :: "output_mapping list \<Rightarrow> bool" where
  "mapping_is_bijection ms \<longleftrightarrow>
     \<not> (length (remdups (map saved_output ms)) \<noteq> length (map saved_output ms) \<or>
        length (remdups (map live_output ms)) \<noteq> length (map live_output ms))"

datatype configuration_content_hash =
  ConfigurationContentHash (config_path: string) (config_sha256: string)

definition ConfigurationContentHash_post_init :: "configuration_content_hash \<Rightarrow> unit result" where
  "ConfigurationContentHash_post_init c = checks
     [require_nonempty (config_path c) ''configuration path'',
      require_nonempty (config_sha256 c) ''configuration content hash'']"

definition configuration_sort_keys :: "configuration_content_hash list \<Rightarrow> string list" where
  "configuration_sort_keys cs = map (\<lambda>c. config_path c @ [NUL] @ config_sha256 c) cs"

record planning_input_key =
  pik_physical_epoch :: int
  pik_profile :: string
  pik_layout :: string
  pik_observation_key :: observation_key
  pik_mapping :: "output_mapping list"
  pik_active_outputs :: "string list"
  pik_configuration_hashes :: "configuration_content_hash list"

definition PlanningInputKey_post_init :: "planning_input_key \<Rightarrow> unit result" where
  "PlanningInputKey_post_init k = checks
     [require_nonnegative (pik_physical_epoch k) ''planning physical epoch'',
      require_nonempty (pik_profile k) ''planning profile'',
      require_nonempty (pik_layout k) ''planning layout'',
      check (pik_mapping k \<noteq> []) (ValueError ''planning input mapping must not be empty''),
      require_sorted_unique_keys (mapping_sort_keys (pik_mapping k)) ''planning input mapping'',
      check (mapping_is_bijection (pik_mapping k))
        (ValueError ''planning input mapping must be a bijection''),
      require_sorted_unique_strings (pik_active_outputs k) ''planning active outputs'',
      check (set (pik_active_outputs k) \<subseteq> set (map live_output (pik_mapping k)))
        (ValueError ''planning active outputs must be included in its mapping''),
      check (pik_configuration_hashes k \<noteq> [])
        (ValueError ''planning input requires configuration content hashes''),
      require_sorted_unique_keys (configuration_sort_keys (pik_configuration_hashes k))
        ''planning configuration hashes'']"

definition planning_input_key_value :: "planning_input_key \<Rightarrow> string" where
  "planning_input_key_value k =
     (let mapping = join_str '','' (map (\<lambda>m. saved_output m @ ''>'' @ live_output m) (pik_mapping k));
          active = join_str '','' (pik_active_outputs k);
          hashes = join_str '','' (map (\<lambda>c. config_path c @ ''='' @ config_sha256 c)
                                     (pik_configuration_hashes k))
      in int_decimal (pik_physical_epoch k) @ ''|'' @ pik_profile k @ ''|'' @ pik_layout k @ ''|'' @
         observation_key_value (pik_observation_key k) @ ''|'' @ mapping @ ''|'' @ active @ ''|'' @
         hashes)"

record completed_plan =
  cp_plan_hash :: plan_hash
  cp_input_key :: planning_input_key

record mapping_proof =
  mp_profile :: string
  mp_physical_epoch :: int
  mp_observation_key :: observation_key
  mp_outputs :: "output_mapping list"

definition MappingProof_post_init :: "mapping_proof \<Rightarrow> unit result" where
  "MappingProof_post_init m = checks
     [require_nonempty (mp_profile m) ''mapping profile'',
      require_nonnegative (mp_physical_epoch m) ''physical epoch'',
      check (mp_outputs m \<noteq> []) (ValueError ''output mapping must not be empty''),
      check (mapping_is_bijection (mp_outputs m))
        (ValueError ''output mapping must be a bijection''),
      require_sorted_unique_keys (mapping_sort_keys (mp_outputs m)) ''output mapping'']"

datatype fingerprint = Fingerprint (fp_output: string) (fp_value: string)

definition Fingerprint_post_init :: "fingerprint \<Rightarrow> unit result" where
  "Fingerprint_post_init f = checks
     [require_nonempty (fp_output f) ''fingerprint output'',
      require_nonempty (fp_value f) ''fingerprint value'']"

datatype edid_evidence =
  EdidEvidence (edid_output: string) (edid_integrity_of: edid_integrity)
    (edid_base_hash: "string option")

definition EdidEvidence_post_init :: "edid_evidence \<Rightarrow> unit result" where
  "EdidEvidence_post_init e = checks
     [require_nonempty (edid_output e) ''EDID output'',
      check (\<not> (edid_integrity_of e = EDID_ABSENT \<and> edid_base_hash e \<noteq> None))
        (ValueError ''absent EDID cannot have a base hash''),
      (if edid_integrity_of e \<notin> {EDID_ABSENT, BASE_INVALID}
       then checks
         [check (edid_base_hash e \<noteq> None)
            (ValueError ''checksum-valid EDID must have a base hash''),
          on_some (\<lambda>h. require_nonempty h ''EDID base hash'') (edid_base_hash e)]
       else Inr ())]"

datatype connector_identity_evidence =
  ConnectorIdentityEvidence (ci_output: string) (ci_kernel_connector: string)
    (ci_kernel_connector_id: int) (ci_x_connector_id: "int option")

definition ConnectorIdentityEvidence_post_init ::
  "connector_identity_evidence \<Rightarrow> unit result" where
  "ConnectorIdentityEvidence_post_init c = checks
     [require_nonempty (ci_output c) ''connector identity output'',
      require_nonempty (ci_kernel_connector c) ''kernel connector'',
      require_nonnegative (ci_kernel_connector_id c) ''kernel connector ID'',
      on_some (\<lambda>x. require_nonnegative x ''X connector ID'') (ci_x_connector_id c)]"

datatype raw_evidence_reference =
  RawEvidenceReference (raw_source: raw_evidence_source) (raw_reference: string)
    (raw_sha256: string)

definition RawEvidenceReference_post_init :: "raw_evidence_reference \<Rightarrow> unit result" where
  "RawEvidenceReference_post_init r = checks
     [require_nonempty (raw_reference r) ''raw evidence reference'',
      require_nonempty (raw_sha256 r) ''raw evidence hash'']"

record profile_match =
  pm_profile :: string
  pm_scope :: profile_scope
  pm_layout :: string
  pm_mapping :: "output_mapping list"
  pm_active_outputs :: "string list"
  pm_configuration_hashes :: "configuration_content_hash list"
  pm_planning_configuration_hashes :: "configuration_content_hash list"

definition ProfileMatch_post_init :: "profile_match \<Rightarrow> unit result" where
  "ProfileMatch_post_init p = checks
     [require_nonempty (pm_profile p) ''profile'',
      require_nonempty (pm_layout p) ''profile layout'',
      check (pm_configuration_hashes p \<noteq> [])
        (ValueError ''profile match requires configuration content hashes''),
      (if pm_planning_configuration_hashes p \<noteq> []
       then require_sorted_unique_keys
              (configuration_sort_keys (pm_planning_configuration_hashes p))
              ''profile planning configuration hashes''
       else Inr ()),
      require_sorted_unique_keys (configuration_sort_keys (pm_configuration_hashes p))
        ''profile configuration hashes'',
      check (pm_mapping p \<noteq> []) (ValueError ''profile mapping must not be empty''),
      require_sorted_unique_strings (pm_active_outputs p) ''profile active outputs'',
      check (mapping_is_bijection (pm_mapping p))
        (ValueError ''profile mapping must be a bijection''),
      check (set (pm_active_outputs p) \<subseteq> set (map live_output (pm_mapping p)))
        (ValueError ''profile active outputs must be included in its mapping''),
      require_sorted_unique_keys (mapping_sort_keys (pm_mapping p)) ''profile mapping'']"

datatype base_identity_match = BaseIdentityMatch (bi_profile: string) (bi_output: string)

definition BaseIdentityMatch_post_init :: "base_identity_match \<Rightarrow> unit result" where
  "BaseIdentityMatch_post_init b = checks
     [require_nonempty (bi_profile b) ''base identity profile'',
      require_nonempty (bi_output b) ''base identity output'']"

record probe_candidate =
  pc_profile :: string
  pc_output :: string
  pc_internal_output :: string
  pc_preferred_mode :: string

definition ProbeCandidate_post_init :: "probe_candidate \<Rightarrow> unit result" where
  "ProbeCandidate_post_init p = checks
     [require_nonempty (pc_profile p) ''probe profile'',
      require_nonempty (pc_output p) ''probe output'',
      require_nonempty (pc_internal_output p) ''probe internal output'',
      require_nonempty (pc_preferred_mode p) ''probe preferred mode'',
      check (pc_output p \<noteq> pc_internal_output p)
        (ValueError ''probe output must differ from its active internal output'')]"

lemma mapping_is_bijection_iff [simp, passes_simps]:
  "mapping_is_bijection ms \<longleftrightarrow> distinct (map saved_output ms) \<and> distinct (map live_output ms)"
  by (simp add: mapping_is_bijection_def length_remdups_eq[symmetric])

end
