(* ===== verification/Model_Observation.thy ===== *)
theory Model_Observation
  imports Model_Values
begin

text \<open>
  \<^verbatim>\<open>CanonicalObservation\<close> of \<^verbatim>\<open>monitor_controller/model.py\<close>: one immutable sample of
  kernel, X and profile evidence, with the validation its constructor performs.
  A valid sample passes \<open>validate_consistent_sample\<close>; an invalid one is kept as
  diagnostic evidence and must not authorise a probe or an exact profile.
\<close>

record canonical_observation =
  ob_observed_at_ms :: int
  ob_observation_generation :: observation_generation
  ob_boot_id :: boot_id
  ob_physical_token :: physical_token
  ob_begin_event_generation :: event_generation
  ob_end_event_generation :: event_generation
  ob_kernel_connected_outputs :: "string list"
  ob_kernel_external_outputs :: "string list"
  ob_x_connected_outputs :: "string list"
  ob_x_active_outputs :: "string list"
  ob_x_external_outputs :: "string list"
  ob_connector_identities :: "connector_identity_evidence list"
  ob_live_fingerprints :: "fingerprint list"
  ob_base_identity_profiles :: "base_identity_match list"
  ob_edid_integrity :: "edid_evidence list"
  ob_probe_candidate :: "probe_candidate option"
  ob_eligible_profiles :: "profile_match list"
  ob_current_profiles :: "string list"
  ob_exact_profile :: "string option"
  ob_observation_key :: observation_key
  ob_validity :: observation_validity
  ob_invalidity_reason :: "observation_invalidity_reason option"
  ob_raw_evidence :: "raw_evidence_reference list"
  ob_display_power :: display_power

section \<open>Derived facts of a sample\<close>

definition ob_valid :: "canonical_observation \<Rightarrow> bool" where
  "ob_valid ob \<longleftrightarrow> ob_validity ob = VALID"

definition ob_event_generation :: "canonical_observation \<Rightarrow> event_generation" where
  "ob_event_generation ob = ob_end_event_generation ob"

definition has_external_hardware :: "canonical_observation \<Rightarrow> bool" where
  "has_external_hardware ob \<longleftrightarrow>
     ob_kernel_external_outputs ob \<noteq> [] \<or> ob_x_external_outputs ob \<noteq> []"

section \<open>Sort keys of the evidence tuples\<close>

definition connector_identity_sort_keys :: "canonical_observation \<Rightarrow> string list" where
  "connector_identity_sort_keys ob =
     map (\<lambda>c. join_str [NUL]
            [ci_output c, ci_kernel_connector c, int_decimal_020 (ci_kernel_connector_id c),
             (case ci_x_connector_id c of None \<Rightarrow> ''-'' | Some x \<Rightarrow> int_decimal_020 x)])
         (ob_connector_identities ob)"

definition fingerprint_sort_keys :: "canonical_observation \<Rightarrow> string list" where
  "fingerprint_sort_keys ob =
     map (\<lambda>f. fp_output f @ [NUL] @ fp_value f) (ob_live_fingerprints ob)"

definition base_identity_sort_keys :: "canonical_observation \<Rightarrow> string list" where
  "base_identity_sort_keys ob =
     map (\<lambda>b. bi_profile b @ [NUL] @ bi_output b) (ob_base_identity_profiles ob)"

definition edid_sort_keys :: "canonical_observation \<Rightarrow> string list" where
  "edid_sort_keys ob =
     map (\<lambda>e. join_str [NUL]
            [edid_output e, edid_integrity_value (edid_integrity_of e),
             (case edid_base_hash e of None \<Rightarrow> [] | Some h \<Rightarrow> h)])
         (ob_edid_integrity ob)"

definition eligible_sort_keys :: "canonical_observation \<Rightarrow> string list" where
  "eligible_sort_keys ob =
     map (\<lambda>p. join_str [NUL]
            [pm_profile p, profile_scope_value (pm_scope p), pm_layout p,
             join_str '';'' (map (\<lambda>m. saved_output m @ ''>'' @ live_output m) (pm_mapping p)),
             join_str '';'' (pm_active_outputs p),
             join_str '';'' (map (\<lambda>c. config_path c @ ''='' @ config_sha256 c)
                               (pm_configuration_hashes p))])
         (ob_eligible_profiles ob)"

definition raw_evidence_sort_keys :: "canonical_observation \<Rightarrow> string list" where
  "raw_evidence_sort_keys ob =
     map (\<lambda>r. raw_evidence_source_value (raw_source r) @ [NUL] @ raw_reference r @ [NUL] @
              raw_sha256 r)
         (ob_raw_evidence ob)"

section \<open>Validation of a valid sample\<close>

text \<open>
  \<^verbatim>\<open>_validate_consistent_sample\<close> in four parts, in source order: evidence keys and
  generation fence, topology inclusions, the exact profile, the probe candidate.
\<close>

definition validate_sample_keys :: "canonical_observation \<Rightarrow> unit result" where
  "validate_sample_keys ob = checks
     [check (ob_invalidity_reason ob = None)
        (ValueError ''valid observation cannot have an invalidity reason''),
      require_unique_keys (map ci_output (ob_connector_identities ob))
        ''connector identity outputs'',
      require_unique_keys (map fp_output (ob_live_fingerprints ob)) ''live fingerprint outputs'',
      require_unique_keys (map edid_output (ob_edid_integrity ob)) ''EDID evidence outputs'',
      require_unique_keys (map pm_profile (ob_eligible_profiles ob)) ''eligible profile names'',
      require_unique_keys
        (map (\<lambda>r. raw_evidence_source_value (raw_source r) @ [NUL] @ raw_reference r)
             (ob_raw_evidence ob))
        ''raw evidence source/reference pairs'',
      check (ob_begin_event_generation ob = ob_end_event_generation ob)
        (ValueError ''valid observation requires equal event-generation boundaries'')]"

definition validate_sample_topology :: "canonical_observation \<Rightarrow> unit result" where
  "validate_sample_topology ob =
     (let kernel = set (ob_kernel_connected_outputs ob);
          x = set (ob_x_connected_outputs ob);
          known = kernel \<union> x
      in checks
       [check (set (ob_kernel_external_outputs ob) \<subseteq> kernel)
          (ValueError ''kernel external outputs must be kernel-connected''),
        check (set (ob_x_active_outputs ob) \<subseteq> x)
          (ValueError ''X active outputs must be X-connected''),
        check (set (ob_x_external_outputs ob) \<subseteq> x)
          (ValueError ''X external outputs must be X-connected''),
        check (list_all (\<lambda>c. ci_output c \<in> known) (ob_connector_identities ob))
          (ValueError ''connector identity evidence must reference a connected output''),
        check (list_all (\<lambda>f. fp_output f \<in> x) (ob_live_fingerprints ob))
          (ValueError ''live fingerprints must reference X-connected outputs''),
        check (list_all (\<lambda>e. edid_output e \<in> kernel) (ob_edid_integrity ob))
          (ValueError ''EDID evidence must reference kernel-connected outputs''),
        check (list_all (\<lambda>b. bi_output b \<in> known) (ob_base_identity_profiles ob))
          (ValueError ''base identity evidence must reference a connected output''),
        check (list_all (\<lambda>p. set (map live_output (pm_mapping p)) \<subseteq> x) (ob_eligible_profiles ob))
          (ValueError ''eligible profile mappings must reference X-connected outputs'')])"

definition validate_exact_profile ::
  "canonical_observation \<Rightarrow> string \<Rightarrow> unit result" where
  "validate_exact_profile ob exact = checks
     [require_nonempty exact ''exact profile'',
      (case find (\<lambda>p. pm_profile p = exact) (ob_eligible_profiles ob) of
         None \<Rightarrow> Inl (ValueError ''exact profile must also be eligible'')
       | Some match \<Rightarrow>
         (let connected = set (ob_kernel_connected_outputs ob);
              mapped = set (map live_output (pm_mapping match));
              external = set (ob_kernel_external_outputs ob) \<union> set (ob_x_external_outputs ob);
              base_proven = set (map edid_output
                (filter (\<lambda>e. edid_base_hash e \<noteq> None) (ob_edid_integrity ob)));
              base_matches = set (map bi_output
                (filter (\<lambda>b. bi_profile b = exact) (ob_base_identity_profiles ob)));
              identified = set (map ci_output
                (filter (\<lambda>c. ci_x_connector_id c \<noteq> None) (ob_connector_identities ob)))
          in checks
           [check (connected = set (ob_x_connected_outputs ob) \<and>
                   set (ob_x_connected_outputs ob) = mapped \<and>
                   set (ob_x_active_outputs ob) = set (pm_active_outputs match))
              (ValueError ''exact profile requires a full connected/active mapping bijection''),
            check (exact \<in> set (ob_current_profiles ob))
              (ValueError ''exact profile must be reported current''),
            check (external \<subseteq> base_proven \<inter> base_matches \<inter> identified)
              (ValueError (''exact external outputs require a proven EDID base '' @
                           ''identity and connector correspondence''))]))]"

definition validate_probe_candidate ::
  "canonical_observation \<Rightarrow> probe_candidate \<Rightarrow> unit result" where
  "validate_probe_candidate ob p =
     (let external = {pc_output p};
          internal = {pc_internal_output p};
          matching_base = filter (\<lambda>b. bi_profile b = pc_profile p \<and> bi_output b = pc_output p)
                            (ob_base_identity_profiles ob);
          probe_edid = find (\<lambda>e. edid_output e = pc_output p) (ob_edid_integrity ob);
          identified = list_ex (\<lambda>c. ci_output c = pc_output p \<and> ci_x_connector_id c \<noteq> None)
                         (ob_connector_identities ob)
      in checks
       [check (set (ob_kernel_external_outputs ob) = set (ob_x_external_outputs ob) \<and>
               set (ob_x_external_outputs ob) = external \<and>
               set (ob_kernel_connected_outputs ob) = set (ob_x_connected_outputs ob) \<and>
               set (ob_x_connected_outputs ob) = external \<union> internal \<and>
               set (ob_x_active_outputs ob) = internal \<and>
               length matching_base = 1 \<and>
               (case probe_edid of None \<Rightarrow> False
                | Some e \<Rightarrow> edid_integrity_of e \<in> PROBE_ADMISSIBLE_EDID_INTEGRITIES) \<and>
               identified)
          (ValueError (''probe candidate requires one exact base identity and exact '' @
                       ''external/inactive plus internal/active topology'')),
        check (ob_eligible_profiles ob = [])
          (ValueError ''probe candidate requires no full eligible profile'')])"

definition validate_consistent_sample :: "canonical_observation \<Rightarrow> unit result" where
  "validate_consistent_sample ob = checks
     [validate_sample_keys ob,
      validate_sample_topology ob,
      on_some (validate_exact_profile ob) (ob_exact_profile ob),
      on_some (validate_probe_candidate ob) (ob_probe_candidate ob)]"

section \<open>The constructor\<close>

definition CanonicalObservation_post_init :: "canonical_observation \<Rightarrow> unit result" where
  "CanonicalObservation_post_init ob = checks
     [require_nonnegative (ob_observed_at_ms ob) ''observation sample time'',
      require_sorted_unique_strings (ob_kernel_connected_outputs ob) ''kernel connected outputs'',
      require_sorted_unique_strings (ob_kernel_external_outputs ob) ''kernel external outputs'',
      require_sorted_unique_strings (ob_x_connected_outputs ob) ''X connected outputs'',
      require_sorted_unique_strings (ob_x_active_outputs ob) ''X active outputs'',
      require_sorted_unique_strings (ob_x_external_outputs ob) ''X external outputs'',
      require_sorted_unique_strings (ob_current_profiles ob) ''current profiles'',
      require_sorted_unique_keys (connector_identity_sort_keys ob) ''connector identities'',
      require_sorted_unique_keys (fingerprint_sort_keys ob) ''live fingerprints'',
      require_sorted_unique_keys (base_identity_sort_keys ob) ''base identity profiles'',
      require_sorted_unique_keys (edid_sort_keys ob) ''EDID integrity evidence'',
      require_sorted_unique_keys (eligible_sort_keys ob) ''eligible profiles'',
      require_sorted_unique_keys (raw_evidence_sort_keys ob) ''raw evidence references'',
      (if ob_valid ob then validate_consistent_sample ob
       else checks
         [check (ob_invalidity_reason ob \<noteq> None)
            (ValueError ''invalid observation requires an invalidity reason''),
          check (\<not> (ob_probe_candidate ob \<noteq> None \<or> ob_exact_profile ob \<noteq> None))
            (ValueError ''invalid observation cannot authorize a probe or exact profile'')])]"

text \<open>
  Every value nested in a sample was itself built by its constructor. \<open>wf_observation\<close>
  says so for the sample and everything inside it.
\<close>

definition wf_profile_match :: "profile_match \<Rightarrow> bool" where
  "wf_profile_match p \<longleftrightarrow>
     passes (ProfileMatch_post_init p) \<and>
     list_all (\<lambda>m. passes (OutputMapping_post_init m)) (pm_mapping p) \<and>
     list_all (\<lambda>c. passes (ConfigurationContentHash_post_init c)) (pm_configuration_hashes p) \<and>
     list_all (\<lambda>c. passes (ConfigurationContentHash_post_init c))
       (pm_planning_configuration_hashes p)"

definition wf_observation :: "canonical_observation \<Rightarrow> bool" where
  "wf_observation ob \<longleftrightarrow>
     passes (CanonicalObservation_post_init ob) \<and>
     passes (ObservationGeneration_post_init (ob_observation_generation ob)) \<and>
     passes (PhysicalToken_post_init (ob_physical_token ob)) \<and>
     passes (EventGeneration_post_init (ob_begin_event_generation ob)) \<and>
     passes (EventGeneration_post_init (ob_end_event_generation ob)) \<and>
     passes (ObservationKey_post_init (ob_observation_key ob)) \<and>
     list_all (\<lambda>c. passes (ConnectorIdentityEvidence_post_init c)) (ob_connector_identities ob) \<and>
     list_all (\<lambda>f. passes (Fingerprint_post_init f)) (ob_live_fingerprints ob) \<and>
     list_all (\<lambda>b. passes (BaseIdentityMatch_post_init b)) (ob_base_identity_profiles ob) \<and>
     list_all (\<lambda>e. passes (EdidEvidence_post_init e)) (ob_edid_integrity ob) \<and>
     passes (on_some ProbeCandidate_post_init (ob_probe_candidate ob)) \<and>
     list_all wf_profile_match (ob_eligible_profiles ob) \<and>
     list_all (\<lambda>r. passes (RawEvidenceReference_post_init r)) (ob_raw_evidence ob)"

section \<open>What the constructor guarantees\<close>

lemma invalid_observation_authorises_nothing:
  assumes "passes (CanonicalObservation_post_init ob)" and "\<not> ob_valid ob"
  shows "ob_probe_candidate ob = None" and "ob_exact_profile ob = None"
  using assms by (simp_all add: CanonicalObservation_post_init_def)

lemma valid_observation_sample:
  assumes "passes (CanonicalObservation_post_init ob)" and "ob_valid ob"
  shows "passes (validate_consistent_sample ob)"
  using assms by (simp add: CanonicalObservation_post_init_def)

lemma valid_exact_profile:
  assumes "passes (CanonicalObservation_post_init ob)" and "ob_exact_profile ob = Some p"
  shows "passes (validate_exact_profile ob p)" and "ob_valid ob"
proof -
  show valid: "ob_valid ob"
    using assms invalid_observation_authorises_nothing(2) by fastforce
  show "passes (validate_exact_profile ob p)"
    using valid_observation_sample [OF assms(1) valid] assms(2)
    by (simp add: validate_consistent_sample_def)
qed

lemma exact_profile_eligible:
  assumes "passes (CanonicalObservation_post_init ob)" and "ob_exact_profile ob = Some p"
  obtains m where "find (\<lambda>q. pm_profile q = p) (ob_eligible_profiles ob) = Some m"
    and "p \<in> set (ob_current_profiles ob)"
  using valid_exact_profile(1) [OF assms]
  by (auto simp: validate_exact_profile_def Let_def split: option.splits)

lemma probe_candidate_excludes_profiles:
  assumes "passes (CanonicalObservation_post_init ob)" and "ob_probe_candidate ob = Some p"
  shows "ob_valid ob" and "ob_eligible_profiles ob = []" and "has_external_hardware ob"
    and "ob_exact_profile ob = None"
proof -
  show valid: "ob_valid ob"
    using assms invalid_observation_authorises_nothing(1) by fastforce
  have *: "passes (validate_probe_candidate ob p)"
    using valid_observation_sample [OF assms(1) valid] assms(2)
    by (simp add: validate_consistent_sample_def)
  then show nil: "ob_eligible_profiles ob = []"
    by (simp add: validate_probe_candidate_def Let_def)
  from * show "has_external_hardware ob"
    by (auto simp: validate_probe_candidate_def Let_def has_external_hardware_def)
  show "ob_exact_profile ob = None"
  proof (rule ccontr)
    assume "ob_exact_profile ob \<noteq> None"
    then obtain q where "ob_exact_profile ob = Some q" by blast
    then obtain m where "find (\<lambda>r. pm_profile r = q) (ob_eligible_profiles ob) = Some m"
      using exact_profile_eligible [OF assms(1)] by metis
    with nil show False by simp
  qed
qed

end
