(* ===== verification/Model_State.thy ===== *)
theory Model_State
  imports Model_Observation
begin

text \<open>
  Persisted actions, terminal evidence and the controller state of
  \<^verbatim>\<open>monitor_controller/model.py\<close>. The five action dataclasses share the fields of
  \<open>action_core\<close>; the four that run a supervised worker share those of \<open>worker_core\<close>.
  \<^verbatim>\<open>replace(x, ...)\<close> re-runs the constructor, so the rebuilding of a record that
  has a validator goes through \<open>construct\<close>.
\<close>

section \<open>Targets and attempt keys\<close>

record candidate_selection =
  cs_profile :: string
  cs_scope :: profile_scope
  cs_mapping :: mapping_proof
  cs_observation_key :: observation_key

definition CandidateSelection_post_init :: "candidate_selection \<Rightarrow> unit result" where
  "CandidateSelection_post_init c = checks
     [require_nonempty (cs_profile c) ''candidate profile'',
      check (mp_profile (cs_mapping c) = cs_profile c)
        (ValueError ''candidate and mapping profiles must match''),
      check (mp_observation_key (cs_mapping c) = cs_observation_key c)
        (ValueError ''candidate and mapping observation keys must match'')]"

datatype probe_attempt_key =
  ProbeAttemptKey (pak_physical_epoch: int) (pak_profile: string)
    (pak_observation_key: observation_key)

definition ProbeAttemptKey_post_init :: "probe_attempt_key \<Rightarrow> unit result" where
  "ProbeAttemptKey_post_init k = checks
     [require_nonnegative (pak_physical_epoch k) ''physical epoch'',
      require_nonempty (pak_profile k) ''probe attempt profile'']"

datatype application_attempt_key =
  ApplicationAttemptKey (aak_physical_epoch: int) (aak_profile: string)
    (aak_observation_key: observation_key)

definition ApplicationAttemptKey_post_init :: "application_attempt_key \<Rightarrow> unit result" where
  "ApplicationAttemptKey_post_init k = checks
     [require_nonnegative (aak_physical_epoch k) ''physical epoch'',
      require_nonempty (aak_profile k) ''application attempt profile'']"

datatype worker_unit = WorkerUnit (unit_action_id: action_id) (unit_name: string)

definition WorkerUnit_post_init :: "worker_unit \<Rightarrow> unit result" where
  "WorkerUnit_post_init u = require_nonempty (unit_name u) ''worker unit name''"

section \<open>Actions\<close>

record action_core =
  action_id :: action_id
  lifecycle :: action_lifecycle
  exit_status :: "int option"

record worker_core = action_core +
  admitted_event_generation :: event_generation
  worker_unit :: "worker_unit option"
  worker_deadline_ms :: "int option"
  terminal_after_stop :: "action_lifecycle option"

record probe_action = worker_core +
  pr_key :: probe_attempt_key
  pr_output :: string
  pr_internal_output :: string
  pr_preferred_mode :: string

record application_action = worker_core +
  ap_key :: application_attempt_key
  ap_profile :: string
  ap_scope :: profile_scope
  ap_mapping :: mapping_proof

record planning_action = action_core +
  pl_transition_id :: transition_id
  pl_input_key :: planning_input_key
  pl_profile :: string
  pl_plan_hash :: "plan_hash option"

record desktop_action = worker_core +
  da_transition_id :: transition_id
  da_transition_key :: transition_key
  da_plan_hash :: plan_hash
  da_observation_key :: observation_key
  da_profile :: string

text \<open>\<^verbatim>\<open>PreparationAction\<close> and \<^verbatim>\<open>FinalizationAction\<close> have the same fields.\<close>

type_synonym preparation_action = desktop_action
type_synonym finalization_action = desktop_action

definition validate_terminal_after_stop ::
  "action_lifecycle \<Rightarrow> action_lifecycle option \<Rightarrow> unit result" where
  "validate_terminal_after_stop l t = checks
     [check (\<not> (t \<noteq> None \<and> t \<notin> {Some UNKNOWN, Some TIMED_OUT}))
        (ValueError ''post-stop terminal lifecycle must be unknown or timed out''),
      check (\<not> (t \<noteq> None \<and> l \<noteq> STOPPING))
        (ValueError ''post-stop terminal lifecycle requires stopping exclusion'')]"

definition validate_action_worker ::
  "action_id \<Rightarrow> action_lifecycle \<Rightarrow> worker_unit option \<Rightarrow> int option \<Rightarrow> unit result" where
  "validate_action_worker a l u d = checks
     [check (pred_option (\<lambda>v. unit_action_id v = a) u)
        (ValueError ''worker unit and action IDs must match''),
      on_some (\<lambda>n. require_nonnegative n ''worker deadline'') d,
      check (\<not> (l = ADMITTED \<and> d \<noteq> None))
        (ValueError ''admitted action cannot already have a worker deadline'')]"

definition validate_action_unit :: "action_id \<Rightarrow> worker_unit option \<Rightarrow> unit result" where
  "validate_action_unit a u =
     check (pred_option (\<lambda>v. unit_action_id v = a) u)
       (ValueError ''worker unit and action IDs must match'')"

definition validate_worker :: "'a worker_core_scheme \<Rightarrow> unit result" where
  "validate_worker a = checks
     [validate_action_worker (action_id a) (lifecycle a) (worker_unit a) (worker_deadline_ms a),
      validate_terminal_after_stop (lifecycle a) (terminal_after_stop a)]"

definition ProbeAction_post_init :: "probe_action \<Rightarrow> unit result" where
  "ProbeAction_post_init a = checks
     [check (aid_kind (action_id a) = PROBE)
        (ValueError ''probe action ID has the wrong kind''),
      require_nonempty (pr_output a) ''probe output'',
      require_nonempty (pr_internal_output a) ''probe internal output'',
      require_nonempty (pr_preferred_mode a) ''probe preferred mode'',
      validate_worker a]"

definition ApplicationAction_post_init :: "application_action \<Rightarrow> unit result" where
  "ApplicationAction_post_init a = checks
     [check (aid_kind (action_id a) = APPLICATION)
        (ValueError ''application action ID has the wrong kind''),
      require_nonempty (ap_profile a) ''application profile'',
      check (\<not> (aak_profile (ap_key a) \<noteq> ap_profile a \<or> mp_profile (ap_mapping a) \<noteq> ap_profile a))
        (ValueError ''application identity profiles must match''),
      validate_worker a]"

definition PlanningAction_post_init :: "planning_action \<Rightarrow> unit result" where
  "PlanningAction_post_init a = checks
     [check (aid_kind (action_id a) = PLAN)
        (ValueError ''planning action ID has the wrong kind''),
      require_nonempty (pl_profile a) ''planning profile'',
      check (pik_profile (pl_input_key a) = pl_profile a)
        (ValueError ''planning action and input-key profiles must match'')]"

definition PreparationAction_post_init :: "preparation_action \<Rightarrow> unit result" where
  "PreparationAction_post_init a = checks
     [check (aid_kind (action_id a) = PREPARATION)
        (ValueError ''preparation action ID has the wrong kind''),
      require_nonempty (da_profile a) ''preparation profile'',
      validate_worker a]"

definition FinalizationAction_post_init :: "finalization_action \<Rightarrow> unit result" where
  "FinalizationAction_post_init a = checks
     [check (aid_kind (action_id a) = FINALIZATION)
        (ValueError ''finalization action ID has the wrong kind''),
      require_nonempty (da_profile a) ''finalization profile'',
      validate_worker a]"

text \<open>The union type \<^verbatim>\<open>ActionRecord\<close> and what every member has.\<close>

datatype action_record =
    ProbeRecord probe_action
  | ApplicationRecord application_action
  | PlanningRecord planning_action
  | PreparationRecord preparation_action
  | FinalizationRecord finalization_action

fun record_id :: "action_record \<Rightarrow> action_id" where
  "record_id (ProbeRecord a) = action_id a"
| "record_id (ApplicationRecord a) = action_id a"
| "record_id (PlanningRecord a) = action_id a"
| "record_id (PreparationRecord a) = action_id a"
| "record_id (FinalizationRecord a) = action_id a"

fun record_lifecycle :: "action_record \<Rightarrow> action_lifecycle" where
  "record_lifecycle (ProbeRecord a) = lifecycle a"
| "record_lifecycle (ApplicationRecord a) = lifecycle a"
| "record_lifecycle (PlanningRecord a) = lifecycle a"
| "record_lifecycle (PreparationRecord a) = lifecycle a"
| "record_lifecycle (FinalizationRecord a) = lifecycle a"

section \<open>Proofs and terminal evidence\<close>

record unplug_proof =
  up_first_observation_key :: observation_key
  up_first_observed_at_ms :: int
  up_latest_observation_key :: observation_key
  up_latest_observed_at_ms :: int
  up_observation_count :: int

definition UnplugProof_post_init :: "unplug_proof \<Rightarrow> unit result" where
  "UnplugProof_post_init p = checks
     [require_nonnegative (up_first_observed_at_ms p) ''first unplug time'',
      require_nonnegative (up_latest_observed_at_ms p) ''latest unplug time'',
      check (\<not> up_latest_observed_at_ms p < up_first_observed_at_ms p)
        (ValueError ''latest unplug proof cannot precede its first sample''),
      check (\<not> up_observation_count p < 1)
        (ValueError ''unplug observation count must be positive'')]"

datatype action_tombstone =
  ActionTombstone (tomb_action_id: action_id) (tomb_lifecycle: action_lifecycle)

definition ActionTombstone_post_init :: "action_tombstone \<Rightarrow> unit result" where
  "ActionTombstone_post_init t =
     check (tomb_lifecycle t \<in> TERMINAL_ACTION_LIFECYCLES)
       (ValueError ''action tombstone must have a terminal lifecycle'')"

definition ACTION_TOMBSTONE_RETENTION_LIMIT :: nat where
  "ACTION_TOMBSTONE_RETENTION_LIMIT = 768"

text \<open>The pruning loop drops the oldest unprotected tombstones while there is an excess.\<close>

fun retain_tombstones ::
  "nat \<Rightarrow> action_id set \<Rightarrow> action_tombstone list \<Rightarrow> action_tombstone list \<times> nat" where
  "retain_tombstones excess protected [] = ([], excess)"
| "retain_tombstones excess protected (t # ts) =
     (if excess \<noteq> 0 \<and> tomb_action_id t \<notin> protected
      then retain_tombstones (excess - 1) protected ts
      else (case retain_tombstones excess protected ts of (kept, rest) \<Rightarrow> (t # kept, rest)))"

definition bound_action_tombstones ::
  "action_tombstone list \<Rightarrow> action_id set \<Rightarrow> action_tombstone list result" where
  "bound_action_tombstones tombstones protected =
     (if length tombstones \<le> ACTION_TOMBSTONE_RETENTION_LIMIT then Inr tombstones
      else (case retain_tombstones (length tombstones - ACTION_TOMBSTONE_RETENTION_LIMIT)
                   protected tombstones of
              (retained, excess) \<Rightarrow>
                bindE (check (excess = 0)
                         (ValueError ''protected action tombstones exceed the retention limit''))
                  (\<lambda>_. Inr retained)))"

section \<open>The controller state\<close>

definition SCHEMA_VERSION :: int where
  "SCHEMA_VERSION = 3"

record state =
  boot_id :: boot_id
  controller_instance :: controller_instance_id
  display_identity :: display_identity
  graphical_session_id :: "graphical_session_id option"
  schema_version :: int
  latest_observation :: "canonical_observation option"
  phase :: controller_phase
  planning_state :: planning_state
  preparation_state :: preparation_state
  physical_epoch :: int
  physical_token :: "physical_token option"
  reconcile_epoch :: int
  candidate :: "candidate_selection option"
  aggressive_deadline_ms :: "int option"
  next_timer_ms :: "int option"
  backoff_index :: int
  verify_since_ms :: "int option"
  last_drm_at_ms :: "int option"
  stable_x_profile :: "string option"
  desktop_finalized_profile :: "string option"
  desktop_finalization_required :: bool
  external_intent :: bool
  baseline_adoption :: bool
  attempted_probe_keys :: "probe_attempt_key set"
  probe :: "probe_action option"
  attempted_application_keys :: "application_attempt_key set"
  immediate_retry_used_profiles :: "string set"
  application :: "application_action option"
  planning :: "planning_action option"
  preparation :: "preparation_action option"
  finalization :: "finalization_action option"
  unknown_key :: "observation_key option"
  unknown_since_ms :: "int option"
  unplug_proof :: "unplug_proof option"
  observation_generation :: observation_generation
  event_generation :: event_generation
  action_sequence_high_water :: int
  transition_sequence_high_water :: int
  action_tombstones :: "action_tombstone list"
  recovery_units :: "worker_unit list"

definition validate_desktop_finalization_requirement ::
  "bool \<Rightarrow> string option \<Rightarrow> bool \<Rightarrow> unit result" where
  "validate_desktop_finalization_requirement required finalized_profile baseline =
     (if \<not> required then Inr ()
      else checks
        [check (finalized_profile = None)
           (ValueError ''required desktop finalization cannot retain completed proof''),
         check (\<not> baseline)
           (ValueError ''required desktop finalization forbids baseline adoption'')])"

definition State_post_init :: "state \<Rightarrow> unit result" where
  "State_post_init s = checks
     [check (schema_version s = SCHEMA_VERSION) (ValueError ''schema version must be 3''),
      require_nonnegative (physical_epoch s) ''physical epoch'',
      require_nonnegative (reconcile_epoch s) ''reconcile epoch'',
      require_nonnegative (backoff_index s) ''backoff index'',
      require_nonnegative (action_sequence_high_water s) ''action sequence high-water mark'',
      require_nonnegative (transition_sequence_high_water s)
        ''transition sequence high-water mark'',
      on_some (\<lambda>n. require_nonnegative n ''aggressive deadline'') (aggressive_deadline_ms s),
      on_some (\<lambda>n. require_nonnegative n ''next timer'') (next_timer_ms s),
      on_some (\<lambda>n. require_nonnegative n ''verification start'') (verify_since_ms s),
      on_some (\<lambda>n. require_nonnegative n ''last DRM time'') (last_drm_at_ms s),
      on_some (\<lambda>n. require_nonnegative n ''unknown start'') (unknown_since_ms s),
      on_some (\<lambda>p. require_nonempty p ''stable X profile'') (stable_x_profile s),
      on_some (\<lambda>p. require_nonempty p ''desktop finalized profile'') (desktop_finalized_profile s),
      validate_desktop_finalization_requirement (desktop_finalization_required s)
        (desktop_finalized_profile s) (baseline_adoption s),
      check (\<forall>p \<in> immediate_retry_used_profiles s. \<not> is_blank p)
        (ValueError ''immediate-retry-used profile must not be empty'')]"

definition replace_state :: "state \<Rightarrow> state result" where
  "replace_state s = construct State_post_init s"

text \<open>\<^verbatim>\<open>State(boot_id=..., controller_instance=..., display_identity=...)\<close> with its defaults.\<close>

definition initial_state ::
  "boot_id \<Rightarrow> controller_instance_id \<Rightarrow> display_identity \<Rightarrow> state" where
  "initial_state b i d =
     \<lparr> boot_id = b, controller_instance = i, display_identity = d,
       graphical_session_id = None, schema_version = SCHEMA_VERSION, latest_observation = None,
       phase = RECOVERING, planning_state = PLAN_IDLE, preparation_state = PREPARE_IDLE,
       physical_epoch = 0, physical_token = None, reconcile_epoch = 0, candidate = None,
       aggressive_deadline_ms = None, next_timer_ms = None, backoff_index = 0,
       verify_since_ms = None, last_drm_at_ms = None, stable_x_profile = None,
       desktop_finalized_profile = None, desktop_finalization_required = False,
       external_intent = False, baseline_adoption = False, attempted_probe_keys = {},
       probe = None, attempted_application_keys = {}, immediate_retry_used_profiles = {},
       application = None, planning = None, preparation = None, finalization = None,
       unknown_key = None, unknown_since_ms = None, unplug_proof = None,
       observation_generation = ObservationGeneration 0, event_generation = EventGeneration 0,
       action_sequence_high_water = 0, transition_sequence_high_water = 0,
       action_tombstones = [], recovery_units = [] \<rparr>"

section \<open>Well-formed states\<close>

text \<open>Everything nested in a state was built by its constructor.\<close>

definition wf_mapping_proof :: "mapping_proof \<Rightarrow> bool" where
  "wf_mapping_proof m \<longleftrightarrow>
     passes (MappingProof_post_init m) \<and>
     passes (ObservationKey_post_init (mp_observation_key m)) \<and>
     list_all (\<lambda>o'. passes (OutputMapping_post_init o')) (mp_outputs m)"

definition wf_candidate :: "candidate_selection \<Rightarrow> bool" where
  "wf_candidate c \<longleftrightarrow>
     passes (CandidateSelection_post_init c) \<and> wf_mapping_proof (cs_mapping c) \<and>
     passes (ObservationKey_post_init (cs_observation_key c))"

definition wf_worker :: "'a worker_core_scheme \<Rightarrow> bool" where
  "wf_worker a \<longleftrightarrow>
     passes (validate_worker a) \<and> passes (ActionId_post_init (action_id a)) \<and>
     passes (EventGeneration_post_init (admitted_event_generation a)) \<and>
     passes (on_some WorkerUnit_post_init (worker_unit a))"

definition wf_probe :: "probe_action \<Rightarrow> bool" where
  "wf_probe a \<longleftrightarrow> passes (ProbeAction_post_init a) \<and> wf_worker a \<and>
     passes (ProbeAttemptKey_post_init (pr_key a)) \<and>
     passes (ObservationKey_post_init (pak_observation_key (pr_key a)))"

definition wf_application :: "application_action \<Rightarrow> bool" where
  "wf_application a \<longleftrightarrow> passes (ApplicationAction_post_init a) \<and> wf_worker a \<and>
     passes (ApplicationAttemptKey_post_init (ap_key a)) \<and>
     passes (ObservationKey_post_init (aak_observation_key (ap_key a))) \<and>
     wf_mapping_proof (ap_mapping a)"

definition wf_planning :: "planning_action \<Rightarrow> bool" where
  "wf_planning a \<longleftrightarrow> passes (PlanningAction_post_init a) \<and>
     passes (ActionId_post_init (action_id a)) \<and>
     passes (TransitionId_post_init (pl_transition_id a)) \<and>
     passes (PlanningInputKey_post_init (pl_input_key a)) \<and>
     passes (on_some PlanHash_post_init (pl_plan_hash a))"

definition wf_desktop :: "(desktop_action \<Rightarrow> unit result) \<Rightarrow> desktop_action \<Rightarrow> bool" where
  "wf_desktop post_init a \<longleftrightarrow> passes (post_init a) \<and> wf_worker a \<and>
     passes (TransitionId_post_init (da_transition_id a)) \<and>
     passes (TransitionKey_post_init (da_transition_key a)) \<and>
     passes (PlanHash_post_init (da_plan_hash a)) \<and>
     passes (ObservationKey_post_init (da_observation_key a))"

abbreviation wf_preparation :: "preparation_action \<Rightarrow> bool" where
  "wf_preparation \<equiv> wf_desktop PreparationAction_post_init"

abbreviation wf_finalization :: "finalization_action \<Rightarrow> bool" where
  "wf_finalization \<equiv> wf_desktop FinalizationAction_post_init"

definition wf_state :: "state \<Rightarrow> bool" where
  "wf_state s \<longleftrightarrow>
     passes (State_post_init s) \<and>
     pred_option wf_observation (latest_observation s) \<and>
     pred_option wf_candidate (candidate s) \<and>
     pred_option wf_probe (probe s) \<and>
     pred_option wf_application (application s) \<and>
     pred_option wf_planning (planning s) \<and>
     pred_option wf_preparation (preparation s) \<and>
     pred_option wf_finalization (finalization s) \<and>
     pred_option (\<lambda>p. passes (UnplugProof_post_init p)) (unplug_proof s) \<and>
     passes (ObservationGeneration_post_init (observation_generation s)) \<and>
     passes (EventGeneration_post_init (event_generation s)) \<and>
     list_all (\<lambda>t. passes (ActionTombstone_post_init t)) (action_tombstones s) \<and>
     list_all (\<lambda>u. passes (WorkerUnit_post_init u)) (recovery_units s)"

lemma replace_state_eq_Inr [simp]:
  "replace_state s = Inr t \<longleftrightarrow> passes (State_post_init s) \<and> t = s"
  by (simp add: replace_state_def)

lemma replace_state_passes: "passes (State_post_init s) \<Longrightarrow> replace_state s = Inr s"
  by simp

lemma returns_replace_state [wp]:
  "returns (replace_state s) P \<longleftrightarrow> passes (State_post_init s) \<and> P s"
  by (auto simp: returns_def)

lemma provided_replace_state [wp]:
  "provided (replace_state s) P \<longleftrightarrow> (passes (State_post_init s) \<longrightarrow> P s)"
  by (auto simp: provided_def)

section \<open>Bounded retention of terminal evidence\<close>

text \<open>
  Pruning removes exactly the excess when enough tombstones are unprotected, keeps
  every protected tombstone, keeps the order and never invents evidence.
\<close>

definition unprotected :: "action_id set \<Rightarrow> action_tombstone list \<Rightarrow> action_tombstone list" where
  "unprotected protected ts = filter (\<lambda>t. tomb_action_id t \<notin> protected) ts"

lemma retain_tombstones_snd:
  "snd (retain_tombstones n p ts) = n - length (unprotected p ts)"
  by (induction n p ts rule: retain_tombstones.induct)
    (auto simp: unprotected_def split: prod.splits)

lemma retain_tombstones_length:
  "length (fst (retain_tombstones n p ts)) + n = length ts + snd (retain_tombstones n p ts)"
  by (induction n p ts rule: retain_tombstones.induct)
    (auto split: prod.splits)

lemma retain_tombstones_subset: "set (fst (retain_tombstones n p ts)) \<subseteq> set ts"
  by (induction n p ts rule: retain_tombstones.induct) (auto split: prod.splits)

lemma retain_tombstones_subseq: "subseq (fst (retain_tombstones n p ts)) ts"
proof (induction n p ts rule: retain_tombstones.induct)
  case (1 n p)
  then show ?case by simp
next
  case (2 n p t ts)
  then show ?case
    by (auto split: prod.splits)
qed

lemma retain_tombstones_protected:
  "t \<in> set ts \<Longrightarrow> tomb_action_id t \<in> p \<Longrightarrow> t \<in> set (fst (retain_tombstones n p ts))"
  by (induction n p ts rule: retain_tombstones.induct) (auto split: prod.splits)

lemma retain_tombstones_distinct:
  "distinct (map f ts) \<Longrightarrow> distinct (map f (fst (retain_tombstones n p ts)))"
proof (induction n p ts rule: retain_tombstones.induct)
  case (2 n p t ts)
  then show ?case
    using retain_tombstones_subset [of n p ts]
    by (auto split: prod.splits)
qed simp

lemma bound_action_tombstones_cases:
  assumes "bound_action_tombstones ts p = Inr us"
  shows "subseq us ts" and "length us \<le> ACTION_TOMBSTONE_RETENTION_LIMIT"
    and "\<And>t. t \<in> set ts \<Longrightarrow> tomb_action_id t \<in> p \<Longrightarrow> t \<in> set us"
    and "\<And>f. distinct (map f ts) \<Longrightarrow> distinct (map f us)"
proof -
  let ?n = "length ts - ACTION_TOMBSTONE_RETENTION_LIMIT"
  have *: "us = ts \<and> length ts \<le> ACTION_TOMBSTONE_RETENTION_LIMIT \<or>
    us = fst (retain_tombstones ?n p ts) \<and> snd (retain_tombstones ?n p ts) = 0 \<and>
      \<not> length ts \<le> ACTION_TOMBSTONE_RETENTION_LIMIT"
    using assms by (auto simp: bound_action_tombstones_def bindE_eq_Inr
        split: if_splits prod.splits)
  then show "subseq us ts" by (auto simp: retain_tombstones_subseq)
  from * show "length us \<le> ACTION_TOMBSTONE_RETENTION_LIMIT"
    using retain_tombstones_length [of ?n p ts] by auto
  from * show "\<And>t. t \<in> set ts \<Longrightarrow> tomb_action_id t \<in> p \<Longrightarrow> t \<in> set us"
    by (auto simp: retain_tombstones_protected)
  from * show "\<And>f. distinct (map f ts) \<Longrightarrow> distinct (map f us)"
    by (auto simp: retain_tombstones_distinct)
qed

text \<open>With distinct identities the protected tombstones are at most the protected ids.\<close>

lemma bound_action_tombstones_total:
  assumes "distinct (map tomb_action_id ts)" and "finite p"
    and "card p \<le> ACTION_TOMBSTONE_RETENTION_LIMIT"
  shows "\<exists>us. bound_action_tombstones ts p = Inr us"
proof (cases "length ts \<le> ACTION_TOMBSTONE_RETENTION_LIMIT")
  case True
  then show ?thesis by (simp add: bound_action_tombstones_def)
next
  case False
  let ?kept = "filter (\<lambda>t. tomb_action_id t \<in> p) ts"
  have "distinct (map tomb_action_id ?kept)"
    using assms(1) by (rule distinct_map_filter)
  then have "length ?kept = card (tomb_action_id ` set ?kept)"
    by (metis distinct_card length_map set_map)
  also have "\<dots> \<le> card p"
    using assms(2) by (intro card_mono) auto
  finally have "length ?kept \<le> ACTION_TOMBSTONE_RETENTION_LIMIT" using assms(3) by simp
  moreover have "length ?kept + length (unprotected p ts) = length ts"
    unfolding unprotected_def by (rule sum_length_filter_compl)
  ultimately have "snd (retain_tombstones (length ts - ACTION_TOMBSTONE_RETENTION_LIMIT) p ts) = 0"
    by (simp add: retain_tombstones_snd)
  with False show ?thesis
    by (auto simp: bound_action_tombstones_def split: prod.split)
qed

end
