(* ===== verification/Model_Events.thy ===== *)
theory Model_Events
  imports Model_State
begin

text \<open>
  The closed unions \<^verbatim>\<open>Event\<close> (reducer inputs) and \<^verbatim>\<open>Effect\<close> (symbolic reducer
  outputs) of \<^verbatim>\<open>monitor_controller/model.py\<close>, with the validation of their
  constructors, and the reducer's result \<^verbatim>\<open>Decision\<close>.
\<close>

section \<open>Events\<close>

record event_metadata =
  processed_at_ms :: int
  md_boot_id :: boot_id

definition EventMetadata_post_init :: "event_metadata \<Rightarrow> unit result" where
  "EventMetadata_post_init m = require_nonnegative (processed_at_ms m) ''event processing time''"

text \<open>Every event carries its metadata first; the other arguments are the event's own fields.\<close>

datatype event =
    ObservationCompleted event_metadata canonical_observation
  | ObservationFailed event_metadata string
  | PlanRequested event_metadata action_id planning_input_key
  | PlanCompleted event_metadata action_id planning_input_key plan_hash
  | PlanFailed event_metadata action_id planning_input_key string "int option" bool
  | TimerFired event_metadata int
  | DrmHintReceived event_metadata event_generation
  | AdmissionDirtied event_metadata action_id event_generation
  | ProbeDispatched event_metadata action_id worker_unit
  | ProbeFinished event_metadata action_id worker_outcome "int option"
  | ApplicationDispatched event_metadata action_id worker_unit
  | ApplicationFinished event_metadata action_id worker_outcome "int option"
  | PreparationDispatched event_metadata action_id worker_unit
  | PreparationFinished event_metadata action_id worker_outcome "int option" plan_hash
  | FinalizationDispatched event_metadata action_id worker_unit
  | FinalizationFinished event_metadata action_id worker_outcome "int option"
  | DispatchRejected event_metadata action_id string
  | WorkerStatusUnknown event_metadata action_id string
  | WorkerTimedOut event_metadata action_id int bool
  | WorkerCancellationAcknowledged event_metadata action_id action_lifecycle int
  | ControllerStarted event_metadata controller_instance_id
  | BootChanged event_metadata boot_id

fun event_metadata_of :: "event \<Rightarrow> event_metadata" where
  "event_metadata_of (ObservationCompleted m _) = m"
| "event_metadata_of (ObservationFailed m _) = m"
| "event_metadata_of (PlanRequested m _ _) = m"
| "event_metadata_of (PlanCompleted m _ _ _) = m"
| "event_metadata_of (PlanFailed m _ _ _ _ _) = m"
| "event_metadata_of (TimerFired m _) = m"
| "event_metadata_of (DrmHintReceived m _) = m"
| "event_metadata_of (AdmissionDirtied m _ _) = m"
| "event_metadata_of (ProbeDispatched m _ _) = m"
| "event_metadata_of (ProbeFinished m _ _ _) = m"
| "event_metadata_of (ApplicationDispatched m _ _) = m"
| "event_metadata_of (ApplicationFinished m _ _ _) = m"
| "event_metadata_of (PreparationDispatched m _ _) = m"
| "event_metadata_of (PreparationFinished m _ _ _ _) = m"
| "event_metadata_of (FinalizationDispatched m _ _) = m"
| "event_metadata_of (FinalizationFinished m _ _ _) = m"
| "event_metadata_of (DispatchRejected m _ _) = m"
| "event_metadata_of (WorkerStatusUnknown m _ _) = m"
| "event_metadata_of (WorkerTimedOut m _ _ _) = m"
| "event_metadata_of (WorkerCancellationAcknowledged m _ _ _) = m"
| "event_metadata_of (ControllerStarted m _) = m"
| "event_metadata_of (BootChanged m _) = m"

definition validate_dispatched_event ::
  "action_id \<Rightarrow> worker_unit \<Rightarrow> action_kind \<Rightarrow> unit result" where
  "validate_dispatched_event a u k = checks
     [check (aid_kind a = k)
        (ValueError (''dispatch action ID must have kind '' @ action_kind_value k)),
      validate_action_unit a (Some u)]"

definition validate_finished_event :: "action_id \<Rightarrow> action_kind \<Rightarrow> unit result" where
  "validate_finished_event a k =
     check (aid_kind a = k)
       (ValueError (''completion action ID must have kind '' @ action_kind_value k))"

definition validate_timed_out_event :: "event_metadata \<Rightarrow> int \<Rightarrow> bool \<Rightarrow> unit result" where
  "validate_timed_out_event m deadline manager_confirmed = checks
     [require_nonnegative deadline ''worker deadline'',
      check (\<not> (\<not> manager_confirmed \<and> deadline > processed_at_ms m))
        (ValueError ''worker deadline cannot be later than event processing time'')]"

definition validate_cancellation_event :: "action_lifecycle \<Rightarrow> int \<Rightarrow> unit result" where
  "validate_cancellation_event l status = checks
     [check (l \<in> TERMINAL_ACTION_LIFECYCLES)
        (ValueError ''cancellation reconciliation requires a terminal lifecycle''),
      check (0 \<le> status \<and> status \<le> 255)
        (ValueError ''cancellation reconciliation exit status is outside 0..255''),
      check (\<not> (l = COMPLETED \<and> status \<noteq> 0))
        (ValueError ''completed cancellation reconciliation requires status zero''),
      check (\<not> (l \<noteq> COMPLETED \<and> status = 0))
        (ValueError ''non-completed cancellation reconciliation requires non-zero status'')]"

text \<open>The \<^verbatim>\<open>__post_init__\<close> of each event class; \<open>DrmHintReceived\<close>, \<open>AdmissionDirtied\<close>
  and \<open>ControllerStarted\<close> have none.\<close>

fun event_post_init :: "event \<Rightarrow> unit result" where
  "event_post_init (ObservationCompleted m ob) =
     check (ob_boot_id ob = md_boot_id m)
       (ValueError ''observation and event metadata boot IDs must match'')"
| "event_post_init (ObservationFailed m reason) =
     require_nonempty reason ''observation failure reason''"
| "event_post_init (PlanRequested m a k) =
     check (aid_kind a = PLAN) (ValueError ''plan request action ID has the wrong kind'')"
| "event_post_init (PlanCompleted m a k h) =
     check (aid_kind a = PLAN) (ValueError ''plan completion action ID has the wrong kind'')"
| "event_post_init (PlanFailed m a k reason status retryable) = checks
     [require_nonempty reason ''failure reason'',
      check (aid_kind a = PLAN) (ValueError ''plan failure action ID has the wrong kind'')]"
| "event_post_init (TimerFired m deadline) = require_nonnegative deadline ''timer deadline''"
| "event_post_init (DrmHintReceived m g) = Inr ()"
| "event_post_init (AdmissionDirtied m a g) = Inr ()"
| "event_post_init (ProbeDispatched m a u) = validate_dispatched_event a u PROBE"
| "event_post_init (ProbeFinished m a out status) = validate_finished_event a PROBE"
| "event_post_init (ApplicationDispatched m a u) = validate_dispatched_event a u APPLICATION"
| "event_post_init (ApplicationFinished m a out status) = validate_finished_event a APPLICATION"
| "event_post_init (PreparationDispatched m a u) = validate_dispatched_event a u PREPARATION"
| "event_post_init (PreparationFinished m a out status h) =
     validate_finished_event a PREPARATION"
| "event_post_init (FinalizationDispatched m a u) = validate_dispatched_event a u FINALIZATION"
| "event_post_init (FinalizationFinished m a out status) =
     validate_finished_event a FINALIZATION"
| "event_post_init (DispatchRejected m a reason) =
     require_nonempty reason ''dispatch rejection reason''"
| "event_post_init (WorkerStatusUnknown m a reason) =
     require_nonempty reason ''unknown worker reason''"
| "event_post_init (WorkerTimedOut m a deadline confirmed) =
     validate_timed_out_event m deadline confirmed"
| "event_post_init (WorkerCancellationAcknowledged m a l status) =
     validate_cancellation_event l status"
| "event_post_init (ControllerStarted m i) = Inr ()"
| "event_post_init (BootChanged m previous) =
     check (previous \<noteq> md_boot_id m) (ValueError ''boot change requires distinct boot IDs'')"

text \<open>The values nested in an event were built by their constructors too.\<close>

fun wf_event_payload :: "event \<Rightarrow> bool" where
  "wf_event_payload (ObservationCompleted m ob) \<longleftrightarrow> wf_observation ob"
| "wf_event_payload (PlanCompleted m a k h) \<longleftrightarrow>
     passes (PlanningInputKey_post_init k) \<and> passes (PlanHash_post_init h)"
| "wf_event_payload (DrmHintReceived m g) \<longleftrightarrow> passes (EventGeneration_post_init g)"
| "wf_event_payload (AdmissionDirtied m a g) \<longleftrightarrow> passes (EventGeneration_post_init g)"
| "wf_event_payload (ProbeDispatched m a u) \<longleftrightarrow> passes (WorkerUnit_post_init u)"
| "wf_event_payload (ApplicationDispatched m a u) \<longleftrightarrow> passes (WorkerUnit_post_init u)"
| "wf_event_payload (PreparationDispatched m a u) \<longleftrightarrow> passes (WorkerUnit_post_init u)"
| "wf_event_payload (FinalizationDispatched m a u) \<longleftrightarrow> passes (WorkerUnit_post_init u)"
| "wf_event_payload e \<longleftrightarrow> True"

definition wf_event :: "event \<Rightarrow> bool" where
  "wf_event e \<longleftrightarrow>
     passes (EventMetadata_post_init (event_metadata_of e)) \<and> passes (event_post_init e) \<and>
     wf_event_payload e"

section \<open>Effects\<close>

datatype effect =
    RequestObservation wake_reason
  | Schedule int
  | RequestPlan action_id transition_id planning_input_key string
  | ActivateProbe action_id probe_attempt_key string string string event_generation
      observation_key
  | ApplyProfile action_id application_attempt_key string mapping_proof event_generation
      observation_key
  | PrepareDesktop action_id transition_id transition_key string plan_hash event_generation
      observation_key
  | FinalizeDesktop action_id transition_id transition_key string plan_hash event_generation
      observation_key
  | StopAction action_id
  | DiscardPlan action_id "plan_hash option"

fun effect_post_init :: "effect \<Rightarrow> unit result" where
  "effect_post_init (RequestObservation reason) = Inr ()"
| "effect_post_init (Schedule deadline) = require_nonnegative deadline ''schedule deadline''"
| "effect_post_init (RequestPlan a t k profile) = checks
     [check (aid_kind a = PLAN) (ValueError ''plan effect action ID has the wrong kind''),
      require_nonempty profile ''plan effect profile'']"
| "effect_post_init (ActivateProbe a k output internal mode g ok) = checks
     [check (aid_kind a = PROBE) (ValueError ''probe effect action ID has the wrong kind''),
      require_nonempty output ''probe effect output'',
      require_nonempty internal ''probe effect internal output'',
      require_nonempty mode ''probe effect preferred mode'']"
| "effect_post_init (ApplyProfile a k profile mapping g ok) = checks
     [check (aid_kind a = APPLICATION)
        (ValueError ''application effect action ID has the wrong kind''),
      require_nonempty profile ''application effect profile'',
      check (\<not> (mp_profile mapping \<noteq> profile \<or> aak_profile k \<noteq> profile))
        (ValueError ''application effect profiles must match'')]"
| "effect_post_init (PrepareDesktop a t tk profile h g ok) = checks
     [check (aid_kind a = PREPARATION)
        (ValueError ''preparation effect action ID has the wrong kind''),
      require_nonempty profile ''preparation effect profile'']"
| "effect_post_init (FinalizeDesktop a t tk profile h g ok) = checks
     [check (aid_kind a = FINALIZATION)
        (ValueError ''finalization effect action ID has the wrong kind''),
      require_nonempty profile ''finalization effect profile'']"
| "effect_post_init (StopAction a) = Inr ()"
| "effect_post_init (DiscardPlan a h) =
     check (aid_kind a = PLAN) (ValueError ''discard-plan action ID has the wrong kind'')"

definition mk_effect :: "effect \<Rightarrow> effect result" where
  "mk_effect e = construct effect_post_init e"

record decision =
  dec_state :: state
  dec_effects :: "effect list"

text \<open>Effects that ask for work on the display or the desktop.\<close>

fun is_mutating_effect :: "effect \<Rightarrow> bool" where
  "is_mutating_effect (ActivateProbe _ _ _ _ _ _ _) = True"
| "is_mutating_effect (ApplyProfile _ _ _ _ _ _) = True"
| "is_mutating_effect (PrepareDesktop _ _ _ _ _ _ _) = True"
| "is_mutating_effect (FinalizeDesktop _ _ _ _ _ _ _) = True"
| "is_mutating_effect _ = False"

lemma mk_effect_eq_Inr [simp]: "mk_effect e = Inr x \<longleftrightarrow> passes (effect_post_init e) \<and> x = e"
  by (simp add: mk_effect_def)

lemma returns_mk_effect [wp]: "returns (mk_effect e) P \<longleftrightarrow> passes (effect_post_init e) \<and> P e"
  by (auto simp: returns_def)

lemma provided_mk_effect [wp]:
  "provided (mk_effect e) P \<longleftrightarrow> (passes (effect_post_init e) \<longrightarrow> P e)"
  by (auto simp: provided_def)

end
