(* ===== verification/Invariants.thy ===== *)
theory Invariants
  imports Model_Events
begin

text \<open>
  \<^verbatim>\<open>monitor_controller/invariants.py\<close>: the central fail-closed checks every reducer
  decision passes through. Each \<open>check_*\<close> definition raises at the first failing
  \<^verbatim>\<open>_require\<close>, in source order. For each there is a predicate that says what its
  passing means and a lemma that the two agree, so that proofs speak of the
  predicates and never of the order of the checks.
\<close>

definition MUTATING_IN_FLIGHT :: "action_lifecycle set" where
  "MUTATING_IN_FLIGHT = {DISPATCHED, STOPPING, RESULT_PENDING}"

definition FAILED_LIFECYCLES :: "action_lifecycle set" where
  "FAILED_LIFECYCLES = {FAILED, UNKNOWN, TIMED_OUT}"

definition PROFILE_STABILITY_MS :: int where
  "PROFILE_STABILITY_MS = 4000"

definition PREPARATION_STABILITY_MS :: int where
  "PREPARATION_STABILITY_MS = 2000"

definition require :: "bool \<Rightarrow> string \<Rightarrow> unit result" where
  "require condition message = check condition (ControllerInvariantError message)"

lemma passes_require [simp, passes_simps]: "passes (require c m) \<longleftrightarrow> c"
  by (simp add: require_def)

text \<open>\<^verbatim>\<open>x is not None and p(x)\<close> on an optional field.\<close>

definition present :: "'a option \<Rightarrow> ('a \<Rightarrow> bool) \<Rightarrow> bool" where
  "present x p = (case x of None \<Rightarrow> False | Some v \<Rightarrow> p v)"

declare present_def [code_unfold]

lemma present_simps [simp]: "\<not> present None p" "present (Some v) p \<longleftrightarrow> p v"
  by (simp_all add: present_def)

lemma present_iff: "present x p \<longleftrightarrow> (\<exists>v. x = Some v \<and> p v)"
  by (cases x) simp_all

section \<open>Phase relationships\<close>

fun expected_probe_lifecycles :: "controller_phase \<Rightarrow> action_lifecycle set option" where
  "expected_probe_lifecycles PROBE_PENDING = Some {ADMITTED}"
| "expected_probe_lifecycles PROBING = Some MUTATING_IN_FLIGHT"
| "expected_probe_lifecycles PROBE_FAILED = Some FAILED_LIFECYCLES"
| "expected_probe_lifecycles _ = None"

fun expected_application_lifecycles :: "controller_phase \<Rightarrow> action_lifecycle set option" where
  "expected_application_lifecycles APPLY_PENDING = Some {ADMITTED}"
| "expected_application_lifecycles APPLYING = Some MUTATING_IN_FLIGHT"
| "expected_application_lifecycles APPLY_FAILED = Some FAILED_LIFECYCLES"
| "expected_application_lifecycles _ = None"

fun expected_finalization_lifecycles :: "controller_phase \<Rightarrow> action_lifecycle set option" where
  "expected_finalization_lifecycles FINALIZE_PENDING = Some {ADMITTED}"
| "expected_finalization_lifecycles FINALIZING = Some {DISPATCHED, RESULT_PENDING}"
| "expected_finalization_lifecycles FINALIZE_STOPPING = Some {STOPPING}"
| "expected_finalization_lifecycles FINALIZE_FAILED = Some FAILED_LIFECYCLES"
| "expected_finalization_lifecycles _ = None"

definition check_phase_identity ::
  "action_lifecycle option \<Rightarrow> action_lifecycle set option \<Rightarrow> string \<Rightarrow> unit result" where
  "check_phase_identity l expected label =
     (case expected of
        None \<Rightarrow> require (l = None) (label @ '' identity requires its matching phase'')
      | Some ls \<Rightarrow> checks
          [require (l \<noteq> None) (label @ '' phase requires a persisted identity''),
           require (present l (\<lambda>x. x \<in> ls))
             (label @ '' lifecycle does not match controller phase'')])"

definition check_phase_relationships :: "state \<Rightarrow> unit result" where
  "check_phase_relationships s =
     (if phase s = RECOVERING then Inr ()
      else checks
        [check_phase_identity (map_option lifecycle (probe s))
           (expected_probe_lifecycles (phase s)) ''probe'',
         check_phase_identity (map_option lifecycle (application s))
           (expected_application_lifecycles (phase s)) ''application'',
         check_phase_identity (map_option lifecycle (finalization s))
           (expected_finalization_lifecycles (phase s)) ''finalization''])"

text \<open>An action is present exactly when its table names lifecycles, and has one of them.\<close>

definition lifecycle_matches ::
  "action_lifecycle option \<Rightarrow> action_lifecycle set option \<Rightarrow> bool" where
  "lifecycle_matches l expected \<longleftrightarrow>
     (case expected of None \<Rightarrow> l = None | Some ls \<Rightarrow> present l (\<lambda>x. x \<in> ls))"

definition phase_inv ::
  "controller_phase \<Rightarrow> action_lifecycle option \<Rightarrow> action_lifecycle option \<Rightarrow>
   action_lifecycle option \<Rightarrow> bool" where
  "phase_inv p pl al fl \<longleftrightarrow> p = RECOVERING \<or>
     lifecycle_matches pl (expected_probe_lifecycles p) \<and>
     lifecycle_matches al (expected_application_lifecycles p) \<and>
     lifecycle_matches fl (expected_finalization_lifecycles p)"

lemma passes_check_phase_identity [simp, passes_simps]:
  "passes (check_phase_identity l e label) \<longleftrightarrow> lifecycle_matches l e"
  by (auto simp: check_phase_identity_def lifecycle_matches_def present_iff split: option.split)

lemma passes_check_phase_relationships:
  "passes (check_phase_relationships s) \<longleftrightarrow>
     phase_inv (phase s) (map_option lifecycle (probe s)) (map_option lifecycle (application s))
       (map_option lifecycle (finalization s))"
  by (simp add: check_phase_relationships_def phase_inv_def)

section \<open>Planning and preparation relationships\<close>

fun expected_planning :: "planning_state \<Rightarrow> action_lifecycle set option" where
  "expected_planning PLAN_PENDING = Some {ADMITTED}"
| "expected_planning PLANNING = Some {DISPATCHED}"
| "expected_planning PLAN_READY = Some {COMPLETED}"
| "expected_planning PLAN_FAILED = Some FAILED_LIFECYCLES"
| "expected_planning PLAN_IDLE = None"

fun expected_preparation :: "preparation_state \<Rightarrow> action_lifecycle set option" where
  "expected_preparation PREPARE_PENDING = Some {ADMITTED}"
| "expected_preparation PREPARING = Some {DISPATCHED, RESULT_PENDING}"
| "expected_preparation PREPARED = Some {COMPLETED}"
| "expected_preparation PREPARE_STOPPING = Some {STOPPING}"
| "expected_preparation PREPARE_FAILED = Some FAILED_LIFECYCLES"
| "expected_preparation PREPARE_IDLE = None"

definition check_planning_relationships :: "state \<Rightarrow> unit result" where
  "check_planning_relationships s =
     (if phase s = RECOVERING then Inr ()
      else checks
       [(case expected_planning (planning_state s) of
           None \<Rightarrow> require (planning s = None) ''idle planning state cannot retain an action''
         | Some ls \<Rightarrow> checks
             [require (planning s \<noteq> None)
                ''non-idle planning state requires a persisted planning identity'',
              require (present (planning s) (\<lambda>a. lifecycle a \<in> ls))
                ''planning lifecycle does not match planning state'']),
        (if planning_state s = PLAN_READY
         then require (present (planning s) (\<lambda>a. pl_plan_hash a \<noteq> None))
                ''ready planning state requires a staged plan hash''
         else Inr ()),
        (case expected_preparation (preparation_state s) of
           None \<Rightarrow> require (preparation s = None)
                    ''idle preparation state cannot retain an action''
         | Some ls \<Rightarrow> checks
             [require (preparation s \<noteq> None)
                ''non-idle preparation state requires a persisted identity'',
              require (present (preparation s) (\<lambda>a. lifecycle a \<in> ls))
                ''preparation lifecycle does not match preparation state'']),
        (case preparation s of
           None \<Rightarrow> Inr ()
         | Some prep \<Rightarrow> checks
             [require (planning s \<noteq> None \<and> planning_state s = PLAN_READY)
                ''preparation requires a ready persisted plan'',
              require (present (planning s) (\<lambda>a. Some (da_plan_hash prep) = pl_plan_hash a))
                ''preparation must use the currently completed plan hash'',
              require (present (planning s)
                  (\<lambda>a. da_transition_id prep = pl_transition_id a \<and>
                       da_profile prep = pl_profile a))
                ''preparation and planning transition identities must match'']),
        (if baseline_adoption s
         then require (planning_state s = PLAN_IDLE \<and> preparation_state s = PREPARE_IDLE)
                ''startup baseline adoption forbids planning and preparation''
         else Inr ())])"

definition planning_inv ::
  "controller_phase \<Rightarrow> planning_state \<Rightarrow> planning_action option \<Rightarrow> preparation_state \<Rightarrow>
   preparation_action option \<Rightarrow> bool \<Rightarrow> bool" where
  "planning_inv p ps pl prs prep baseline \<longleftrightarrow> p = RECOVERING \<or>
     lifecycle_matches (map_option lifecycle pl) (expected_planning ps) \<and>
     (ps = PLAN_READY \<longrightarrow> present pl (\<lambda>a. pl_plan_hash a \<noteq> None)) \<and>
     lifecycle_matches (map_option lifecycle prep) (expected_preparation prs) \<and>
     (\<forall>a. prep = Some a \<longrightarrow> ps = PLAN_READY \<and>
        present pl (\<lambda>b. Some (da_plan_hash a) = pl_plan_hash b \<and>
          da_transition_id a = pl_transition_id b \<and> da_profile a = pl_profile b)) \<and>
     (baseline \<longrightarrow> ps = PLAN_IDLE \<and> prs = PREPARE_IDLE)"

lemma passes_check_planning_relationships:
  "passes (check_planning_relationships s) \<longleftrightarrow>
     planning_inv (phase s) (planning_state s) (planning s) (preparation_state s)
       (preparation s) (baseline_adoption s)"
  by (auto simp: check_planning_relationships_def planning_inv_def lifecycle_matches_def
      present_iff split: option.split)

section \<open>Action identities\<close>

definition state_actions :: "state \<Rightarrow> action_record list" where
  "state_actions s = somes
     [map_option ProbeRecord (probe s), map_option ApplicationRecord (application s),
      map_option PlanningRecord (planning s), map_option PreparationRecord (preparation s),
      map_option FinalizationRecord (finalization s)]"

definition check_action_id :: "state \<Rightarrow> action_id \<Rightarrow> unit result" where
  "check_action_id s a =
     (if aid_instance a = controller_instance s
      then require (aid_sequence a \<le> action_sequence_high_water s)
             ''current-instance action ID exceeds its sequence high-water mark''
      else Inr ())"

definition check_transition_id :: "state \<Rightarrow> transition_id \<Rightarrow> unit result" where
  "check_transition_id s t =
     (if tid_instance t = controller_instance s
      then require (tid_sequence t \<le> transition_sequence_high_water s)
             ''current-instance transition ID exceeds its sequence high-water mark''
      else Inr ())"

text \<open>
  \<^verbatim>\<open>{t.action_id: t for t in tombstones}.get(action_id)\<close>: the last entry for an id wins.
\<close>

definition tombstone_for :: "action_tombstone list \<Rightarrow> action_id \<Rightarrow> action_tombstone option" where
  "tombstone_for ts a = find (\<lambda>t. tomb_action_id t = a) (rev ts)"

definition check_terminal_evidence :: "state \<Rightarrow> action_record \<Rightarrow> unit result" where
  "check_terminal_evidence s a =
     (let tombstone = tombstone_for (action_tombstones s) (record_id a)
      in checks
       [(if record_lifecycle a \<in> TERMINAL_ACTION_LIFECYCLES
         then require (present tombstone (\<lambda>t. tomb_lifecycle t = record_lifecycle a))
                ''retained terminal action requires a matching terminal tombstone''
         else Inr ()),
        (case tombstone of
           None \<Rightarrow> Inr ()
         | Some t \<Rightarrow> require (record_lifecycle a \<in> TERMINAL_ACTION_LIFECYCLES \<and>
                             tomb_lifecycle t = record_lifecycle a)
                ''retained action and tombstone lifecycles must match'')])"

text \<open>The worker unit an action holds; planning actions have none.\<close>

fun record_unit :: "action_record \<Rightarrow> worker_unit option" where
  "record_unit (ProbeRecord a) = worker_unit a"
| "record_unit (ApplicationRecord a) = worker_unit a"
| "record_unit (PlanningRecord a) = None"
| "record_unit (PreparationRecord a) = worker_unit a"
| "record_unit (FinalizationRecord a) = worker_unit a"

fun is_planning_record :: "action_record \<Rightarrow> bool" where
  "is_planning_record (PlanningRecord a) = True"
| "is_planning_record _ = False"

definition check_recovery_unit :: "state \<Rightarrow> worker_unit \<Rightarrow> unit result" where
  "check_recovery_unit s u =
     require (present (find (\<lambda>a. record_id a = unit_action_id u) (rev (state_actions s)))
         (\<lambda>a. \<not> is_planning_record a \<and> record_lifecycle a \<in> {DISPATCHED, STOPPING} \<and>
              record_unit a = Some u))
       ''possibly-live recovery worker requires its matching exclusion''"

definition state_transitions :: "state \<Rightarrow> transition_id list" where
  "state_transitions s = somes
     [map_option pl_transition_id (planning s), map_option da_transition_id (preparation s),
      map_option da_transition_id (finalization s)]"

definition check_action_identities :: "state \<Rightarrow> unit result" where
  "check_action_identities s =
     (let action_ids = map record_id (state_actions s);
          tombstone_ids = map tomb_action_id (action_tombstones s);
          unit_ids = map unit_action_id (recovery_units s)
      in checks
       [require (length (remdups action_ids) = length action_ids)
          ''active action IDs must be unique'',
        checks (map (check_action_id s) action_ids),
        require (length (remdups tombstone_ids) = length tombstone_ids)
          ''action tombstone IDs must be unique'',
        checks (map (check_action_id s) tombstone_ids),
        checks (map (check_terminal_evidence s) (state_actions s)),
        require (length (remdups unit_ids) = length unit_ids)
          ''recovery worker unit action IDs must be unique'',
        checks (map (check_action_id s) unit_ids),
        require (set unit_ids \<inter> set tombstone_ids = {})
          ''possibly-live recovery worker cannot have terminal evidence'',
        (if phase s \<noteq> RECOVERING
         then checks (map (check_recovery_unit s) (recovery_units s)) else Inr ()),
        checks (map (check_transition_id s) (state_transitions s))])"

section \<open>Worker acknowledgements\<close>

text \<open>The mutating actions, as the lifecycle, unit and deadline each retains.\<close>

definition worker_view ::
  "'a worker_core_scheme \<Rightarrow> action_lifecycle \<times> worker_unit option \<times> int option" where
  "worker_view a = (lifecycle a, worker_unit a, worker_deadline_ms a)"

definition state_workers ::
  "state \<Rightarrow> (action_lifecycle \<times> worker_unit option \<times> int option) list" where
  "state_workers s = somes
     [map_option worker_view (probe s), map_option worker_view (application s),
      map_option worker_view (preparation s), map_option worker_view (finalization s)]"

definition check_worker_acknowledgements :: "state \<Rightarrow> unit result" where
  "check_worker_acknowledgements s = checks
     [require (length (filter (\<lambda>(l, u, d). l \<in> MUTATING_IN_FLIGHT) (state_workers s)) \<le> 1)
        ''more than one display mutation is acknowledged in flight'',
      checks (map (\<lambda>(l, u, d).
         if l \<in> MUTATING_IN_FLIGHT
         then checks
           [require (u \<noteq> None) ''acknowledged worker must retain its unit identity'',
            require (d \<noteq> None) ''acknowledged worker must retain its absolute deadline'']
         else Inr ()) (state_workers s))]"

section \<open>Observation authority\<close>

definition check_observation_authority :: "state \<Rightarrow> unit result" where
  "check_observation_authority s =
     (case latest_observation s of
        None \<Rightarrow> Inr ()
      | Some ob \<Rightarrow> checks
       [require (ob_boot_id ob = boot_id s) ''latest observation belongs to another boot'',
        require (observation_generation s \<ge> ob_observation_generation ob)
          ''state observation generation precedes its latest observation'',
        require (event_generation s \<ge> ob_end_event_generation ob)
          ''observation event generation exceeds the controller event generation'',
        (case candidate s of
           None \<Rightarrow> Inr ()
         | Some c \<Rightarrow> checks
             [require (mp_physical_epoch (cs_mapping c) = physical_epoch s)
                ''candidate mapping proof belongs to another physical epoch'',
              require (\<not> (has_external_hardware ob \<and> cs_scope c = INTERNAL_ONLY))
                ''internal-only candidate is forbidden by external hardware evidence'']),
        require (\<not> (ob_valid ob \<and> has_external_hardware ob \<and> ob_exact_profile ob = None \<and>
                    phase s \<in> {DISCOVER_FAST, WAIT_SLOW, PROBE_FAILED, APPLY_FAILED}) \<or>
                 next_timer_ms s \<noteq> None)
          ''unresolved external topology requires a future observation timer''])"

section \<open>Action authorization\<close>

definition check_application_authorization :: "state \<Rightarrow> application_action \<Rightarrow> unit result" where
  "check_application_authorization s a =
     (let ob = latest_observation s
      in checks
       [require (admitted_event_generation a \<le> event_generation s)
          ''application admission comes from a future event generation'',
        (case ob of
           None \<Rightarrow> Inr ()
         | Some ob' \<Rightarrow> require (\<not> (has_external_hardware ob' \<and> ap_scope a = INTERNAL_ONLY))
             ''internal-only application is forbidden by external hardware evidence''),
        (if phase s = APPLY_PENDING \<and> admitted_event_generation a = event_generation s
         then checks
           [require (present ob (\<lambda>ob'. ob_valid ob' \<and>
                ob_observation_key ob' = aak_observation_key (ap_key a) \<and>
                ob_end_event_generation ob' = admitted_event_generation a))
              ''fresh application admission requires matching valid evidence'',
            require (mp_physical_epoch (ap_mapping a) = physical_epoch s \<and>
                     aak_physical_epoch (ap_key a) = physical_epoch s)
              ''application admission belongs to another physical epoch'']
         else Inr ())])"

definition probe_matches_candidate :: "probe_action \<Rightarrow> probe_candidate \<Rightarrow> bool" where
  "probe_matches_candidate a c \<longleftrightarrow>
     pc_profile c = pak_profile (pr_key a) \<and> pc_output c = pr_output a \<and>
     pc_internal_output c = pr_internal_output a \<and> pc_preferred_mode c = pr_preferred_mode a"

definition check_probe_authorization :: "state \<Rightarrow> probe_action \<Rightarrow> unit result" where
  "check_probe_authorization s a =
     (let ob = latest_observation s
      in checks
       [require (admitted_event_generation a \<le> event_generation s)
          ''probe admission comes from a future event generation'',
        (if phase s = PROBE_PENDING \<and> admitted_event_generation a = event_generation s
         then checks
           [require (present ob (\<lambda>ob'. ob_valid ob' \<and>
                ob_observation_key ob' = pak_observation_key (pr_key a) \<and>
                ob_end_event_generation ob' = admitted_event_generation a))
              ''fresh probe admission requires matching valid evidence'',
            require (pak_physical_epoch (pr_key a) = physical_epoch s)
              ''probe admission belongs to another physical epoch'',
            require (present (Option.bind ob ob_probe_candidate) (probe_matches_candidate a))
              ''probe admission must match the exact canonical candidate'']
         else Inr ())])"

text \<open>The evidence a fresh preparation or finalization admission needs.\<close>

definition exact_current_evidence :: "desktop_action \<Rightarrow> canonical_observation \<Rightarrow> bool" where
  "exact_current_evidence a ob \<longleftrightarrow>
     ob_valid ob \<and> ob_observation_key ob = da_observation_key a \<and>
     ob_end_event_generation ob = admitted_event_generation a \<and>
     ob_exact_profile ob = Some (da_profile a) \<and> da_profile a \<in> set (ob_current_profiles ob)"

definition proof_lasted :: "state \<Rightarrow> int \<Rightarrow> bool" where
  "proof_lasted s ms \<longleftrightarrow>
     present (verify_since_ms s) (\<lambda>since.
       present (latest_observation s) (\<lambda>ob. ob_observed_at_ms ob - since \<ge> ms))"

definition check_preparation_authorization :: "state \<Rightarrow> preparation_action \<Rightarrow> unit result" where
  "check_preparation_authorization s a = checks
     [require (admitted_event_generation a \<le> event_generation s)
        ''preparation admission comes from a future event generation'',
      (if preparation_state s = PREPARE_PENDING \<and>
          admitted_event_generation a = event_generation s
       then checks
         [require (present (latest_observation s) (exact_current_evidence a))
            ''fresh preparation admission requires exact current evidence'',
          require (proof_lasted s PREPARATION_STABILITY_MS)
            ''preparation requires two seconds of continuous proof'']
       else Inr ())]"

definition check_finalization_authorization :: "state \<Rightarrow> finalization_action \<Rightarrow> unit result" where
  "check_finalization_authorization s a = checks
     [require (present (preparation s)
         (\<lambda>prep. preparation_state s = PREPARED \<and> lifecycle prep = COMPLETED))
        ''finalization requires matching prepared desktop artifacts'',
      require (present (preparation s)
         (\<lambda>prep. da_transition_id prep = da_transition_id a \<and>
                 da_transition_key prep = da_transition_key a \<and>
                 da_plan_hash prep = da_plan_hash a \<and> da_profile prep = da_profile a))
        ''finalization and preparation identities must match'',
      require (admitted_event_generation a \<le> event_generation s)
        ''finalization admission comes from a future event generation'',
      (if phase s = FINALIZE_PENDING \<and> admitted_event_generation a = event_generation s
       then checks
         [require (present (latest_observation s) (exact_current_evidence a))
            ''fresh finalization admission requires exact current evidence'',
          require (proof_lasted s PROFILE_STABILITY_MS)
            ''finalization requires full continuous stability proof'',
          require (\<not> baseline_adoption s)
            ''startup baseline adoption cannot authorize finalization'']
       else Inr ())]"

definition check_action_authorization :: "state \<Rightarrow> unit result" where
  "check_action_authorization s = checks
     [on_some (check_application_authorization s) (application s),
      on_some (check_probe_authorization s) (probe s),
      on_some (check_preparation_authorization s) (preparation s),
      on_some (check_finalization_authorization s) (finalization s)]"

section \<open>Numbered safety rules\<close>

text \<open>
  \<^verbatim>\<open>len(frozenset) == len(set(frozenset))\<close>, rules 3 and 4, cannot fail and is the
  identity on sets; it is kept as an equation of cardinalities.
\<close>

definition check_numbered_safety_rules :: "state \<Rightarrow> unit result" where
  "check_numbered_safety_rules s = checks
     [(case latest_observation s of
         None \<Rightarrow> Inr ()
       | Some ob \<Rightarrow>
         if has_external_hardware ob
         then checks
           [on_some (\<lambda>c. require (cs_scope c \<noteq> INTERNAL_ONLY)
              ''external hardware forbids an internal-only candidate'') (candidate s),
            on_some (\<lambda>a. require (ap_scope a \<noteq> INTERNAL_ONLY)
              ''external hardware forbids an internal-only application'') (application s)]
         else Inr ()),
      (if probe s \<noteq> None \<and> phase s \<noteq> RECOVERING
       then checks
         [require (candidate s = None) ''probe cannot select a profile candidate'',
          require (planning s = None) ''probe cannot authorize desktop planning'',
          require (preparation s = None \<and> finalization s = None)
            ''probe cannot authorize desktop mutation'']
       else Inr ()),
      on_some (\<lambda>a. require (ap_profile a = mp_profile (ap_mapping a) \<and>
                            aak_profile (ap_key a) = ap_profile a)
         ''application must explicitly load its selected mapped profile'') (application s),
      require (card (attempted_probe_keys s) = card (id ` attempted_probe_keys s))
        ''probe attempt keys must be unique'',
      require (card (attempted_application_keys s) = card (id ` attempted_application_keys s))
        ''application attempt keys must be unique'',
      (if phase s = VERIFYING \<and> verify_since_ms s \<noteq> None
       then require (present (latest_observation s) (\<lambda>ob. ob_valid ob \<and>
              present (candidate s) (\<lambda>c.
                ob_exact_profile ob = Some (cs_profile c) \<and>
                cs_profile c \<in> set (ob_current_profiles ob) \<and>
                ob_observation_key ob = cs_observation_key c)))
              ''verification requires continuous exact/current matching evidence''
       else Inr ()),
      checks (map (\<lambda>(l, u, d).
         if l \<in> MUTATING_IN_FLIGHT
         then checks
           [require (u \<noteq> None) ''mutating worker must retain its unit'',
            require (d \<noteq> None) ''mutating worker must retain its absolute deadline'']
         else Inr ()) (state_workers s)),
      on_some (\<lambda>a. require (Some (da_profile a) \<noteq> desktop_finalized_profile s)
         ''already-finalized profile cannot be finalized again'') (finalization s),
      on_some (\<lambda>p. checks
         [require (external_intent s) ''unplug proof requires retained external intent'',
          require (up_observation_count p \<ge> 1)
            ''unplug proof requires at least one observation'']) (unplug_proof s)]"

section \<open>Attempt history and the conjunction\<close>

definition check_attempt_history :: "state \<Rightarrow> unit result" where
  "check_attempt_history s = checks
     [on_some (\<lambda>a. if lifecycle a \<noteq> ADMITTED \<and> worker_unit a \<noteq> None
         then require (pr_key a \<in> attempted_probe_keys s)
                ''acknowledged probe must retain its attempted key''
         else Inr ()) (probe s),
      on_some (\<lambda>a. if lifecycle a \<noteq> ADMITTED \<and> worker_unit a \<noteq> None
         then require (ap_key a \<in> attempted_application_keys s)
                ''acknowledged application must retain its attempted key''
         else Inr ()) (application s)]"

definition assert_controller_invariants :: "state \<Rightarrow> unit result" where
  "assert_controller_invariants s = checks
     [check_phase_relationships s,
      check_planning_relationships s,
      check_action_identities s,
      check_worker_acknowledgements s,
      check_observation_authority s,
      check_action_authorization s,
      check_numbered_safety_rules s,
      check_attempt_history s]"

end
