(* ===== verification/Reducer_Core.thy ===== *)
theory Reducer_Core
  imports Invariants
begin

text \<open>
  The shared steps of \<^verbatim>\<open>monitor_controller/reducer.py\<close>: the decision constructors
  that assert the central invariants, identity allocation, terminal evidence, attempt
  history, plan disposal, the epoch reset and the waiting policy.
\<close>

section \<open>Timing policy\<close>

definition AGGRESSIVE_BUDGET_MS :: int where "AGGRESSIVE_BUDGET_MS = 30000"

definition FAST_DELAYS_MS :: "int list" where "FAST_DELAYS_MS = [0, 250, 500, 1000, 2000]"

definition SLOW_DELAYS_MS :: "int list" where "SLOW_DELAYS_MS = [5000, 10000, 20000, 30000]"

definition EVENT_QUIET_MS :: int where "EVENT_QUIET_MS = 3000"

definition UNKNOWN_STABILITY_MS :: int where "UNKNOWN_STABILITY_MS = 10000"

definition UNPLUG_STABILITY_MS :: int where "UNPLUG_STABILITY_MS = 3000"

definition UNPLUG_REQUIRED_SAMPLES :: int where "UNPLUG_REQUIRED_SAMPLES = 2"

definition HEALTH_POLL_MS :: int where "HEALTH_POLL_MS = 60000"

definition DISPLAY_ASLEEP_POLL_MS :: int where "DISPLAY_ASLEEP_POLL_MS = 300000"

definition OBSERVATION_FAILURE_RETRY_MS :: int where "OBSERVATION_FAILURE_RETRY_MS = 1000"

section \<open>Decisions\<close>

definition decide :: "state \<Rightarrow> effect list \<Rightarrow> decision result" where
  "decide s effects =
     bindE (assert_controller_invariants s)
       (\<lambda>_. Inr \<lparr> dec_state = s, dec_effects = effects \<rparr>)"

definition no_op :: "state \<Rightarrow> decision result" where
  "no_op s = decide s []"

definition schedule :: "state \<Rightarrow> int \<Rightarrow> effect list \<Rightarrow> decision result" where
  "schedule s deadline_ms effects =
     bindE (replace_state (s\<lparr>next_timer_ms := Some deadline_ms\<rparr>)) (\<lambda>scheduled.
     bindE (mk_effect (Schedule deadline_ms)) (\<lambda>e.
     decide scheduled (effects @ [e])))"

definition quiesce :: "state \<Rightarrow> effect list \<Rightarrow> decision result" where
  "quiesce s effects =
     bindE (replace_state (s\<lparr>phase := QUIESCENT, next_timer_ms := None\<rparr>)) (\<lambda>quiescent.
     decide quiescent effects)"

section \<open>Identity allocation\<close>

definition allocate_action :: "state \<Rightarrow> action_kind \<Rightarrow> (state \<times> action_id) result" where
  "allocate_action s kind =
     (let sequence = action_sequence_high_water s + 1
      in bindE (replace_state (s\<lparr>action_sequence_high_water := sequence\<rparr>)) (\<lambda>t.
         bindE (construct ActionId_post_init (ActionId (controller_instance s) kind sequence)) (\<lambda>a.
         Inr (t, a))))"

definition allocate_transition :: "state \<Rightarrow> (state \<times> transition_id) result" where
  "allocate_transition s =
     (let sequence = transition_sequence_high_water s + 1
      in bindE (replace_state (s\<lparr>transition_sequence_high_water := sequence\<rparr>)) (\<lambda>t.
         bindE (construct TransitionId_post_init (TransitionId (controller_instance s) sequence))
           (\<lambda>i. Inr (t, i))))"

section \<open>Terminal evidence\<close>

definition clear_recovery_unit :: "state \<Rightarrow> action_id \<Rightarrow> state result" where
  "clear_recovery_unit s a =
     replace_state
       (s\<lparr>recovery_units := filter (\<lambda>u. unit_action_id u \<noteq> a) (recovery_units s)\<rparr>)"

definition append_tombstone ::
  "state \<Rightarrow> action_record \<Rightarrow> action_lifecycle \<Rightarrow> state result" where
  "append_tombstone s action l =
     bindE (construct ActionTombstone_post_init (ActionTombstone (record_id action) l))
       (\<lambda>tombstone.
     let retained = filter (\<lambda>t. tomb_action_id t \<noteq> record_id action) (action_tombstones s);
         protected_ids = set (map record_id (state_actions s))
     in bindE (bound_action_tombstones (retained @ [tombstone]) protected_ids) (\<lambda>bounded.
        bindE (clear_recovery_unit s (record_id action)) (\<lambda>t.
        replace_state (t\<lparr>action_tombstones := bounded\<rparr>))))"

section \<open>Targets\<close>

definition find_profile_match ::
  "canonical_observation \<Rightarrow> string \<Rightarrow> profile_match option" where
  "find_profile_match ob profile = find (\<lambda>m. pm_profile m = profile) (ob_eligible_profiles ob)"

definition unique_target :: "canonical_observation \<Rightarrow> profile_match option" where
  "unique_target ob =
     (case ob_exact_profile ob of
        Some exact \<Rightarrow> find_profile_match ob exact
      | None \<Rightarrow> (case ob_eligible_profiles ob of [m] \<Rightarrow> Some m | _ \<Rightarrow> None))"

definition make_mapping_proof ::
  "state \<Rightarrow> canonical_observation \<Rightarrow> profile_match \<Rightarrow> mapping_proof result" where
  "make_mapping_proof s ob match =
     construct MappingProof_post_init
       \<lparr> mp_profile = pm_profile match, mp_physical_epoch = physical_epoch s,
         mp_observation_key = ob_observation_key ob, mp_outputs = pm_mapping match \<rparr>"

definition make_candidate ::
  "state \<Rightarrow> canonical_observation \<Rightarrow> profile_match \<Rightarrow> candidate_selection result" where
  "make_candidate s ob match =
     bindE (make_mapping_proof s ob match) (\<lambda>proof.
       construct CandidateSelection_post_init
         \<lparr> cs_profile = pm_profile match, cs_scope = pm_scope match, cs_mapping = proof,
           cs_observation_key = ob_observation_key ob \<rparr>)"

section \<open>Attempt history\<close>

definition attempts_elsewhere ::
  "state \<Rightarrow> string \<Rightarrow> application_attempt_key set" where
  "attempts_elsewhere s profile =
     Set.filter (\<lambda>k. aak_physical_epoch k \<noteq> physical_epoch s \<or> aak_profile k \<noteq> profile)
       (attempted_application_keys s)"

definition rearm_achieved_application :: "state \<Rightarrow> string \<Rightarrow> state result" where
  "rearm_achieved_application s profile =
     (if profile \<in> immediate_retry_used_profiles s then Inr s
      else let retained = attempts_elsewhere s profile
        in if retained = attempted_application_keys s then Inr s
           else replace_state
             (s\<lparr>attempted_application_keys := retained,
                immediate_retry_used_profiles :=
                  immediate_retry_used_profiles s \<union> {profile}\<rparr>))"

definition reset_application_recovery :: "state \<Rightarrow> string \<Rightarrow> state result" where
  "reset_application_recovery s profile =
     replace_state
       (s\<lparr>attempted_application_keys := attempts_elsewhere s profile,
          immediate_retry_used_profiles := immediate_retry_used_profiles s - {profile}\<rparr>)"

section \<open>Preparation evidence\<close>

datatype evidence_status = Exact | IdentityUncertain

text \<open>
  \<^verbatim>\<open>_preparation_observation_status\<close>: the loop over the mapped outputs returns
  \<^verbatim>\<open>None\<close> on a contradiction and otherwise says whether some identity is uncertain.
  \<^verbatim>\<open>{item.output: item for item in edids}\<close> keeps the last entry of an output.
\<close>

definition edid_for :: "canonical_observation \<Rightarrow> string \<Rightarrow> edid_evidence option" where
  "edid_for ob output = find (\<lambda>e. edid_output e = output) (rev (ob_edid_integrity ob))"

definition output_contradicted ::
  "canonical_observation \<Rightarrow> string set \<Rightarrow> string \<Rightarrow> bool" where
  "output_contradicted ob base_outputs output =
     (case edid_for ob output of
        None \<Rightarrow> output \<in> set (ob_kernel_external_outputs ob)
      | Some e \<Rightarrow>
          \<not> (edid_integrity_of e = EDID_ABSENT \<and> edid_base_hash e = None) \<and>
          (edid_base_hash e = None \<or> output \<notin> base_outputs))"

definition output_uncertain :: "canonical_observation \<Rightarrow> string \<Rightarrow> bool" where
  "output_uncertain ob output =
     (case edid_for ob output of
        None \<Rightarrow> False
      | Some e \<Rightarrow>
          (edid_integrity_of e = EDID_ABSENT \<and> edid_base_hash e = None) \<or>
          edid_integrity_of e \<noteq> EDID_COMPLETE)"

definition preparation_observation_status ::
  "state \<Rightarrow> canonical_observation \<Rightarrow> preparation_action \<Rightarrow> evidence_status option" where
  "preparation_observation_status s ob action =
     (case planning s of
        None \<Rightarrow> None
      | Some pl \<Rightarrow>
        if pl_plan_hash pl \<noteq> Some (da_plan_hash action) then None
        else let mapped = set (map live_output (pik_mapping (pl_input_key pl)));
                 admitted_active = set (pik_active_outputs (pl_input_key pl))
        in if physical_token s \<noteq> Some (ob_physical_token ob) \<or>
              set (ob_kernel_connected_outputs ob) \<noteq> mapped \<or>
              set (ob_x_connected_outputs ob) \<noteq> mapped \<or>
              set (ob_x_active_outputs ob) \<noteq> admitted_active \<or>
              da_profile action \<notin> set (ob_current_profiles ob) \<or>
              list_ex (\<lambda>c. ci_x_connector_id c \<noteq> None \<and>
                           ci_x_connector_id c \<noteq> Some (ci_kernel_connector_id c))
                (ob_connector_identities ob)
           then None
           else if ob_exact_profile ob = Some (da_profile action) \<and>
                   ob_observation_key ob = da_observation_key action
           then Some Exact
           else let base_outputs = set (map bi_output
                      (filter (\<lambda>b. bi_profile b = da_profile action)
                         (ob_base_identity_profiles ob)))
             in if \<exists>output \<in> mapped. output_contradicted ob base_outputs output then None
                else if \<exists>output \<in> mapped. output_uncertain ob output
                then Some IdentityUncertain else None)"

section \<open>Keys\<close>

definition make_transition_key ::
  "state \<Rightarrow> string \<Rightarrow> observation_key \<Rightarrow> transition_key result" where
  "make_transition_key s profile key =
     construct TransitionKey_post_init
       (TransitionKey (int_decimal (physical_epoch s) @ ''|'' @ profile @ ''|'' @
                       observation_key_value key))"

definition make_planning_input_key ::
  "state \<Rightarrow> profile_match \<Rightarrow> observation_key \<Rightarrow> planning_input_key result" where
  "make_planning_input_key s target key =
     construct PlanningInputKey_post_init
       \<lparr> pik_physical_epoch = physical_epoch s, pik_profile = pm_profile target,
         pik_layout = pm_layout target, pik_observation_key = key,
         pik_mapping = pm_mapping target, pik_active_outputs = pm_active_outputs target,
         pik_configuration_hashes =
           (if pm_planning_configuration_hashes target \<noteq> []
            then pm_planning_configuration_hashes target
            else pm_configuration_hashes target) \<rparr>"

section \<open>Plan disposal and the epoch reset\<close>

definition clear_proof :: "state \<Rightarrow> state result" where
  "clear_proof s = replace_state (s\<lparr>verify_since_ms := None\<rparr>)"

definition idle_desktop :: "state \<Rightarrow> state" where
  "idle_desktop s =
     s\<lparr>planning_state := PLAN_IDLE, preparation_state := PREPARE_IDLE,
       planning := None, preparation := None\<rparr>"

definition discard_planning :: "state \<Rightarrow> (state \<times> effect list) result" where
  "discard_planning s =
     (case planning s of
        None \<Rightarrow> bindE (replace_state (idle_desktop s)) (\<lambda>t. Inr (t, []))
      | Some pl \<Rightarrow>
        bindE (mk_effect (DiscardPlan (action_id pl) (pl_plan_hash pl))) (\<lambda>e.
        bindE (if lifecycle pl \<notin> TERMINAL_ACTION_LIFECYCLES
               then append_tombstone s (PlanningRecord pl) CANCELLED else Inr s) (\<lambda>t.
        bindE (replace_state (idle_desktop t)) (\<lambda>u. Inr (u, [e])))))"

text \<open>Cancel an action that was admitted and not yet dispatched.\<close>

definition cancel_if_admitted :: "state \<Rightarrow> action_record option \<Rightarrow> state result" where
  "cancel_if_admitted s action =
     (case action of
        None \<Rightarrow> Inr s
      | Some a \<Rightarrow> if record_lifecycle a = ADMITTED then append_tombstone s a CANCELLED else Inr s)"

definition reset_for_epoch ::
  "state \<Rightarrow> canonical_observation \<Rightarrow> int \<Rightarrow> (state \<times> effect list) result" where
  "reset_for_epoch s ob now_ms =
     bindE (discard_planning s) (\<lambda>(s1, discard_effects).
     bindE (cancel_if_admitted s1 (map_option ProbeRecord (probe s1))) (\<lambda>s2.
     bindE (cancel_if_admitted s2 (map_option ApplicationRecord (application s1))) (\<lambda>s3.
     bindE (cancel_if_admitted s3 (map_option FinalizationRecord (finalization s1))) (\<lambda>s4.
     bindE (replace_state (s4\<lparr>
        phase := DISCOVER_FAST,
        physical_epoch := physical_epoch s4 + 1,
        physical_token := Some (ob_physical_token ob),
        reconcile_epoch := reconcile_epoch s4 + 1,
        candidate := None,
        aggressive_deadline_ms := Some (now_ms + AGGRESSIVE_BUDGET_MS),
        backoff_index := 0,
        verify_since_ms := None,
        stable_x_profile := None,
        attempted_probe_keys := {},
        probe := None,
        attempted_application_keys := {},
        immediate_retry_used_profiles := {},
        application := None,
        finalization := None,
        unknown_key := None,
        unknown_since_ms := None,
        unplug_proof := None,
        baseline_adoption :=
          (phase s4 = RECOVERING \<and> desktop_finalized_profile s4 = None \<and>
           \<not> desktop_finalization_required s4)\<rparr>)) (\<lambda>s5.
     Inr (s5, discard_effects))))))"

section \<open>Waiting\<close>

definition enter_wait :: "state \<Rightarrow> int \<Rightarrow> decision result" where
  "enter_wait s now_ms =
     bindE (clear_proof s) (\<lambda>s1.
     bindE (case aggressive_deadline_ms s1 of
              Some d \<Rightarrow> Inr (s1, d)
            | None \<Rightarrow>
              bindE (replace_state (s1\<lparr>
                 aggressive_deadline_ms := Some (now_ms + AGGRESSIVE_BUDGET_MS),
                 backoff_index := 0\<rparr>)) (\<lambda>t. Inr (t, now_ms + AGGRESSIVE_BUDGET_MS)))
       (\<lambda>(s2, deadline).
     if now_ms < deadline
     then let index = min (if phase s2 = DISCOVER_FAST then backoff_index s2 else 0)
                        (int (length FAST_DELAYS_MS) - 1);
              delay = min (FAST_DELAYS_MS ! nat index) (deadline - now_ms)
       in bindE (replace_state (s2\<lparr>phase := DISCOVER_FAST,
                   backoff_index := min (index + 1) (int (length FAST_DELAYS_MS) - 1)\<rparr>)) (\<lambda>s3.
          schedule s3 (now_ms + delay) [])
     else let index = min (if phase s2 = WAIT_SLOW then backoff_index s2 else 0)
                        (int (length SLOW_DELAYS_MS) - 1);
              delay = SLOW_DELAYS_MS ! nat index
       in bindE (replace_state (s2\<lparr>phase := WAIT_SLOW,
                   backoff_index := min (index + 1) (int (length SLOW_DELAYS_MS) - 1)\<rparr>)) (\<lambda>s3.
          schedule s3 (now_ms + delay) [])))"

definition defer_while_asleep :: "state \<Rightarrow> int \<Rightarrow> decision result" where
  "defer_while_asleep s now_ms =
     bindE (clear_proof s) (\<lambda>s1.
     bindE (replace_state (s1\<lparr>phase := WAIT_SLOW\<rparr>)) (\<lambda>s2.
     schedule s2 (now_ms + DISPLAY_ASLEEP_POLL_MS) []))"

end
