(* ===== verification/Reducer_Admission.thy ===== *)
theory Reducer_Admission
  imports Reducer_Core
begin

text \<open>
  The admission of probes, applications, plans, preparations and finalizations of
  \<^verbatim>\<open>monitor_controller/reducer.py\<close>: \<^verbatim>\<open>_admit_probe\<close>, \<^verbatim>\<open>_admit_application\<close>,
  \<^verbatim>\<open>_admit_plan\<close>, \<^verbatim>\<open>_start_verification\<close> and \<^verbatim>\<open>_advance_verification\<close>.
\<close>

section \<open>Probes\<close>

definition new_probe_action ::
  "action_id \<Rightarrow> probe_attempt_key \<Rightarrow> canonical_observation \<Rightarrow> probe_candidate \<Rightarrow> probe_action" where
  "new_probe_action a key ob c =
     \<lparr> action_id = a, lifecycle = ADMITTED, exit_status = None,
       admitted_event_generation = ob_event_generation ob, worker_unit = None,
       worker_deadline_ms = None, terminal_after_stop = None,
       pr_key = key, pr_output = pc_output c, pr_internal_output = pc_internal_output c,
       pr_preferred_mode = pc_preferred_mode c \<rparr>"

definition activate_probe_effect :: "probe_action \<Rightarrow> observation_key \<Rightarrow> effect" where
  "activate_probe_effect a key =
     ActivateProbe (action_id a) (pr_key a) (pr_output a) (pr_internal_output a)
       (pr_preferred_mode a) (admitted_event_generation a) key"

definition admit_probe :: "state \<Rightarrow> canonical_observation \<Rightarrow> decision result" where
  "admit_probe s ob =
     (case ob_probe_candidate ob of
        None \<Rightarrow> enter_wait s (ob_observed_at_ms ob)
      | Some c \<Rightarrow>
        bindE (construct ProbeAttemptKey_post_init
          (ProbeAttemptKey (physical_epoch s) (pc_profile c) (ob_observation_key ob))) (\<lambda>key.
        if key \<in> attempted_probe_keys s then enter_wait s (ob_observed_at_ms ob)
        else
          bindE (discard_planning s) (\<lambda>(s1, discard_effects).
          bindE (allocate_action s1 PROBE) (\<lambda>(s2, a).
          bindE (construct ProbeAction_post_init (new_probe_action a key ob c)) (\<lambda>action.
          bindE (replace_state (s2\<lparr>
             phase := PROBE_PENDING,
             candidate := None,
             probe := Some action,
             baseline_adoption := False,
             verify_since_ms := None,
             next_timer_ms := Some (ob_observed_at_ms ob)\<rparr>)) (\<lambda>s3.
          bindE (mk_effect (activate_probe_effect action (ob_observation_key ob))) (\<lambda>e.
          decide s3 (discard_effects @ [e]))))))))"

section \<open>Applications\<close>

definition slow_retry_due :: "state \<Rightarrow> bool" where
  "slow_retry_due s \<longleftrightarrow>
     phase s = WAIT_SLOW \<and> backoff_index s \<ge> int (length SLOW_DELAYS_MS) - 1"

definition new_application_action ::
  "action_id \<Rightarrow> application_attempt_key \<Rightarrow> canonical_observation \<Rightarrow> profile_match \<Rightarrow>
   mapping_proof \<Rightarrow> application_action" where
  "new_application_action a key ob target mapping =
     \<lparr> action_id = a, lifecycle = ADMITTED, exit_status = None,
       admitted_event_generation = ob_event_generation ob, worker_unit = None,
       worker_deadline_ms = None, terminal_after_stop = None,
       ap_key = key, ap_profile = pm_profile target, ap_scope = pm_scope target,
       ap_mapping = mapping \<rparr>"

definition apply_profile_effect :: "application_action \<Rightarrow> observation_key \<Rightarrow> effect" where
  "apply_profile_effect a key =
     ApplyProfile (action_id a) (ap_key a) (ap_profile a) (ap_mapping a)
       (admitted_event_generation a) key"

text \<open>
  The second half of \<^verbatim>\<open>_admit_application\<close>, from the allocation on, with the
  candidate and the key already in place.
\<close>

definition admit_fresh_application ::
  "state \<Rightarrow> canonical_observation \<Rightarrow> profile_match \<Rightarrow> application_attempt_key \<Rightarrow>
   candidate_selection \<Rightarrow> decision result" where
  "admit_fresh_application s ob target key cand =
     bindE (allocate_action s APPLICATION) (\<lambda>(s1, a).
     bindE (construct ApplicationAction_post_init
              (new_application_action a key ob target (cs_mapping cand))) (\<lambda>action.
     bindE (replace_state (s1\<lparr>
        phase := APPLY_PENDING,
        application := Some action,
        next_timer_ms := Some (ob_observed_at_ms ob)\<rparr>)) (\<lambda>s2.
     bindE (mk_effect (apply_profile_effect action (ob_observation_key ob))) (\<lambda>e.
     decide s2 [e]))))"

definition admit_application ::
  "state \<Rightarrow> canonical_observation \<Rightarrow> profile_match \<Rightarrow> decision result" where
  "admit_application s ob target =
     bindE (construct ApplicationAttemptKey_post_init
       (ApplicationAttemptKey (physical_epoch s) (pm_profile target) (ob_observation_key ob)))
       (\<lambda>key.
     bindE (make_candidate s ob target) (\<lambda>cand.
     bindE (replace_state (s\<lparr>candidate := Some cand, baseline_adoption := False\<rparr>)) (\<lambda>s1.
     if key \<in> attempted_application_keys s1
     then if \<not> slow_retry_due s1 then enter_wait s1 (ob_observed_at_ms ob)
          else bindE (replace_state
                 (s1\<lparr>attempted_application_keys := attempted_application_keys s1 - {key}\<rparr>)) (\<lambda>s2.
               admit_fresh_application s2 ob target key cand)
     else admit_fresh_application s1 ob target key cand)))"

section \<open>Plans\<close>

definition new_planning_action ::
  "action_id \<Rightarrow> transition_id \<Rightarrow> planning_input_key \<Rightarrow> string \<Rightarrow> planning_action" where
  "new_planning_action a t key profile =
     \<lparr> action_id = a, lifecycle = ADMITTED, exit_status = None,
       pl_transition_id = t, pl_input_key = key, pl_profile = profile, pl_plan_hash = None \<rparr>"

definition admit_plan ::
  "state \<Rightarrow> canonical_observation \<Rightarrow> profile_match \<Rightarrow> (state \<times> effect) result" where
  "admit_plan s ob target =
     bindE (allocate_transition s) (\<lambda>(s1, t).
     bindE (allocate_action s1 PLAN) (\<lambda>(s2, a).
     bindE (make_planning_input_key s2 target (ob_observation_key ob)) (\<lambda>key.
     bindE (construct PlanningAction_post_init
              (new_planning_action a t key (pm_profile target))) (\<lambda>action.
     bindE (replace_state (s2\<lparr>planning_state := PLAN_PENDING, planning := Some action\<rparr>)) (\<lambda>s3.
     bindE (mk_effect (RequestPlan a t key (pm_profile target))) (\<lambda>e.
     Inr (s3, e)))))))"

section \<open>Verification\<close>

definition new_desktop_action ::
  "action_id \<Rightarrow> transition_id \<Rightarrow> transition_key \<Rightarrow> plan_hash \<Rightarrow> canonical_observation \<Rightarrow>
   string \<Rightarrow> desktop_action" where
  "new_desktop_action a t tk h ob profile =
     \<lparr> action_id = a, lifecycle = ADMITTED, exit_status = None,
       admitted_event_generation = ob_event_generation ob, worker_unit = None,
       worker_deadline_ms = None, terminal_after_stop = None,
       da_transition_id = t, da_transition_key = tk, da_plan_hash = h,
       da_observation_key = ob_observation_key ob, da_profile = profile \<rparr>"

definition prepare_effect :: "preparation_action \<Rightarrow> observation_key \<Rightarrow> effect" where
  "prepare_effect a key =
     PrepareDesktop (action_id a) (da_transition_id a) (da_transition_key a) (da_profile a)
       (da_plan_hash a) (admitted_event_generation a) key"

definition finalize_effect :: "finalization_action \<Rightarrow> observation_key \<Rightarrow> effect" where
  "finalize_effect a key =
     FinalizeDesktop (action_id a) (da_transition_id a) (da_transition_key a) (da_profile a)
       (da_plan_hash a) (admitted_event_generation a) key"

definition preparation_due :: "state \<Rightarrow> canonical_observation \<Rightarrow> string \<Rightarrow> bool" where
  "preparation_due s ob profile \<longleftrightarrow>
     present (verify_since_ms s)
       (\<lambda>since. ob_observed_at_ms ob - since \<ge> PREPARATION_STABILITY_MS) \<and>
     desktop_finalized_profile s \<noteq> Some profile \<and> \<not> baseline_adoption s \<and>
     planning_state s = PLAN_READY \<and> preparation_state s = PREPARE_IDLE \<and>
     present (planning s) (\<lambda>pl. pl_plan_hash pl \<noteq> None)"

text \<open>The first step of \<^verbatim>\<open>_advance_verification\<close>: admit a preparation when it is due.\<close>

definition admit_preparation ::
  "state \<Rightarrow> canonical_observation \<Rightarrow> candidate_selection \<Rightarrow> effect list \<Rightarrow>
   (state \<times> effect list) result" where
  "admit_preparation s ob cand leading =
     (case planning s of
        Some pl \<Rightarrow> (case pl_plan_hash pl of
          Some h \<Rightarrow>
            if preparation_due s ob (cs_profile cand)
            then
              bindE (allocate_action s PREPARATION) (\<lambda>(s1, a).
              bindE (make_transition_key s1 (cs_profile cand) (cs_observation_key cand)) (\<lambda>tk.
              bindE (construct PreparationAction_post_init
                (new_desktop_action a (pl_transition_id pl) tk h ob (cs_profile cand))) (\<lambda>prep.
              bindE (replace_state (s1\<lparr>preparation_state := PREPARE_PENDING,
                                       preparation := Some prep\<rparr>)) (\<lambda>s2.
              bindE (mk_effect (prepare_effect prep (ob_observation_key ob))) (\<lambda>e.
              Inr (s2, leading @ [e]))))))
            else Inr (s, leading)
        | None \<Rightarrow> Inr (s, leading))
      | None \<Rightarrow> Inr (s, leading))"

definition admit_finalization ::
  "state \<Rightarrow> canonical_observation \<Rightarrow> preparation_action \<Rightarrow> string \<Rightarrow> effect list \<Rightarrow>
   decision result" where
  "admit_finalization s ob prep profile leading =
     bindE (allocate_action s FINALIZATION) (\<lambda>(s1, a).
     bindE (construct FinalizationAction_post_init
       (new_desktop_action a (da_transition_id prep) (da_transition_key prep)
          (da_plan_hash prep) ob profile)) (\<lambda>fin.
     bindE (replace_state (s1\<lparr>
        phase := FINALIZE_PENDING,
        finalization := Some fin,
        next_timer_ms := Some (ob_observed_at_ms ob)\<rparr>)) (\<lambda>s2.
     bindE (mk_effect (finalize_effect fin (ob_observation_key ob))) (\<lambda>e.
     decide s2 (leading @ [e])))))"

text \<open>What follows once the preparation has been considered.\<close>

definition settle_verification ::
  "state \<Rightarrow> canonical_observation \<Rightarrow> string \<Rightarrow> bool \<Rightarrow> effect list \<Rightarrow> decision result" where
  "settle_verification s ob profile proof_complete leading =
     (let now_ms = ob_observed_at_ms ob in
      if proof_complete \<and> desktop_finalized_profile s = Some profile then
        bindE (discard_planning s) (\<lambda>(s1, discard_effects).
        bindE (reset_application_recovery s1 profile) (\<lambda>s2.
        bindE (replace_state (s2\<lparr>stable_x_profile := Some profile,
                                 baseline_adoption := False\<rparr>)) (\<lambda>s3.
        quiesce s3 (leading @ discard_effects))))
      else if proof_complete \<and> baseline_adoption s then
        bindE (reset_application_recovery s profile) (\<lambda>s1.
        bindE (replace_state (s1\<lparr>stable_x_profile := Some profile,
                                 desktop_finalized_profile := Some profile,
                                 baseline_adoption := False\<rparr>)) (\<lambda>s2.
        quiesce s2 leading))
      else if proof_complete \<and> preparation_state s = PREPARED \<and> preparation s \<noteq> None \<and>
              finalization s = None then
        (case preparation s of
           Some prep \<Rightarrow> admit_finalization s ob prep profile leading
         | None \<Rightarrow> no_op s)
      else if proof_complete \<and>
              (planning_state s = PLAN_FAILED \<or> preparation_state s = PREPARE_FAILED) then
        schedule s (now_ms + HEALTH_POLL_MS) leading
      else schedule s (now_ms + 1000) leading)"

definition advance_verification ::
  "state \<Rightarrow> canonical_observation \<Rightarrow> effect list \<Rightarrow> decision result" where
  "advance_verification s ob leading =
     (case (verify_since_ms s, candidate s) of
        (Some since, Some cand) \<Rightarrow>
          let now_ms = ob_observed_at_ms ob;
              profile = cs_profile cand;
              proof_age = now_ms - since;
              quiet_age = (case last_drm_at_ms s of
                             None \<Rightarrow> EVENT_QUIET_MS | Some t \<Rightarrow> now_ms - t)
          in bindE (admit_preparation s ob cand leading) (\<lambda>(s1, leading1).
             settle_verification s1 ob profile
               (proof_age \<ge> PROFILE_STABILITY_MS \<and> quiet_age \<ge> EVENT_QUIET_MS) leading1)
      | _ \<Rightarrow> enter_wait s (ob_observed_at_ms ob))"

definition same_verification_proof ::
  "state \<Rightarrow> canonical_observation \<Rightarrow> profile_match \<Rightarrow> bool" where
  "same_verification_proof s ob target \<longleftrightarrow>
     phase s = VERIFYING \<and>
     present (candidate s) (\<lambda>c. cs_profile c = pm_profile target \<and>
                                cs_observation_key c = ob_observation_key ob) \<and>
     verify_since_ms s \<noteq> None"

text \<open>
  The two conditional steps of \<^verbatim>\<open>_start_verification\<close>: plans for other inputs are
  disposed of and a new proof is started, then a plan is requested when one is due.
\<close>

definition refresh_proof ::
  "state \<Rightarrow> canonical_observation \<Rightarrow> profile_match \<Rightarrow> planning_input_key \<Rightarrow>
   (state \<times> effect list) result" where
  "refresh_proof s ob target refreshed =
     (let same_proof = same_verification_proof s ob target in
      if \<not> same_proof \<or> present (planning s) (\<lambda>pl. pl_input_key pl \<noteq> refreshed)
      then
        bindE (discard_planning s) (\<lambda>(s1, effects).
        if \<not> same_proof
        then bindE (make_candidate s1 ob target) (\<lambda>cand.
             bindE (replace_state (s1\<lparr>verify_since_ms := Some (ob_observed_at_ms ob),
                                      candidate := Some cand\<rparr>)) (\<lambda>s2.
             Inr (s2, effects)))
        else Inr (s1, effects))
      else Inr (s, []))"

definition request_due_plan ::
  "state \<Rightarrow> canonical_observation \<Rightarrow> profile_match \<Rightarrow> effect list \<Rightarrow>
   (state \<times> effect list) result" where
  "request_due_plan s ob target discard_effects =
     (if desktop_finalized_profile s \<noteq> Some (pm_profile target) \<and>
         \<not> baseline_adoption s \<and> planning_state s = PLAN_IDLE
      then bindE (admit_plan s ob target) (\<lambda>(t, e). Inr (t, discard_effects @ [e]))
      else Inr (s, discard_effects))"

definition start_verification ::
  "state \<Rightarrow> canonical_observation \<Rightarrow> profile_match \<Rightarrow> decision result" where
  "start_verification s ob target =
     bindE (make_planning_input_key s target (ob_observation_key ob)) (\<lambda>refreshed.
     bindE (refresh_proof s ob target refreshed) (\<lambda>(s1, discard_effects).
     bindE (replace_state (s1\<lparr>phase := VERIFYING\<rparr>)) (\<lambda>s2.
     bindE (request_due_plan s2 ob target discard_effects) (\<lambda>(s3, extra_effects).
     advance_verification s3 ob extra_effects))))"

end
