(* ===== verification/Reducer_Classify.thy ===== *)
theory Reducer_Classify
  imports Reducer_Admission
begin

text \<open>
  The classification of a valid observation in \<^verbatim>\<open>monitor_controller/reducer.py\<close>:
  pending admissions (\<^verbatim>\<open>_observe_pending_action\<close>), the two-sided unplug proof
  (\<^verbatim>\<open>_handle_unplug\<close>) and \<^verbatim>\<open>_classify_observation\<close>. A cancelled pending admission is
  classified again; the recursion ends because each round removes a pending action.
\<close>

section \<open>Pending admissions\<close>

definition same_exact_desktop ::
  "state \<Rightarrow> canonical_observation \<Rightarrow> desktop_action \<Rightarrow> bool" where
  "same_exact_desktop s ob a \<longleftrightarrow>
     physical_token s = Some (ob_physical_token ob) \<and>
     ob_exact_profile ob = Some (da_profile a) \<and> da_profile a \<in> set (ob_current_profiles ob) \<and>
     ob_observation_key ob = da_observation_key a"

definition same_exact_finalization :: "state \<Rightarrow> canonical_observation \<Rightarrow> bool" where
  "same_exact_finalization s ob = present (finalization s) (same_exact_desktop s ob)"

definition same_probe_admission ::
  "state \<Rightarrow> canonical_observation \<Rightarrow> probe_action \<Rightarrow> bool" where
  "same_probe_admission s ob a \<longleftrightarrow>
     present (ob_probe_candidate ob) (\<lambda>c.
       physical_token s = Some (ob_physical_token ob) \<and>
       pak_observation_key (pr_key a) = ob_observation_key ob \<and> probe_matches_candidate a c)"

definition same_application_admission ::
  "state \<Rightarrow> canonical_observation \<Rightarrow> application_action \<Rightarrow> bool" where
  "same_application_admission s ob a \<longleftrightarrow>
     present (unique_target ob) (\<lambda>target.
       physical_token s = Some (ob_physical_token ob) \<and> pm_profile target = ap_profile a \<and>
       ob_observation_key ob = aak_observation_key (ap_key a))"

text \<open>
  What \<^verbatim>\<open>_observe_pending_action\<close> found: nothing pending, the admission issued again
  against the fresh evidence, or the admission cancelled and the state to classify next
  with the effects of an epoch reset.
\<close>

datatype pending_outcome =
    NotPending
  | Reissued decision
  | CancelledAdmission state "effect list"

text \<open>The first half of \<^verbatim>\<open>_reclassify_cancelled_admission\<close>.\<close>

definition cancelled_admission ::
  "state \<Rightarrow> canonical_observation \<Rightarrow> pending_outcome result" where
  "cancelled_admission s ob =
     (if physical_token s \<noteq> Some (ob_physical_token ob)
      then bindE (reset_for_epoch s ob (ob_observed_at_ms ob)) (\<lambda>(t, effects).
           Inr (CancelledAdmission t effects))
      else Inr (CancelledAdmission s []))"

definition observe_pending_probe ::
  "state \<Rightarrow> canonical_observation \<Rightarrow> probe_action \<Rightarrow> pending_outcome result" where
  "observe_pending_probe s ob a =
     (if same_probe_admission s ob a
      then
        bindE (construct ProbeAction_post_init
                 (a\<lparr>admitted_event_generation := ob_event_generation ob\<rparr>)) (\<lambda>a1.
        bindE (replace_state (s\<lparr>probe := Some a1,
                                next_timer_ms := Some (ob_observed_at_ms ob)\<rparr>)) (\<lambda>s1.
        bindE (mk_effect (activate_probe_effect a1 (ob_observation_key ob))) (\<lambda>e.
        bindE (decide s1 [e]) (\<lambda>d. Inr (Reissued d)))))
      else
        bindE (append_tombstone s (ProbeRecord a) CANCELLED) (\<lambda>s1.
        bindE (replace_state (s1\<lparr>phase := DISCOVER_FAST, probe := None\<rparr>)) (\<lambda>s2.
        cancelled_admission s2 ob)))"

definition observe_pending_application ::
  "state \<Rightarrow> canonical_observation \<Rightarrow> application_action \<Rightarrow> pending_outcome result" where
  "observe_pending_application s ob a =
     (if same_application_admission s ob a
      then
        bindE (construct ApplicationAction_post_init
                 (a\<lparr>admitted_event_generation := ob_event_generation ob\<rparr>)) (\<lambda>a1.
        bindE (replace_state (s\<lparr>application := Some a1,
                                next_timer_ms := Some (ob_observed_at_ms ob)\<rparr>)) (\<lambda>s1.
        bindE (mk_effect (apply_profile_effect a1 (ob_observation_key ob))) (\<lambda>e.
        bindE (decide s1 [e]) (\<lambda>d. Inr (Reissued d)))))
      else
        bindE (append_tombstone s (ApplicationRecord a) CANCELLED) (\<lambda>s1.
        bindE (replace_state (s1\<lparr>phase := DISCOVER_FAST, application := None\<rparr>)) (\<lambda>s2.
        cancelled_admission s2 ob)))"

definition observe_pending_preparation ::
  "state \<Rightarrow> canonical_observation \<Rightarrow> preparation_action \<Rightarrow> pending_outcome result" where
  "observe_pending_preparation s ob a =
     (if same_exact_desktop s ob a
      then
        bindE (construct PreparationAction_post_init
                 (a\<lparr>admitted_event_generation := ob_event_generation ob\<rparr>)) (\<lambda>a1.
        bindE (replace_state (s\<lparr>preparation := Some a1,
                                next_timer_ms := Some (ob_observed_at_ms ob)\<rparr>)) (\<lambda>s1.
        bindE (mk_effect (prepare_effect a1 (ob_observation_key ob))) (\<lambda>e.
        bindE (decide s1 [e]) (\<lambda>d. Inr (Reissued d)))))
      else
        bindE (append_tombstone s (PreparationRecord a) CANCELLED) (\<lambda>s1.
        bindE (replace_state (s1\<lparr>preparation_state := PREPARE_IDLE, preparation := None,
                                 verify_since_ms := None\<rparr>)) (\<lambda>s2.
        cancelled_admission s2 ob)))"

definition observe_pending_finalization ::
  "state \<Rightarrow> canonical_observation \<Rightarrow> finalization_action \<Rightarrow> pending_outcome result" where
  "observe_pending_finalization s ob a =
     (if same_exact_finalization s ob
      then
        bindE (construct FinalizationAction_post_init
                 (a\<lparr>admitted_event_generation := ob_event_generation ob\<rparr>)) (\<lambda>a1.
        bindE (replace_state (s\<lparr>finalization := Some a1,
                                next_timer_ms := Some (ob_observed_at_ms ob)\<rparr>)) (\<lambda>s1.
        bindE (mk_effect (finalize_effect a1 (ob_observation_key ob))) (\<lambda>e.
        bindE (decide s1 [e]) (\<lambda>d. Inr (Reissued d)))))
      else
        bindE (append_tombstone s (FinalizationRecord a) CANCELLED) (\<lambda>s1.
        bindE (replace_state (s1\<lparr>phase := DISCOVER_FAST, finalization := None,
                                 verify_since_ms := None\<rparr>)) (\<lambda>s2.
        cancelled_admission s2 ob)))"

definition observe_pending_action ::
  "state \<Rightarrow> canonical_observation \<Rightarrow> pending_outcome result" where
  "observe_pending_action s ob =
     (if phase s = PROBE_PENDING \<and> probe s \<noteq> None
      then observe_pending_probe s ob (the (probe s))
      else if phase s = APPLY_PENDING \<and> application s \<noteq> None
      then observe_pending_application s ob (the (application s))
      else if preparation_state s = PREPARE_PENDING \<and> preparation s \<noteq> None
      then observe_pending_preparation s ob (the (preparation s))
      else if phase s = FINALIZE_PENDING \<and> finalization s \<noteq> None
      then observe_pending_finalization s ob (the (finalization s))
      else Inr NotPending)"

section \<open>Explicit unplug proof\<close>

definition extended_unplug_proof ::
  "canonical_observation \<Rightarrow> unplug_proof option \<Rightarrow> unplug_proof result" where
  "extended_unplug_proof ob proof =
     construct UnplugProof_post_init
       (case proof of
          None \<Rightarrow> \<lparr> up_first_observation_key = ob_observation_key ob,
                   up_first_observed_at_ms = ob_observed_at_ms ob,
                   up_latest_observation_key = ob_observation_key ob,
                   up_latest_observed_at_ms = ob_observed_at_ms ob,
                   up_observation_count = 1 \<rparr>
        | Some p \<Rightarrow> p\<lparr> up_latest_observation_key := ob_observation_key ob,
                      up_latest_observed_at_ms := ob_observed_at_ms ob,
                      up_observation_count := up_observation_count p + 1 \<rparr>)"

definition unplug_complete :: "state \<Rightarrow> canonical_observation \<Rightarrow> unplug_proof \<Rightarrow> bool" where
  "unplug_complete s ob proof \<longleftrightarrow>
     up_observation_count proof \<ge> UNPLUG_REQUIRED_SAMPLES \<and>
     up_latest_observed_at_ms proof - up_first_observed_at_ms proof \<ge> UNPLUG_STABILITY_MS \<and>
     ob_event_generation ob = event_generation s"

definition handle_unplug :: "state \<Rightarrow> canonical_observation \<Rightarrow> (state \<times> bool) result" where
  "handle_unplug s ob =
     (if \<not> external_intent s
      then bindE (replace_state (s\<lparr>unplug_proof := None\<rparr>)) (\<lambda>t. Inr (t, True))
      else
        bindE (extended_unplug_proof ob (unplug_proof s)) (\<lambda>proof.
        if unplug_complete s ob proof
        then bindE (replace_state (s\<lparr>external_intent := False, unplug_proof := None\<rparr>))
               (\<lambda>t. Inr (t, True))
        else bindE (replace_state (s\<lparr>unplug_proof := Some proof, verify_since_ms := None\<rparr>))
               (\<lambda>t. Inr (t, False))))"

section \<open>Classification\<close>

text \<open>
  From \<^verbatim>\<open>asleep = ...\<close> to the end of \<^verbatim>\<open>_classify_observation\<close>, in the code's order: a
  probe candidate, an exact target, an eligible target, an unknown external, waiting.
\<close>

definition is_asleep :: "canonical_observation \<Rightarrow> bool" where
  "is_asleep ob \<longleftrightarrow> ob_display_power ob = ASLEEP"

definition classification_target :: "canonical_observation \<Rightarrow> profile_match option" where
  "classification_target ob =
     (case unique_target ob of
        None \<Rightarrow> None
      | Some target \<Rightarrow>
          if has_external_hardware ob \<and> pm_scope target = INTERNAL_ONLY then None
          else Some target)"

definition complete_unknown :: "canonical_observation \<Rightarrow> bool" where
  "complete_unknown ob \<longleftrightarrow>
     (let external = set (ob_kernel_external_outputs ob) \<union> set (ob_x_external_outputs ob);
          complete = set (map edid_output
            (filter (\<lambda>e. edid_integrity_value (edid_integrity_of e) = ''complete'')
               (ob_edid_integrity ob)));
          identified = set (map ci_output
            (filter (\<lambda>c. ci_x_connector_id c \<noteq> None) (ob_connector_identities ob)))
      in external \<noteq> {} \<and> external \<subseteq> complete \<inter> identified)"

definition classify_exact ::
  "state \<Rightarrow> canonical_observation \<Rightarrow> profile_match \<Rightarrow> decision result" where
  "classify_exact s ob target =
     bindE (replace_state (s\<lparr>unknown_key := None, unknown_since_ms := None\<rparr>)) (\<lambda>s1.
     bindE (rearm_achieved_application s1 (pm_profile target)) (\<lambda>s2.
     bindE (if phase s2 = QUIESCENT \<and> stable_x_profile s2 = Some (pm_profile target) \<and>
               desktop_finalized_profile s2 = Some (pm_profile target)
            then bindE (make_candidate s2 ob target) (\<lambda>c. Inr (candidate s2 = Some c))
            else Inr False) (\<lambda>same_stable_profile.
     if same_stable_profile then quiesce s2 [] else start_verification s2 ob target)))"

definition classify_eligible ::
  "state \<Rightarrow> canonical_observation \<Rightarrow> profile_match \<Rightarrow> decision result" where
  "classify_eligible s ob target =
     bindE (replace_state (s\<lparr>unknown_key := None, unknown_since_ms := None\<rparr>)) (\<lambda>s1.
     if is_asleep ob then defer_while_asleep s1 (ob_observed_at_ms ob)
     else admit_application s1 ob target)"

definition classify_unknown :: "state \<Rightarrow> canonical_observation \<Rightarrow> decision result" where
  "classify_unknown s ob =
     (let now_ms = ob_observed_at_ms ob;
          since = (case unknown_since_ms s of
                     None \<Rightarrow> now_ms
                   | Some t \<Rightarrow> if unknown_key s \<noteq> Some (ob_observation_key ob) then now_ms else t)
      in bindE (replace_state (s\<lparr>unknown_key := Some (ob_observation_key ob),
                                 unknown_since_ms := Some since,
                                 verify_since_ms := None\<rparr>)) (\<lambda>s1.
         if now_ms - since \<ge> UNKNOWN_STABILITY_MS
         then bindE (replace_state (s1\<lparr>phase := UNSUPPORTED\<rparr>)) (\<lambda>s2.
              schedule s2 (now_ms + HEALTH_POLL_MS) [])
         else bindE (replace_state (s1\<lparr>phase := DISCOVER_FAST\<rparr>)) (\<lambda>s2.
              schedule s2 (now_ms + 1000) [])))"

definition classify_evidence :: "state \<Rightarrow> canonical_observation \<Rightarrow> decision result" where
  "classify_evidence s ob =
     (let now_ms = ob_observed_at_ms ob in
      if ob_probe_candidate ob \<noteq> None
      then bindE (replace_state (s\<lparr>unknown_key := None, unknown_since_ms := None\<rparr>)) (\<lambda>s1.
           if is_asleep ob then defer_while_asleep s1 now_ms else admit_probe s1 ob)
      else (case classification_target ob of
        Some target \<Rightarrow>
          if ob_exact_profile ob = Some (pm_profile target) \<and>
             pm_profile target \<in> set (ob_current_profiles ob)
          then classify_exact s ob target
          else classify_eligible s ob target
      | None \<Rightarrow>
          if complete_unknown ob then classify_unknown s ob else enter_wait s now_ms))"

text \<open>
  The three terminal-failure retentions before it, in source order: a failed action is
  kept while the evidence that failed is unchanged, and dropped otherwise.
\<close>

definition same_probe_failure :: "canonical_observation \<Rightarrow> probe_action \<Rightarrow> bool" where
  "same_probe_failure ob a \<longleftrightarrow>
     present (ob_probe_candidate ob) (\<lambda>c. pc_profile c = pak_profile (pr_key a) \<and>
       ob_observation_key ob = pak_observation_key (pr_key a))"

definition same_application_failure ::
  "canonical_observation \<Rightarrow> application_action \<Rightarrow> bool" where
  "same_application_failure ob a \<longleftrightarrow>
     present (unique_target ob) (\<lambda>t. pm_profile t = ap_profile a \<and>
       ob_observation_key ob = aak_observation_key (ap_key a))"

definition classify_finalize_failed :: "state \<Rightarrow> canonical_observation \<Rightarrow> decision result" where
  "classify_finalize_failed s ob =
     (if phase s = FINALIZE_FAILED \<and> finalization s \<noteq> None
      then if same_exact_finalization s ob
           then schedule s (ob_observed_at_ms ob + HEALTH_POLL_MS) []
           else bindE (replace_state (s\<lparr>phase := DISCOVER_FAST, finalization := None\<rparr>)) (\<lambda>s1.
                classify_evidence s1 ob)
      else classify_evidence s ob)"

definition classify_apply_failed :: "state \<Rightarrow> canonical_observation \<Rightarrow> decision result" where
  "classify_apply_failed s ob =
     (if phase s = APPLY_FAILED \<and> application s \<noteq> None
      then if same_application_failure ob (the (application s))
           then schedule s (ob_observed_at_ms ob + HEALTH_POLL_MS) []
           else bindE (replace_state (s\<lparr>phase := DISCOVER_FAST, application := None\<rparr>)) (\<lambda>s1.
                classify_finalize_failed s1 ob)
      else classify_finalize_failed s ob)"

definition classify_probe_failed :: "state \<Rightarrow> canonical_observation \<Rightarrow> decision result" where
  "classify_probe_failed s ob =
     (if phase s = PROBE_FAILED \<and> probe s \<noteq> None
      then if same_probe_failure ob (the (probe s))
           then schedule s (ob_observed_at_ms ob + HEALTH_POLL_MS) []
           else bindE (replace_state (s\<lparr>phase := DISCOVER_FAST, probe := None\<rparr>)) (\<lambda>s1.
                classify_apply_failed s1 ob)
      else classify_apply_failed s ob)"

definition internal_candidate :: "state \<Rightarrow> bool" where
  "internal_candidate s \<longleftrightarrow> present (candidate s) (\<lambda>c. cs_scope c = INTERNAL_ONLY)"

text \<open>Everything of \<^verbatim>\<open>_classify_observation\<close> after the pending admissions.\<close>

definition classify_settled :: "state \<Rightarrow> canonical_observation \<Rightarrow> decision result" where
  "classify_settled s ob =
     (let now_ms = ob_observed_at_ms ob in
      if has_external_hardware ob
      then
        bindE (replace_state (s\<lparr>
           external_intent := True,
           unplug_proof := None,
           candidate := (if internal_candidate s then None else candidate s),
           verify_since_ms := (if internal_candidate s then None else verify_since_ms s)\<rparr>)) (\<lambda>s1.
        classify_probe_failed s1 ob)
      else
        bindE (handle_unplug s ob) (\<lambda>(s1, unplug_done).
        if \<not> unplug_done
        then
          bindE (replace_state (s1\<lparr>
             phase := DISCOVER_FAST,
             probe := (if phase s1 = PROBE_FAILED then None else probe s1),
             application := (if phase s1 = APPLY_FAILED then None else application s1),
             finalization := (if phase s1 = FINALIZE_FAILED then None else finalization s1)\<rparr>))
            (\<lambda>s2.
          schedule s2
            (case unplug_proof s2 of
               Some p \<Rightarrow> max (now_ms + 1) (up_first_observed_at_ms p + UNPLUG_STABILITY_MS)
             | None \<Rightarrow> now_ms + 1) [])
        else classify_probe_failed s1 ob))"

text \<open>
  The number of admissions that can still be pending bounds the recursion.
\<close>

definition pending_count :: "state \<Rightarrow> nat" where
  "pending_count s =
     (if phase s = PROBE_PENDING \<and> probe s \<noteq> None \<or>
         phase s = APPLY_PENDING \<and> application s \<noteq> None \<or>
         phase s = FINALIZE_PENDING \<and> finalization s \<noteq> None then 1 else 0) +
     (if preparation_state s = PREPARE_PENDING \<and> preparation s \<noteq> None then 1 else 0)"

end
