(* ===== verification/Reducer_Observe.thy ===== *)
theory Reducer_Observe
  imports Reducer_Classify
begin

text \<open>
  Observation handling of \<^verbatim>\<open>monitor_controller/reducer.py\<close>: the recursive
  \<^verbatim>\<open>_classify_observation\<close> with its termination proof, and \<^verbatim>\<open>_observe\<close>: the
  staleness guard, the recording of evidence, the invalid-observation path, the
  stopping of in-flight work that lost its evidence, the epoch reset and the
  acceptance of pending results.
\<close>

section \<open>Termination of the classification\<close>

lemma append_tombstone_state:
  assumes "append_tombstone s a l = Inr t"
  shows "\<exists>us ts. t = s\<lparr>recovery_units := us, action_tombstones := ts\<rparr>"
  using assms by (auto simp: append_tombstone_def clear_recovery_unit_def Let_def bindE_eq_Inr)

lemma reset_for_epoch_pending:
  "reset_for_epoch s ob n = Inr (t, es) \<Longrightarrow> pending_count t = 0"
proof -
  have idle: "discard_planning s = Inr (u, es') \<Longrightarrow> preparation_state u = PREPARE_IDLE" for u es'
    by (auto simp: discard_planning_def bindE_eq_Inr idle_desktop_def split: option.splits)
  have keep: "cancel_if_admitted s a = Inr u \<Longrightarrow> preparation_state u = preparation_state s"
    for s u a
    by (auto simp: cancel_if_admitted_def dest!: append_tombstone_state
        split: option.splits if_splits)
  assume "reset_for_epoch s ob n = Inr (t, es)"
  then show ?thesis
    by (auto simp: reset_for_epoch_def bindE_eq_Inr pending_count_def dest!: keep idle)
qed

lemma cancelled_admission_pending:
  assumes "cancelled_admission s ob = Inr (CancelledAdmission t es)"
  shows "pending_count t \<le> pending_count s"
  using assms reset_for_epoch_pending
  by (auto simp: cancelled_admission_def bindE_eq_Inr split: if_splits)

lemma pending_count_cancelled:
  assumes "observe_pending_action s ob = Inr (CancelledAdmission t es)"
  shows "pending_count t < pending_count s"
proof -
  have dropP: "pending_count (u\<lparr>phase := DISCOVER_FAST, probe := None\<rparr>) <
      pending_count s" if "append_tombstone s a l = Inr u" "phase s = PROBE_PENDING"
      "probe s \<noteq> None" for a l u
    using that by (auto simp: pending_count_def dest!: append_tombstone_state)
  have dropA: "pending_count (u\<lparr>phase := DISCOVER_FAST, application := None\<rparr>) <
      pending_count s" if "append_tombstone s a l = Inr u" "phase s = APPLY_PENDING"
      "application s \<noteq> None" for a l u
    using that by (auto simp: pending_count_def dest!: append_tombstone_state)
  have dropR: "pending_count (u\<lparr>preparation_state := PREPARE_IDLE, preparation := None,
      verify_since_ms := None\<rparr>) < pending_count s"
      if "append_tombstone s a l = Inr u" "preparation_state s = PREPARE_PENDING"
      "preparation s \<noteq> None" for a l u
    using that by (auto simp: pending_count_def dest!: append_tombstone_state)
  have dropF: "pending_count (u\<lparr>phase := DISCOVER_FAST, finalization := None,
      verify_since_ms := None\<rparr>) < pending_count s"
      if "append_tombstone s a l = Inr u" "phase s = FINALIZE_PENDING"
      "finalization s \<noteq> None" for a l u
    using that by (auto simp: pending_count_def dest!: append_tombstone_state)
  from assms consider
      (probe) a u where "probe s \<noteq> None" "phase s = PROBE_PENDING"
        "append_tombstone s a CANCELLED = Inr u"
        "cancelled_admission (u\<lparr>phase := DISCOVER_FAST, probe := None\<rparr>) ob =
           Inr (CancelledAdmission t es)"
    | (application) a u where "application s \<noteq> None" "phase s = APPLY_PENDING"
        "append_tombstone s a CANCELLED = Inr u"
        "cancelled_admission (u\<lparr>phase := DISCOVER_FAST, application := None\<rparr>) ob =
           Inr (CancelledAdmission t es)"
    | (preparation) a u where "preparation s \<noteq> None" "preparation_state s = PREPARE_PENDING"
        "append_tombstone s a CANCELLED = Inr u"
        "cancelled_admission (u\<lparr>preparation_state := PREPARE_IDLE, preparation := None,
           verify_since_ms := None\<rparr>) ob = Inr (CancelledAdmission t es)"
    | (finalization) a u where "finalization s \<noteq> None" "phase s = FINALIZE_PENDING"
        "append_tombstone s a CANCELLED = Inr u"
        "cancelled_admission (u\<lparr>phase := DISCOVER_FAST, finalization := None,
           verify_since_ms := None\<rparr>) ob = Inr (CancelledAdmission t es)"
    by (auto simp: observe_pending_action_def observe_pending_probe_def
        observe_pending_application_def observe_pending_preparation_def
        observe_pending_finalization_def bindE_eq_Inr split: if_splits)
  then show ?thesis
  proof cases
    case probe
    then show ?thesis
      by (intro order_le_less_trans [OF cancelled_admission_pending dropP])
  next
    case application
    then show ?thesis
      by (intro order_le_less_trans [OF cancelled_admission_pending dropA])
  next
    case preparation
    then show ?thesis
      by (intro order_le_less_trans [OF cancelled_admission_pending dropR])
  next
    case finalization
    then show ?thesis
      by (intro order_le_less_trans [OF cancelled_admission_pending dropF])
  qed
qed

function classify_observation :: "state \<Rightarrow> canonical_observation \<Rightarrow> decision result" where
  "classify_observation s ob =
     bindE (observe_pending_action s ob) (\<lambda>pending.
     case pending of
       Reissued d \<Rightarrow> Inr d
     | CancelledAdmission t epoch_effects \<Rightarrow>
         bindE (classify_observation t ob) (\<lambda>d.
         decide (dec_state d) (epoch_effects @ dec_effects d))
     | NotPending \<Rightarrow> classify_settled s ob)"
  by pat_completeness auto

termination
  by (relation "measure (\<lambda>(s, ob). pending_count s)") (auto simp: pending_count_cancelled)

declare classify_observation.simps [simp del]

section \<open>Recording the evidence\<close>

definition stale_observation :: "state \<Rightarrow> canonical_observation \<Rightarrow> bool" where
  "stale_observation s ob \<longleftrightarrow>
     present (latest_observation s) (\<lambda>prior.
       ob_observation_generation ob \<le> observation_generation s \<or>
       ob_observed_at_ms ob < ob_observed_at_ms prior \<or>
       ob_event_generation ob < event_generation s)"

definition can_dirty_desktop :: "canonical_observation \<Rightarrow> bool" where
  "can_dirty_desktop ob \<longleftrightarrow>
     ob_valid ob \<or> ob_invalidity_reason ob \<notin> {Some COMMAND_TIMED_OUT, Some PARSE_FAILED}"

definition finalized_profile_returned :: "state \<Rightarrow> canonical_observation \<Rightarrow> bool" where
  "finalized_profile_returned s ob \<longleftrightarrow>
     present (desktop_finalized_profile s) (\<lambda>p.
       can_dirty_desktop ob \<and>
       present (latest_observation s) (\<lambda>prior. can_dirty_desktop prior \<and>
         ob_physical_token prior = ob_physical_token ob \<and>
         p \<in> set (ob_current_profiles ob) \<and> p \<notin> set (ob_current_profiles prior)))"

definition record_observation :: "state \<Rightarrow> canonical_observation \<Rightarrow> state result" where
  "record_observation s ob =
     bindE (replace_state (s\<lparr>
        latest_observation := Some ob,
        observation_generation :=
          max (observation_generation s) (ob_observation_generation ob),
        event_generation := max (event_generation s) (ob_event_generation ob),
        desktop_finalized_profile :=
          (if finalized_profile_returned s ob then None else desktop_finalized_profile s)\<rparr>))
       (\<lambda>t.
     if has_external_hardware ob \<and> internal_candidate t
     then replace_state (t\<lparr>candidate := None\<rparr>) else Inr t)"

section \<open>Stopping in-flight work\<close>

definition stopping_mutator :: "state \<Rightarrow> action_record option" where
  "stopping_mutator s =
     find (\<lambda>a. record_lifecycle a = STOPPING)
       (somes [map_option ProbeRecord (probe s), map_option ApplicationRecord (application s),
               map_option PreparationRecord (preparation s),
               map_option FinalizationRecord (finalization s)])"

definition stop_effects :: "action_record option \<Rightarrow> effect list" where
  "stop_effects a = (case a of None \<Rightarrow> [] | Some r \<Rightarrow> [StopAction (record_id r)])"

definition stop_probe :: "state \<Rightarrow> probe_action \<Rightarrow> int \<Rightarrow> decision result" where
  "stop_probe s a now_ms =
     bindE (construct ProbeAction_post_init (a\<lparr>lifecycle := STOPPING\<rparr>)) (\<lambda>a1.
     bindE (replace_state (s\<lparr>probe := Some a1\<rparr>)) (\<lambda>s1.
     schedule s1 (now_ms + 1000) [StopAction (action_id a1)]))"

definition stop_application ::
  "state \<Rightarrow> application_action \<Rightarrow> int \<Rightarrow> effect list \<Rightarrow> decision result" where
  "stop_application s a now_ms leading =
     bindE (construct ApplicationAction_post_init (a\<lparr>lifecycle := STOPPING\<rparr>)) (\<lambda>a1.
     bindE (replace_state (s\<lparr>application := Some a1\<rparr>)) (\<lambda>s1.
     schedule s1 (now_ms + 1000) (leading @ [StopAction (action_id a1)])))"

text \<open>The stop of an internal-only application that external hardware forbids.\<close>

definition stop_internal_application ::
  "state \<Rightarrow> application_action \<Rightarrow> int \<Rightarrow> decision result" where
  "stop_internal_application s a now_ms =
     bindE (construct ApplicationAction_post_init (a\<lparr>lifecycle := STOPPING\<rparr>)) (\<lambda>a1.
     bindE (replace_state (s\<lparr>phase := APPLYING, application := Some a1, candidate := None,
                             verify_since_ms := None\<rparr>)) (\<lambda>s1.
     schedule s1 (now_ms + 1000) [StopAction (action_id a1)]))"

definition stop_preparation ::
  "state \<Rightarrow> preparation_action \<Rightarrow> int \<Rightarrow> effect list \<Rightarrow> decision result" where
  "stop_preparation s a now_ms leading =
     bindE (construct PreparationAction_post_init (a\<lparr>lifecycle := STOPPING\<rparr>)) (\<lambda>a1.
     bindE (replace_state (s\<lparr>phase := DISCOVER_FAST, preparation_state := PREPARE_STOPPING,
                             preparation := Some a1, verify_since_ms := None\<rparr>)) (\<lambda>s1.
     schedule s1 (now_ms + 1000) (leading @ [StopAction (action_id a1)])))"

definition stop_finalization ::
  "state \<Rightarrow> finalization_action \<Rightarrow> int \<Rightarrow> effect list \<Rightarrow> decision result" where
  "stop_finalization s a now_ms leading =
     bindE (construct FinalizationAction_post_init (a\<lparr>lifecycle := STOPPING\<rparr>)) (\<lambda>a1.
     bindE (replace_state (s\<lparr>phase := FINALIZE_STOPPING, finalization := Some a1,
                             verify_since_ms := None\<rparr>)) (\<lambda>s1.
     schedule s1 (now_ms + 1000) (leading @ [StopAction (action_id a1)])))"

section \<open>Invalid observations\<close>

text \<open>
  \<^verbatim>\<open>if not observation.valid:\<close> in \<^verbatim>\<open>_observe\<close>: every admission is cancelled, proof
  is dropped and nothing new is admitted.
\<close>

definition drop_admitted_probe :: "state \<Rightarrow> state result" where
  "drop_admitted_probe s =
     (case probe s of
        None \<Rightarrow> Inr s
      | Some a \<Rightarrow>
        if lifecycle a = ADMITTED
        then bindE (append_tombstone s (ProbeRecord a) CANCELLED) (\<lambda>t.
             replace_state (t\<lparr>phase := DISCOVER_FAST, probe := None\<rparr>))
        else Inr s)"

definition drop_admitted_application :: "state \<Rightarrow> state result" where
  "drop_admitted_application s =
     (case application s of
        None \<Rightarrow> Inr s
      | Some a \<Rightarrow>
        if lifecycle a = ADMITTED
        then bindE (append_tombstone s (ApplicationRecord a) CANCELLED) (\<lambda>t.
             replace_state (t\<lparr>phase := DISCOVER_FAST, application := None\<rparr>))
        else Inr s)"

definition drop_admitted_preparation :: "state \<Rightarrow> (state \<times> effect list) result" where
  "drop_admitted_preparation s =
     (case preparation s of
        None \<Rightarrow> Inr (s, [])
      | Some a \<Rightarrow>
        if lifecycle a = ADMITTED
        then bindE (append_tombstone s (PreparationRecord a) CANCELLED) (\<lambda>t.
             bindE (replace_state (t\<lparr>phase := DISCOVER_FAST,
                      preparation_state := PREPARE_IDLE, preparation := None\<rparr>))
               discard_planning)
        else Inr (s, []))"

definition drop_admitted_finalization :: "state \<Rightarrow> state result" where
  "drop_admitted_finalization s =
     (case finalization s of
        None \<Rightarrow> Inr s
      | Some a \<Rightarrow>
        if lifecycle a = ADMITTED
        then bindE (append_tombstone s (FinalizationRecord a) CANCELLED) (\<lambda>t.
             replace_state (t\<lparr>phase := DISCOVER_FAST, finalization := None\<rparr>))
        else Inr s)"

definition settle_invalid :: "state \<Rightarrow> canonical_observation \<Rightarrow> effect list \<Rightarrow> decision result" where
  "settle_invalid s ob leading =
     bindE (if phase s \<notin> {PROBING, PROBE_FAILED, APPLYING, APPLY_FAILED, FINALIZING,
                           FINALIZE_STOPPING, FINALIZE_FAILED}
            then replace_state (s\<lparr>phase := DISCOVER_FAST\<rparr>) else Inr s) (\<lambda>t.
     schedule t (ob_observed_at_ms ob + 1000) (leading @ stop_effects (stopping_mutator t)))"

definition drop_admitted :: "state \<Rightarrow> (state \<times> effect list) result" where
  "drop_admitted s =
     bindE (drop_admitted_probe s) (\<lambda>s1.
     bindE (drop_admitted_application s1) (\<lambda>s2.
     bindE (drop_admitted_preparation s2) (\<lambda>(s3, effects).
     bindE (drop_admitted_finalization s3) (\<lambda>s4. Inr (s4, effects)))))"

definition live_internal_application :: "state \<Rightarrow> action_lifecycle set \<Rightarrow> bool" where
  "live_internal_application s ls \<longleftrightarrow>
     present (application s) (\<lambda>a. ap_scope a = INTERNAL_ONLY \<and> lifecycle a \<in> ls)"

definition observe_invalid :: "state \<Rightarrow> canonical_observation \<Rightarrow> decision result" where
  "observe_invalid s ob =
     (let invalid_external = has_external_hardware ob in
      bindE (replace_state (s\<lparr>
         external_intent := (external_intent s \<or> invalid_external),
         candidate := (if invalid_external \<and> internal_candidate s then None else candidate s),
         unplug_proof := None,
         verify_since_ms := None\<rparr>)) (\<lambda>s1.
      bindE (drop_admitted s1) (\<lambda>(s2, effects).
      if invalid_external \<and> live_internal_application s2 {DISPATCHED, STOPPING}
      then stop_application s2 (the (application s2)) (ob_observed_at_ms ob) effects
      else settle_invalid s2 ob effects)))"

section \<open>Accepting the result of a finished worker\<close>

text \<open>
  What remains of \<^verbatim>\<open>_observe\<close> once the in-flight work has been settled: classify, and
  put the effects of an epoch reset first.
\<close>

definition classify_after ::
  "state \<Rightarrow> canonical_observation \<Rightarrow> effect list \<Rightarrow> decision result" where
  "classify_after s ob epoch_effects =
     bindE (classify_observation s ob) (\<lambda>d.
     if epoch_effects = [] then Inr d
     else decide (dec_state d) (epoch_effects @ dec_effects d))"

definition fail_pending_finalization ::
  "state \<Rightarrow> finalization_action \<Rightarrow> int option \<Rightarrow> state result" where
  "fail_pending_finalization s a since =
     bindE (construct FinalizationAction_post_init (a\<lparr>lifecycle := FAILED\<rparr>)) (\<lambda>a1.
     bindE (append_tombstone s (FinalizationRecord a1) FAILED) (\<lambda>s1.
     replace_state (s1\<lparr>phase := FINALIZE_FAILED, finalization := Some a1,
                       verify_since_ms := since\<rparr>)))"

definition accept_finalization ::
  "state \<Rightarrow> finalization_action \<Rightarrow> effect list \<Rightarrow> decision result" where
  "accept_finalization s a epoch_effects =
     bindE (append_tombstone s (FinalizationRecord a) COMPLETED) (\<lambda>s1.
     bindE (discard_planning s1) (\<lambda>(s2, discard_effects).
     bindE (reset_application_recovery s2 (da_profile a)) (\<lambda>s3.
     bindE (replace_state (s3\<lparr>
        stable_x_profile := Some (da_profile a),
        desktop_finalized_profile := Some (da_profile a),
        desktop_finalization_required := False,
        finalization := None\<rparr>)) (\<lambda>s4.
     quiesce s4 (epoch_effects @ discard_effects)))))"

definition observe_finalizing ::
  "state \<Rightarrow> canonical_observation \<Rightarrow> finalization_action \<Rightarrow> effect list \<Rightarrow> decision result" where
  "observe_finalizing s ob a epoch_effects =
     (let now_ms = ob_observed_at_ms ob in
      if lifecycle a = RESULT_PENDING
      then
        if same_exact_finalization s ob then accept_finalization s a epoch_effects
        else bindE (fail_pending_finalization s a (verify_since_ms s)) (\<lambda>s1.
             schedule s1 (now_ms + HEALTH_POLL_MS) epoch_effects)
      else if same_exact_finalization s ob then schedule s (now_ms + 1000) epoch_effects
      else stop_finalization s a now_ms epoch_effects)"

definition accept_preparation ::
  "state \<Rightarrow> canonical_observation \<Rightarrow> preparation_action \<Rightarrow> state result" where
  "accept_preparation s ob a =
     bindE (construct PreparationAction_post_init (a\<lparr>lifecycle := COMPLETED\<rparr>)) (\<lambda>a1.
     bindE (append_tombstone s (PreparationRecord a1) COMPLETED) (\<lambda>s1.
     replace_state (s1\<lparr>
        phase := VERIFYING,
        verify_since_ms :=
          (case verify_since_ms s1 of None \<Rightarrow> Some (ob_observed_at_ms ob) | Some t \<Rightarrow> Some t),
        preparation_state := PREPARED,
        preparation := Some a1\<rparr>)))"

definition fail_pending_preparation ::
  "state \<Rightarrow> preparation_action \<Rightarrow> state result" where
  "fail_pending_preparation s a =
     bindE (construct PreparationAction_post_init (a\<lparr>lifecycle := FAILED\<rparr>)) (\<lambda>a1.
     bindE (append_tombstone s (PreparationRecord a1) FAILED) (\<lambda>s1.
     replace_state (s1\<lparr>preparation_state := PREPARE_FAILED, preparation := Some a1,
                       verify_since_ms := None\<rparr>)))"

definition observe_preparing ::
  "state \<Rightarrow> canonical_observation \<Rightarrow> preparation_action \<Rightarrow> effect list \<Rightarrow> decision result" where
  "observe_preparing s ob a epoch_effects =
     (let now_ms = ob_observed_at_ms ob;
          evidence_status = preparation_observation_status s ob a in
      if evidence_status = Some IdentityUncertain
      then bindE (replace_state (s\<lparr>phase := DISCOVER_FAST, verify_since_ms := None\<rparr>)) (\<lambda>s1.
           schedule s1 (now_ms + 1000) epoch_effects)
      else if lifecycle a = RESULT_PENDING
      then
        if evidence_status = Some Exact
        then bindE (accept_preparation s ob a) (\<lambda>s1. classify_after s1 ob epoch_effects)
        else bindE (fail_pending_preparation s a) (\<lambda>s1.
             schedule s1 (now_ms + HEALTH_POLL_MS) epoch_effects)
      else if evidence_status \<noteq> Some Exact then stop_preparation s a now_ms epoch_effects
      else
        bindE (replace_state (s\<lparr>
           phase := VERIFYING,
           verify_since_ms :=
             (case verify_since_ms s of None \<Rightarrow> Some now_ms | Some t \<Rightarrow> Some t)\<rparr>)) (\<lambda>s1.
        schedule s1 (now_ms + 1000) epoch_effects))"

definition observe_in_flight ::
  "state \<Rightarrow> canonical_observation \<Rightarrow> effect list \<Rightarrow> decision result" where
  "observe_in_flight s ob epoch_effects =
     (if phase s = PROBING \<and> probe s \<noteq> None \<or> phase s = APPLYING \<and> application s \<noteq> None
      then schedule s (ob_observed_at_ms ob + 1000) epoch_effects
      else if phase s = FINALIZING \<and> finalization s \<noteq> None
      then observe_finalizing s ob (the (finalization s)) epoch_effects
      else if preparation_state s = PREPARING \<and> preparation s \<noteq> None
      then observe_preparing s ob (the (preparation s)) epoch_effects
      else classify_after s ob epoch_effects)"

section \<open>Valid observations\<close>

definition token_changed :: "state \<Rightarrow> canonical_observation \<Rightarrow> bool" where
  "token_changed s ob \<longleftrightarrow> physical_token s \<noteq> Some (ob_physical_token ob)"

text \<open>The epoch reset, or the way out of slow waiting on new evidence.\<close>

definition refresh_epoch ::
  "state \<Rightarrow> canonical_observation option \<Rightarrow> canonical_observation \<Rightarrow> decision result" where
  "refresh_epoch s prior ob =
     bindE (if token_changed s ob then reset_for_epoch s ob (ob_observed_at_ms ob)
            else if phase s = WAIT_SLOW \<and>
                    present prior (\<lambda>p. ob_observation_key p \<noteq> ob_observation_key ob)
            then bindE (replace_state (s\<lparr>
                    phase := DISCOVER_FAST,
                    aggressive_deadline_ms := Some (ob_observed_at_ms ob + AGGRESSIVE_BUDGET_MS),
                    backoff_index := 0\<rparr>)) (\<lambda>t. Inr (t, []))
            else Inr (s, [])) (\<lambda>(t, epoch_effects).
     observe_in_flight t ob epoch_effects)"

definition observe_valid ::
  "state \<Rightarrow> canonical_observation option \<Rightarrow> canonical_observation \<Rightarrow> decision result" where
  "observe_valid s prior ob =
     (let now_ms = ob_observed_at_ms ob in
      if has_external_hardware ob \<and> live_internal_application s {DISPATCHED}
      then stop_internal_application s (the (application s)) now_ms
      else if stopping_mutator s \<noteq> None
      then schedule s (now_ms + 1000) (stop_effects (stopping_mutator s))
      else if token_changed s ob \<and> phase s = PROBING \<and>
              present (probe s) (\<lambda>a. lifecycle a = DISPATCHED)
      then stop_probe s (the (probe s)) now_ms
      else if token_changed s ob \<and> phase s = APPLYING \<and>
              present (application s) (\<lambda>a. lifecycle a = DISPATCHED)
      then stop_application s (the (application s)) now_ms []
      else if token_changed s ob \<and> phase s = FINALIZING \<and> finalization s \<noteq> None
      then
        if present (finalization s) (\<lambda>a. lifecycle a = RESULT_PENDING)
        then bindE (fail_pending_finalization s (the (finalization s)) None) (\<lambda>s1.
             schedule s1 (now_ms + HEALTH_POLL_MS) [])
        else stop_finalization s (the (finalization s)) now_ms []
      else if token_changed s ob \<and> preparation_state s = PREPARING \<and> preparation s \<noteq> None
      then stop_preparation s (the (preparation s)) now_ms []
      else refresh_epoch s prior ob)"

definition observe :: "state \<Rightarrow> canonical_observation \<Rightarrow> decision result" where
  "observe s ob =
     (if stale_observation s ob then no_op s
      else bindE (record_observation s ob) (\<lambda>t.
           if ob_valid ob then observe_valid t (latest_observation s) ob
           else observe_invalid t ob))"

end
