(* ===== verification/Reducer_Workers.thy ===== *)
theory Reducer_Workers
  imports Reducer_Observe
begin

text \<open>
  Worker and planner events of \<^verbatim>\<open>monitor_controller/reducer.py\<close>: dispatch and
  completion acknowledgements, plan results, uncertain and timed-out workers, dirtied
  admissions and acknowledged cancellations. Where the code selects a state field by
  \<^verbatim>\<open>action_id.kind\<close> the model selects by the class of the action record; the
  \<^verbatim>\<open>__post_init__\<close> of each class makes the two agree.
\<close>

section \<open>Dispatch acknowledgements\<close>

definition PROBE_WORKER_TIMEOUT_MS :: int where "PROBE_WORKER_TIMEOUT_MS = 30000"

definition APPLICATION_WORKER_TIMEOUT_MS :: int where "APPLICATION_WORKER_TIMEOUT_MS = 120000"

definition PREPARATION_WORKER_TIMEOUT_MS :: int where "PREPARATION_WORKER_TIMEOUT_MS = 300000"

definition FINALIZATION_WORKER_TIMEOUT_MS :: int where "FINALIZATION_WORKER_TIMEOUT_MS = 300000"

fun worker_timeout_ms :: "action_kind \<Rightarrow> int option" where
  "worker_timeout_ms PROBE = Some PROBE_WORKER_TIMEOUT_MS"
| "worker_timeout_ms APPLICATION = Some APPLICATION_WORKER_TIMEOUT_MS"
| "worker_timeout_ms PREPARATION = Some PREPARATION_WORKER_TIMEOUT_MS"
| "worker_timeout_ms FINALIZATION = Some FINALIZATION_WORKER_TIMEOUT_MS"
| "worker_timeout_ms PLAN = None"

definition worker_deadline :: "action_id \<Rightarrow> int \<Rightarrow> int result" where
  "worker_deadline a dispatched_at_ms =
     (case worker_timeout_ms (aid_kind a) of
        None \<Rightarrow> Inl (ValueError ''planning tasks do not have supervisor worker deadlines'')
      | Some timeout_ms \<Rightarrow> Inr (dispatched_at_ms + timeout_ms))"

definition dispatched_probe ::
  "state \<Rightarrow> action_id \<Rightarrow> worker_unit \<Rightarrow> int \<Rightarrow> decision result" where
  "dispatched_probe s a unit dispatched_at_ms =
     (if phase s \<noteq> PROBE_PENDING \<or>
         \<not> present (probe s) (\<lambda>x. action_id x = a \<and> lifecycle x = ADMITTED)
      then no_op s
      else
        bindE (worker_deadline a dispatched_at_ms) (\<lambda>deadline.
        bindE (construct ProbeAction_post_init
          ((the (probe s))\<lparr>lifecycle := DISPATCHED, worker_unit := Some unit,
                           worker_deadline_ms := Some deadline\<rparr>)) (\<lambda>a1.
        bindE (replace_state (s\<lparr>
           phase := PROBING, probe := Some a1,
           attempted_probe_keys := attempted_probe_keys s \<union> {pr_key a1},
           next_timer_ms := None\<rparr>)) (\<lambda>s1. decide s1 []))))"

definition dispatched_application ::
  "state \<Rightarrow> action_id \<Rightarrow> worker_unit \<Rightarrow> int \<Rightarrow> decision result" where
  "dispatched_application s a unit dispatched_at_ms =
     (if phase s \<noteq> APPLY_PENDING \<or>
         \<not> present (application s) (\<lambda>x. action_id x = a \<and> lifecycle x = ADMITTED)
      then no_op s
      else
        bindE (worker_deadline a dispatched_at_ms) (\<lambda>deadline.
        bindE (construct ApplicationAction_post_init
          ((the (application s))\<lparr>lifecycle := DISPATCHED, worker_unit := Some unit,
                                 worker_deadline_ms := Some deadline\<rparr>)) (\<lambda>a1.
        bindE (replace_state (s\<lparr>
           phase := APPLYING, application := Some a1,
           attempted_application_keys := attempted_application_keys s \<union> {ap_key a1},
           next_timer_ms := None\<rparr>)) (\<lambda>s1. decide s1 []))))"

definition dispatched_preparation ::
  "state \<Rightarrow> action_id \<Rightarrow> worker_unit \<Rightarrow> int \<Rightarrow> decision result" where
  "dispatched_preparation s a unit dispatched_at_ms =
     (if preparation_state s \<noteq> PREPARE_PENDING \<or>
         \<not> present (preparation s) (\<lambda>x. action_id x = a \<and> lifecycle x = ADMITTED)
      then no_op s
      else
        bindE (worker_deadline a dispatched_at_ms) (\<lambda>deadline.
        bindE (construct PreparationAction_post_init
          ((the (preparation s))\<lparr>lifecycle := DISPATCHED, worker_unit := Some unit,
                                 worker_deadline_ms := Some deadline\<rparr>)) (\<lambda>a1.
        bindE (replace_state (s\<lparr>preparation_state := PREPARING, preparation := Some a1\<rparr>))
          (\<lambda>s1. decide s1 []))))"

definition dispatched_finalization ::
  "state \<Rightarrow> action_id \<Rightarrow> worker_unit \<Rightarrow> int \<Rightarrow> decision result" where
  "dispatched_finalization s a unit dispatched_at_ms =
     (if phase s \<noteq> FINALIZE_PENDING \<or>
         \<not> present (finalization s) (\<lambda>x. action_id x = a \<and> lifecycle x = ADMITTED)
      then no_op s
      else
        bindE (worker_deadline a dispatched_at_ms) (\<lambda>deadline.
        bindE (construct FinalizationAction_post_init
          ((the (finalization s))\<lparr>lifecycle := DISPATCHED, worker_unit := Some unit,
                                  worker_deadline_ms := Some deadline\<rparr>)) (\<lambda>a1.
        bindE (replace_state (s\<lparr>phase := FINALIZING, finalization := Some a1\<rparr>))
          (\<lambda>s1. decide s1 []))))"

definition dispatched ::
  "state \<Rightarrow> action_id \<Rightarrow> worker_unit \<Rightarrow> int \<Rightarrow> decision result" where
  "dispatched s a unit now_ms =
     (case aid_kind a of
        PROBE \<Rightarrow> dispatched_probe s a unit now_ms
      | APPLICATION \<Rightarrow> dispatched_application s a unit now_ms
      | PREPARATION \<Rightarrow> dispatched_preparation s a unit now_ms
      | FINALIZATION \<Rightarrow> dispatched_finalization s a unit now_ms
      | PLAN \<Rightarrow> no_op s)"

section \<open>Completion\<close>

definition failed_outcome_lifecycle :: "worker_outcome \<Rightarrow> action_lifecycle" where
  "failed_outcome_lifecycle outcome =
     (if outcome = OUTCOME_CANCELLED then CANCELLED else FAILED)"

definition finished_probe ::
  "state \<Rightarrow> action_id \<Rightarrow> worker_outcome \<Rightarrow> int option \<Rightarrow> int \<Rightarrow> decision result" where
  "finished_probe s a outcome status now_ms =
     (if phase s \<noteq> PROBING \<or> \<not> present (probe s) (\<lambda>x. action_id x = a) then no_op s
      else let action = the (probe s) in
        if lifecycle action = STOPPING
        then schedule s (now_ms + 1000) [StopAction (action_id action)]
        else let l = (if outcome = OUTCOME_SUCCEEDED then COMPLETED
                      else failed_outcome_lifecycle outcome) in
          bindE (construct ProbeAction_post_init
            (action\<lparr>lifecycle := l, exit_status := status, terminal_after_stop := None\<rparr>)) (\<lambda>a1.
          bindE (append_tombstone s (ProbeRecord a1) l) (\<lambda>s1.
          if l = FAILED
          then bindE (replace_state (s1\<lparr>phase := PROBE_FAILED, probe := Some a1\<rparr>)) (\<lambda>s2.
               schedule s2 (now_ms + HEALTH_POLL_MS) [])
          else bindE (replace_state (s1\<lparr>phase := DISCOVER_FAST, probe := None\<rparr>)) (\<lambda>s2.
               schedule s2 now_ms [RequestObservation WORKER_COMPLETED]))))"

definition finished_application ::
  "state \<Rightarrow> action_id \<Rightarrow> worker_outcome \<Rightarrow> int option \<Rightarrow> int \<Rightarrow> decision result" where
  "finished_application s a outcome status now_ms =
     (if phase s \<noteq> APPLYING \<or> \<not> present (application s) (\<lambda>x. action_id x = a) then no_op s
      else let action = the (application s) in
        if lifecycle action = STOPPING
        then schedule s (now_ms + 1000) [StopAction (action_id action)]
        else let l = (if outcome = OUTCOME_SUCCEEDED then COMPLETED
                      else failed_outcome_lifecycle outcome) in
          bindE (construct ApplicationAction_post_init
            (action\<lparr>lifecycle := l, exit_status := status, terminal_after_stop := None\<rparr>)) (\<lambda>a1.
          bindE (append_tombstone s (ApplicationRecord a1) l) (\<lambda>s1.
          if l = FAILED
          then bindE (replace_state (s1\<lparr>phase := APPLY_FAILED, application := Some a1\<rparr>)) (\<lambda>s2.
               schedule s2 (now_ms + HEALTH_POLL_MS) [])
          else bindE (replace_state (s1\<lparr>phase := DISCOVER_FAST, application := None,
                 verify_since_ms := (if l = COMPLETED then None else verify_since_ms s1)\<rparr>)) (\<lambda>s2.
               schedule s2 now_ms [RequestObservation WORKER_COMPLETED]))))"

definition finished_preparation ::
  "state \<Rightarrow> action_id \<Rightarrow> worker_outcome \<Rightarrow> int option \<Rightarrow> int \<Rightarrow> plan_hash option \<Rightarrow>
   decision result" where
  "finished_preparation s a outcome status now_ms hash =
     (if preparation_state s \<notin> {PREPARING, PREPARE_STOPPING} \<or>
         \<not> present (preparation s)
             (\<lambda>x. action_id x = a \<and> lifecycle x \<in> {DISPATCHED, STOPPING})
      then no_op s
      else let action = the (preparation s) in
        if lifecycle action = STOPPING
        then schedule s (now_ms + 1000) [StopAction (action_id action)]
        else if outcome = OUTCOME_SUCCEEDED \<and> hash = Some (da_plan_hash action)
        then
          bindE (construct PreparationAction_post_init
            (action\<lparr>lifecycle := RESULT_PENDING, exit_status := status,
                    terminal_after_stop := None\<rparr>)) (\<lambda>a1.
          bindE (clear_recovery_unit s (action_id a1)) (\<lambda>s1.
          bindE (replace_state (s1\<lparr>preparation := Some a1\<rparr>)) (\<lambda>s2.
          schedule s2 now_ms [RequestObservation WORKER_COMPLETED])))
        else let l = failed_outcome_lifecycle outcome in
          bindE (construct PreparationAction_post_init
            (action\<lparr>lifecycle := l, exit_status := status, terminal_after_stop := None\<rparr>)) (\<lambda>a1.
          bindE (append_tombstone s (PreparationRecord a1) l) (\<lambda>s1.
          if l = CANCELLED
          then bindE (replace_state (s1\<lparr>preparation_state := PREPARE_IDLE, preparation := None,
                                        phase := DISCOVER_FAST\<rparr>)) (\<lambda>s2.
               schedule s2 now_ms [RequestObservation WORKER_COMPLETED])
          else bindE (replace_state (s1\<lparr>preparation_state := PREPARE_FAILED,
                                        preparation := Some a1\<rparr>)) (\<lambda>s2.
               schedule s2 (now_ms + HEALTH_POLL_MS) []))))"

definition finished_finalization ::
  "state \<Rightarrow> action_id \<Rightarrow> worker_outcome \<Rightarrow> int option \<Rightarrow> int \<Rightarrow> decision result" where
  "finished_finalization s a outcome status now_ms =
     (if phase s \<notin> {FINALIZING, FINALIZE_STOPPING} \<or>
         \<not> present (finalization s)
             (\<lambda>x. action_id x = a \<and> lifecycle x \<in> {DISPATCHED, STOPPING})
      then no_op s
      else let action = the (finalization s) in
        if lifecycle action = STOPPING
        then schedule s (now_ms + 1000) [StopAction (action_id action)]
        else if outcome = OUTCOME_SUCCEEDED
        then
          bindE (construct FinalizationAction_post_init
            (action\<lparr>lifecycle := RESULT_PENDING, exit_status := status,
                    terminal_after_stop := None\<rparr>)) (\<lambda>a1.
          bindE (clear_recovery_unit s (action_id a1)) (\<lambda>s1.
          bindE (replace_state (s1\<lparr>phase := FINALIZING, finalization := Some a1\<rparr>)) (\<lambda>s2.
          schedule s2 now_ms [RequestObservation WORKER_COMPLETED])))
        else let l = failed_outcome_lifecycle outcome in
          bindE (construct FinalizationAction_post_init
            (action\<lparr>lifecycle := l, exit_status := status, terminal_after_stop := None\<rparr>)) (\<lambda>a1.
          bindE (append_tombstone s (FinalizationRecord a1) l) (\<lambda>s1.
          if l = CANCELLED
          then bindE (replace_state (s1\<lparr>phase := DISCOVER_FAST, finalization := None,
                                        verify_since_ms := None\<rparr>)) (\<lambda>s2.
               schedule s2 now_ms [RequestObservation WORKER_COMPLETED])
          else bindE (replace_state (s1\<lparr>phase := FINALIZE_FAILED, finalization := Some a1\<rparr>)) (\<lambda>s2.
               schedule s2 (now_ms + HEALTH_POLL_MS) []))))"

text \<open>\<^verbatim>\<open>_finished\<close>: the branch of the action kind.\<close>

definition finished ::
  "state \<Rightarrow> action_id \<Rightarrow> worker_outcome \<Rightarrow> int option \<Rightarrow> int \<Rightarrow> plan_hash option \<Rightarrow>
   decision result" where
  "finished s a outcome status now_ms hash =
     (case aid_kind a of
        PROBE \<Rightarrow> finished_probe s a outcome status now_ms
      | APPLICATION \<Rightarrow> finished_application s a outcome status now_ms
      | PREPARATION \<Rightarrow> finished_preparation s a outcome status now_ms hash
      | FINALIZATION \<Rightarrow> finished_finalization s a outcome status now_ms
      | PLAN \<Rightarrow> no_op s)"

section \<open>Planning results\<close>

definition plan_requested ::
  "state \<Rightarrow> action_id \<Rightarrow> planning_input_key \<Rightarrow> decision result" where
  "plan_requested s a key =
     (if planning_state s \<noteq> PLAN_PENDING \<or>
         \<not> present (planning s) (\<lambda>x. action_id x = a \<and> pl_input_key x = key)
      then no_op s
      else
        bindE (construct PlanningAction_post_init
          ((the (planning s))\<lparr>lifecycle := DISPATCHED\<rparr>)) (\<lambda>a1.
        bindE (replace_state (s\<lparr>planning_state := PLANNING, planning := Some a1\<rparr>)) (\<lambda>s1.
        decide s1 [])))"

definition plan_completed ::
  "state \<Rightarrow> int \<Rightarrow> action_id \<Rightarrow> planning_input_key \<Rightarrow> plan_hash \<Rightarrow> decision result" where
  "plan_completed s now_ms a key hash =
     (if planning_state s \<noteq> PLANNING \<or>
         \<not> present (planning s) (\<lambda>x. action_id x = a \<and> pl_input_key x = key)
      then no_op s
      else
        bindE (construct PlanningAction_post_init
          ((the (planning s))\<lparr>lifecycle := COMPLETED, pl_plan_hash := Some hash,
                              pl_input_key := key\<rparr>)) (\<lambda>a1.
        bindE (append_tombstone s (PlanningRecord a1) COMPLETED) (\<lambda>s1.
        bindE (replace_state (s1\<lparr>planning_state := PLAN_READY, planning := Some a1\<rparr>)) (\<lambda>s2.
        schedule s2 now_ms [RequestObservation WORKER_COMPLETED]))))"

definition plan_failed ::
  "state \<Rightarrow> int \<Rightarrow> action_id \<Rightarrow> planning_input_key \<Rightarrow> int option \<Rightarrow> bool \<Rightarrow> decision result" where
  "plan_failed s now_ms a key status retryable =
     (if planning_state s \<notin> {PLAN_PENDING, PLANNING} \<or>
         \<not> present (planning s) (\<lambda>x. action_id x = a \<and> pl_input_key x = key)
      then no_op s
      else if retryable
      then
        bindE (discard_planning s) (\<lambda>(s1, discard_effects).
        bindE (replace_state (s1\<lparr>phase := DISCOVER_FAST, verify_since_ms := None\<rparr>)) (\<lambda>s2.
        schedule s2 (now_ms + OBSERVATION_FAILURE_RETRY_MS) discard_effects))
      else
        bindE (construct PlanningAction_post_init
          ((the (planning s))\<lparr>lifecycle := FAILED, exit_status := status\<rparr>)) (\<lambda>a1.
        bindE (append_tombstone s (PlanningRecord a1) FAILED) (\<lambda>s1.
        bindE (replace_state (s1\<lparr>planning_state := PLAN_FAILED, planning := Some a1\<rparr>)) (\<lambda>s2.
        schedule s2 (now_ms + HEALTH_POLL_MS) []))))"

end
