(* ===== verification/Reducer.thy ===== *)
theory Reducer
  imports Reducer_Workers
begin

text \<open>
  The entry point \<^verbatim>\<open>reduce\<close> of \<^verbatim>\<open>monitor_controller/reducer.py\<close> and the remaining
  handlers: failed and uncertain workers, dirtied admissions, acknowledged
  cancellations, DRM hints, controller starts and boot changes.
\<close>

section \<open>Failed and uncertain workers\<close>

definition action_for_id :: "state \<Rightarrow> action_id \<Rightarrow> action_record option" where
  "action_for_id s a = find (\<lambda>r. record_id r = a) (state_actions s)"

text \<open>\<^verbatim>\<open>replace(action, lifecycle=...)\<close> on a member of the union.\<close>

fun with_lifecycle :: "action_record \<Rightarrow> action_lifecycle \<Rightarrow> action_record result" where
  "with_lifecycle (ProbeRecord a) l =
     bindE (construct ProbeAction_post_init (a\<lparr>lifecycle := l\<rparr>)) (\<lambda>x. Inr (ProbeRecord x))"
| "with_lifecycle (ApplicationRecord a) l =
     bindE (construct ApplicationAction_post_init (a\<lparr>lifecycle := l\<rparr>))
       (\<lambda>x. Inr (ApplicationRecord x))"
| "with_lifecycle (PlanningRecord a) l =
     bindE (construct PlanningAction_post_init (a\<lparr>lifecycle := l\<rparr>)) (\<lambda>x. Inr (PlanningRecord x))"
| "with_lifecycle (PreparationRecord a) l =
     bindE (construct PreparationAction_post_init (a\<lparr>lifecycle := l\<rparr>))
       (\<lambda>x. Inr (PreparationRecord x))"
| "with_lifecycle (FinalizationRecord a) l =
     bindE (construct FinalizationAction_post_init (a\<lparr>lifecycle := l\<rparr>))
       (\<lambda>x. Inr (FinalizationRecord x))"

fun retain_failed :: "action_record \<Rightarrow> state \<Rightarrow> state" where
  "retain_failed (PlanningRecord a) s = s\<lparr>planning_state := PLAN_FAILED, planning := Some a\<rparr>"
| "retain_failed (ProbeRecord a) s = s\<lparr>phase := PROBE_FAILED, probe := Some a\<rparr>"
| "retain_failed (ApplicationRecord a) s = s\<lparr>phase := APPLY_FAILED, application := Some a\<rparr>"
| "retain_failed (PreparationRecord a) s =
     s\<lparr>preparation_state := PREPARE_FAILED, preparation := Some a\<rparr>"
| "retain_failed (FinalizationRecord a) s = s\<lparr>phase := FINALIZE_FAILED, finalization := Some a\<rparr>"

definition fail_action ::
  "state \<Rightarrow> action_id \<Rightarrow> action_lifecycle \<Rightarrow> int \<Rightarrow> decision result" where
  "fail_action s a l now_ms =
     (case action_for_id s a of
        None \<Rightarrow> no_op s
      | Some action \<Rightarrow>
        if record_lifecycle action \<notin> {ADMITTED, DISPATCHED, STOPPING} then no_op s
        else
          bindE (with_lifecycle action l) (\<lambda>failed.
          bindE (append_tombstone s failed l) (\<lambda>s1.
          bindE (replace_state (retain_failed failed s1)) (\<lambda>s2.
          schedule s2 (now_ms + HEALTH_POLL_MS) []))))"

text \<open>Hold mutation exclusion until the supervisor confirms that the worker stopped.\<close>

fun terminal_after_stop_of :: "action_record \<Rightarrow> action_lifecycle option" where
  "terminal_after_stop_of (ProbeRecord a) = terminal_after_stop a"
| "terminal_after_stop_of (ApplicationRecord a) = terminal_after_stop a"
| "terminal_after_stop_of (PlanningRecord a) = None"
| "terminal_after_stop_of (PreparationRecord a) = terminal_after_stop a"
| "terminal_after_stop_of (FinalizationRecord a) = terminal_after_stop a"

fun hold_exclusion ::
  "action_record \<Rightarrow> action_lifecycle option \<Rightarrow> state \<Rightarrow> state result" where
  "hold_exclusion (ProbeRecord a) terminal s =
     bindE (construct ProbeAction_post_init
              (a\<lparr>lifecycle := STOPPING, terminal_after_stop := terminal\<rparr>)) (\<lambda>x.
     replace_state (s\<lparr>phase := PROBING, probe := Some x\<rparr>))"
| "hold_exclusion (ApplicationRecord a) terminal s =
     bindE (construct ApplicationAction_post_init
              (a\<lparr>lifecycle := STOPPING, terminal_after_stop := terminal\<rparr>)) (\<lambda>x.
     replace_state (s\<lparr>phase := APPLYING, application := Some x\<rparr>))"
| "hold_exclusion (PreparationRecord a) terminal s =
     bindE (construct PreparationAction_post_init
              (a\<lparr>lifecycle := STOPPING, terminal_after_stop := terminal\<rparr>)) (\<lambda>x.
     replace_state (s\<lparr>phase := DISCOVER_FAST, preparation_state := PREPARE_STOPPING,
                      preparation := Some x, verify_since_ms := None\<rparr>))"
| "hold_exclusion (FinalizationRecord a) terminal s =
     bindE (construct FinalizationAction_post_init
              (a\<lparr>lifecycle := STOPPING, terminal_after_stop := terminal\<rparr>)) (\<lambda>x.
     replace_state (s\<lparr>phase := FINALIZE_STOPPING, finalization := Some x,
                      verify_since_ms := None\<rparr>))"
| "hold_exclusion (PlanningRecord a) terminal s = Inr s"

definition stop_uncertain_mutator ::
  "state \<Rightarrow> action_record \<Rightarrow> action_lifecycle \<Rightarrow> int \<Rightarrow> decision result" where
  "stop_uncertain_mutator s action terminal now_ms =
     (if is_planning_record action then fail_action s (record_id action) terminal now_ms
      else let was_stopping = (record_lifecycle action = STOPPING) in
        bindE (hold_exclusion action
                 (if was_stopping then terminal_after_stop_of action else Some terminal) s) (\<lambda>s1.
        schedule s1 (now_ms + 1000)
          (if was_stopping then [] else [StopAction (record_id action)])))"

section \<open>Dirtied admissions\<close>

text \<open>A newer event generation ends every continuous proof.\<close>

definition dirtied :: "state \<Rightarrow> int \<Rightarrow> event_generation \<Rightarrow> state" where
  "dirtied s now_ms generation =
     s\<lparr>event_generation := generation, last_drm_at_ms := Some now_ms,
       verify_since_ms := None, unplug_proof := None\<rparr>"

definition drop_dirtied :: "state \<Rightarrow> action_record \<Rightarrow> (state \<times> effect list) result" where
  "drop_dirtied s action =
     (case action of
        PreparationRecord _ \<Rightarrow>
          bindE (append_tombstone s action CANCELLED) (\<lambda>t.
          bindE (replace_state (t\<lparr>phase := DISCOVER_FAST,
                   preparation_state := PREPARE_IDLE, preparation := None\<rparr>))
            discard_planning)
      | FinalizationRecord _ \<Rightarrow>
          bindE (append_tombstone s action CANCELLED) (\<lambda>t.
          bindE (replace_state (t\<lparr>phase := DISCOVER_FAST, finalization := None\<rparr>)) (\<lambda>u.
          Inr (u, [])))
      | _ \<Rightarrow> Inr (s, []))"

definition admission_dirtied ::
  "state \<Rightarrow> int \<Rightarrow> action_id \<Rightarrow> event_generation \<Rightarrow> decision result" where
  "admission_dirtied s now_ms a generation =
     (case action_for_id s a of
        None \<Rightarrow> no_op s
      | Some action \<Rightarrow>
        if record_lifecycle action \<noteq> ADMITTED \<or> generation \<le> event_generation s then no_op s
        else
          bindE (replace_state (dirtied s now_ms generation)) (\<lambda>s1.
          bindE (drop_dirtied s1 action) (\<lambda>(s2, effects).
          schedule s2 now_ms (effects @ [RequestObservation DIRTY_ADMISSION]))))"

section \<open>Acknowledged cancellations\<close>

text \<open>
  An acknowledgement with a completed result resumes the ordinary completion, without
  another stop cycle.
\<close>

definition resume_completed ::
  "state \<Rightarrow> action_record \<Rightarrow> int \<Rightarrow> int \<Rightarrow> decision result" where
  "resume_completed s action status now_ms =
     (case action of
        ProbeRecord a \<Rightarrow>
          bindE (construct ProbeAction_post_init
                   (a\<lparr>lifecycle := DISPATCHED, terminal_after_stop := None\<rparr>)) (\<lambda>x.
          bindE (replace_state (s\<lparr>phase := PROBING, probe := Some x\<rparr>)) (\<lambda>s1.
          finished s1 (action_id a) OUTCOME_SUCCEEDED (Some status) now_ms None))
      | ApplicationRecord a \<Rightarrow>
          bindE (construct ApplicationAction_post_init
                   (a\<lparr>lifecycle := DISPATCHED, terminal_after_stop := None\<rparr>)) (\<lambda>x.
          bindE (replace_state (s\<lparr>phase := APPLYING, application := Some x\<rparr>)) (\<lambda>s1.
          finished s1 (action_id a) OUTCOME_SUCCEEDED (Some status) now_ms None))
      | PreparationRecord a \<Rightarrow>
          bindE (construct PreparationAction_post_init
                   (a\<lparr>lifecycle := DISPATCHED, terminal_after_stop := None\<rparr>)) (\<lambda>x.
          bindE (replace_state (s\<lparr>preparation_state := PREPARING, preparation := Some x\<rparr>)) (\<lambda>s1.
          finished s1 (action_id a) OUTCOME_SUCCEEDED (Some status) now_ms
            (Some (da_plan_hash a))))
      | FinalizationRecord a \<Rightarrow>
          bindE (construct FinalizationAction_post_init
                   (a\<lparr>lifecycle := DISPATCHED, terminal_after_stop := None\<rparr>)) (\<lambda>x.
          bindE (replace_state (s\<lparr>phase := FINALIZING, finalization := Some x\<rparr>)) (\<lambda>s1.
          finished s1 (action_id a) OUTCOME_SUCCEEDED (Some status) now_ms
            (Some (da_plan_hash a))))
      | PlanningRecord a \<Rightarrow> no_op s)"

text \<open>The action with its terminal result, for the tombstone and for retention.\<close>

fun with_result :: "action_record \<Rightarrow> action_lifecycle \<Rightarrow> int option \<Rightarrow> action_record result" where
  "with_result (ProbeRecord a) l status =
     bindE (construct ProbeAction_post_init
       (a\<lparr>lifecycle := l, exit_status := status, terminal_after_stop := None\<rparr>))
       (\<lambda>x. Inr (ProbeRecord x))"
| "with_result (ApplicationRecord a) l status =
     bindE (construct ApplicationAction_post_init
       (a\<lparr>lifecycle := l, exit_status := status, terminal_after_stop := None\<rparr>))
       (\<lambda>x. Inr (ApplicationRecord x))"
| "with_result (PlanningRecord a) l status =
     bindE (construct PlanningAction_post_init (a\<lparr>lifecycle := l, exit_status := status\<rparr>))
       (\<lambda>x. Inr (PlanningRecord x))"
| "with_result (PreparationRecord a) l status =
     bindE (construct PreparationAction_post_init
       (a\<lparr>lifecycle := l, exit_status := status, terminal_after_stop := None\<rparr>))
       (\<lambda>x. Inr (PreparationRecord x))"
| "with_result (FinalizationRecord a) l status =
     bindE (construct FinalizationAction_post_init
       (a\<lparr>lifecycle := l, exit_status := status, terminal_after_stop := None\<rparr>))
       (\<lambda>x. Inr (FinalizationRecord x))"

text \<open>A failed preparation also leaves the phase it was prepared in.\<close>

fun retain_stopped :: "action_record \<Rightarrow> state \<Rightarrow> state" where
  "retain_stopped (PreparationRecord a) s =
     s\<lparr>phase := DISCOVER_FAST, preparation_state := PREPARE_FAILED, preparation := Some a\<rparr>"
| "retain_stopped r s = retain_failed r s"

fun is_preparation_record :: "action_record \<Rightarrow> bool" where
  "is_preparation_record (PreparationRecord a) = True"
| "is_preparation_record _ = False"

fun release_cancelled :: "action_record \<Rightarrow> state \<Rightarrow> (state \<times> effect list) result" where
  "release_cancelled (ProbeRecord a) s =
     bindE (replace_state (s\<lparr>phase := DISCOVER_FAST, probe := None\<rparr>)) (\<lambda>t. Inr (t, []))"
| "release_cancelled (ApplicationRecord a) s =
     bindE (replace_state (s\<lparr>phase := DISCOVER_FAST, application := None\<rparr>)) (\<lambda>t. Inr (t, []))"
| "release_cancelled (PreparationRecord a) s =
     bindE (replace_state (s\<lparr>phase := DISCOVER_FAST, preparation_state := PREPARE_IDLE,
                             preparation := None\<rparr>)) (\<lambda>t.
     case planning t of
       None \<Rightarrow> Inr (t, [])
     | Some pl \<Rightarrow> bindE (mk_effect (DiscardPlan (action_id pl) (pl_plan_hash pl)))
                   (\<lambda>e. Inr (t, [e])))"
| "release_cancelled (FinalizationRecord a) s =
     bindE (replace_state (s\<lparr>phase := DISCOVER_FAST, finalization := None,
                             verify_since_ms := None\<rparr>)) (\<lambda>t. Inr (t, []))"
| "release_cancelled (PlanningRecord a) s = Inr (s, [])"

definition cancellation_acknowledged ::
  "state \<Rightarrow> int \<Rightarrow> action_id \<Rightarrow> action_lifecycle \<Rightarrow> int \<Rightarrow> decision result" where
  "cancellation_acknowledged s now_ms a l status =
     (case action_for_id s a of
        None \<Rightarrow> no_op s
      | Some action \<Rightarrow>
        if is_planning_record action \<or> record_lifecycle action \<noteq> STOPPING then no_op s
        else if l = COMPLETED then resume_completed s action status now_ms
        else
          bindE (with_result action l (Some status)) (\<lambda>terminal.
          bindE (append_tombstone s terminal l) (\<lambda>s1.
          if l \<in> FAILED_LIFECYCLES
          then
            bindE (replace_state (retain_stopped terminal s1)) (\<lambda>s2.
            if terminal_after_stop_of action \<noteq> None \<or> is_preparation_record action
            then schedule s2 (now_ms + HEALTH_POLL_MS) []
            else schedule s2 now_ms [RequestObservation WORKER_COMPLETED])
          else
            bindE (release_cancelled action s1) (\<lambda>(s2, effects).
            schedule s2 now_ms (effects @ [RequestObservation WORKER_COMPLETED])))))"

section \<open>Hints, starts and boots\<close>

text \<open>A hint drops the admissions whose evidence it dirties and restarts discovery.\<close>

definition hint_drops_preparation :: "state \<Rightarrow> (state \<times> effect list) result" where
  "hint_drops_preparation s =
     (if preparation_state s = PREPARE_PENDING \<and> preparation s \<noteq> None
      then
        bindE (append_tombstone s (PreparationRecord (the (preparation s))) CANCELLED) (\<lambda>t.
        bindE (replace_state (t\<lparr>preparation_state := PREPARE_IDLE, preparation := None\<rparr>))
          discard_planning)
      else Inr (s, []))"

definition hint_drops_finalization :: "state \<Rightarrow> state result" where
  "hint_drops_finalization s =
     (if phase s = FINALIZE_PENDING \<and> finalization s \<noteq> None
      then
        bindE (append_tombstone s (FinalizationRecord (the (finalization s))) CANCELLED) (\<lambda>t.
        replace_state (t\<lparr>finalization := None\<rparr>))
      else Inr s)"

definition hint_restarts_discovery :: "state \<Rightarrow> state result" where
  "hint_restarts_discovery s =
     (if phase s \<in> {QUIESCENT, VERIFYING, UNSUPPORTED, FINALIZE_PENDING}
      then replace_state (s\<lparr>phase := DISCOVER_FAST\<rparr>) else Inr s)"

definition drm_hint :: "state \<Rightarrow> int \<Rightarrow> event_generation \<Rightarrow> decision result" where
  "drm_hint s now_ms generation =
     (if generation \<le> event_generation s then no_op s
      else
        bindE (replace_state (dirtied s now_ms generation)) (\<lambda>s1.
        bindE (hint_drops_preparation s1) (\<lambda>(s2, effects).
        bindE (hint_drops_finalization s2) (\<lambda>s3.
        bindE (hint_restarts_discovery s3) (\<lambda>s4.
        schedule s4 now_ms (effects @ [RequestObservation DRM_HINT]))))))"

definition in_flight_at_start :: "state \<Rightarrow> bool" where
  "in_flight_at_start s \<longleftrightarrow>
     phase s = PROBING \<and> probe s \<noteq> None \<or>
     phase s = APPLYING \<and> application s \<noteq> None \<or>
     preparation_state s \<in> {PREPARING, PREPARE_STOPPING} \<and> preparation s \<noteq> None \<or>
     phase s \<in> {FINALIZING, FINALIZE_STOPPING} \<and> finalization s \<noteq> None"

definition restart_drops_preparation :: "state \<Rightarrow> (state \<times> effect list) result" where
  "restart_drops_preparation s =
     bindE (append_tombstone s (PreparationRecord (the (preparation s))) CANCELLED) (\<lambda>t.
     bindE (replace_state (t\<lparr>phase := DISCOVER_FAST, preparation_state := PREPARE_IDLE,
                             preparation := None, verify_since_ms := None\<rparr>))
       discard_planning)"

definition resume_started :: "state \<Rightarrow> int \<Rightarrow> decision result" where
  "resume_started s now_ms =
     bindE (if phase s = VERIFYING then replace_state (s\<lparr>verify_since_ms := None\<rparr>) else Inr s)
       (\<lambda>t.
     if in_flight_at_start t then schedule t (now_ms + 1000) []
     else schedule t now_ms [RequestObservation STARTUP])"

definition controller_started ::
  "state \<Rightarrow> int \<Rightarrow> controller_instance_id \<Rightarrow> decision result" where
  "controller_started s now_ms instance_id =
     bindE (replace_state (s\<lparr>controller_instance := instance_id\<rparr>)) (\<lambda>s1.
     if preparation_state s1 = PREPARE_PENDING \<and> preparation s1 \<noteq> None
     then
       bindE (restart_drops_preparation s1) (\<lambda>(s2, discard_effects).
       schedule s2 now_ms (discard_effects @ [RequestObservation STARTUP]))
     else if phase s1 = FINALIZE_FAILED \<and> finalization s1 \<noteq> None
     then
       bindE (replace_state (s1\<lparr>phase := DISCOVER_FAST, finalization := None,
                                verify_since_ms := None\<rparr>)) (\<lambda>s2.
       schedule s2 now_ms [RequestObservation STARTUP])
     else resume_started s1 now_ms)"

definition boot_changed :: "state \<Rightarrow> event_metadata \<Rightarrow> boot_id \<Rightarrow> decision result" where
  "boot_changed s m previous =
     (if previous \<noteq> boot_id s then no_op s
      else
        bindE (replace_state (s\<lparr>
           boot_id := md_boot_id m,
           phase := RECOVERING,
           planning_state := PLAN_IDLE,
           preparation_state := PREPARE_IDLE,
           latest_observation := None,
           physical_token := None,
           candidate := None,
           aggressive_deadline_ms := None,
           next_timer_ms := Some (processed_at_ms m),
           backoff_index := 0,
           verify_since_ms := None,
           last_drm_at_ms := None,
           stable_x_profile := None,
           desktop_finalized_profile := None,
           desktop_finalization_required := True,
           external_intent := False,
           baseline_adoption := False,
           attempted_probe_keys := {},
           probe := None,
           attempted_application_keys := {},
           immediate_retry_used_profiles := {},
           application := None,
           planning := None,
           preparation := None,
           finalization := None,
           unknown_key := None,
           unknown_since_ms := None,
           unplug_proof := None,
           observation_generation := ObservationGeneration 0,
           event_generation := EventGeneration 0,
           recovery_units := []\<rparr>)) (\<lambda>s1.
        bindE (mk_effect (Schedule (processed_at_ms m))) (\<lambda>e.
        decide s1 [RequestObservation RECOVERY, e])))"

section \<open>The entry point\<close>

definition timer_fired :: "state \<Rightarrow> int \<Rightarrow> int \<Rightarrow> decision result" where
  "timer_fired s now_ms deadline_ms =
     (if next_timer_ms s = None \<or> present (next_timer_ms s) (\<lambda>n. deadline_ms < n) \<or>
         now_ms < deadline_ms
      then no_op s
      else
        bindE (replace_state (s\<lparr>next_timer_ms := Some now_ms\<rparr>)) (\<lambda>s1.
        bindE (mk_effect (Schedule now_ms)) (\<lambda>e.
        decide s1 [RequestObservation TIMER, e])))"

fun record_deadline :: "action_record \<Rightarrow> int option" where
  "record_deadline (ProbeRecord a) = worker_deadline_ms a"
| "record_deadline (ApplicationRecord a) = worker_deadline_ms a"
| "record_deadline (PlanningRecord a) = None"
| "record_deadline (PreparationRecord a) = worker_deadline_ms a"
| "record_deadline (FinalizationRecord a) = worker_deadline_ms a"

definition worker_timed_out ::
  "state \<Rightarrow> int \<Rightarrow> action_id \<Rightarrow> int \<Rightarrow> bool \<Rightarrow> decision result" where
  "worker_timed_out s now_ms a deadline_ms manager_confirmed =
     (case action_for_id s a of
        None \<Rightarrow> no_op s
      | Some action \<Rightarrow>
        if is_planning_record action \<or>
           record_lifecycle action \<notin> {DISPATCHED, STOPPING} \<or>
           record_deadline action \<noteq> Some deadline_ms \<or>
           (\<not> manager_confirmed \<and> now_ms < deadline_ms)
        then no_op s
        else stop_uncertain_mutator s action TIMED_OUT now_ms)"

definition worker_status_unknown :: "state \<Rightarrow> int \<Rightarrow> action_id \<Rightarrow> decision result" where
  "worker_status_unknown s now_ms a =
     (case action_for_id s a of
        None \<Rightarrow> no_op s
      | Some action \<Rightarrow>
        if record_lifecycle action \<notin> {DISPATCHED, STOPPING} then no_op s
        else stop_uncertain_mutator s action UNKNOWN now_ms)"

definition dispatch_rejected :: "state \<Rightarrow> int \<Rightarrow> action_id \<Rightarrow> decision result" where
  "dispatch_rejected s now_ms a =
     (case action_for_id s a of
        None \<Rightarrow> no_op s
      | Some action \<Rightarrow>
        if record_lifecycle action \<noteq> ADMITTED then no_op s
        else fail_action s a FAILED now_ms)"

definition observation_failed :: "state \<Rightarrow> int \<Rightarrow> decision result" where
  "observation_failed s now_ms =
     schedule s (now_ms + OBSERVATION_FAILURE_RETRY_MS) (stop_effects (stopping_mutator s))"

text \<open>The chain of \<^verbatim>\<open>isinstance\<close> tests of \<^verbatim>\<open>reduce\<close> after its guards.\<close>

fun handle_event :: "state \<Rightarrow> event \<Rightarrow> decision result" where
  "handle_event s (ObservationCompleted m ob) = observe s ob"
| "handle_event s (ObservationFailed m reason) = observation_failed s (processed_at_ms m)"
| "handle_event s (DrmHintReceived m g) = drm_hint s (processed_at_ms m) g"
| "handle_event s (TimerFired m deadline) = timer_fired s (processed_at_ms m) deadline"
| "handle_event s (AdmissionDirtied m a g) = admission_dirtied s (processed_at_ms m) a g"
| "handle_event s (ProbeDispatched m a u) = dispatched s a u (processed_at_ms m)"
| "handle_event s (ApplicationDispatched m a u) = dispatched s a u (processed_at_ms m)"
| "handle_event s (PreparationDispatched m a u) = dispatched s a u (processed_at_ms m)"
| "handle_event s (FinalizationDispatched m a u) = dispatched s a u (processed_at_ms m)"
| "handle_event s (ProbeFinished m a r x) = finished s a r x (processed_at_ms m) None"
| "handle_event s (ApplicationFinished m a r x) = finished s a r x (processed_at_ms m) None"
| "handle_event s (FinalizationFinished m a r x) = finished s a r x (processed_at_ms m) None"
| "handle_event s (PreparationFinished m a r x h) =
     finished s a r x (processed_at_ms m) (Some h)"
| "handle_event s (PlanRequested m a k) = plan_requested s a k"
| "handle_event s (PlanCompleted m a k h) = plan_completed s (processed_at_ms m) a k h"
| "handle_event s (PlanFailed m a k reason x retryable) =
     plan_failed s (processed_at_ms m) a k x retryable"
| "handle_event s (DispatchRejected m a reason) = dispatch_rejected s (processed_at_ms m) a"
| "handle_event s (WorkerStatusUnknown m a reason) =
     worker_status_unknown s (processed_at_ms m) a"
| "handle_event s (WorkerTimedOut m a d c) = worker_timed_out s (processed_at_ms m) a d c"
| "handle_event s (WorkerCancellationAcknowledged m a l x) =
     cancellation_acknowledged s (processed_at_ms m) a l x"
| "handle_event s (ControllerStarted m i) = controller_started s (processed_at_ms m) i"
| "handle_event s (BootChanged m previous) = boot_changed s m previous"

fun is_boot_changed :: "event \<Rightarrow> bool" where
  "is_boot_changed (BootChanged m previous) = True"
| "is_boot_changed _ = False"

text \<open>
  The closed union makes \<^verbatim>\<open>UnknownEventError\<close> unreachable: every \<open>event\<close> is one of
  the classes of \<^verbatim>\<open>EVENT_TYPES\<close>.
\<close>

definition reduce :: "state \<Rightarrow> event \<Rightarrow> decision result" where
  "reduce s e =
     bindE (assert_controller_invariants s) (\<lambda>_.
     if is_boot_changed e then handle_event s e
     else if md_boot_id (event_metadata_of e) \<noteq> boot_id s then no_op s
     else if phase s = RECOVERING \<and> recovery_units s \<noteq> [] then no_op s
     else handle_event s e)"

end
