(* ===== verification/Reducer_Frames.thy ===== *)
theory Reducer_Frames
  imports Reducer
begin

text \<open>
  What every step of the reducer keeps. \<open>frame s t\<close> relates the states before and after
  any part of a handler that neither records an observation nor restarts: identities,
  evidence and generations are kept, epochs and high-water marks only grow, the
  physical token changes only together with the physical epoch, terminal evidence stays
  bounded, and every retained identity was retained before or is freshly allocated.
\<close>

section \<open>The frame relation\<close>

definition retained_ids :: "state \<Rightarrow> action_id set" where
  "retained_ids s =
     set_option (map_option action_id (probe s)) \<union>
     set_option (map_option action_id (application s)) \<union>
     set_option (map_option action_id (planning s)) \<union>
     set_option (map_option action_id (preparation s)) \<union>
     set_option (map_option action_id (finalization s))"

definition fresh_ids :: "state \<Rightarrow> state \<Rightarrow> action_id set" where
  "fresh_ids s t = {a. aid_instance a = controller_instance s \<and>
     action_sequence_high_water s < aid_sequence a \<and>
     aid_sequence a \<le> action_sequence_high_water t}"

definition tombstone_ids :: "state \<Rightarrow> action_id set" where
  "tombstone_ids s = tomb_action_id ` set (action_tombstones s)"

text \<open>
  The evidence that ends external intent: a valid sample without external hardware, at
  least the stability interval after the first sample of the unplug proof before. A
  proof in progress was either started before or starts with the latest sample.
\<close>

definition unplug_evidence :: "state \<Rightarrow> state \<Rightarrow> bool" where
  "unplug_evidence s t \<longleftrightarrow>
     present (latest_observation t) (\<lambda>ob. ob_valid ob \<and> \<not> has_external_hardware ob \<and>
       present (unplug_proof s) (\<lambda>p.
         ob_observed_at_ms ob - up_first_observed_at_ms p \<ge> UNPLUG_STABILITY_MS))"

definition proof_started :: "state \<Rightarrow> state \<Rightarrow> unplug_proof \<Rightarrow> bool" where
  "proof_started s t p \<longleftrightarrow>
     present (unplug_proof s)
       (\<lambda>q. up_first_observed_at_ms q = up_first_observed_at_ms p) \<or>
     present (latest_observation t)
       (\<lambda>ob. up_first_observed_at_ms p = ob_observed_at_ms ob)"

definition frame :: "state \<Rightarrow> state \<Rightarrow> bool" where
  "frame s t \<longleftrightarrow>
     boot_id t = boot_id s \<and> controller_instance t = controller_instance s \<and>
     display_identity t = display_identity s \<and>
     graphical_session_id t = graphical_session_id s \<and>
     latest_observation t = latest_observation s \<and>
     observation_generation t = observation_generation s \<and>
     event_generation t = event_generation s \<and> last_drm_at_ms t = last_drm_at_ms s \<and>
     reconcile_epoch s \<le> reconcile_epoch t \<and>
     action_sequence_high_water s \<le> action_sequence_high_water t \<and>
     transition_sequence_high_water s \<le> transition_sequence_high_water t \<and>
     (physical_token t = physical_token s \<and> physical_epoch t = physical_epoch s \<or>
      physical_epoch s < physical_epoch t) \<and>
     (length (action_tombstones s) \<le> ACTION_TOMBSTONE_RETENTION_LIMIT \<longrightarrow>
      length (action_tombstones t) \<le> ACTION_TOMBSTONE_RETENTION_LIMIT) \<and>
     retained_ids t \<subseteq> retained_ids s \<union> fresh_ids s t \<and>
     tombstone_ids t \<subseteq> tombstone_ids s \<union> retained_ids s \<union> fresh_ids s t \<and>
     (external_intent s \<and> \<not> external_intent t \<longrightarrow> unplug_evidence s t) \<and>
     (\<forall>p. unplug_proof t = Some p \<longrightarrow> proof_started s t p)"

lemma frame_refl [simp]: "frame s s"
  by (auto simp: frame_def proof_started_def)

lemma unplug_evidence_trans:
  assumes "frame s t" and "frame t u" and "external_intent s" and "\<not> external_intent u"
  shows "unplug_evidence s u"
proof -
  have latest: "latest_observation u = latest_observation t"
    using assms(2) by (simp add: frame_def)
  show ?thesis
  proof (cases "external_intent t")
    case False
    then have "unplug_evidence s t" using assms(1,3) by (simp add: frame_def)
    with latest show ?thesis by (simp add: unplug_evidence_def)
  next
    case True
    then have "unplug_evidence t u" using assms(2,4) by (simp add: frame_def)
    then obtain ob p where ob: "latest_observation u = Some ob" "ob_valid ob"
        "\<not> has_external_hardware ob" and p: "unplug_proof t = Some p"
        "ob_observed_at_ms ob - up_first_observed_at_ms p \<ge> UNPLUG_STABILITY_MS"
      by (auto simp: unplug_evidence_def present_iff)
    have "proof_started s t p" using assms(1) p(1) by (simp add: frame_def)
    with ob p latest show ?thesis
      by (auto simp: proof_started_def unplug_evidence_def present_iff UNPLUG_STABILITY_MS_def)
  qed
qed

lemma proof_started_trans:
  assumes "frame s t" and "frame t u" and "unplug_proof u = Some p"
  shows "proof_started s u p"
proof -
  have latest: "latest_observation u = latest_observation t"
    using assms(2) by (simp add: frame_def)
  have "proof_started t u p" using assms(2,3) by (simp add: frame_def)
  then consider q where "unplug_proof t = Some q"
      "up_first_observed_at_ms q = up_first_observed_at_ms p"
    | "present (latest_observation u) (\<lambda>ob. up_first_observed_at_ms p = ob_observed_at_ms ob)"
    by (auto simp: proof_started_def present_iff)
  then show ?thesis
  proof cases
    case 1
    then have "proof_started s t q" using assms(1) by (simp add: frame_def)
    with 1 latest show ?thesis by (simp add: proof_started_def)
  qed (simp add: proof_started_def)
qed

lemma frame_trans:
  assumes "frame s t" and "frame t u" shows "frame s u"
proof -
  have marks: "action_sequence_high_water s \<le> action_sequence_high_water t"
    "action_sequence_high_water t \<le> action_sequence_high_water u"
    "controller_instance t = controller_instance s"
    using assms unfolding frame_def by simp_all
  then have "fresh_ids s t \<subseteq> fresh_ids s u" "fresh_ids t u \<subseteq> fresh_ids s u"
    by (auto simp: fresh_ids_def)
  moreover have "retained_ids u \<subseteq> retained_ids s \<union> fresh_ids s t \<union> fresh_ids t u"
    "tombstone_ids u \<subseteq> tombstone_ids s \<union> retained_ids s \<union> fresh_ids s t \<union> fresh_ids t u"
    using assms unfolding frame_def by blast+
  ultimately have "retained_ids u \<subseteq> retained_ids s \<union> fresh_ids s u"
    "tombstone_ids u \<subseteq> tombstone_ids s \<union> retained_ids s \<union> fresh_ids s u"
    by blast+
  moreover have "external_intent s \<and> \<not> external_intent u \<longrightarrow> unplug_evidence s u"
    "\<forall>p. unplug_proof u = Some p \<longrightarrow> proof_started s u p"
    using unplug_evidence_trans [OF assms] proof_started_trans [OF assms] by blast+
  moreover have counters: "reconcile_epoch s \<le> reconcile_epoch t"
    "reconcile_epoch t \<le> reconcile_epoch u"
    "transition_sequence_high_water s \<le> transition_sequence_high_water t"
    "transition_sequence_high_water t \<le> transition_sequence_high_water u"
    "physical_token t = physical_token s \<and> physical_epoch t = physical_epoch s \<or>
     physical_epoch s < physical_epoch t"
    "physical_token u = physical_token t \<and> physical_epoch u = physical_epoch t \<or>
     physical_epoch t < physical_epoch u"
    "length (action_tombstones s) \<le> ACTION_TOMBSTONE_RETENTION_LIMIT \<longrightarrow>
     length (action_tombstones t) \<le> ACTION_TOMBSTONE_RETENTION_LIMIT"
    "length (action_tombstones t) \<le> ACTION_TOMBSTONE_RETENTION_LIMIT \<longrightarrow>
     length (action_tombstones u) \<le> ACTION_TOMBSTONE_RETENTION_LIMIT"
    using assms unfolding frame_def by simp_all
  moreover from counters(1,2) marks have "reconcile_epoch s \<le> reconcile_epoch u"
    "action_sequence_high_water s \<le> action_sequence_high_water u" by linarith+
  moreover from counters(3,4)
  have "transition_sequence_high_water s \<le> transition_sequence_high_water u" by linarith
  moreover from counters(5,6)
  have "physical_token u = physical_token s \<and> physical_epoch u = physical_epoch s \<or>
     physical_epoch s < physical_epoch u" by auto
  moreover from counters(7,8)
  have "length (action_tombstones s) \<le> ACTION_TOMBSTONE_RETENTION_LIMIT \<longrightarrow>
     length (action_tombstones u) \<le> ACTION_TOMBSTONE_RETENTION_LIMIT" by blast
  ultimately show ?thesis using assms unfolding frame_def by simp
qed

text \<open>Assignments to fields the frame does not speak of.\<close>

lemma frame_updates [simp]:
  "frame s (t\<lparr>phase := a1\<rparr>) = frame s t"
  "frame s (t\<lparr>planning_state := a2\<rparr>) = frame s t"
  "frame s (t\<lparr>preparation_state := a3\<rparr>) = frame s t"
  "frame s (t\<lparr>candidate := a4\<rparr>) = frame s t"
  "frame s (t\<lparr>aggressive_deadline_ms := a5\<rparr>) = frame s t"
  "frame s (t\<lparr>next_timer_ms := a6\<rparr>) = frame s t"
  "frame s (t\<lparr>backoff_index := a7\<rparr>) = frame s t"
  "frame s (t\<lparr>verify_since_ms := a8\<rparr>) = frame s t"
  "frame s (t\<lparr>stable_x_profile := a9\<rparr>) = frame s t"
  "frame s (t\<lparr>desktop_finalized_profile := a10\<rparr>) = frame s t"
  "frame s (t\<lparr>desktop_finalization_required := a11\<rparr>) = frame s t"
  "frame s (t\<lparr>baseline_adoption := a13\<rparr>) = frame s t"
  "frame s (t\<lparr>attempted_probe_keys := a14\<rparr>) = frame s t"
  "frame s (t\<lparr>attempted_application_keys := a15\<rparr>) = frame s t"
  "frame s (t\<lparr>immediate_retry_used_profiles := a16\<rparr>) = frame s t"
  "frame s (t\<lparr>unknown_key := a17\<rparr>) = frame s t"
  "frame s (t\<lparr>unknown_since_ms := a18\<rparr>) = frame s t"
  "frame s (t\<lparr>recovery_units := a20\<rparr>) = frame s t"
  by (simp_all add: frame_def retained_ids_def fresh_ids_def tombstone_ids_def
      unplug_evidence_def proof_started_def)

lemma frame_self [simp]:
  "frame t (t\<lparr>external_intent := True\<rparr>)"
  "frame t (t\<lparr>external_intent := external_intent t \<or> b\<rparr>)"
  "frame t (t\<lparr>unplug_proof := None\<rparr>)"
  "frame t (t\<lparr>probe := None\<rparr>)"
  "frame t (t\<lparr>application := None\<rparr>)"
  "frame t (t\<lparr>planning := None\<rparr>)"
  "frame t (t\<lparr>preparation := None\<rparr>)"
  "frame t (t\<lparr>finalization := None\<rparr>)"
  by (simp_all add: frame_def proof_started_def tombstone_ids_def retained_ids_def) blast+

lemma frame_intent [simp]:
  "frame s t \<Longrightarrow> frame s (t\<lparr>external_intent := True\<rparr>)"
  "frame s t \<Longrightarrow> frame s (t\<lparr>external_intent := external_intent t \<or> b\<rparr>)"
  "frame s t \<Longrightarrow> frame s (t\<lparr>unplug_proof := None\<rparr>)"
  by (rule frame_trans, assumption, simp)+

lemma frame_drop [simp]:
  "frame s t \<Longrightarrow> frame s (t\<lparr>probe := None\<rparr>)"
  "frame s t \<Longrightarrow> frame s (t\<lparr>application := None\<rparr>)"
  "frame s t \<Longrightarrow> frame s (t\<lparr>planning := None\<rparr>)"
  "frame s t \<Longrightarrow> frame s (t\<lparr>preparation := None\<rparr>)"
  "frame s t \<Longrightarrow> frame s (t\<lparr>finalization := None\<rparr>)"
  by (rule frame_trans, assumption, simp)+

text \<open>Replacing a retained action by a rebuilt one with the same identity.\<close>

lemma retained_ids_update:
  "retained_ids (t\<lparr>probe := Some p\<rparr>) \<subseteq> insert (action_id p) (retained_ids t)"
  "retained_ids (t\<lparr>application := Some a\<rparr>) \<subseteq> insert (action_id a) (retained_ids t)"
  "retained_ids (t\<lparr>planning := Some l\<rparr>) \<subseteq> insert (action_id l) (retained_ids t)"
  "retained_ids (t\<lparr>preparation := Some d\<rparr>) \<subseteq> insert (action_id d) (retained_ids t)"
  "retained_ids (t\<lparr>finalization := Some d\<rparr>) \<subseteq> insert (action_id d) (retained_ids t)"
  by (auto simp: retained_ids_def)

lemma frame_rebuild:
  "frame s t \<Longrightarrow> action_id p \<in> retained_ids t \<Longrightarrow> frame s (t\<lparr>probe := Some p\<rparr>)"
  "frame s t \<Longrightarrow> action_id a \<in> retained_ids t \<Longrightarrow> frame s (t\<lparr>application := Some a\<rparr>)"
  "frame s t \<Longrightarrow> action_id l \<in> retained_ids t \<Longrightarrow> frame s (t\<lparr>planning := Some l\<rparr>)"
  "frame s t \<Longrightarrow> action_id d \<in> retained_ids t \<Longrightarrow> frame s (t\<lparr>preparation := Some d\<rparr>)"
  "frame s t \<Longrightarrow> action_id d \<in> retained_ids t \<Longrightarrow> frame s (t\<lparr>finalization := Some d\<rparr>)"
proof -
  have "frame t (t\<lparr>probe := Some p\<rparr>)" if "action_id p \<in> retained_ids t"
    using retained_ids_update(1) [where t = t and p = p] that by (auto simp: frame_def tombstone_ids_def unplug_evidence_def proof_started_def)
  then show "frame s t \<Longrightarrow> action_id p \<in> retained_ids t \<Longrightarrow> frame s (t\<lparr>probe := Some p\<rparr>)"
    by (blast intro: frame_trans)
  have "frame t (t\<lparr>application := Some a\<rparr>)" if "action_id a \<in> retained_ids t"
    using retained_ids_update(2) [where t = t and a = a] that by (auto simp: frame_def tombstone_ids_def unplug_evidence_def proof_started_def)
  then show "frame s t \<Longrightarrow> action_id a \<in> retained_ids t \<Longrightarrow> frame s (t\<lparr>application := Some a\<rparr>)"
    by (blast intro: frame_trans)
  have "frame t (t\<lparr>planning := Some l\<rparr>)" if "action_id l \<in> retained_ids t"
    using retained_ids_update(3) [where t = t and l = l] that by (auto simp: frame_def tombstone_ids_def unplug_evidence_def proof_started_def)
  then show "frame s t \<Longrightarrow> action_id l \<in> retained_ids t \<Longrightarrow> frame s (t\<lparr>planning := Some l\<rparr>)"
    by (blast intro: frame_trans)
  have "frame t (t\<lparr>preparation := Some d\<rparr>)" if "action_id d \<in> retained_ids t"
    using retained_ids_update(4) [where t = t and d = d] that by (auto simp: frame_def tombstone_ids_def unplug_evidence_def proof_started_def)
  then show "frame s t \<Longrightarrow> action_id d \<in> retained_ids t \<Longrightarrow> frame s (t\<lparr>preparation := Some d\<rparr>)"
    by (blast intro: frame_trans)
  have "frame t (t\<lparr>finalization := Some d\<rparr>)" if "action_id d \<in> retained_ids t"
    using retained_ids_update(5) [where t = t and d = d] that by (auto simp: frame_def tombstone_ids_def unplug_evidence_def proof_started_def)
  then show "frame s t \<Longrightarrow> action_id d \<in> retained_ids t \<Longrightarrow> frame s (t\<lparr>finalization := Some d\<rparr>)"
    by (blast intro: frame_trans)
qed

lemma retained_idsI [simp]:
  "probe s = Some p \<Longrightarrow> action_id p \<in> retained_ids s"
  "application s = Some a \<Longrightarrow> action_id a \<in> retained_ids s"
  "planning s = Some l \<Longrightarrow> action_id l \<in> retained_ids s"
  "preparation s = Some d \<Longrightarrow> action_id d \<in> retained_ids s"
  "finalization s = Some d \<Longrightarrow> action_id d \<in> retained_ids s"
  by (auto simp: retained_ids_def)

lemma state_actions_ids: "record_id ` set (state_actions s) = retained_ids s"
  by (cases "probe s"; cases "application s"; cases "planning s"; cases "preparation s";
      cases "finalization s") (auto simp: state_actions_def retained_ids_def)

section \<open>The shared steps keep the frame\<close>

lemma frame_trans2: "frame t u \<Longrightarrow> frame s t \<Longrightarrow> frame s u"
  by (rule frame_trans)

named_theorems framed \<open>steps that keep the frame\<close>

lemma append_tombstone_effect:
  assumes "append_tombstone s a l = Inr t"
  shows "\<exists>us ts. t = s\<lparr>recovery_units := us, action_tombstones := ts\<rparr> \<and>
     length ts \<le> ACTION_TOMBSTONE_RETENTION_LIMIT \<and>
     tomb_action_id ` set ts \<subseteq> insert (record_id a) (tombstone_ids s)"
proof -
  obtain ts where ts: "bound_action_tombstones
        (filter (\<lambda>t. tomb_action_id t \<noteq> record_id a) (action_tombstones s) @
          [ActionTombstone (record_id a) l]) (set (map record_id (state_actions s))) = Inr ts"
    and t: "\<exists>us. t = s\<lparr>recovery_units := us, action_tombstones := ts\<rparr>"
    using assms
    by (auto simp: append_tombstone_def clear_recovery_unit_def Let_def bindE_eq_Inr)
  have "set ts \<subseteq> set (filter (\<lambda>t. tomb_action_id t \<noteq> record_id a) (action_tombstones s) @
      [ActionTombstone (record_id a) l])"
    using bound_action_tombstones_cases(1) [OF ts] by (auto elim: list_emb_set)
  then have "tomb_action_id ` set ts \<subseteq> insert (record_id a) (tombstone_ids s)"
    by (auto simp: tombstone_ids_def)
  with t bound_action_tombstones_cases(2) [OF ts] show ?thesis by blast
qed


lemma frame_tombstones:
  assumes "length ts \<le> ACTION_TOMBSTONE_RETENTION_LIMIT" and "i \<in> retained_ids s"
    and "tomb_action_id ` set ts \<subseteq> insert i (tombstone_ids s)"
  shows "frame s (s\<lparr>recovery_units := us, action_tombstones := ts\<rparr>)"
proof -
  define t where "t = s\<lparr>recovery_units := us, action_tombstones := ts\<rparr>"
  have "retained_ids t = retained_ids s" "tombstone_ids t = tomb_action_id ` set ts"
    "unplug_proof t = unplug_proof s" "external_intent t = external_intent s"
    "\<And>p. unplug_proof s = Some p \<Longrightarrow> proof_started s t p"
    by (simp_all add: t_def retained_ids_def tombstone_ids_def proof_started_def)
  moreover have "tomb_action_id ` set ts \<subseteq> tombstone_ids s \<union> retained_ids s"
    using assms(2,3) by blast
  ultimately have "frame s t"
    using assms(1) unfolding frame_def by (auto simp: t_def)
  then show ?thesis by (simp add: t_def)
qed

lemma append_tombstone_frame [framed]:
  assumes "append_tombstone s a l = Inr t"
  shows "record_id a \<in> retained_ids s \<longrightarrow> frame s t"
  using append_tombstone_effect [OF assms] frame_tombstones by blast

lemma allocate_action_eq:
  "allocate_action s k = Inr (t, a) \<Longrightarrow>
     t = s\<lparr>action_sequence_high_water := action_sequence_high_water s + 1\<rparr> \<and>
     a = ActionId (controller_instance s) k (action_sequence_high_water s + 1)"
  by (auto simp: allocate_action_def Let_def bindE_eq_Inr)

lemma allocate_transition_eq:
  "allocate_transition s = Inr (t, i) \<Longrightarrow>
     t = s\<lparr>transition_sequence_high_water := transition_sequence_high_water s + 1\<rparr> \<and>
     i = TransitionId (controller_instance s) (transition_sequence_high_water s + 1)"
  by (auto simp: allocate_transition_def Let_def bindE_eq_Inr)

text \<open>Disposing of a plan, and an epoch reset, ask for nothing but the plan's removal.\<close>

definition only_discards :: "effect list \<Rightarrow> bool" where
  "only_discards es \<longleftrightarrow> (\<forall>e \<in> set es. \<exists>a h. e = DiscardPlan a h)"

lemma only_discards_simps [simp]:
  "only_discards []" "only_discards (es @ fs) \<longleftrightarrow> only_discards es \<and> only_discards fs"
  "only_discards (e # es) \<longleftrightarrow> (\<exists>a h. e = DiscardPlan a h) \<and> only_discards es"
  by (auto simp: only_discards_def)

lemma discard_planning_frame [framed]:
  assumes "discard_planning s = Inr (t, es)"
  shows "frame s t \<and> planning_state t = PLAN_IDLE \<and> preparation_state t = PREPARE_IDLE \<and>
    planning t = None \<and> preparation t = None \<and> phase t = phase s \<and> probe t = probe s \<and>
    application t = application s \<and> finalization t = finalization s \<and>
    only_discards es"
proof (cases "planning s")
  case None
  then show ?thesis using assms
    by (auto simp: discard_planning_def bindE_eq_Inr idle_desktop_def)
next
  case (Some pl)
  have "frame s u \<and> phase u = phase s \<and> probe u = probe s \<and> application u = application s \<and>
      finalization u = finalization s"
    if "append_tombstone s (PlanningRecord pl) CANCELLED = Inr u" for u
    using append_tombstone_frame [OF that] append_tombstone_effect [OF that] Some by auto
  then show ?thesis using assms Some
    by (auto simp: discard_planning_def bindE_eq_Inr idle_desktop_def split: if_splits)
qed

lemma clear_recovery_unit_eq:
  "clear_recovery_unit s a = Inr t \<Longrightarrow> \<exists>us. t = s\<lparr>recovery_units := us\<rparr>"
  by (auto simp: clear_recovery_unit_def)

lemma rearm_achieved_application_eq:
  assumes "rearm_achieved_application s p = Inr t"
  shows "\<exists>ks ps. t = s\<lparr>attempted_application_keys := ks, immediate_retry_used_profiles := ps\<rparr>"
proof -
  have "t = s\<lparr>attempted_application_keys := attempted_application_keys t,
      immediate_retry_used_profiles := immediate_retry_used_profiles t\<rparr>"
    using assms by (auto simp: rearm_achieved_application_def Let_def split: if_splits)
  then show ?thesis by blast
qed

lemma reset_application_recovery_eq:
  "reset_application_recovery s p = Inr t \<Longrightarrow>
     \<exists>ks ps. t = s\<lparr>attempted_application_keys := ks, immediate_retry_used_profiles := ps\<rparr>"
  by (auto simp: reset_application_recovery_def)

lemma cancel_if_admitted_frame [framed]:
  assumes "cancel_if_admitted s a = Inr t" and "\<forall>r. a = Some r \<longrightarrow> record_id r \<in> retained_ids s"
  shows "frame s t \<and> (\<exists>us ts. t = s\<lparr>recovery_units := us, action_tombstones := ts\<rparr>)"
proof -
  have "t = s\<lparr>recovery_units := recovery_units t, action_tombstones := action_tombstones t\<rparr>"
    using assms(1)
    by (auto simp: cancel_if_admitted_def dest!: append_tombstone_state
        split: option.splits if_splits)
  moreover have "frame s t"
    using assms append_tombstone_frame
    by (auto simp: cancel_if_admitted_def split: option.splits if_splits)
  ultimately show ?thesis by blast
qed

text \<open>Admitting a fresh action, or putting a retained one back.\<close>

lemma frame_high: "frame s t \<Longrightarrow> action_sequence_high_water s \<le> action_sequence_high_water t"
  and frame_instance: "frame s t \<Longrightarrow> controller_instance t = controller_instance s"
  by (simp_all add: frame_def)

lemma frame_high_water [simp]:
  assumes "frame s t" and "action_sequence_high_water t \<le> n"
  shows "frame s (t\<lparr>action_sequence_high_water := n\<rparr>)"
proof -
  have "frame t (t\<lparr>action_sequence_high_water := n\<rparr>)"
    using assms(2) by (auto simp: frame_def retained_ids_def tombstone_ids_def unplug_evidence_def proof_started_def)
  with assms(1) show ?thesis by (rule frame_trans)
qed

lemma frame_transition_high_water [simp]:
  "frame s t \<Longrightarrow> transition_sequence_high_water t \<le> n \<Longrightarrow>
   frame s (t\<lparr>transition_sequence_high_water := n\<rparr>)"
  by (auto simp: frame_def retained_ids_def fresh_ids_def tombstone_ids_def unplug_evidence_def
      proof_started_def)

definition admissible_id :: "state \<Rightarrow> state \<Rightarrow> action_id \<Rightarrow> bool" where
  "admissible_id s t a \<longleftrightarrow> a \<in> retained_ids t \<or> a \<in> fresh_ids s t"

lemma frame_put_aux:
  assumes "frame s t" and "admissible_id s t a"
    and "retained_ids u \<subseteq> insert a (retained_ids t)"
    and "frame s (u\<lparr>probe := None, application := None, planning := None, preparation := None,
                    finalization := None\<rparr>)"
    and "action_sequence_high_water u = action_sequence_high_water t"
  shows "frame s u"
proof -
  have ids: "retained_ids t \<subseteq> retained_ids s \<union> fresh_ids s t" "fresh_ids s t = fresh_ids s u"
    using assms(1,5) by (auto simp: frame_def fresh_ids_def)
  have "retained_ids u \<subseteq> retained_ids s \<union> fresh_ids s u"
    using assms(2,3) ids unfolding admissible_id_def by blast
  moreover define v where "v = u\<lparr>probe := None, application := None, planning := None,
    preparation := None, finalization := None\<rparr>"
  then have "unplug_evidence s v = unplug_evidence s u" "proof_started s v = proof_started s u"
    "tombstone_ids v = tombstone_ids u" "fresh_ids s v = fresh_ids s u"
    by (auto simp: unplug_evidence_def proof_started_def tombstone_ids_def fresh_ids_def)
  moreover have "frame s v" using assms(4) by (simp add: v_def)
  ultimately show ?thesis unfolding frame_def by (simp add: v_def)
qed

lemma frame_put:
  "frame s t \<Longrightarrow> admissible_id s t (action_id p) \<Longrightarrow> frame s (t\<lparr>probe := Some p\<rparr>)"
  "frame s t \<Longrightarrow> admissible_id s t (action_id a) \<Longrightarrow> frame s (t\<lparr>application := Some a\<rparr>)"
  "frame s t \<Longrightarrow> admissible_id s t (action_id l) \<Longrightarrow> frame s (t\<lparr>planning := Some l\<rparr>)"
  "frame s t \<Longrightarrow> admissible_id s t (action_id d) \<Longrightarrow> frame s (t\<lparr>preparation := Some d\<rparr>)"
  "frame s t \<Longrightarrow> admissible_id s t (action_id d) \<Longrightarrow> frame s (t\<lparr>finalization := Some d\<rparr>)"
  by (rule frame_put_aux; (assumption | rule retained_ids_update | simp))+

lemma admissible_id_retained [simp]:
  "probe t = Some p \<Longrightarrow> admissible_id s t (action_id p)"
  "application t = Some a \<Longrightarrow> admissible_id s t (action_id a)"
  "planning t = Some l \<Longrightarrow> admissible_id s t (action_id l)"
  "preparation t = Some d \<Longrightarrow> admissible_id s t (action_id d)"
  "finalization t = Some d \<Longrightarrow> admissible_id s t (action_id d)"
  by (simp_all add: admissible_id_def)

lemma admissible_id_fresh [simp]:
  "frame s t' \<Longrightarrow> aid_instance a = controller_instance t' \<Longrightarrow>
   aid_sequence a = action_sequence_high_water t' + 1 \<Longrightarrow>
   action_sequence_high_water t = aid_sequence a \<Longrightarrow> admissible_id s t a"
  by (auto simp: admissible_id_def fresh_ids_def dest: frame_high frame_instance)

end
