(* ===== verification/Reducer_Sound.thy ===== *)
theory Reducer_Sound
  imports Reducer_Frames
begin

text \<open>
  What every decision of the reducer guarantees: the state it returns satisfies the
  central invariants, it is framed by the state before, and every effect it emits is
  backed by the returned state, so that a persisted state always explains the work
  that was requested.
\<close>

section \<open>Effects and the state that backs them\<close>

definition current_evidence :: "state \<Rightarrow> event_generation \<Rightarrow> observation_key \<Rightarrow> bool" where
  "current_evidence t g key \<longleftrightarrow>
     present (latest_observation t) (\<lambda>ob. ob_valid ob \<and> ob_observation_key ob = key \<and>
       ob_event_generation ob = g)"

fun effect_backed :: "state \<Rightarrow> effect \<Rightarrow> bool" where
  "effect_backed t (RequestObservation reason) \<longleftrightarrow> True"
| "effect_backed t (Schedule n) \<longleftrightarrow> next_timer_ms t = Some n"
| "effect_backed t (RequestPlan a i key profile) \<longleftrightarrow>
     planning_state t = PLAN_PENDING \<and>
     present (planning t) (\<lambda>pl. action_id pl = a \<and> pl_transition_id pl = i \<and>
       pl_input_key pl = key \<and> pl_profile pl = profile \<and> lifecycle pl = ADMITTED)"
| "effect_backed t (ActivateProbe a k output internal mode g key) \<longleftrightarrow>
     phase t = PROBE_PENDING \<and> current_evidence t g key \<and>
     present (probe t) (\<lambda>p.
       activate_probe_effect p key = ActivateProbe a k output internal mode g key)"
| "effect_backed t (ApplyProfile a k profile mapping g key) \<longleftrightarrow>
     phase t = APPLY_PENDING \<and> current_evidence t g key \<and>
     present (application t) (\<lambda>p.
       apply_profile_effect p key = ApplyProfile a k profile mapping g key)"
| "effect_backed t (PrepareDesktop a i tk profile h g key) \<longleftrightarrow>
     preparation_state t = PREPARE_PENDING \<and> current_evidence t g key \<and>
     present (preparation t) (\<lambda>p. prepare_effect p key = PrepareDesktop a i tk profile h g key)"
| "effect_backed t (FinalizeDesktop a i tk profile h g key) \<longleftrightarrow>
     phase t = FINALIZE_PENDING \<and> current_evidence t g key \<and>
     present (finalization t)
       (\<lambda>p. finalize_effect p key = FinalizeDesktop a i tk profile h g key)"
| "effect_backed t (StopAction a) \<longleftrightarrow>
     list_ex (\<lambda>r. record_id r = a \<and> record_lifecycle r = STOPPING) (state_actions t)"
| "effect_backed t (DiscardPlan a h) \<longleftrightarrow> True"

fun is_schedule :: "effect \<Rightarrow> bool" where
  "is_schedule (Schedule n) = True"
| "is_schedule _ = False"

lemma only_discards_backed [simp]:
  "only_discards es \<Longrightarrow> x \<in> set es \<Longrightarrow> effect_backed t x"
  "only_discards es \<Longrightarrow> x \<in> set es \<Longrightarrow> \<not> is_schedule x"
  by (auto simp: only_discards_def)

definition accounted :: "state \<Rightarrow> decision \<Rightarrow> bool" where
  "accounted s d \<longleftrightarrow>
     passes (assert_controller_invariants (dec_state d)) \<and> frame s (dec_state d) \<and>
     (\<forall>x \<in> set (dec_effects d). effect_backed (dec_state d) x)"

lemma effect_backed_next_timer [simp]:
  "\<not> is_schedule x \<Longrightarrow> effect_backed (t\<lparr>next_timer_ms := n\<rparr>) x \<longleftrightarrow> effect_backed t x"
  by (cases x) (simp_all add: current_evidence_def state_actions_def)

section \<open>The shared decisions\<close>

lemma provided_bindI:
  "(\<And>x. r = Inr x \<Longrightarrow> provided (f x) P) \<Longrightarrow> provided (bindE r f) P"
  by (auto simp: provided_def bindE_eq_Inr)

named_theorems vc \<open>partial-correctness rules of the handlers\<close>

lemma decide_accounted [vc]:
  "frame s0 s \<Longrightarrow> (\<forall>x \<in> set es. effect_backed s x) \<Longrightarrow> provided (decide s es) (accounted s0)"
  by (auto simp: decide_def provided_def bindE_eq_Inr accounted_def passes_def)

lemma no_op_accounted [vc]: "frame s0 s \<Longrightarrow> provided (no_op s) (accounted s0)"
  unfolding no_op_def by (rule decide_accounted) simp_all

lemma schedule_accounted [vc]:
  assumes "frame s0 s" and "\<forall>x \<in> set es. effect_backed s x \<and> \<not> is_schedule x"
  shows "provided (schedule s n es) (accounted s0)"
  unfolding schedule_def
  by (intro provided_bindI decide_accounted) (use assms in auto)

lemma quiesce_accounted [vc]:
  assumes "frame s0 s" and "only_discards es"
  shows "provided (quiesce s es) (accounted s0)"
  unfolding quiesce_def
  by (intro provided_bindI decide_accounted) (use assms in auto)

lemma enter_wait_accounted [vc]:
  assumes "frame s0 s"
  shows "provided (enter_wait s n) (accounted s0)"
  unfolding enter_wait_def clear_proof_def Let_def
  by (auto intro!: provided_bindI schedule_accounted simp: bindE_eq_Inr assms
      split: option.splits)

lemma defer_while_asleep_accounted [vc]:
  assumes "frame s0 s"
  shows "provided (defer_while_asleep s n) (accounted s0)"
  unfolding defer_while_asleep_def clear_proof_def
  by (auto intro!: provided_bindI schedule_accounted simp: assms)

section \<open>Admissions\<close>

lemma frame_step:
  "frame s0 s \<Longrightarrow> frame s t \<Longrightarrow> frame s0 t \<and> latest_observation t = latest_observation s"
  by (auto intro: frame_trans simp: frame_def [of s t])

lemmas new_simps = new_probe_action_def activate_probe_effect_def new_application_action_def
  apply_profile_effect_def new_planning_action_def new_desktop_action_def prepare_effect_def
  finalize_effect_def current_evidence_def

lemma admit_probe_accounted [vc]:
  assumes "frame s0 s" and "latest_observation s = Some ob" and "ob_valid ob"
  shows "provided (admit_probe s ob) (accounted s0)"
proof (cases "ob_probe_candidate ob")
  case None
  then show ?thesis using assms by (simp add: admit_probe_def enter_wait_accounted)
next
  case (Some c)
  show ?thesis
    unfolding admit_probe_def Some
    by (auto intro!: provided_bindI vc frame_put
        dest!: discard_planning_frame allocate_action_eq frame_step [OF assms(1)]
        simp: assms enter_wait_accounted new_simps)
qed

lemma make_candidate_eq:
  "make_candidate s ob m = Inr c \<Longrightarrow> cs_profile c = pm_profile m \<and> cs_scope c = pm_scope m \<and>
     cs_observation_key c = ob_observation_key ob \<and> mp_profile (cs_mapping c) = pm_profile m \<and>
     mp_physical_epoch (cs_mapping c) = physical_epoch s \<and> mp_outputs (cs_mapping c) = pm_mapping m"
  by (auto simp: make_candidate_def make_mapping_proof_def bindE_eq_Inr)

lemma admit_fresh_application_accounted [vc]:
  assumes "frame s0 s" and "latest_observation s = Some ob" and "ob_valid ob"
  shows "provided (admit_fresh_application s ob target key cand) (accounted s0)"
  using assms unfolding admit_fresh_application_def
  by (auto intro!: provided_bindI vc frame_put dest!: allocate_action_eq simp: new_simps)

lemma admit_application_accounted [vc]:
  assumes "frame s0 s" and "latest_observation s = Some ob" and "ob_valid ob"
  shows "provided (admit_application s ob target) (accounted s0)"
  unfolding admit_application_def
  by (auto intro!: provided_bindI vc simp: assms)

section \<open>Verification\<close>

lemma admit_plan_eq:
  assumes "admit_plan s ob target = Inr (t, e)" and "frame s0 s"
  shows "frame s0 t \<and> latest_observation t = latest_observation s \<and> effect_backed t e \<and>
     \<not> is_schedule e \<and> planning_state t = PLAN_PENDING \<and> phase t = phase s \<and>
     desktop_finalized_profile t = desktop_finalized_profile s \<and>
     baseline_adoption t = baseline_adoption s \<and> candidate t = candidate s \<and>
     (\<exists>a i k p. e = RequestPlan a i k p)"
  using assms
  by (auto simp: admit_plan_def bindE_eq_Inr new_simps intro!: frame_put
      dest!: allocate_action_eq allocate_transition_eq)

text \<open>
  The effects an advancing verification starts from: plan disposal, and the request of a
  plan that the state has pending.
\<close>

definition leading_effects :: "state \<Rightarrow> string \<Rightarrow> effect list \<Rightarrow> bool" where
  "leading_effects s profile es \<longleftrightarrow>
     (\<forall>e \<in> set es. \<not> is_schedule e \<and> effect_backed s e \<and>
        ((\<exists>a h. e = DiscardPlan a h) \<or>
         (\<exists>a i k p. e = RequestPlan a i k p) \<and> planning_state s = PLAN_PENDING \<and>
           desktop_finalized_profile s \<noteq> Some profile \<and> \<not> baseline_adoption s))"

lemma leading_effectsD:
  "leading_effects s p es \<Longrightarrow> x \<in> set es \<Longrightarrow> effect_backed s x"
  "leading_effects s p es \<Longrightarrow> x \<in> set es \<Longrightarrow> \<not> is_schedule x"
  by (auto simp: leading_effects_def)

lemma leading_effects_discards:
  "leading_effects s p es \<Longrightarrow> planning_state s \<noteq> PLAN_PENDING \<or> baseline_adoption s \<or>
     desktop_finalized_profile s = Some p \<Longrightarrow> only_discards es"
  by (auto simp: leading_effects_def only_discards_def)

lemma leading_effects_planning:
  assumes "leading_effects s p es" and "x \<in> set es"
    and "planning_state t = planning_state s" and "planning t = planning s"
  shows "effect_backed t x \<and> \<not> is_schedule x"
  using assms by (cases x) (auto simp: leading_effects_def)

lemma admit_preparation_admitted:
  assumes "admit_preparation s ob cand leading = Inr (t, es)"
    and "preparation_due s ob (cs_profile cand)" and "frame s0 s"
    and "latest_observation s = Some ob" and "ob_valid ob"
  shows "frame s0 t \<and> latest_observation t = Some ob \<and> preparation_state t = PREPARE_PENDING \<and>
    planning_state t = PLAN_READY \<and> desktop_finalized_profile t \<noteq> Some (cs_profile cand) \<and>
    \<not> baseline_adoption t \<and>
    (\<exists>e. es = leading @ [e] \<and> effect_backed t e \<and> \<not> is_schedule e)"
proof -
  obtain pl h where pl: "planning s = Some pl" "pl_plan_hash pl = Some h"
    and due: "desktop_finalized_profile s \<noteq> Some (cs_profile cand)" "\<not> baseline_adoption s"
      "planning_state s = PLAN_READY"
    using assms(2) by (auto simp: preparation_due_def present_iff)
  show ?thesis
    using assms(1,3,4,5) unfolding admit_preparation_def pl option.case if_P [OF assms(2)]
    by (auto simp: bindE_eq_Inr new_simps due intro!: frame_put dest!: allocate_action_eq)
qed

lemma admit_preparation_skipped:
  "admit_preparation s ob cand leading = Inr (t, es) \<Longrightarrow>
   \<not> preparation_due s ob (cs_profile cand) \<Longrightarrow> t = s \<and> es = leading"
  by (auto simp: admit_preparation_def split: option.splits)

lemma admit_finalization_accounted:
  assumes "frame s0 s" and "latest_observation s = Some ob" and "ob_valid ob"
    and "leading_effects s profile leading"
  shows "provided (admit_finalization s ob prep profile leading) (accounted s0)"
proof -
  note leading_effects_planning [OF assms(4), simp]
  show ?thesis
    using assms(1-3) unfolding admit_finalization_def
    by (auto intro!: provided_bindI vc frame_put dest!: allocate_action_eq simp: new_simps)
qed

lemma settle_verification_leading:
  assumes "frame s0 s" and "latest_observation s = Some ob" and "ob_valid ob"
    and "leading_effects s profile leading"
  shows "provided (settle_verification s ob profile c leading) (accounted s0)"
proof -
  note discards = leading_effects_discards [OF assms(4)]
  note backed = leading_effectsD [OF assms(4)]
  show ?thesis
    using assms unfolding settle_verification_def Let_def
    by (auto intro!: provided_bindI quiesce_accounted schedule_accounted
          admit_finalization_accounted no_op_accounted
        dest!: discard_planning_frame frame_step [OF assms(1)] reset_application_recovery_eq
        simp: discards backed split: option.split)
qed

lemma settle_verification_admitted:
  assumes "frame s0 s" and "preparation_state s = PREPARE_PENDING"
    and "desktop_finalized_profile s \<noteq> Some profile" and "\<not> baseline_adoption s"
    and "\<forall>x \<in> set leading. effect_backed s x \<and> \<not> is_schedule x"
  shows "provided (settle_verification s ob profile c leading) (accounted s0)"
  using assms unfolding settle_verification_def Let_def
  by (auto intro!: schedule_accounted)

lemma advance_verification_accounted:
  assumes "frame s0 s" and "latest_observation s = Some ob" and "ob_valid ob"
    and "\<forall>c. candidate s = Some c \<longrightarrow> leading_effects s (cs_profile c) leading"
  shows "provided (advance_verification s ob leading) (accounted s0)"
proof (cases "verify_since_ms s = None \<or> candidate s = None")
  case True
  then show ?thesis using assms(1)
    by (auto simp: advance_verification_def enter_wait_accounted split: option.split)
next
  case False
  then obtain since c where sc: "verify_since_ms s = Some since" "candidate s = Some c" by auto
  have leading: "leading_effects s (cs_profile c) leading" using assms(4) sc by simp
  show ?thesis
    unfolding advance_verification_def sc prod.case option.case Let_def
  proof (rule provided_bindI, safe)
    fix t es
    assume admitted: "admit_preparation s ob c leading = Inr (t, es)"
    show "provided (settle_verification t ob (cs_profile c) pc es) (accounted s0)" for pc
    proof (cases "preparation_due s ob (cs_profile c)")
      case True
      from admit_preparation_admitted [OF admitted True assms(1-3)]
        leading_effectsD [OF leading] leading_effects_discards [OF leading] True
      show ?thesis
        by (intro settle_verification_admitted) (auto simp: preparation_due_def)
    next
      case False
      from admit_preparation_skipped [OF admitted False] show ?thesis
        using settle_verification_leading [OF assms(1-3) leading] by simp
    qed
  qed
qed

lemma refresh_proof_frame:
  assumes "refresh_proof s ob target k = Inr (t, es)" and "frame s0 s"
  shows "frame s0 t \<and> latest_observation t = latest_observation s \<and> only_discards es \<and>
     (\<exists>c. candidate t = Some c \<and> cs_profile c = pm_profile target)"
proof (cases "same_verification_proof s ob target")
  case True
  then have "\<exists>c. candidate s = Some c \<and> cs_profile c = pm_profile target"
    by (auto simp: same_verification_proof_def present_iff)
  moreover have "candidate u = candidate s" if "discard_planning s = Inr (u, fs)" for u fs
    using that append_tombstone_state [of s]
    by (fastforce simp: discard_planning_def bindE_eq_Inr idle_desktop_def
        split: option.splits if_splits)
  ultimately show ?thesis
    using assms True
    by (auto simp: refresh_proof_def dest!: discard_planning_frame frame_step [OF assms(2)]
        split: if_splits)
next
  case False
  then show ?thesis
    using assms
    by (auto simp: refresh_proof_def bindE_eq_Inr
        dest!: discard_planning_frame frame_step [OF assms(2)] make_candidate_eq)
qed

lemma request_due_plan_frame:
  assumes "request_due_plan s ob target es = Inr (t, fs)" and "frame s0 s" and "only_discards es"
  shows "frame s0 t \<and> latest_observation t = latest_observation s \<and> candidate t = candidate s \<and>
     leading_effects t (pm_profile target) fs"
proof -
  have old: "leading_effects s p es" for p
    using assms(3) by (auto simp: leading_effects_def only_discards_def)
  show ?thesis
  proof (cases "desktop_finalized_profile s \<noteq> Some (pm_profile target) \<and>
      \<not> baseline_adoption s \<and> planning_state s = PLAN_IDLE")
    case True
    then obtain e where e: "admit_plan s ob target = Inr (t, e)" "fs = es @ [e]"
      using assms(1) by (auto simp: request_due_plan_def bindE_eq_Inr)
    from admit_plan_eq [OF e(1) assms(2)] True assms(3) e(2) show ?thesis
      by (auto simp: leading_effects_def only_discards_def)
  next
    case False
    then show ?thesis using assms old by (auto simp: request_due_plan_def)
  qed
qed

lemma start_verification_accounted [vc]:
  assumes "frame s0 s" and "latest_observation s = Some ob" and "ob_valid ob"
  shows "provided (start_verification s ob target) (accounted s0)"
  unfolding start_verification_def
  using assms
  by (auto intro!: provided_bindI advance_verification_accounted
      dest!: refresh_proof_frame [where ?s0.0 = s0] request_due_plan_frame [where ?s0.0 = s0])

section \<open>Classification\<close>

lemma classify_exact_accounted [vc]:
  assumes "frame s0 s" and "latest_observation s = Some ob" and "ob_valid ob"
  shows "provided (classify_exact s ob target) (accounted s0)"
  unfolding classify_exact_def using assms
  by (auto intro!: provided_bindI vc dest!: rearm_achieved_application_eq)

lemma classify_eligible_accounted [vc]:
  assumes "frame s0 s" and "latest_observation s = Some ob" and "ob_valid ob"
  shows "provided (classify_eligible s ob target) (accounted s0)"
  unfolding classify_eligible_def using assms by (auto intro!: provided_bindI vc)

lemma classify_unknown_accounted [vc]:
  assumes "frame s0 s"
  shows "provided (classify_unknown s ob) (accounted s0)"
  unfolding classify_unknown_def Let_def using assms by (auto intro!: provided_bindI vc)

lemma classify_evidence_accounted [vc]:
  assumes "frame s0 s" and "latest_observation s = Some ob" and "ob_valid ob"
  shows "provided (classify_evidence s ob) (accounted s0)"
  unfolding classify_evidence_def Let_def using assms
  by (auto intro!: provided_bindI vc split: option.split)

lemma classify_finalize_failed_accounted [vc]:
  assumes "frame s0 s" and "latest_observation s = Some ob" and "ob_valid ob"
  shows "provided (classify_finalize_failed s ob) (accounted s0)"
  unfolding classify_finalize_failed_def using assms by (auto intro!: provided_bindI vc)

lemma classify_apply_failed_accounted [vc]:
  assumes "frame s0 s" and "latest_observation s = Some ob" and "ob_valid ob"
  shows "provided (classify_apply_failed s ob) (accounted s0)"
  unfolding classify_apply_failed_def using assms by (auto intro!: provided_bindI vc)

lemma classify_probe_failed_accounted [vc]:
  assumes "frame s0 s" and "latest_observation s = Some ob" and "ob_valid ob"
  shows "provided (classify_probe_failed s ob) (accounted s0)"
  unfolding classify_probe_failed_def using assms by (auto intro!: provided_bindI vc)

lemma extended_unplug_proof_eq:
  assumes "extended_unplug_proof ob q = Inr p"
  shows "up_latest_observed_at_ms p = ob_observed_at_ms ob"
    and "q = None \<Longrightarrow> up_first_observed_at_ms p = ob_observed_at_ms ob \<and> up_observation_count p = 1"
    and "q = Some r \<Longrightarrow> up_first_observed_at_ms p = up_first_observed_at_ms r \<and>
           up_observation_count p = up_observation_count r + 1"
  using assms by (auto simp: extended_unplug_proof_def split: option.splits)

lemma frame_unplug_progress:
  assumes "extended_unplug_proof ob (unplug_proof s) = Inr p" and "latest_observation s = Some ob"
  shows "frame s (s\<lparr>unplug_proof := Some p\<rparr>)"
  using assms(2) extended_unplug_proof_eq(2,3) [OF assms(1)]
  by (cases "unplug_proof s")
    (auto simp: frame_def proof_started_def retained_ids_def tombstone_ids_def)

lemma frame_unplug_complete:
  assumes "extended_unplug_proof ob (unplug_proof s) = Inr p" and "unplug_complete s ob p"
    and "latest_observation s = Some ob" and "ob_valid ob" and "\<not> has_external_hardware ob"
  shows "frame s (s\<lparr>external_intent := False, unplug_proof := None\<rparr>)"
proof -
  obtain r where r: "unplug_proof s = Some r"
    using assms(2) extended_unplug_proof_eq(2) [OF assms(1)]
    by (cases "unplug_proof s") (auto simp: unplug_complete_def UNPLUG_REQUIRED_SAMPLES_def)
  have "unplug_evidence s (s\<lparr>external_intent := False, unplug_proof := None\<rparr>)"
    using r assms(2-5) extended_unplug_proof_eq(1,3) [OF assms(1)]
    by (simp add: unplug_evidence_def unplug_complete_def)
  then show ?thesis
    by (auto simp: frame_def retained_ids_def tombstone_ids_def)
qed

lemma handle_unplug_frame:
  assumes "handle_unplug s ob = Inr (t, done')" and "frame s0 s"
    and "latest_observation s = Some ob" and "ob_valid ob" and "\<not> has_external_hardware ob"
  shows "frame s0 t \<and> latest_observation t = latest_observation s \<and> phase t = phase s \<and>
    probe t = probe s \<and> application t = application s \<and> finalization t = finalization s"
  using assms frame_unplug_progress [of ob s] frame_unplug_complete [of ob s]
  by (auto simp: handle_unplug_def bindE_eq_Inr intro: frame_trans split: if_splits)

lemma classify_settled_accounted [vc]:
  assumes "frame s0 s" and "latest_observation s = Some ob" and "ob_valid ob"
  shows "provided (classify_settled s ob) (accounted s0)"
proof -
  have drop: "frame s0 (t\<lparr>phase := DISCOVER_FAST, probe := p, application := a,
      finalization := f\<rparr>)"
    if "frame s0 t" "p = None \<or> p = probe t" "a = None \<or> a = application t"
      "f = None \<or> f = finalization t" for t p a f
  proof -
    have "retained_ids (t\<lparr>phase := DISCOVER_FAST, probe := p, application := a,
        finalization := f\<rparr>) \<subseteq> retained_ids t"
      using that(2-4) by (auto simp: retained_ids_def)
    then have "frame t (t\<lparr>phase := DISCOVER_FAST, probe := p, application := a,
        finalization := f\<rparr>)"
      by (auto simp: frame_def tombstone_ids_def proof_started_def)
    with that(1) show ?thesis by (rule frame_trans)
  qed
  show ?thesis
    unfolding classify_settled_def Let_def using assms
    by (auto intro!: provided_bindI vc drop dest!: handle_unplug_frame [OF _ assms])
qed

lemma reset_for_epoch_frame:
  assumes "reset_for_epoch s ob n = Inr (t, es)" and "frame s0 s"
    and "physical_token s \<noteq> Some (ob_physical_token ob)"
  shows "frame s0 t \<and> latest_observation t = latest_observation s \<and> only_discards es"
proof -
  obtain s1 s2 s3 s4 where steps:
    "discard_planning s = Inr (s1, es)"
    "cancel_if_admitted s1 (map_option ProbeRecord (probe s1)) = Inr s2"
    "cancel_if_admitted s2 (map_option ApplicationRecord (application s1)) = Inr s3"
    "cancel_if_admitted s3 (map_option FinalizationRecord (finalization s1)) = Inr s4"
    and t: "t = s4\<lparr>phase := DISCOVER_FAST, physical_epoch := physical_epoch s4 + 1,
        physical_token := Some (ob_physical_token ob),
        reconcile_epoch := reconcile_epoch s4 + 1, candidate := None,
        aggressive_deadline_ms := Some (n + AGGRESSIVE_BUDGET_MS), backoff_index := 0,
        verify_since_ms := None, stable_x_profile := None, attempted_probe_keys := {},
        probe := None, attempted_application_keys := {}, immediate_retry_used_profiles := {},
        application := None, finalization := None, unknown_key := None,
        unknown_since_ms := None, unplug_proof := None,
        baseline_adoption := (phase s4 = RECOVERING \<and> desktop_finalized_profile s4 = None \<and>
           \<not> desktop_finalization_required s4)\<rparr>"
    using assms(1) by (auto simp: reset_for_epoch_def bindE_eq_Inr)
  have ids:
    "\<forall>r. map_option ProbeRecord (probe s1) = Some r \<longrightarrow> record_id r \<in> retained_ids s1"
    "application u = application s1 \<Longrightarrow>
       \<forall>r. map_option ApplicationRecord (application s1) = Some r \<longrightarrow> record_id r \<in> retained_ids u"
    "finalization u = finalization s1 \<Longrightarrow>
       \<forall>r. map_option FinalizationRecord (finalization s1) = Some r \<longrightarrow> record_id r \<in> retained_ids u"
    for u by (auto simp: retained_ids_def)
  have "frame s s1" and d: "only_discards es" using discard_planning_frame [OF steps(1)] by auto
  moreover have 2: "frame s1 s2" "application s2 = application s1"
      "finalization s2 = finalization s1"
    using cancel_if_admitted_frame [OF steps(2) ids(1)] by auto
  moreover have 3: "frame s2 s3" "finalization s3 = finalization s2"
    using cancel_if_admitted_frame [OF steps(3)] ids(2) [of s2] 2 by auto
  moreover have "frame s3 s4"
    using cancel_if_admitted_frame [OF steps(4)] ids(3) [of s3] 2 3 by auto
  ultimately have s4: "frame s s4" by (blast intro: frame_trans)
  then have "frame s4 t" unfolding t
    by (auto simp: frame_def retained_ids_def tombstone_ids_def)
  with s4 have "frame s t" by (rule frame_trans)
  from frame_step [OF assms(2) this] d show ?thesis by simp
qed

end
