(* ===== verification/Sound_Observe.thy ===== *)
theory Sound_Observe
  imports Reducer_Sound
begin

text \<open>
  Observation handling is accounted for: pending admissions, the recursive
  classification (by induction along its termination order), results, stops and the
  invalid path.
\<close>

section \<open>Pending admissions\<close>

definition pending_accounted :: "state \<Rightarrow> canonical_observation \<Rightarrow> pending_outcome \<Rightarrow> bool" where
  "pending_accounted s0 ob p \<longleftrightarrow>
     (case p of
        NotPending \<Rightarrow> True
      | Reissued d \<Rightarrow> accounted s0 d
      | CancelledAdmission t es \<Rightarrow>
          frame s0 t \<and> latest_observation t = Some ob \<and> only_discards es)"

lemma cancelled_admission_accounted:
  assumes "frame s0 s" and "latest_observation s = Some ob"
  shows "provided (cancelled_admission s ob) (pending_accounted s0 ob)"
  unfolding cancelled_admission_def using assms
  by (auto intro!: provided_bindI dest!: reset_for_epoch_frame [where ?s0.0 = s0]
      simp: pending_accounted_def provided_Inr)

lemma reissue_accounted:
  assumes "provided r (accounted s0)"
  shows "provided (bindE r (\<lambda>d. Inr (Reissued d))) (pending_accounted s0 ob)"
  using assms by (auto simp: provided_def bindE_eq_Inr pending_accounted_def)

lemma append_tombstone_step:
  assumes "append_tombstone s a l = Inr t" and "frame s0 s" and "record_id a \<in> retained_ids s"
  shows "frame s0 t \<and> (\<exists>us ts. t = s\<lparr>recovery_units := us, action_tombstones := ts\<rparr>)"
  using append_tombstone_frame [OF assms(1)] append_tombstone_state [OF assms(1)] assms(2,3)
  by (blast intro: frame_trans)

lemma observe_pending_probe_accounted:
  assumes "frame s0 s" and "latest_observation s = Some ob" and "ob_valid ob"
    and "probe s = Some a" and "phase s = PROBE_PENDING"
  shows "provided (observe_pending_probe s ob a) (pending_accounted s0 ob)"
proof (cases "same_probe_admission s ob a")
  case True
  then show ?thesis
    unfolding observe_pending_probe_def using assms
    by (auto intro!: provided_bindI reissue_accounted decide_accounted frame_put simp: new_simps)
next
  case False
  then show ?thesis
    unfolding observe_pending_probe_def using assms
    by (auto intro!: provided_bindI cancelled_admission_accounted
        dest!: append_tombstone_step [OF _ assms(1)])
qed

lemma observe_pending_application_accounted:
  assumes "frame s0 s" and "latest_observation s = Some ob" and "ob_valid ob"
    and "application s = Some a" and "phase s = APPLY_PENDING"
  shows "provided (observe_pending_application s ob a) (pending_accounted s0 ob)"
proof (cases "same_application_admission s ob a")
  case True
  then show ?thesis
    unfolding observe_pending_application_def using assms
    by (auto intro!: provided_bindI reissue_accounted decide_accounted frame_put simp: new_simps)
next
  case False
  then show ?thesis
    unfolding observe_pending_application_def using assms
    by (auto intro!: provided_bindI cancelled_admission_accounted
        dest!: append_tombstone_step [OF _ assms(1)])
qed

lemma observe_pending_preparation_accounted:
  assumes "frame s0 s" and "latest_observation s = Some ob" and "ob_valid ob"
    and "preparation s = Some a" and "preparation_state s = PREPARE_PENDING"
  shows "provided (observe_pending_preparation s ob a) (pending_accounted s0 ob)"
proof (cases "same_exact_desktop s ob a")
  case True
  then show ?thesis
    unfolding observe_pending_preparation_def using assms
    by (auto intro!: provided_bindI reissue_accounted decide_accounted frame_put simp: new_simps)
next
  case False
  then show ?thesis
    unfolding observe_pending_preparation_def using assms
    by (auto intro!: provided_bindI cancelled_admission_accounted
        dest!: append_tombstone_step [OF _ assms(1)])
qed

lemma observe_pending_finalization_accounted:
  assumes "frame s0 s" and "latest_observation s = Some ob" and "ob_valid ob"
    and "finalization s = Some a" and "phase s = FINALIZE_PENDING"
  shows "provided (observe_pending_finalization s ob a) (pending_accounted s0 ob)"
proof (cases "same_exact_finalization s ob")
  case True
  then show ?thesis
    unfolding observe_pending_finalization_def using assms
    by (auto intro!: provided_bindI reissue_accounted decide_accounted frame_put simp: new_simps)
next
  case False
  then show ?thesis
    unfolding observe_pending_finalization_def using assms
    by (auto intro!: provided_bindI cancelled_admission_accounted
        dest!: append_tombstone_step [OF _ assms(1)])
qed

lemma observe_pending_action_accounted:
  assumes "frame s0 s" and "latest_observation s = Some ob" and "ob_valid ob"
  shows "provided (observe_pending_action s ob) (pending_accounted s0 ob)"
  unfolding observe_pending_action_def using assms
  by (auto intro!: observe_pending_probe_accounted observe_pending_application_accounted
      observe_pending_preparation_accounted observe_pending_finalization_accounted
      simp: pending_accounted_def provided_Inr)

section \<open>The recursive classification\<close>

lemma lead_discards_accounted:
  assumes "accounted s0 d" and "only_discards es"
  shows "provided (decide (dec_state d) (es @ dec_effects d)) (accounted s0)"
  using assms by (intro decide_accounted) (auto simp: accounted_def)

lemma classify_observation_accounted:
  assumes "frame s0 s" and "latest_observation s = Some ob" and "ob_valid ob"
  shows "provided (classify_observation s ob) (accounted s0)"
  using assms
proof (induction s ob rule: classify_observation.induct)
  case (1 s ob)
  show ?case
  proof (subst classify_observation.simps, rule provided_bindI)
    fix p assume p: "observe_pending_action s ob = Inr p"
    have ok: "pending_accounted s0 ob p"
      using observe_pending_action_accounted [OF "1.prems"] p by (rule providedD)
    show "provided (case p of Reissued d \<Rightarrow> Inr d
       | CancelledAdmission t epoch_effects \<Rightarrow> bindE (classify_observation t ob)
           (\<lambda>d. decide (dec_state d) (epoch_effects @ dec_effects d))
       | NotPending \<Rightarrow> classify_settled s ob) (accounted s0)"
    proof (cases p)
      case NotPending
      then show ?thesis using classify_settled_accounted [OF "1.prems"] by simp
    next
      case (Reissued d)
      then show ?thesis using ok by (simp add: pending_accounted_def provided_Inr)
    next
      case (CancelledAdmission t es)
      with ok have t: "frame s0 t" "latest_observation t = Some ob" "only_discards es"
        by (simp_all add: pending_accounted_def)
      have "provided (classify_observation t ob) (accounted s0)"
        using "1.IH" [OF p CancelledAdmission t(1,2) "1.prems"(3)] .
      then show ?thesis
        unfolding CancelledAdmission pending_outcome.case
        by (intro provided_bindI lead_discards_accounted [OF _ t(3)]) (rule providedD)
    qed
  qed
qed

lemma classify_after_accounted:
  assumes "frame s0 s" and "latest_observation s = Some ob" and "ob_valid ob"
    and "only_discards es"
  shows "provided (classify_after s ob es) (accounted s0)"
  unfolding classify_after_def
  using classify_observation_accounted [OF assms(1-3)] lead_discards_accounted [OF _ assms(4)]
  by (intro provided_bindI) (auto simp: provided_Inr dest: providedD)

section \<open>Stops\<close>

lemma stop_backed_iff:
  "effect_backed t (StopAction i) \<longleftrightarrow>
     present (probe t) (\<lambda>a. action_id a = i \<and> lifecycle a = STOPPING) \<or>
     present (application t) (\<lambda>a. action_id a = i \<and> lifecycle a = STOPPING) \<or>
     present (planning t) (\<lambda>a. action_id a = i \<and> lifecycle a = STOPPING) \<or>
     present (preparation t) (\<lambda>a. action_id a = i \<and> lifecycle a = STOPPING) \<or>
     present (finalization t) (\<lambda>a. action_id a = i \<and> lifecycle a = STOPPING)"
  by (cases "probe t"; cases "application t"; cases "planning t"; cases "preparation t";
      cases "finalization t") (simp_all add: state_actions_def)

declare effect_backed.simps(8) [simp del]

lemma stopping_mutator_backed [simp]:
  "x \<in> set (stop_effects (stopping_mutator s)) \<Longrightarrow> effect_backed s x \<and> \<not> is_schedule x"
proof -
  assume x: "x \<in> set (stop_effects (stopping_mutator s))"
  then obtain r where r: "stopping_mutator s = Some r" "x = StopAction (record_id r)"
    by (cases "stopping_mutator s") (auto simp: stop_effects_def)
  then have "record_lifecycle r = STOPPING" "r \<in> set (state_actions s)"
    by (auto simp: stopping_mutator_def state_actions_def set_somes dest!: find_Some_in)
  with r(2) show ?thesis by (auto simp: effect_backed.simps(8) list_ex_iff)
qed

lemma stop_probe_accounted [vc]:
  assumes "frame s0 s" and "probe s = Some a"
  shows "provided (stop_probe s a n) (accounted s0)"
  unfolding stop_probe_def using assms
  by (auto intro!: provided_bindI schedule_accounted frame_put
      simp: stop_backed_iff)

lemma stop_application_accounted [vc]:
  assumes "frame s0 s" and "application s = Some a" and "only_discards es"
  shows "provided (stop_application s a n es) (accounted s0)"
  unfolding stop_application_def using assms
  by (auto intro!: provided_bindI schedule_accounted frame_put
      simp: stop_backed_iff)

lemma stop_internal_application_accounted [vc]:
  assumes "frame s0 s" and "application s = Some a"
  shows "provided (stop_internal_application s a n) (accounted s0)"
  unfolding stop_internal_application_def using assms
  by (auto intro!: provided_bindI schedule_accounted frame_put
      simp: stop_backed_iff)

lemma stop_preparation_accounted [vc]:
  assumes "frame s0 s" and "preparation s = Some a" and "only_discards es"
  shows "provided (stop_preparation s a n es) (accounted s0)"
  unfolding stop_preparation_def using assms
  by (auto intro!: provided_bindI schedule_accounted frame_put
      simp: stop_backed_iff)

lemma stop_finalization_accounted [vc]:
  assumes "frame s0 s" and "finalization s = Some a" and "only_discards es"
  shows "provided (stop_finalization s a n es) (accounted s0)"
  unfolding stop_finalization_def using assms
  by (auto intro!: provided_bindI schedule_accounted frame_put
      simp: stop_backed_iff)

section \<open>Invalid observations\<close>

text \<open>A step of the invalid path keeps the frame.\<close>

lemma drop_admitted_frames:
  assumes "frame s0 s"
  shows "drop_admitted_probe s = Inr t \<Longrightarrow> frame s0 t"
    and "drop_admitted_application s = Inr t \<Longrightarrow> frame s0 t"
    and "drop_admitted_finalization s = Inr t \<Longrightarrow> frame s0 t"
    and "drop_admitted_preparation s = Inr (t, es) \<Longrightarrow> frame s0 t \<and> only_discards es"
proof -
  note step = append_tombstone_step [OF _ assms]
  show "drop_admitted_probe s = Inr t \<Longrightarrow> frame s0 t"
    using assms by (auto simp: drop_admitted_probe_def bindE_eq_Inr dest!: step
        split: option.splits if_splits)
  show "drop_admitted_application s = Inr t \<Longrightarrow> frame s0 t"
    using assms by (auto simp: drop_admitted_application_def bindE_eq_Inr dest!: step
        split: option.splits if_splits)
  show "drop_admitted_finalization s = Inr t \<Longrightarrow> frame s0 t"
    using assms by (auto simp: drop_admitted_finalization_def bindE_eq_Inr dest!: step
        split: option.splits if_splits)
  have discard: "frame s0 t \<and> only_discards es"
    if "append_tombstone s (PreparationRecord a) CANCELLED = Inr u" "preparation s = Some a"
      "discard_planning (u\<lparr>phase := DISCOVER_FAST, preparation_state := PREPARE_IDLE,
         preparation := None\<rparr>) = Inr (t, es)" for a u
  proof -
    have "frame s0 u" using step [OF that(1)] that(2) by simp
    then have "frame s0 (u\<lparr>phase := DISCOVER_FAST, preparation_state := PREPARE_IDLE,
         preparation := None\<rparr>)" by simp
    with discard_planning_frame [OF that(3)] show ?thesis by (blast intro: frame_trans)
  qed
  show "drop_admitted_preparation s = Inr (t, es) \<Longrightarrow> frame s0 t \<and> only_discards es"
    using assms discard by (auto simp: drop_admitted_preparation_def bindE_eq_Inr
        split: option.splits if_splits)
qed

lemma settle_invalid_accounted [vc]:
  assumes "frame s0 s" and "only_discards es"
  shows "provided (settle_invalid s ob es) (accounted s0)"
  unfolding settle_invalid_def using assms
  by (auto intro!: provided_bindI schedule_accounted)

lemma drop_admitted_frame:
  assumes "drop_admitted s = Inr (t, es)" and "frame s0 s"
  shows "frame s0 t \<and> only_discards es"
proof -
  obtain s1 s2 s3 where steps: "drop_admitted_probe s = Inr s1"
      "drop_admitted_application s1 = Inr s2" "drop_admitted_preparation s2 = Inr (s3, es)"
      "drop_admitted_finalization s3 = Inr t"
    using assms(1) by (auto simp: drop_admitted_def bindE_eq_Inr)
  have "frame s0 s1" using steps(1) assms(2) by (rule drop_admitted_frames(1) [rotated])
  then have "frame s0 s2" using steps(2) by (rule drop_admitted_frames(2))
  then have "frame s0 s3 \<and> only_discards es" using steps(3) by (rule drop_admitted_frames(4))
  then show ?thesis using steps(4) drop_admitted_frames(3) by blast
qed

lemma observe_invalid_accounted:
  assumes "frame s0 s"
  shows "provided (observe_invalid s ob) (accounted s0)"
  unfolding observe_invalid_def Let_def using assms
  by (auto intro!: provided_bindI stop_application_accounted settle_invalid_accounted
      dest!: drop_admitted_frame [where ?s0.0 = s0]
      simp: live_internal_application_def present_iff)

section \<open>Results\<close>

lemma append_rebuilt:
  assumes "append_tombstone s r l = Inr t" and "frame s0 s" and "record_id r \<in> retained_ids s"
  shows "frame s0 t \<and> latest_observation t = latest_observation s \<and>
    retained_ids t = retained_ids s \<and> verify_since_ms t = verify_since_ms s"
  using append_tombstone_step [OF assms] by (auto simp: retained_ids_def)

lemma frame_put_retained:
  "frame s t \<Longrightarrow> action_id d \<in> retained_ids t \<Longrightarrow> frame s (t\<lparr>preparation := Some d\<rparr>)"
  "frame s t \<Longrightarrow> action_id d \<in> retained_ids t \<Longrightarrow> frame s (t\<lparr>finalization := Some d\<rparr>)"
  by (auto intro!: frame_put simp: admissible_id_def)

lemma fail_pending_finalization_frame:
  assumes "fail_pending_finalization s a since = Inr t" and "frame s0 s"
    and "finalization s = Some a"
  shows "frame s0 t \<and> latest_observation t = latest_observation s"
  using assms
  by (auto simp: fail_pending_finalization_def bindE_eq_Inr intro!: frame_put
      dest!: append_tombstone_step [OF _ assms(2)])

lemma fail_pending_preparation_frame:
  assumes "fail_pending_preparation s a = Inr t" and "frame s0 s" and "preparation s = Some a"
  shows "frame s0 t \<and> latest_observation t = latest_observation s"
  using assms
  by (auto simp: fail_pending_preparation_def bindE_eq_Inr intro!: frame_put
      dest!: append_tombstone_step [OF _ assms(2)])

lemma accept_preparation_frame:
  assumes "accept_preparation s ob a = Inr t" and "frame s0 s" and "preparation s = Some a"
  shows "frame s0 t \<and> latest_observation t = latest_observation s"
  using assms
  by (auto simp: accept_preparation_def bindE_eq_Inr intro!: frame_put
      dest!: append_tombstone_step [OF _ assms(2)])

lemma accept_finalization_accounted:
  assumes "frame s0 s" and "finalization s = Some a" and "only_discards es"
  shows "provided (accept_finalization s a es) (accounted s0)"
  unfolding accept_finalization_def
proof (intro provided_bindI)
  fix s1 r s3 s4
  assume s1: "append_tombstone s (FinalizationRecord a) COMPLETED = Inr s1"
    and r: "discard_planning s1 = Inr r"
  have "frame s0 s1" using append_tombstone_step [OF s1 assms(1)] assms(2) by simp
  moreover obtain s2 fs where r': "r = (s2, fs)" by (cases r)
  ultimately have "frame s0 s2 \<and> only_discards fs"
    using discard_planning_frame [of s1 s2 fs] r by (auto intro: frame_trans)
  then show "provided (case r of (s2, discard_effects) \<Rightarrow>
      bindE (reset_application_recovery s2 (da_profile a)) (\<lambda>s3.
      bindE (replace_state (s3\<lparr>stable_x_profile := Some (da_profile a),
        desktop_finalized_profile := Some (da_profile a), desktop_finalization_required := False,
        finalization := None\<rparr>)) (\<lambda>s4. quiesce s4 (es @ discard_effects)))) (accounted s0)"
    unfolding r' prod.case using assms(3)
    by (auto intro!: provided_bindI quiesce_accounted dest!: reset_application_recovery_eq)
qed

lemma observe_finalizing_accounted:
  assumes "frame s0 s" and "finalization s = Some a" and "only_discards es"
  shows "provided (observe_finalizing s ob a es) (accounted s0)"
  unfolding observe_finalizing_def Let_def using assms
  by (auto intro!: provided_bindI schedule_accounted accept_finalization_accounted
      stop_finalization_accounted
      dest!: fail_pending_finalization_frame [OF _ assms(1)])

lemma observe_preparing_accounted:
  assumes "frame s0 s" and "latest_observation s = Some ob" and "ob_valid ob"
    and "preparation s = Some a" and "only_discards es"
  shows "provided (observe_preparing s ob a es) (accounted s0)"
  unfolding observe_preparing_def Let_def using assms
  by (auto intro!: provided_bindI schedule_accounted classify_after_accounted
      stop_preparation_accounted
      dest!: fail_pending_preparation_frame [OF _ assms(1)] accept_preparation_frame [OF _ assms(1)])

section \<open>Valid observations\<close>

lemma observe_in_flight_accounted:
  assumes "frame s0 s" and "latest_observation s = Some ob" and "ob_valid ob"
    and "only_discards es"
  shows "provided (observe_in_flight s ob es) (accounted s0)"
  unfolding observe_in_flight_def using assms
  by (auto intro!: schedule_accounted observe_finalizing_accounted observe_preparing_accounted
      classify_after_accounted)

lemma refresh_epoch_accounted:
  assumes "frame s0 s" and "latest_observation s = Some ob" and "ob_valid ob"
  shows "provided (refresh_epoch s prior ob) (accounted s0)"
  unfolding refresh_epoch_def token_changed_def using assms
  by (auto intro!: provided_bindI observe_in_flight_accounted
      dest!: reset_for_epoch_frame [where ?s0.0 = s0] simp: bindE_eq_Inr)

lemma provided_ifI:
  "(b \<Longrightarrow> provided r P) \<Longrightarrow> (\<not> b \<Longrightarrow> provided q P) \<Longrightarrow> provided (if b then r else q) P"
  by simp

lemma observe_valid_accounted:
  assumes "frame s0 s" and "latest_observation s = Some ob" and "ob_valid ob"
  shows "provided (observe_valid s prior ob) (accounted s0)"
  unfolding observe_valid_def Let_def
proof (intro provided_ifI, goal_cases)
  case 1
  then show ?case using assms(1)
    by (auto simp: live_internal_application_def present_iff
        intro!: stop_internal_application_accounted)
next
  case 2
  then show ?case using assms(1) by (intro schedule_accounted) simp_all
next
  case 3
  then show ?case using assms(1) by (auto simp: present_iff intro!: stop_probe_accounted)
next
  case 4
  then show ?case using assms(1) by (auto simp: present_iff intro!: stop_application_accounted)
next
  case 5
  then show ?case using assms(1)
    by (auto intro!: provided_bindI schedule_accounted
        dest!: fail_pending_finalization_frame [OF _ assms(1)])
next
  case 6
  then show ?case using assms(1) by (auto intro!: stop_finalization_accounted)
next
  case 7
  then show ?case using assms(1) by (auto intro!: stop_preparation_accounted)
next
  case 8
  show ?case by (rule refresh_epoch_accounted) (rule assms)+
qed

end
