(* ===== verification/Sound_Workers.thy ===== *)
theory Sound_Workers
  imports Sound_Observe
begin

text \<open>
  Worker, planner, timer and lifecycle events are accounted for, and none of them asks
  for a mutation: only a valid observation does.
\<close>

section \<open>Dispatch and completion\<close>

lemma dispatched_accounted:
  assumes "frame s0 s"
  shows "provided (dispatched s a u n) (accounted s0)"
proof -
  have "provided (dispatched_probe s a u n) (accounted s0)"
    "provided (dispatched_application s a u n) (accounted s0)"
    "provided (dispatched_preparation s a u n) (accounted s0)"
    "provided (dispatched_finalization s a u n) (accounted s0)"
    using assms
    by (auto simp: dispatched_probe_def dispatched_application_def dispatched_preparation_def
        dispatched_finalization_def present_iff
        intro!: provided_bindI no_op_accounted decide_accounted frame_put)
  then show ?thesis
    using assms by (auto simp: dispatched_def no_op_accounted split: action_kind.split)
qed

lemma finished_probe_accounted:
  assumes "frame s0 s"
  shows "provided (finished_probe s a r x n) (accounted s0)"
  unfolding finished_probe_def Let_def using assms
  by (auto simp: present_iff stop_backed_iff
      intro!: provided_bindI no_op_accounted schedule_accounted frame_put
      dest!: append_tombstone_step [OF _ assms])

lemma finished_application_accounted:
  assumes "frame s0 s"
  shows "provided (finished_application s a r x n) (accounted s0)"
  unfolding finished_application_def Let_def using assms
  by (auto simp: present_iff stop_backed_iff
      intro!: provided_bindI no_op_accounted schedule_accounted frame_put
      dest!: append_tombstone_step [OF _ assms])

lemma finished_preparation_accounted:
  assumes "frame s0 s"
  shows "provided (finished_preparation s a r x n h) (accounted s0)"
  unfolding finished_preparation_def Let_def using assms
  by (auto simp: present_iff stop_backed_iff
      intro!: provided_bindI no_op_accounted schedule_accounted frame_put
      dest!: append_tombstone_step [OF _ assms] clear_recovery_unit_eq)

lemma finished_finalization_accounted:
  assumes "frame s0 s"
  shows "provided (finished_finalization s a r x n) (accounted s0)"
  unfolding finished_finalization_def Let_def using assms
  by (auto simp: present_iff stop_backed_iff
      intro!: provided_bindI no_op_accounted schedule_accounted frame_put
      dest!: append_tombstone_step [OF _ assms] clear_recovery_unit_eq)

lemma finished_accounted:
  assumes "frame s0 s"
  shows "provided (finished s a r x n h) (accounted s0)"
  unfolding finished_def using assms
  by (auto intro!: finished_probe_accounted finished_application_accounted no_op_accounted
      finished_preparation_accounted finished_finalization_accounted split: action_kind.split)

section \<open>Planning\<close>

lemma plan_requested_accounted:
  assumes "frame s0 s"
  shows "provided (plan_requested s a k) (accounted s0)"
  unfolding plan_requested_def using assms
  by (auto simp: present_iff intro!: provided_bindI no_op_accounted decide_accounted frame_put)

lemma plan_completed_accounted:
  assumes "frame s0 s"
  shows "provided (plan_completed s n a k h) (accounted s0)"
  unfolding plan_completed_def using assms
  by (auto simp: present_iff intro!: provided_bindI no_op_accounted schedule_accounted frame_put
      dest!: append_tombstone_step [OF _ assms])

lemma plan_failed_accounted:
  assumes "frame s0 s"
  shows "provided (plan_failed s n a k x retryable) (accounted s0)"
  unfolding plan_failed_def using assms
  by (auto simp: present_iff intro!: provided_bindI no_op_accounted schedule_accounted frame_put
      dest!: append_tombstone_step [OF _ assms] discard_planning_frame frame_step [OF assms])

section \<open>Failures and stops\<close>

lemma action_for_id_Some:
  assumes "action_for_id s a = Some r"
  shows "record_id r = a" and "r \<in> set (state_actions s)" and "a \<in> retained_ids s"
proof -
  show "record_id r = a" and r: "r \<in> set (state_actions s)"
    using assms by (auto simp: action_for_id_def dest!: find_Some_in)
  with state_actions_ids [of s] show "a \<in> retained_ids s" by force
qed

lemma set_state_actions:
  "ProbeRecord p \<in> set (state_actions s) \<longleftrightarrow> probe s = Some p"
  "ApplicationRecord a \<in> set (state_actions s) \<longleftrightarrow> application s = Some a"
  "PlanningRecord l \<in> set (state_actions s) \<longleftrightarrow> planning s = Some l"
  "PreparationRecord d \<in> set (state_actions s) \<longleftrightarrow> preparation s = Some d"
  "FinalizationRecord d \<in> set (state_actions s) \<longleftrightarrow> finalization s = Some d"
  by (cases "probe s"; cases "application s"; cases "planning s"; cases "preparation s";
      cases "finalization s"; auto simp: state_actions_def)+

lemma with_lifecycle_id: "with_lifecycle r l = Inr q \<Longrightarrow> record_id q = record_id r"
  by (cases r) (auto simp: bindE_eq_Inr)

lemma with_result_id: "with_result r l x = Inr q \<Longrightarrow> record_id q = record_id r"
  by (cases r) (auto simp: bindE_eq_Inr)

lemma retain_failed_frame:
  assumes "frame s0 s" and "record_id r \<in> retained_ids s"
  shows "frame s0 (retain_failed r s)" and "frame s0 (retain_stopped r s)"
proof -
  show failed: "frame s0 (retain_failed r s)"
    using assms by (cases r) (auto intro!: frame_put simp: admissible_id_def retained_ids_def)
  show "frame s0 (retain_stopped r s)"
  proof (cases r)
    case (PreparationRecord a)
    then show ?thesis
      using assms by (auto intro!: frame_put simp: admissible_id_def retained_ids_def)
  qed (use failed in simp_all)
qed

lemma fail_action_accounted:
  assumes "frame s0 s"
  shows "provided (fail_action s a l n) (accounted s0)"
proof (cases "action_for_id s a")
  case None
  then show ?thesis using assms by (simp add: fail_action_def no_op_accounted)
next
  case (Some r)
  have "frame s0 (retain_failed q t)"
    if "with_lifecycle r l = Inr q" "append_tombstone s q l = Inr t" for q t
  proof -
    have "record_id q \<in> retained_ids s"
      using action_for_id_Some(1,3) [OF Some] with_lifecycle_id [OF that(1)] by simp
    with append_tombstone_step [OF that(2) assms] show ?thesis
      by (intro retain_failed_frame) (auto simp: retained_ids_def)
  qed
  then show ?thesis
    unfolding fail_action_def Some option.case using assms
    by (auto intro!: provided_bindI schedule_accounted no_op_accounted)
qed

lemma hold_exclusion_frame:
  assumes "hold_exclusion r terminal s = Inr t" and "frame s0 s"
    and "r \<in> set (state_actions s)" and "\<not> is_planning_record r"
  shows "frame s0 t \<and> effect_backed t (StopAction (record_id r))"
  using assms
  by (cases r) (auto simp: bindE_eq_Inr stop_backed_iff set_state_actions intro!: frame_put)

lemma stop_uncertain_mutator_accounted:
  assumes "frame s0 s" and "r \<in> set (state_actions s)"
  shows "provided (stop_uncertain_mutator s r l n) (accounted s0)"
  unfolding stop_uncertain_mutator_def Let_def using assms
  by (auto intro!: provided_bindI fail_action_accounted schedule_accounted
      dest!: hold_exclusion_frame [OF _ assms(1,2)])

section \<open>Acknowledged cancellations\<close>

lemma resume_completed_accounted:
  assumes "frame s0 s" and "r \<in> set (state_actions s)"
  shows "provided (resume_completed s r x n) (accounted s0)"
  unfolding resume_completed_def using assms
  by (auto intro!: provided_bindI finished_accounted no_op_accounted frame_put
      simp: set_state_actions split: action_record.split)

lemma release_cancelled_frame:
  assumes "release_cancelled r s = Inr (t, es)" and "frame s0 s"
  shows "frame s0 t \<and> only_discards es"
  using assms by (cases r) (auto simp: bindE_eq_Inr split: option.splits)

lemma cancellation_acknowledged_accounted:
  assumes "frame s0 s"
  shows "provided (cancellation_acknowledged s n a l x) (accounted s0)"
proof (cases "action_for_id s a")
  case None
  then show ?thesis using assms by (simp add: cancellation_acknowledged_def no_op_accounted)
next
  case (Some r)
  note r = action_for_id_Some [OF Some]
  have tomb: "frame s0 t \<and> frame s0 (retain_stopped q t)"
    if "with_result r l (Some x) = Inr q" "append_tombstone s q l = Inr t" for q t
  proof -
    have "record_id q \<in> retained_ids s"
      using r(1,3) with_result_id [OF that(1)] by simp
    with append_tombstone_step [OF that(2) assms] show ?thesis
      using retain_failed_frame(2) [of s0 t q] by (auto simp: retained_ids_def)
  qed
  show ?thesis
    unfolding cancellation_acknowledged_def Some option.case
    by (intro provided_ifI provided_bindI)
      (use assms r(2) tomb in \<open>auto intro!: schedule_accounted no_op_accounted
         resume_completed_accounted dest!: release_cancelled_frame [where ?s0.0 = s0]\<close>)
qed

section \<open>Hints, timers and starts\<close>

text \<open>
  The fields a new event generation, an observation or a restart sets before the rest of
  the handler runs. The generations must not fall.
\<close>

definition refreshed :: "state \<Rightarrow> state \<Rightarrow> bool" where
  "refreshed s u \<longleftrightarrow>
     observation_generation s \<le> observation_generation u \<and>
     event_generation s \<le> event_generation u \<and>
     (unplug_proof u = unplug_proof s \<or> unplug_proof u = None) \<and>
     u = s\<lparr>latest_observation := latest_observation u,
           observation_generation := observation_generation u,
           event_generation := event_generation u, last_drm_at_ms := last_drm_at_ms u,
           verify_since_ms := verify_since_ms u, unplug_proof := unplug_proof u,
           candidate := candidate u,
           desktop_finalized_profile := desktop_finalized_profile u\<rparr>"

lemma refreshed_refl [simp]: "refreshed s s"
  by (simp add: refreshed_def)

definition explained :: "state \<Rightarrow> decision \<Rightarrow> bool" where
  "explained s d \<longleftrightarrow> (\<exists>u. refreshed s u \<and> accounted u d)"

lemma explainedI: "refreshed s u \<Longrightarrow> provided r (accounted u) \<Longrightarrow> provided r (explained s)"
  by (auto simp: provided_def explained_def)

lemma drop_pending_preparation_frame:
  assumes "append_tombstone s (PreparationRecord a) CANCELLED = Inr t" and "preparation s = Some a"
    and "frame s0 s" and "discard_planning (f t) = Inr (u, es)"
    and "\<And>v. frame s0 v \<Longrightarrow> frame s0 (f v)"
  shows "frame s0 u \<and> only_discards es"
proof -
  have "frame s0 t" using append_tombstone_step [OF assms(1,3)] assms(2) by simp
  then have "frame s0 (f t)" by (rule assms(5))
  with discard_planning_frame [OF assms(4)] show ?thesis by (blast intro: frame_trans)
qed

lemma hint_drops_frame:
  assumes "frame s0 s"
  shows "hint_drops_preparation s = Inr (t, es) \<Longrightarrow> frame s0 t \<and> only_discards es"
    and "hint_drops_finalization s = Inr t \<Longrightarrow> frame s0 t"
    and "hint_restarts_discovery s = Inr t \<Longrightarrow> frame s0 t"
proof -
  show "hint_drops_preparation s = Inr (t, es) \<Longrightarrow> frame s0 t \<and> only_discards es"
    using assms drop_pending_preparation_frame [OF _ _ assms,
        where f = "\<lambda>t. t\<lparr>preparation_state := PREPARE_IDLE, preparation := None\<rparr>"]
    by (auto simp: hint_drops_preparation_def bindE_eq_Inr split: if_splits)
  show "hint_drops_finalization s = Inr t \<Longrightarrow> frame s0 t"
    using assms by (auto simp: hint_drops_finalization_def bindE_eq_Inr
        dest!: append_tombstone_step [OF _ assms] split: if_splits)
  show "hint_restarts_discovery s = Inr t \<Longrightarrow> frame s0 t"
    using assms by (auto simp: hint_restarts_discovery_def split: if_splits)
qed

lemma refreshed_dirtied: "event_generation s < g \<Longrightarrow> refreshed s (dirtied s n g)"
  by (simp add: refreshed_def dirtied_def)

lemma drm_hint_explained: "provided (drm_hint s n g) (explained s)"
proof (cases "g \<le> event_generation s")
  case True
  then show ?thesis
    by (auto simp: drm_hint_def intro!: explainedI [of s s] no_op_accounted)
next
  case False
  let ?u = "dirtied s n g"
  have "provided (drm_hint s n g) (accounted ?u)"
    unfolding drm_hint_def if_not_P [OF False]
    by (auto intro!: provided_bindI schedule_accounted
        dest!: hint_drops_frame [where ?s0.0 = ?u, rotated])
  with False show ?thesis by (intro explainedI [OF refreshed_dirtied]) auto
qed

lemma drop_dirtied_frame:
  assumes "drop_dirtied s r = Inr (t, es)" and "frame s0 s" and "r \<in> set (state_actions s)"
  shows "frame s0 t \<and> only_discards es"
proof (cases r)
  case (PreparationRecord d)
  then show ?thesis
    using assms drop_pending_preparation_frame [OF _ _ assms(2), where f = "\<lambda>t.
        t\<lparr>phase := DISCOVER_FAST, preparation_state := PREPARE_IDLE, preparation := None\<rparr>"]
    by (auto simp: drop_dirtied_def bindE_eq_Inr set_state_actions)
next
  case (FinalizationRecord d)
  then show ?thesis
    using assms by (auto simp: drop_dirtied_def bindE_eq_Inr set_state_actions
        dest!: append_tombstone_step [OF _ assms(2)])
qed (use assms in \<open>auto simp: drop_dirtied_def\<close>)

lemma admission_dirtied_explained: "provided (admission_dirtied s n a g) (explained s)"
proof (cases "action_for_id s a")
  case None
  then show ?thesis
    by (auto simp: admission_dirtied_def intro!: explainedI [of s s] no_op_accounted)
next
  case (Some r)
  show ?thesis
  proof (cases "record_lifecycle r \<noteq> ADMITTED \<or> g \<le> event_generation s")
    case True
    then show ?thesis unfolding admission_dirtied_def Some option.case
      by (auto intro!: explainedI [of s s] no_op_accounted)
  next
    case False
    let ?u = "dirtied s n g"
    have "r \<in> set (state_actions ?u)"
      using action_for_id_Some(2) [OF Some] by (simp add: dirtied_def state_actions_def)
    then have "provided (admission_dirtied s n a g) (accounted ?u)"
      unfolding admission_dirtied_def Some option.case if_not_P [OF False]
      by (auto intro!: provided_bindI schedule_accounted
          dest!: drop_dirtied_frame [where ?s0.0 = ?u])
    with False show ?thesis by (intro explainedI [OF refreshed_dirtied]) auto
  qed
qed

lemma restart_drops_frame:
  assumes "restart_drops_preparation s = Inr (t, es)" and "preparation s \<noteq> None"
  shows "frame s t \<and> only_discards es"
  using assms drop_pending_preparation_frame [OF _ _ frame_refl, where f = "\<lambda>t.
        t\<lparr>phase := DISCOVER_FAST, preparation_state := PREPARE_IDLE, preparation := None,
          verify_since_ms := None\<rparr>"]
  by (auto simp: restart_drops_preparation_def bindE_eq_Inr)

lemma resume_started_accounted:
  assumes "frame s0 s"
  shows "provided (resume_started s n) (accounted s0)"
  unfolding resume_started_def using assms
  by (auto intro!: provided_bindI schedule_accounted split: if_splits)

lemma controller_started_accounted:
  "provided (controller_started s n i) (accounted (s\<lparr>controller_instance := i\<rparr>))"
  unfolding controller_started_def
  by (auto intro!: provided_bindI schedule_accounted resume_started_accounted
      dest!: restart_drops_frame)

lemma boot_changed_decided:
  "provided (boot_changed s m p) (\<lambda>d. passes (assert_controller_invariants (dec_state d)) \<and>
     (\<forall>x \<in> set (dec_effects d). effect_backed (dec_state d) x))"
proof (cases "p = boot_id s")
  case False
  then show ?thesis
    using no_op_accounted [of s s]
    by (auto simp: boot_changed_def accounted_def provided_def)
next
  case True
  then show ?thesis
    unfolding boot_changed_def
    by (auto simp: provided_def bindE_eq_Inr decide_def passes_def)
qed

lemma timer_fired_accounted: "provided (timer_fired s n m) (accounted s)"
  unfolding timer_fired_def
  by (auto intro!: provided_bindI no_op_accounted decide_accounted)

lemma worker_events_accounted:
  "provided (worker_timed_out s n a m c) (accounted s)"
  "provided (worker_status_unknown s n a) (accounted s)"
  "provided (dispatch_rejected s n a) (accounted s)"
  "provided (observation_failed s n) (accounted s)"
  unfolding worker_timed_out_def worker_status_unknown_def dispatch_rejected_def
    observation_failed_def
  by (auto intro!: no_op_accounted stop_uncertain_mutator_accounted fail_action_accounted
      schedule_accounted dest: action_for_id_Some(2) split: option.split)

end
