(* ===== verification/Reducer_Decisions.thy ===== *)
theory Reducer_Decisions
  imports Sound_Workers
begin

text \<open>
  The guarantees of \<^verbatim>\<open>reduce\<close> on every event, from those of its handlers: invariants,
  backed effects, monotone identities and generations, and admissions only on valid
  observations.
\<close>

section \<open>Observations\<close>

lemma record_observation_refreshed:
  assumes "record_observation s ob = Inr t"
  shows "refreshed s t \<and> latest_observation t = Some ob"
  using assms
  by (auto simp: record_observation_def bindE_eq_Inr refreshed_def max_def split: if_splits)

lemma observe_explained: "provided (observe s ob) (explained s)"
proof (cases "stale_observation s ob")
  case True
  then show ?thesis
    by (auto simp: observe_def intro!: explainedI [of s s] no_op_accounted)
next
  case False
  have "provided (observe_valid t prior ob) (explained s)"
    if "record_observation s ob = Inr t" "ob_valid ob" for t prior
    using record_observation_refreshed [OF that(1)] observe_valid_accounted [of t t ob] that(2)
    by (intro explainedI [of s t]) auto
  moreover have "provided (observe_invalid t ob) (explained s)"
    if "record_observation s ob = Inr t" for t
    using record_observation_refreshed [OF that(1)] observe_invalid_accounted [of t t ob]
    by (intro explainedI [of s t]) auto
  ultimately show ?thesis using False
    by (auto simp: observe_def intro!: provided_bindI)
qed

section \<open>All events\<close>

fun is_restart :: "event \<Rightarrow> bool" where
  "is_restart (ControllerStarted m i) = True"
| "is_restart (BootChanged m p) = True"
| "is_restart _ = False"

lemma accounted_explained: "accounted s d \<Longrightarrow> explained s d"
  by (auto simp: explained_def intro: exI [of _ s])

lemma handle_event_explained:
  assumes "\<not> is_restart e"
  shows "provided (handle_event s e) (explained s)"
proof (cases e)
  case (ObservationCompleted m ob)
  then show ?thesis by (simp add: observe_explained)
next
  case (DrmHintReceived m g)
  then show ?thesis by (simp add: drm_hint_explained)
next
  case (AdmissionDirtied m a g)
  then show ?thesis by (simp add: admission_dirtied_explained)
qed (use assms in \<open>auto intro!: explainedI [of s s] worker_events_accounted timer_fired_accounted
    cancellation_acknowledged_accounted plan_requested_accounted plan_completed_accounted
    plan_failed_accounted dispatched_accounted finished_accounted\<close>)

lemma reduce_cases:
  assumes "reduce s e = Inr d"
  obtains "passes (assert_controller_invariants s)" "d = \<lparr>dec_state = s, dec_effects = []\<rparr>"
  | "passes (assert_controller_invariants s)" "handle_event s e = Inr d"
    "is_boot_changed e \<or> md_boot_id (event_metadata_of e) = boot_id s"
    "is_boot_changed e \<or> phase s \<noteq> RECOVERING \<or> recovery_units s = []"
proof -
  have inv: "passes (assert_controller_invariants s)"
    using assms by (auto simp: reduce_def bindE_eq_Inr passes_def)
  have "no_op s = Inr d \<Longrightarrow> d = \<lparr>dec_state = s, dec_effects = []\<rparr>"
    by (auto simp: no_op_def decide_def bindE_eq_Inr)
  with assms inv that show thesis
    by (auto simp: reduce_def bindE_eq_Inr split: if_splits)
qed

lemma explained_same: "passes (assert_controller_invariants s) \<Longrightarrow>
  explained s \<lparr>dec_state = s, dec_effects = []\<rparr>"
  by (intro accounted_explained) (simp add: accounted_def)

lemma reduce_explained:
  assumes "reduce s e = Inr d" and "\<not> is_restart e"
  shows "explained s d"
  using assms(1)
proof (cases rule: reduce_cases)
  case 1
  then show ?thesis by (simp add: explained_same)
next
  case 2
  with handle_event_explained [OF assms(2)] show ?thesis by (auto dest: providedD)
qed

lemma reduce_restart:
  assumes "reduce s (ControllerStarted m i) = Inr d"
  shows "explained s d \<or> explained (s\<lparr>controller_instance := i\<rparr>) d"
  using assms
proof (cases rule: reduce_cases)
  case 1
  then show ?thesis by (simp add: explained_same)
next
  case 2
  then have "controller_started s (processed_at_ms m) i = Inr d" by simp
  with controller_started_accounted have "accounted (s\<lparr>controller_instance := i\<rparr>) d"
    by (rule providedD)
  then show ?thesis by (simp add: accounted_explained)
qed

lemma explained_decided:
  "explained s d \<Longrightarrow> passes (assert_controller_invariants (dec_state d))"
  "explained s d \<Longrightarrow> x \<in> set (dec_effects d) \<Longrightarrow> effect_backed (dec_state d) x"
  by (auto simp: explained_def accounted_def)

lemma reduce_decided:
  assumes "reduce s e = Inr d"
  shows "passes (assert_controller_invariants (dec_state d)) \<and>
    (\<forall>x \<in> set (dec_effects d). effect_backed (dec_state d) x)"
proof (cases "is_restart e")
  case False
  from reduce_explained [OF assms this] explained_decided show ?thesis by blast
next
  case True
  then show ?thesis
  proof (cases e rule: is_restart.cases)
    case (1 m i)
    with reduce_restart [of s m i d] assms explained_decided show ?thesis by blast
  next
    case (2 m p)
    from assms show ?thesis
    proof (cases rule: reduce_cases)
      case 1
      then show ?thesis by simp
    next
      case 22: 2
      with 2 have "boot_changed s m p = Inr d" by simp
      with boot_changed_decided show ?thesis by (rule providedD)
    qed
  qed simp_all
qed

section \<open>How a state evolves\<close>

text \<open>What \<open>frame\<close> and \<open>refreshed\<close> say of the two states of a decision.\<close>

lemma explained_evolves:
  assumes "explained s d"
  shows "boot_id (dec_state d) = boot_id s"
    and "controller_instance (dec_state d) = controller_instance s"
    and "observation_generation s \<le> observation_generation (dec_state d)"
    and "event_generation s \<le> event_generation (dec_state d)"
    and "reconcile_epoch s \<le> reconcile_epoch (dec_state d)"
    and "action_sequence_high_water s \<le> action_sequence_high_water (dec_state d)"
    and "transition_sequence_high_water s \<le> transition_sequence_high_water (dec_state d)"
    and "physical_token (dec_state d) = physical_token s \<and>
           physical_epoch (dec_state d) = physical_epoch s \<or>
         physical_epoch s < physical_epoch (dec_state d)"
    and "length (action_tombstones s) \<le> ACTION_TOMBSTONE_RETENTION_LIMIT \<longrightarrow>
         length (action_tombstones (dec_state d)) \<le> ACTION_TOMBSTONE_RETENTION_LIMIT"
    and "retained_ids (dec_state d) \<subseteq> retained_ids s \<union> fresh_ids s (dec_state d)"
    and "tombstone_ids (dec_state d) \<subseteq>
           tombstone_ids s \<union> retained_ids s \<union> fresh_ids s (dec_state d)"
proof -
  obtain u where u: "refreshed s u" and f: "frame u (dec_state d)"
    using assms by (auto simp: explained_def accounted_def)
  obtain lo og eg ld vs up cd df where su: "u = s\<lparr>latest_observation := lo,
      observation_generation := og, event_generation := eg, last_drm_at_ms := ld,
      verify_since_ms := vs, unplug_proof := up, candidate := cd,
      desktop_finalized_profile := df\<rparr>"
    and gens: "observation_generation s \<le> og" "event_generation s \<le> eg"
    using u unfolding refreshed_def by blast
  have ids: "retained_ids u = retained_ids s" "tombstone_ids u = tombstone_ids s"
    "fresh_ids u (dec_state d) = fresh_ids s (dec_state d)"
    unfolding su by (simp_all add: retained_ids_def tombstone_ids_def fresh_ids_def)
  show "boot_id (dec_state d) = boot_id s"
    and "controller_instance (dec_state d) = controller_instance s"
    and "observation_generation s \<le> observation_generation (dec_state d)"
    and "event_generation s \<le> event_generation (dec_state d)"
    and "reconcile_epoch s \<le> reconcile_epoch (dec_state d)"
    and "action_sequence_high_water s \<le> action_sequence_high_water (dec_state d)"
    and "transition_sequence_high_water s \<le> transition_sequence_high_water (dec_state d)"
    and "physical_token (dec_state d) = physical_token s \<and>
           physical_epoch (dec_state d) = physical_epoch s \<or>
         physical_epoch s < physical_epoch (dec_state d)"
    and "length (action_tombstones s) \<le> ACTION_TOMBSTONE_RETENTION_LIMIT \<longrightarrow>
         length (action_tombstones (dec_state d)) \<le> ACTION_TOMBSTONE_RETENTION_LIMIT"
    using f gens unfolding frame_def su by simp_all
  show "retained_ids (dec_state d) \<subseteq> retained_ids s \<union> fresh_ids s (dec_state d)"
    and "tombstone_ids (dec_state d) \<subseteq>
           tombstone_ids s \<union> retained_ids s \<union> fresh_ids s (dec_state d)"
    using f unfolding frame_def ids by blast+
qed

text \<open>A restart keeps the counters too.\<close>

lemma boot_changed_kept:
  "provided (boot_changed s m p) (\<lambda>d.
     action_sequence_high_water (dec_state d) = action_sequence_high_water s \<and>
     transition_sequence_high_water (dec_state d) = transition_sequence_high_water s \<and>
     physical_epoch (dec_state d) = physical_epoch s \<and>
     reconcile_epoch (dec_state d) = reconcile_epoch s \<and>
     action_tombstones (dec_state d) = action_tombstones s \<and>
     controller_instance (dec_state d) = controller_instance s \<and>
     retained_ids (dec_state d) \<subseteq> retained_ids s)"
  unfolding boot_changed_def
  by (auto simp: provided_def bindE_eq_Inr decide_def no_op_def retained_ids_def)

lemma reduce_boot_changed:
  assumes "reduce s (BootChanged m p) = Inr d"
  shows "d = \<lparr>dec_state = s, dec_effects = []\<rparr> \<or> boot_changed s m p = Inr d"
  using assms by (cases rule: reduce_cases) auto

lemma reduce_counters:
  assumes "reduce s e = Inr d"
  shows "action_sequence_high_water s \<le> action_sequence_high_water (dec_state d) \<and>
    transition_sequence_high_water s \<le> transition_sequence_high_water (dec_state d) \<and>
    physical_epoch s \<le> physical_epoch (dec_state d) \<and>
    reconcile_epoch s \<le> reconcile_epoch (dec_state d) \<and>
    (length (action_tombstones s) \<le> ACTION_TOMBSTONE_RETENTION_LIMIT \<longrightarrow>
     length (action_tombstones (dec_state d)) \<le> ACTION_TOMBSTONE_RETENTION_LIMIT)"
proof (cases e rule: is_restart.cases)
  case (1 m i)
  with reduce_restart [of s m i d] assms explained_evolves [of s d]
    explained_evolves [of "s\<lparr>controller_instance := i\<rparr>" d]
  show ?thesis by (auto intro: less_imp_le)
next
  case (2 m p)
  with reduce_boot_changed [of s m p d] assms providedD [OF boot_changed_kept, of s m p d]
  show ?thesis by auto
qed (use reduce_explained [OF assms] explained_evolves [of s d] in \<open>auto intro: less_imp_le\<close>)

section \<open>Only a valid observation admits work\<close>

fun admits_work :: "effect \<Rightarrow> bool" where
  "admits_work (RequestPlan a t k p) = True"
| "admits_work x = is_mutating_effect x"

definition quiet :: "decision \<Rightarrow> bool" where
  "quiet d \<longleftrightarrow> (\<forall>x \<in> set (dec_effects d). \<not> admits_work x)"

lemma stop_effects_quiet [simp]: "x \<in> set (stop_effects a) \<Longrightarrow> \<not> admits_work x"
  by (cases a) (auto simp: stop_effects_def)

lemma only_discards_quiet [simp]: "only_discards es \<Longrightarrow> x \<in> set es \<Longrightarrow> \<not> admits_work x"
  by (auto simp: only_discards_def)

lemma decide_quiet: "\<forall>x \<in> set es. \<not> admits_work x \<Longrightarrow> provided (decide s es) quiet"
  by (auto simp: decide_def provided_def bindE_eq_Inr quiet_def)

lemma no_op_quiet: "provided (no_op s) quiet"
  unfolding no_op_def by (rule decide_quiet) simp

lemma schedule_quiet: "\<forall>x \<in> set es. \<not> admits_work x \<Longrightarrow> provided (schedule s n es) quiet"
  unfolding schedule_def by (intro provided_bindI decide_quiet) auto

lemmas quiet_steps = provided_bindI provided_ifI decide_quiet no_op_quiet schedule_quiet

lemma dispatched_quiet: "provided (dispatched s a u n) quiet"
  unfolding dispatched_def dispatched_probe_def dispatched_application_def
    dispatched_preparation_def dispatched_finalization_def
  by (cases "aid_kind a") (auto intro!: quiet_steps)

lemma finished_quiet: "provided (finished s a r x n h) quiet"
  unfolding finished_def finished_probe_def finished_application_def finished_preparation_def
    finished_finalization_def Let_def
  by (cases "aid_kind a") (auto intro!: quiet_steps)

lemma planning_quiet:
  "provided (plan_requested s a k) quiet" "provided (plan_completed s n a k h) quiet"
  "provided (plan_failed s n a k x retryable) quiet"
  unfolding plan_requested_def plan_completed_def plan_failed_def
  by (auto intro!: quiet_steps dest!: discard_planning_frame)

lemma fail_action_quiet: "provided (fail_action s a l n) quiet"
  unfolding fail_action_def by (auto intro!: quiet_steps split: option.split)

lemma stop_uncertain_mutator_quiet: "provided (stop_uncertain_mutator s r l n) quiet"
  unfolding stop_uncertain_mutator_def Let_def
  by (auto intro!: quiet_steps fail_action_quiet)

lemma cancellation_acknowledged_quiet: "provided (cancellation_acknowledged s n a l x) quiet"
proof -
  have resume: "provided (resume_completed s r x n) quiet" for r
    unfolding resume_completed_def
    by (cases r) (auto intro!: provided_bindI finished_quiet no_op_quiet)
  have release: "only_discards es" if "release_cancelled r t = Inr (u, es)" for r t u es
    using that by (cases r) (auto simp: bindE_eq_Inr split: option.splits)
  show ?thesis
    unfolding cancellation_acknowledged_def
    by (auto intro!: quiet_steps resume dest!: release split: option.split)
qed

lemma hints_quiet:
  "provided (drm_hint s n g) quiet" "provided (admission_dirtied s n a g) quiet"
proof -
  have hint: "only_discards es" if "hint_drops_preparation t = Inr (u, es)" for t u es
    using that discard_planning_frame
    by (auto simp: hint_drops_preparation_def bindE_eq_Inr split: if_splits)
  have dirty: "only_discards es" if "drop_dirtied t r = Inr (u, es)" for t r u es
    using that discard_planning_frame
    by (auto simp: drop_dirtied_def bindE_eq_Inr split: action_record.splits)
  show "provided (drm_hint s n g) quiet"
    unfolding drm_hint_def by (auto intro!: quiet_steps dest!: hint)
  show "provided (admission_dirtied s n a g) quiet"
    unfolding admission_dirtied_def by (auto intro!: quiet_steps dest!: dirty split: option.split)
qed

lemma restarts_quiet:
  "provided (controller_started s n i) quiet" "provided (boot_changed s m p) quiet"
proof -
  have drop: "only_discards es" if "restart_drops_preparation t = Inr (u, es)" for t u es
    using that discard_planning_frame
    by (auto simp: restart_drops_preparation_def bindE_eq_Inr)
  show "provided (controller_started s n i) quiet"
    unfolding controller_started_def resume_started_def
    by (auto intro!: quiet_steps dest!: drop)
  show "provided (boot_changed s m p) quiet"
    unfolding boot_changed_def by (auto intro!: quiet_steps)
qed

lemma worker_events_quiet:
  "provided (worker_timed_out s n a m c) quiet" "provided (worker_status_unknown s n a) quiet"
  "provided (dispatch_rejected s n a) quiet" "provided (observation_failed s n) quiet"
  "provided (timer_fired s n m) quiet"
  unfolding worker_timed_out_def worker_status_unknown_def dispatch_rejected_def
    observation_failed_def timer_fired_def
  by (auto intro!: quiet_steps stop_uncertain_mutator_quiet fail_action_quiet split: option.split)

lemma observe_invalid_quiet: "provided (observe_invalid s ob) quiet"
proof -
  have drop: "only_discards es" if "drop_admitted t = Inr (u, es)" for t u es
    using drop_admitted_frame [OF that frame_refl] by simp
  show ?thesis
    unfolding observe_invalid_def stop_application_def settle_invalid_def Let_def
    by (auto intro!: quiet_steps dest!: drop)
qed

fun is_valid_observation :: "event \<Rightarrow> bool" where
  "is_valid_observation (ObservationCompleted m ob) = ob_valid ob"
| "is_valid_observation _ = False"

lemma handle_event_quiet:
  assumes "\<not> is_valid_observation e"
  shows "provided (handle_event s e) quiet"
  using assms
  by (cases e) (auto simp: observe_def intro!: quiet_steps observe_invalid_quiet
      dispatched_quiet finished_quiet planning_quiet cancellation_acknowledged_quiet hints_quiet
      restarts_quiet worker_events_quiet)

lemma reduce_quiet:
  assumes "reduce s e = Inr d" and "\<not> is_valid_observation e"
  shows "quiet d"
  using assms(1)
proof (cases rule: reduce_cases)
  case 1
  then show ?thesis by (simp add: quiet_def)
next
  case 2
  with handle_event_quiet [OF assms(2)] show ?thesis by (auto dest: providedD)
qed

section \<open>Accepted observations\<close>

lemma record_observation_eq:
  assumes "record_observation s ob = Inr t"
  shows "latest_observation t = Some ob"
    and "observation_generation t = max (observation_generation s) (ob_observation_generation ob)"
    and "event_generation t = max (event_generation s) (ob_event_generation ob)"
    and "external_intent t = external_intent s" and "unplug_proof t = unplug_proof s"
    and "physical_token t = physical_token s" and "application t = application s"
    and "phase t = phase s" and "next_timer_ms t = next_timer_ms s"
  using assms by (auto simp: record_observation_def bindE_eq_Inr split: if_splits)

text \<open>An observation is either ignored, or recorded and acted on.\<close>

lemma reduce_observed:
  assumes "reduce s (ObservationCompleted m ob) = Inr d"
  obtains (ignored) "d = \<lparr>dec_state = s, dec_effects = []\<rparr>"
  | (accepted) t where "record_observation s ob = Inr t" and "\<not> stale_observation s ob"
      and "passes (assert_controller_invariants s)" and "md_boot_id m = boot_id s"
      and "if ob_valid ob then observe_valid t (latest_observation s) ob = Inr d
           else observe_invalid t ob = Inr d"
      and "frame t (dec_state d)"
  using assms
proof (cases rule: reduce_cases)
  case 1
  then show thesis by (rule_tac ignored) simp
next
  case 2
  show thesis
  proof (cases "stale_observation s ob")
    case True
    with 2 have "no_op s = Inr d" by (simp add: observe_def)
    then show thesis by (rule_tac ignored) (auto simp: no_op_def decide_def bindE_eq_Inr)
  next
    case False
    with 2 obtain t where t: "record_observation s ob = Inr t"
      "if ob_valid ob then observe_valid t (latest_observation s) ob = Inr d
       else observe_invalid t ob = Inr d"
      by (auto simp: observe_def bindE_eq_Inr split: if_splits)
    have "accounted t d"
      using t(2) record_observation_eq(1) [OF t(1)] observe_valid_accounted [of t t ob]
        observe_invalid_accounted [of t t ob]
      by (auto dest: providedD split: if_splits)
    with 2 False t show thesis by (rule_tac accepted) (auto simp: accounted_def)
  qed
qed

lemma explained_unplug:
  assumes "explained s d" and "external_intent s" and "\<not> external_intent (dec_state d)"
  shows "unplug_evidence s (dec_state d)"
proof -
  obtain u where u: "refreshed s u" and f: "frame u (dec_state d)"
    using assms(1) by (auto simp: explained_def accounted_def)
  obtain lo og eg ld vs up cd df where su: "u = s\<lparr>latest_observation := lo,
      observation_generation := og, event_generation := eg, last_drm_at_ms := ld,
      verify_since_ms := vs, unplug_proof := up, candidate := cd,
      desktop_finalized_profile := df\<rparr>"
    using u unfolding refreshed_def by blast
  have "external_intent u" using assms(2) by (simp add: su)
  with f assms(3) have "unplug_evidence u (dec_state d)" by (simp add: frame_def)
  with u show ?thesis by (auto simp: refreshed_def unplug_evidence_def present_iff)
qed

end
