(* ===== verification/Reducer_Runs.thy ===== *)
theory Reducer_Runs
  imports Reducer_Decisions
begin

text \<open>
  Runs of the reducer over event sequences: what one decision keeps, a run keeps. The
  locale \<open>stepwise\<close> carries a preorder from steps to runs; it is interpreted for the
  controller invariants, the counters and the identities.
\<close>

section \<open>Runs\<close>

text \<open>The state after a sequence of events, with the effects emitted on the way.\<close>

fun run :: "state \<Rightarrow> event list \<Rightarrow> decision result" where
  "run s [] = Inr \<lparr>dec_state = s, dec_effects = []\<rparr>"
| "run s (e # es) =
     bindE (reduce s e) (\<lambda>d.
     bindE (run (dec_state d) es) (\<lambda>d'.
     Inr \<lparr>dec_state = dec_state d', dec_effects = dec_effects d @ dec_effects d'\<rparr>))"

text \<open>Any fallible step function, iterated.\<close>

fun iterate :: "('s \<Rightarrow> 'e \<Rightarrow> 'd result) \<Rightarrow> ('d \<Rightarrow> 's) \<Rightarrow> 's \<Rightarrow> 'e list \<Rightarrow> 's result" where
  "iterate step next_state s [] = Inr s"
| "iterate step next_state s (e # es) =
     bindE (step s e) (\<lambda>d. iterate step next_state (next_state d) es)"

lemma iterate_append:
  "iterate step nx s (es @ fs) = bindE (iterate step nx s es) (\<lambda>t. iterate step nx t fs)"
  by (induction es arbitrary: s) (simp_all add: bindE_assoc)

lemma run_iterate: "run s es = Inr d \<Longrightarrow> iterate reduce dec_state s es = Inr (dec_state d)"
  by (induction es arbitrary: s d) (auto simp: bindE_eq_Inr)

locale stepwise =
  fixes step :: "'s \<Rightarrow> 'e \<Rightarrow> 'd result" and next_state :: "'d \<Rightarrow> 's"
    and relates :: "'s \<Rightarrow> 's \<Rightarrow> bool" and admissible :: "'e \<Rightarrow> bool"
  assumes relates_refl: "relates s s"
    and relates_trans: "relates s t \<Longrightarrow> relates t u \<Longrightarrow> relates s u"
    and step_relates: "step s e = Inr d \<Longrightarrow> admissible e \<Longrightarrow> relates s (next_state d)"
begin

lemma iterate_relates:
  "iterate step next_state s es = Inr t \<Longrightarrow> list_all admissible es \<Longrightarrow> relates s t"
proof (induction es arbitrary: s)
  case Nil
  then show ?case by (simp add: relates_refl)
next
  case (Cons e es)
  then obtain d where d: "step s e = Inr d" "iterate step next_state (next_state d) es = Inr t"
    by (auto simp: bindE_eq_Inr)
  with Cons show ?case by (auto intro: relates_trans [OF step_relates])
qed

lemma iterate_intermediate:
  assumes "iterate step next_state s (es @ fs) = Inr t" and "list_all admissible (es @ fs)"
  obtains u where "iterate step next_state s es = Inr u" and "relates s u" and "relates u t"
  using assms iterate_relates by (auto simp: iterate_append bindE_eq_Inr)

end

section \<open>What runs keep\<close>

definition keeps_invariants :: "state \<Rightarrow> state \<Rightarrow> bool" where
  "keeps_invariants s t \<longleftrightarrow>
     (passes (assert_controller_invariants s) \<longrightarrow> passes (assert_controller_invariants t))"

interpretation invariant_steps: stepwise reduce dec_state keeps_invariants "\<lambda>_. True"
  by unfold_locales (auto simp: keeps_invariants_def reduce_decided)

text \<open>The counters that survive every event, and restarts.\<close>

definition counters_le :: "state \<Rightarrow> state \<Rightarrow> bool" where
  "counters_le s t \<longleftrightarrow>
     action_sequence_high_water s \<le> action_sequence_high_water t \<and>
     transition_sequence_high_water s \<le> transition_sequence_high_water t \<and>
     physical_epoch s \<le> physical_epoch t \<and> reconcile_epoch s \<le> reconcile_epoch t \<and>
     (length (action_tombstones s) \<le> ACTION_TOMBSTONE_RETENTION_LIMIT \<longrightarrow>
      length (action_tombstones t) \<le> ACTION_TOMBSTONE_RETENTION_LIMIT)"

interpretation counter_steps: stepwise reduce dec_state counters_le "\<lambda>_. True"
  by unfold_locales (auto simp: counters_le_def dest: reduce_counters)

text \<open>Within one controller instance identities are allocated once.\<close>

definition within_instance :: "state \<Rightarrow> state \<Rightarrow> bool" where
  "within_instance s t \<longleftrightarrow>
     boot_id t = boot_id s \<and> controller_instance t = controller_instance s \<and>
     observation_generation s \<le> observation_generation t \<and>
     event_generation s \<le> event_generation t \<and>
     action_sequence_high_water s \<le> action_sequence_high_water t \<and>
     retained_ids t \<subseteq> retained_ids s \<union> fresh_ids s t \<and>
     tombstone_ids t \<subseteq> tombstone_ids s \<union> retained_ids s \<union> fresh_ids s t"

lemma within_instance_trans:
  assumes "within_instance s t" and "within_instance t u" shows "within_instance s u"
proof -
  have "fresh_ids s t \<subseteq> fresh_ids s u" "fresh_ids t u \<subseteq> fresh_ids s u"
    using assms by (auto simp: within_instance_def fresh_ids_def)
  moreover have "retained_ids u \<subseteq> retained_ids s \<union> fresh_ids s t \<union> fresh_ids t u"
    "tombstone_ids u \<subseteq> tombstone_ids s \<union> retained_ids s \<union> fresh_ids s t \<union> fresh_ids t u"
    using assms unfolding within_instance_def by blast+
  ultimately have "retained_ids u \<subseteq> retained_ids s \<union> fresh_ids s u"
    "tombstone_ids u \<subseteq> tombstone_ids s \<union> retained_ids s \<union> fresh_ids s u"
    by blast+
  with assms show ?thesis unfolding within_instance_def by auto
qed

lemma reduce_within_instance:
  "reduce s e = Inr d \<Longrightarrow> \<not> is_restart e \<Longrightarrow> within_instance s (dec_state d)"
  using reduce_explained [of s e d] explained_evolves [of s d]
  unfolding within_instance_def by blast

interpretation instance_steps: stepwise reduce dec_state within_instance "\<lambda>e. \<not> is_restart e"
proof unfold_locales
  show "within_instance s s" for s by (auto simp: within_instance_def)
qed (auto intro: within_instance_trans reduce_within_instance)

end
