(* ===== verification/Scenario.thy ===== *)
theory Scenario
  imports Reducer_Runs
begin

text \<open>
  A concrete docking scenario, which the witnesses of the properties evaluate step by
  step with the code equations of the model.
\<close>

section \<open>A docking scenario\<close>

definition sample_boot :: boot_id where "sample_boot = BootId 1"

definition sample_instance :: controller_instance_id where
  "sample_instance = ControllerInstanceId 2"

definition sample_start :: state where
  "sample_start = initial_state sample_boot sample_instance (DisplayIdentity '':0'')"

definition sample_profile :: profile_match where
  "sample_profile =
     \<lparr> pm_profile = ''dock'', pm_scope = MIXED, pm_layout = ''wide'',
       pm_mapping = [OutputMapping ''DP-1'' ''DP-1'', OutputMapping ''eDP-1'' ''eDP-1''],
       pm_active_outputs = [''DP-1'', ''eDP-1''],
       pm_configuration_hashes = [ConfigurationContentHash ''config'' ''aa''],
       pm_planning_configuration_hashes = [] \<rparr>"

definition sample_observation :: "int \<Rightarrow> int \<Rightarrow> bool \<Rightarrow> canonical_observation" where
  "sample_observation n t applied =
     \<lparr> ob_observed_at_ms = t, ob_observation_generation = ObservationGeneration n,
       ob_boot_id = sample_boot, ob_physical_token = PhysicalToken ''docked'',
       ob_begin_event_generation = EventGeneration 0, ob_end_event_generation = EventGeneration 0,
       ob_kernel_connected_outputs = [''DP-1'', ''eDP-1''],
       ob_kernel_external_outputs = [''DP-1''],
       ob_x_connected_outputs = [''DP-1'', ''eDP-1''],
       ob_x_active_outputs = (if applied then [''DP-1'', ''eDP-1''] else [''eDP-1'']),
       ob_x_external_outputs = [''DP-1''],
       ob_connector_identities =
         [ConnectorIdentityEvidence ''DP-1'' ''card0-DP-1'' 10 (Some 10)],
       ob_live_fingerprints = [],
       ob_base_identity_profiles = [BaseIdentityMatch ''dock'' ''DP-1''],
       ob_edid_integrity = [EdidEvidence ''DP-1'' EDID_COMPLETE (Some ''e1''),
                            EdidEvidence ''eDP-1'' EDID_COMPLETE (Some ''e2'')],
       ob_probe_candidate = None, ob_eligible_profiles = [sample_profile],
       ob_current_profiles = (if applied then [''dock''] else []),
       ob_exact_profile = (if applied then Some ''dock'' else None),
       ob_observation_key = ObservationKey (if applied then ''k1'' else ''k0''),
       ob_validity = VALID, ob_invalidity_reason = None,
       ob_raw_evidence = [], ob_display_power = POWER_ON \<rparr>"

definition sample_metadata :: "int \<Rightarrow> event_metadata" where
  "sample_metadata t = \<lparr> processed_at_ms = t, md_boot_id = sample_boot \<rparr>"

definition sample_observed :: "int \<Rightarrow> int \<Rightarrow> bool \<Rightarrow> event" where
  "sample_observed n t applied =
     ObservationCompleted (sample_metadata t) (sample_observation n t applied)"

text \<open>The identities the scenario allocates, in order.\<close>

definition sample_action :: "action_kind \<Rightarrow> int \<Rightarrow> action_id" where
  "sample_action k n = ActionId sample_instance k n"

definition sample_unit :: "action_id \<Rightarrow> worker_unit" where
  "sample_unit a = WorkerUnit a ''worker.service''"

definition sample_planning_key :: planning_input_key where
  "sample_planning_key =
     \<lparr> pik_physical_epoch = 1, pik_profile = ''dock'', pik_layout = ''wide'',
       pik_observation_key = ObservationKey ''k1'', pik_mapping = pm_mapping sample_profile,
       pik_active_outputs = pm_active_outputs sample_profile,
       pik_configuration_hashes = pm_configuration_hashes sample_profile \<rparr>"

text \<open>
  Docking: the profile is applied, verified, planned, prepared after two seconds of
  proof and finalized after four.
\<close>

definition sample_events :: "event list" where
  "sample_events =
     [sample_observed 1 100 False,
      ApplicationDispatched (sample_metadata 200) (sample_action APPLICATION 1)
        (sample_unit (sample_action APPLICATION 1)),
      ApplicationFinished (sample_metadata 900) (sample_action APPLICATION 1)
        OUTCOME_SUCCEEDED (Some 0),
      sample_observed 2 1000 True,
      PlanRequested (sample_metadata 1010) (sample_action PLAN 2) sample_planning_key,
      PlanCompleted (sample_metadata 1500) (sample_action PLAN 2) sample_planning_key
        (PlanHash ''h''),
      sample_observed 3 3000 True,
      PreparationDispatched (sample_metadata 3010) (sample_action PREPARATION 3)
        (sample_unit (sample_action PREPARATION 3)),
      PreparationFinished (sample_metadata 3500) (sample_action PREPARATION 3)
        OUTCOME_SUCCEEDED (Some 0) (PlanHash ''h''),
      sample_observed 4 3600 True,
      sample_observed 5 5000 True,
      FinalizationDispatched (sample_metadata 5010) (sample_action FINALIZATION 4)
        (sample_unit (sample_action FINALIZATION 4)),
      FinalizationFinished (sample_metadata 5500) (sample_action FINALIZATION 4)
        OUTCOME_SUCCEEDED (Some 0),
      sample_observed 6 5600 True]"

section \<open>The scenario, step by step\<close>

definition sample_decision :: "nat \<Rightarrow> decision" where
  "sample_decision n = projr (run sample_start (take n sample_events))"

definition sample_state :: "nat \<Rightarrow> state" where
  "sample_state n = dec_state (sample_decision n)"

text \<open>The decision the reducer takes on the n-th event of the scenario.\<close>

definition sample_step :: "nat \<Rightarrow> decision" where
  "sample_step n = projr (reduce (sample_state n) (sample_events ! n))"

lemma returns_projr: "returns r (\<lambda>_. True) \<Longrightarrow> r = Inr (projr r)"
  by (auto simp: returns_def)

text \<open>One evaluation of the scenario up to an event gives everything about that event.\<close>

lemma sample_at:
  assumes "returns (run sample_start (take n sample_events))
    (\<lambda>d. P (dec_state d) \<and> returns (reduce (dec_state d) (sample_events ! n)) Q)"
  shows "P (sample_state n)" and "reduce (sample_state n) (sample_events ! n) = Inr (sample_step n)"
    and "Q (sample_step n)"
  using assms
  by (auto simp: returns_def sample_step_def sample_state_def sample_decision_def)

lemma sample_step_0: "reduce (sample_state 0) (sample_events ! 0) = Inr (sample_step 0)"
proof -
  have "returns (reduce (sample_state 0) (sample_events ! 0)) (\<lambda>_. True)" by code_simp
  then show ?thesis unfolding sample_step_def by (rule returns_projr)
qed

lemma sample_step_1: "reduce (sample_state 1) (sample_events ! 1) = Inr (sample_step 1)"
proof -
  have "returns (reduce (sample_state 1) (sample_events ! 1)) (\<lambda>_. True)" by code_simp
  then show ?thesis unfolding sample_step_def by (rule returns_projr)
qed

lemma sample_step_2: "reduce (sample_state 2) (sample_events ! 2) = Inr (sample_step 2)"
proof -
  have "returns (reduce (sample_state 2) (sample_events ! 2)) (\<lambda>_. True)" by code_simp
  then show ?thesis unfolding sample_step_def by (rule returns_projr)
qed

lemma sample_event_0:
  "sample_events ! 0 = ObservationCompleted (sample_metadata 100) (sample_observation 1 100 False)"
  by (simp add: sample_events_def sample_observed_def)

lemma sample_event_6:
  "sample_events ! 6 = ObservationCompleted (sample_metadata 3000) (sample_observation 3 3000 True)"
  by (simp add: sample_events_def sample_observed_def)

lemma sample_event_10:
  "sample_events ! 10 =
     ObservationCompleted (sample_metadata 5000) (sample_observation 5 5000 True)"
  by (simp add: sample_events_def sample_observed_def)

text \<open>The requests of one kind for a profile.\<close>

fun applies :: "string \<Rightarrow> effect \<Rightarrow> bool" where
  "applies p (ApplyProfile a k q m g key) = (p = q)"
| "applies p _ = False"

fun prepares :: "string \<Rightarrow> effect \<Rightarrow> bool" where
  "prepares p (PrepareDesktop a i tk q h g key) = (p = q)"
| "prepares p _ = False"

fun finalizes :: "string \<Rightarrow> effect \<Rightarrow> bool" where
  "finalizes p (FinalizeDesktop a i tk q h g key) = (p = q)"
| "finalizes p _ = False"

fun probes_output :: "string \<Rightarrow> effect \<Rightarrow> bool" where
  "probes_output p (ActivateProbe a k q internal mode g key) = (p = q)"
| "probes_output p _ = False"

lemma request_iffs:
  "applies p x \<longleftrightarrow> (\<exists>a k m g key. x = ApplyProfile a k p m g key)"
  "prepares p x \<longleftrightarrow> (\<exists>a i tk h g key. x = PrepareDesktop a i tk p h g key)"
  "finalizes p x \<longleftrightarrow> (\<exists>a i tk h g key. x = FinalizeDesktop a i tk p h g key)"
  "probes_output p x \<longleftrightarrow> (\<exists>a k i m g key. x = ActivateProbe a k p i m g key)"
  by (cases x; auto)+

lemma sample_evaluated_6:
  "returns (run sample_start (take 6 sample_events))
     (\<lambda>d. event_generation (dec_state d) \<le> EventGeneration 0 \<and>
        returns (reduce (dec_state d) (sample_events ! 6))
          (\<lambda>d'. filter (prepares ''dock'') (dec_effects d') \<noteq> []))"
  by code_simp

lemma sample_evaluated_10:
  "returns (run sample_start (take 10 sample_events))
     (\<lambda>d. event_generation (dec_state d) \<le> EventGeneration 0 \<and>
        returns (reduce (dec_state d) (sample_events ! 10))
          (\<lambda>d'. filter (finalizes ''dock'') (dec_effects d') \<noteq> []))"
  by code_simp

lemmas sample_step_6 = sample_at [OF sample_evaluated_6]

lemmas sample_step_10 = sample_at [OF sample_evaluated_10]

lemma sample_event_generation: "ob_event_generation (sample_observation n t b) = EventGeneration 0"
  by (simp add: sample_observation_def ob_event_generation_def)

lemma sample_step_effects: "dec_effects (sample_step 0) \<noteq> []"
  by code_simp

section \<open>An undocking scenario\<close>

text \<open>
  The dock is unplugged: two samples without external hardware, three seconds apart, end
  the external intent, the laptop profile is applied, and its worker is acknowledged.
\<close>

definition laptop_profile :: profile_match where
  "laptop_profile =
     \<lparr> pm_profile = ''laptop'', pm_scope = INTERNAL_ONLY, pm_layout = ''single'',
       pm_mapping = [OutputMapping ''eDP-1'' ''eDP-1''], pm_active_outputs = [''eDP-1''],
       pm_configuration_hashes = [ConfigurationContentHash ''config'' ''bb''],
       pm_planning_configuration_hashes = [] \<rparr>"

definition undocked_observation :: "int \<Rightarrow> int \<Rightarrow> canonical_observation" where
  "undocked_observation n t =
     (sample_observation n t False)
       \<lparr> ob_physical_token := PhysicalToken ''undocked'',
         ob_kernel_connected_outputs := [''eDP-1''], ob_kernel_external_outputs := [],
         ob_x_connected_outputs := [''eDP-1''], ob_x_active_outputs := [],
         ob_x_external_outputs := [], ob_connector_identities := [],
         ob_base_identity_profiles := [],
         ob_edid_integrity := [EdidEvidence ''eDP-1'' EDID_COMPLETE (Some ''e2'')],
         ob_eligible_profiles := [laptop_profile],
         ob_observation_key := ObservationKey ''u0'' \<rparr>"

definition undock_start :: state where
  "undock_start = sample_start\<lparr>external_intent := True\<rparr>"

definition undock_events :: "event list" where
  "undock_events =
     [ObservationCompleted (sample_metadata 100) (undocked_observation 1 100),
      ObservationCompleted (sample_metadata 3100) (undocked_observation 2 3100),
      ApplicationDispatched (sample_metadata 3200) (sample_action APPLICATION 1)
        (sample_unit (sample_action APPLICATION 1)),
      sample_observed 3 3500 False]"

definition undock_state :: "nat \<Rightarrow> state" where
  "undock_state n = dec_state (projr (run undock_start (take n undock_events)))"

definition undock_step :: "nat \<Rightarrow> decision" where
  "undock_step n = projr (reduce (undock_state n) (undock_events ! n))"

lemma undock_step_1: "reduce (undock_state 1) (undock_events ! 1) = Inr (undock_step 1)"
proof -
  have "returns (reduce (undock_state 1) (undock_events ! 1)) (\<lambda>_. True)" by code_simp
  then show ?thesis unfolding undock_step_def by (rule returns_projr)
qed

lemma undock_samples_valid:
  "passes (assert_controller_invariants undock_start)"
  "list_all wf_event undock_events" "list_all wf_event sample_events"
  by code_simp+

section \<open>A probing scenario\<close>

text \<open>A monitor whose profile is known but whose mode is not usable yet is probed.\<close>

definition probe_observation :: canonical_observation where
  "probe_observation =
     (sample_observation 1 100 False)
       \<lparr> ob_eligible_profiles := [],
         ob_probe_candidate := Some \<lparr> pc_profile = ''dock'', pc_output = ''DP-1'',
           pc_internal_output = ''eDP-1'', pc_preferred_mode = ''1920x1080'' \<rparr> \<rparr>"

definition probe_event :: event where
  "probe_event = ObservationCompleted (sample_metadata 100) probe_observation"

definition probe_step :: decision where
  "probe_step = projr (reduce sample_start probe_event)"

lemma probe_step: "reduce sample_start probe_event = Inr probe_step"
proof -
  have "returns (reduce sample_start probe_event) (\<lambda>_. True)" by code_simp
  then show ?thesis unfolding probe_step_def by (rule returns_projr)
qed

lemma probe_event_valid: "wf_event probe_event"
  by code_simp

end
