(* ===== verification/Authority.thy ===== *)
theory Authority
  imports Scenario
begin

text \<open>
  What evidence stands behind the work the reducer asks for, and behind the end of
  external intent: the authorization rules of \<^verbatim>\<open>monitor_controller/invariants.py\<close> read
  at the effects of a decision.
\<close>

section \<open>Ignored events\<close>

text \<open>
  An event of another boot, other than the boot change itself, changes nothing and asks
  for nothing.\<close>

theorem foreign_boot_ignored:
  assumes "passes (assert_controller_invariants s)" and "\<not> is_boot_changed e"
    and "md_boot_id (event_metadata_of e) \<noteq> boot_id s"
  shows "reduce s e = Inr \<lparr>dec_state = s, dec_effects = []\<rparr>"
  using assms by (simp add: reduce_def no_op_def decide_def passes_def bindE_def)

text \<open>
  An observation that is not newer than the recorded evidence, in generation, time or
  event generation, changes nothing and asks for nothing.\<close>

theorem stale_observation_ignored:
  assumes "passes (assert_controller_invariants s)" and "stale_observation s ob"
  shows "reduce s (ObservationCompleted m ob) = Inr \<lparr>dec_state = s, dec_effects = []\<rparr>"
  using assms by (simp add: reduce_def observe_def no_op_def decide_def passes_def bindE_def)

section \<open>Unplugging\<close>

text \<open>C8
  External intent ends, within a boot, only on a valid observation without external
  hardware, at least three seconds after the first sample of the unplug proof in
  progress: one observation, or an invalid one, never ends it.\<close>

theorem unplug_needs_two_samples:
  assumes "reduce s e = Inr d" and "\<not> is_restart e"
    and "external_intent s" and "\<not> external_intent (dec_state d)"
  shows "\<exists>ob p. latest_observation (dec_state d) = Some ob \<and> ob_valid ob \<and>
    \<not> has_external_hardware ob \<and> unplug_proof s = Some p \<and>
    ob_observed_at_ms ob - up_first_observed_at_ms p \<ge> 3000"
  using explained_unplug [OF reduce_explained [OF assms(1,2)] assms(3,4)]
  by (auto simp: unplug_evidence_def present_iff UNPLUG_STABILITY_MS_def)

theorem unplug_needs_two_samples_witness:
  "external_intent (undock_state 1) \<and> \<not> external_intent (dec_state (undock_step 1)) \<and>
   (\<exists>ob p. latest_observation (dec_state (undock_step 1)) = Some ob \<and>
      unplug_proof (undock_state 1) = Some p \<and>
      ob_observed_at_ms ob - up_first_observed_at_ms p \<ge> 3000)"
proof -
  have "external_intent (undock_state 1)" "\<not> external_intent (dec_state (undock_step 1))"
    "\<not> is_restart (undock_events ! 1)" by code_simp+
  with unplug_needs_two_samples [OF undock_step_1] show ?thesis by blast
qed

section \<open>The evidence behind admitted work\<close>

lemmas invariant_parts = assert_controller_invariants_def


lemma authorized_probe:
  assumes "passes (assert_controller_invariants s)" and "probe s = Some a"
    and "phase s = PROBE_PENDING"
  shows "candidate s = None \<and> planning s = None \<and> preparation s = None \<and> finalization s = None \<and>
    (admitted_event_generation a = event_generation s \<longrightarrow>
       pak_physical_epoch (pr_key a) = physical_epoch s \<and>
       present (latest_observation s) (\<lambda>ob.
         ob_observation_key ob = pak_observation_key (pr_key a) \<and>
         present (ob_probe_candidate ob) (probe_matches_candidate a)))"
  using assms by (auto simp: invariant_parts check_action_authorization_def
      check_probe_authorization_def check_numbered_safety_rules_def Let_def present_iff)


lemma preparation_plan:
  assumes "passes (assert_controller_invariants s)" and "preparation s = Some a"
    and "phase s \<noteq> RECOVERING"
  shows "planning_state s = PLAN_READY \<and>
    present (planning s) (\<lambda>pl. pl_plan_hash pl = Some (da_plan_hash a) \<and>
      pl_transition_id pl = da_transition_id a \<and> pl_profile pl = da_profile a)"
  using assms by (auto simp: invariant_parts passes_check_planning_relationships
      planning_inv_def present_iff)


text \<open>The observation that admitted an effect is the state's evidence.\<close>

lemma admitting_observation:
  assumes "reduce s (ObservationCompleted m ob) = Inr d" and "dec_effects d \<noteq> []"
    and "event_generation s \<le> ob_event_generation ob"
  shows "passes (assert_controller_invariants (dec_state d))"
    and "latest_observation (dec_state d) = Some ob"
    and "event_generation (dec_state d) = ob_event_generation ob"
proof -
  show "passes (assert_controller_invariants (dec_state d))"
    using reduce_decided [OF assms(1)] by blast
  have "latest_observation (dec_state d) = Some ob \<and>
    event_generation (dec_state d) = ob_event_generation ob"
    using assms(1)
  proof (cases rule: reduce_observed)
    case ignored
    with assms(2) show ?thesis by simp
  next
    case (accepted t)
    have "latest_observation (dec_state d) = latest_observation t"
      "event_generation (dec_state d) = event_generation t"
      using accepted(6) by (simp_all add: frame_def)
    with record_observation_eq(1,3) [OF accepted(1)] assms(3) show ?thesis
      by (simp add: max_def)
  qed
  then show "latest_observation (dec_state d) = Some ob"
    and "event_generation (dec_state d) = ob_event_generation ob" by blast+
qed



text \<open>C39
  A probe is only activated on a valid observation whose probe candidate is exactly the
  probed output and mode, in the current physical epoch, and while nothing is selected,
  planned, prepared or finalized.\<close>

theorem probes_are_authorized:
  assumes "reduce s (ObservationCompleted m ob) = Inr d"
    and "event_generation s \<le> ob_event_generation ob"
    and "ActivateProbe a k output internal mode g key \<in> set (dec_effects d)"
  shows "ob_valid ob \<and> key = ob_observation_key ob \<and> pak_observation_key k = key \<and>
    pak_physical_epoch k = physical_epoch (dec_state d) \<and>
    present (ob_probe_candidate ob) (\<lambda>c. pc_profile c = pak_profile k \<and> pc_output c = output \<and>
      pc_internal_output c = internal \<and> pc_preferred_mode c = mode) \<and>
    candidate (dec_state d) = None \<and> planning (dec_state d) = None \<and>
    preparation (dec_state d) = None \<and> finalization (dec_state d) = None"
proof -
  have "dec_effects d \<noteq> []" using assms(3) by auto
  note facts = admitting_observation [OF assms(1) this assms(2)]
  have backed: "effect_backed (dec_state d) (ActivateProbe a k output internal mode g key)"
    using reduce_decided [OF assms(1)] assms(3) by blast
  then obtain p where p: "probe (dec_state d) = Some p" and "phase (dec_state d) = PROBE_PENDING"
    by (auto simp: present_iff)
  with backed authorized_probe [OF facts(1) p] facts(2,3) show ?thesis
    by (auto simp: present_iff current_evidence_def activate_probe_effect_def
        probe_matches_candidate_def)
qed

theorem probes_are_authorized_witness:
  "\<exists>a k i m g key.
     ActivateProbe a k ''DP-1'' i m g key \<in> set (dec_effects probe_step) \<and>
     key = ObservationKey ''k0'' \<and> pak_observation_key k = key \<and>
     candidate (dec_state probe_step) = None"
proof -
  have "filter (probes_output ''DP-1'') (dec_effects probe_step) \<noteq> []" by code_simp
  then obtain a k i m g key
    where x: "ActivateProbe a k ''DP-1'' i m g key \<in> set (dec_effects probe_step)"
    by (auto simp: filter_empty_conv request_iffs)
  have "event_generation sample_start \<le> ob_event_generation probe_observation"
    "ob_observation_key probe_observation = ObservationKey ''k0''" by code_simp+
  with probes_are_authorized [OF probe_step [unfolded probe_event_def] _ x] x
  show ?thesis by fastforce
qed





end
