(* ===== verification/Guarantees.thy ===== *)
theory Guarantees
  imports Authority
begin

text \<open>
  The properties of the reducer on every event. Each witness evaluates the reducer on
  the docking scenario.
\<close>

section \<open>Invariants\<close>

text \<open>C2
  Every decision the reducer returns, on whatever event, is in a state that satisfies the
  whole of \<^verbatim>\<open>assert_controller_invariants\<close>: no handler returns a state it has
  not validated.\<close>

theorem reduce_keeps_invariants:
  assumes "reduce s e = Inr d"
  shows "passes (assert_controller_invariants (dec_state d))"
  using reduce_decided [OF assms] by blast

theorem reduce_keeps_invariants_witness:
  "passes (assert_controller_invariants (dec_state (sample_step 0)))"
  by (rule reduce_keeps_invariants [OF sample_step_0])

lemma invariants_workers:
  assumes "passes (assert_controller_invariants s)"
  shows "length (filter (\<lambda>(l, u, d). l \<in> MUTATING_IN_FLIGHT) (state_workers s)) \<le> 1"
    and "(l, u, d) \<in> set (state_workers s) \<Longrightarrow> l \<in> MUTATING_IN_FLIGHT \<Longrightarrow> u \<noteq> None \<and> d \<noteq> None"
  using assms by (auto simp: invariant_parts check_worker_acknowledgements_def)

lemma invariants_external:
  assumes "passes (assert_controller_invariants s)" and "latest_observation s = Some ob"
    and "has_external_hardware ob"
  shows "candidate s = Some c \<Longrightarrow> cs_scope c \<noteq> INTERNAL_ONLY"
    and "application s = Some a \<Longrightarrow> ap_scope a \<noteq> INTERNAL_ONLY"
  using assms by (auto simp: invariant_parts check_numbered_safety_rules_def)

text \<open>C12
  At most one display mutation is in flight after any decision, and a worker in flight
  keeps the unit and the absolute deadline that let the supervisor stop it.\<close>

theorem single_display_mutation:
  assumes "reduce s e = Inr d"
  shows "length (filter (\<lambda>(l, u, n). l \<in> MUTATING_IN_FLIGHT) (state_workers (dec_state d))) \<le> 1 \<and>
    (\<forall>(l, u, n) \<in> set (state_workers (dec_state d)).
       l \<in> MUTATING_IN_FLIGHT \<longrightarrow> u \<noteq> None \<and> n \<noteq> None)"
  using reduce_decided [OF assms] invariants_workers by blast

theorem single_display_mutation_witness:
  "length (filter (\<lambda>(l, u, n). l \<in> MUTATING_IN_FLIGHT)
     (state_workers (dec_state (sample_step 1)))) = 1 \<and>
   length (filter (\<lambda>(l, u, n). l \<in> MUTATING_IN_FLIGHT)
     (state_workers (dec_state (sample_step 1)))) \<le> 1"
proof
  show "length (filter (\<lambda>(l, u, n). l \<in> MUTATING_IN_FLIGHT)
     (state_workers (dec_state (sample_step 1)))) = 1" by code_simp
  show "length (filter (\<lambda>(l, u, n). l \<in> MUTATING_IN_FLIGHT)
     (state_workers (dec_state (sample_step 1)))) \<le> 1"
    using single_display_mutation [OF sample_step_1] by blast
qed

text \<open>C19
  While the latest observation shows external hardware, valid or not, no decision keeps an
  internal-only profile as candidate or as application: the laptop panel is never chosen
  against a connected monitor.\<close>

theorem no_internal_only_with_external_hardware:
  assumes "reduce s e = Inr d"
    and "latest_observation (dec_state d) = Some ob" and "has_external_hardware ob"
  shows "(\<forall>c. candidate (dec_state d) = Some c \<longrightarrow> cs_scope c \<noteq> INTERNAL_ONLY) \<and>
    (\<forall>a. application (dec_state d) = Some a \<longrightarrow> ap_scope a \<noteq> INTERNAL_ONLY)"
  using reduce_decided [OF assms(1)] invariants_external [OF _ assms(2,3)] by blast

theorem no_internal_only_with_external_hardware_witness:
  "present (candidate (dec_state (sample_step 0))) (\<lambda>c. cs_scope c \<noteq> INTERNAL_ONLY) \<and>
   present (application (dec_state (sample_step 0))) (\<lambda>a. ap_scope a \<noteq> INTERNAL_ONLY)"
proof -
  have "latest_observation (dec_state (sample_step 0)) = Some (sample_observation 1 100 False)"
    "has_external_hardware (sample_observation 1 100 False)"
    "application (dec_state (sample_step 0)) \<noteq> None"
    "candidate (dec_state (sample_step 0)) \<noteq> None" by code_simp+
  with no_internal_only_with_external_hardware [OF sample_step_0] show ?thesis
    by (auto simp: present_iff)
qed

section \<open>Effects\<close>



text \<open>C26
  A probe, an application, a plan, a preparation or a finalization is only ever requested
  in answer to a valid observation. Timers, hints, worker results, cancellations, restarts
  and invalid observations request none.\<close>

theorem only_valid_observations_admit_work:
  assumes "reduce s e = Inr d" and "\<not> is_valid_observation e"
  shows "\<forall>x \<in> set (dec_effects d). \<not> admits_work x"
  using reduce_quiet [OF assms] by (simp add: quiet_def)

theorem only_valid_observations_admit_work_witness:
  "dec_effects (sample_step 2) \<noteq> [] \<and> \<not> admits_work (hd (dec_effects (sample_step 2)))"
proof
  show ne: "dec_effects (sample_step 2) \<noteq> []" by code_simp
  have "\<not> is_valid_observation (sample_events ! 2)" by code_simp
  with only_valid_observations_admit_work [OF sample_step_2] ne
  show "\<not> admits_work (hd (dec_effects (sample_step 2)))" by simp
qed

section \<open>Identities, epochs and generations\<close>

text \<open>C29
  Over any sequence of events, restarts and boot changes included, the high-water marks of
  the action and transition identities and the physical and reconciliation epochs never
  fall, and the retained terminal evidence stays within its 768 entries.\<close>

theorem counters_never_fall:
  assumes "run s es = Inr d"
  shows "action_sequence_high_water s \<le> action_sequence_high_water (dec_state d) \<and>
    transition_sequence_high_water s \<le> transition_sequence_high_water (dec_state d) \<and>
    physical_epoch s \<le> physical_epoch (dec_state d) \<and>
    reconcile_epoch s \<le> reconcile_epoch (dec_state d) \<and>
    (length (action_tombstones s) \<le> 768 \<longrightarrow> length (action_tombstones (dec_state d)) \<le> 768)"
  using counter_steps.iterate_relates [OF run_iterate [OF assms]]
  by (simp add: counters_le_def ACTION_TOMBSTONE_RETENTION_LIMIT_def list_all_iff)

lemma sample_run_3: "run sample_start (take 3 sample_events) = Inr (sample_decision 3)"
proof -
  have "returns (run sample_start (take 3 sample_events)) (\<lambda>_. True)" by code_simp
  then show ?thesis unfolding sample_decision_def by (rule returns_projr)
qed

theorem counters_never_fall_witness:
  "physical_epoch sample_start \<le> physical_epoch (dec_state (sample_decision 3)) \<and>
   length (action_tombstones (dec_state (sample_decision 3))) \<le> 768"
proof -
  have "length (action_tombstones sample_start) \<le> 768" by code_simp
  with counters_never_fall [OF sample_run_3] show ?thesis by blast
qed

text \<open>C37
  Within one boot and one controller instance the observation and event generations never
  fall, whatever the events and their order.\<close>

theorem generations_never_fall:
  assumes "run s es = Inr d" and "list_all (\<lambda>e. \<not> is_restart e) es"
  shows "observation_generation s \<le> observation_generation (dec_state d) \<and>
    event_generation s \<le> event_generation (dec_state d) \<and> boot_id (dec_state d) = boot_id s"
  using instance_steps.iterate_relates [OF run_iterate [OF assms(1)] assms(2)]
  by (simp add: within_instance_def)

lemma sample_no_restart: "list_all (\<lambda>e. \<not> is_restart e) (take 3 sample_events)"
  by code_simp

theorem generations_never_fall_witness:
  "observation_generation sample_start \<le> observation_generation (dec_state (sample_decision 3)) \<and>
   event_generation sample_start \<le> event_generation (dec_state (sample_decision 3))"
  using generations_never_fall [OF sample_run_3 sample_no_restart] by blast

lemma instance_identity_bounded:
  assumes "passes (assert_controller_invariants s)"
    and "a \<in> retained_ids s \<union> tombstone_ids s" and "aid_instance a = controller_instance s"
  shows "aid_sequence a \<le> action_sequence_high_water s"
proof -
  have "a \<in> set (map record_id (state_actions s)) \<union> set (map tomb_action_id (action_tombstones s))"
    using assms(2) state_actions_ids [of s] by (auto simp: tombstone_ids_def)
  then have "passes (check_action_id s a)"
    using assms(1) by (auto simp: invariant_parts check_action_identities_def Let_def)
  then show ?thesis using assms(3) by (simp add: check_action_id_def)
qed

text \<open>C28
  An action identity of the current controller instance that has a tombstone and is no
  longer retained is never admitted again, over any events of the instance.\<close>

theorem retired_identities_stay_retired:
  assumes "run s es = Inr d" and "list_all (\<lambda>e. \<not> is_restart e) es"
    and "passes (assert_controller_invariants s)"
    and "a \<in> tombstone_ids s" and "a \<notin> retained_ids s"
    and "aid_instance a = controller_instance s"
  shows "a \<notin> retained_ids (dec_state d)"
proof -
  have "within_instance s (dec_state d)"
    using instance_steps.iterate_relates [OF run_iterate [OF assms(1)] assms(2)] .
  moreover have "aid_sequence a \<le> action_sequence_high_water s"
    using instance_identity_bounded [OF assms(3) _ assms(6)] assms(4) by blast
  ultimately show ?thesis
    using assms(5) by (auto simp: within_instance_def fresh_ids_def)
qed

theorem retired_identities_stay_retired_witness:
  "sample_action APPLICATION 1 \<in> tombstone_ids (sample_state 3) \<and>
   sample_action APPLICATION 1 \<notin> retained_ids (dec_state (sample_step 3))"
proof -
  have known: "sample_action APPLICATION 1 \<in> tombstone_ids (sample_state 3)"
    "sample_action APPLICATION 1 \<notin> retained_ids (sample_state 3)"
    "aid_instance (sample_action APPLICATION 1) = controller_instance (sample_state 3)"
    "passes (assert_controller_invariants (sample_state 3))"
    "list_all (\<lambda>e. \<not> is_restart e) [sample_events ! 3]" by code_simp+
  have "returns (run (sample_state 3) [sample_events ! 3])
      (\<lambda>d. dec_state d = dec_state (sample_step 3))" by code_simp
  then obtain d where "run (sample_state 3) [sample_events ! 3] = Inr d"
    "dec_state d = dec_state (sample_step 3)" by (auto simp: returns_def)
  with retired_identities_stay_retired [of "sample_state 3" _ d] known show ?thesis by metis
qed

text \<open>C27
  Whatever the event, an identity that a decision newly retains belongs to the controller
  instance of the decision and lies above the high-water mark before it.\<close>

theorem admitted_identities_are_fresh:
  assumes "reduce s e = Inr d" and "a \<in> retained_ids (dec_state d)" and "a \<notin> retained_ids s"
  shows "aid_instance a = controller_instance (dec_state d) \<and>
    action_sequence_high_water s < aid_sequence a \<and>
    aid_sequence a \<le> action_sequence_high_water (dec_state d)"
proof (cases e rule: is_restart.cases)
  case (1 m i)
  with reduce_restart [of s m i d] assms
  consider "explained s d" | "explained (s\<lparr>controller_instance := i\<rparr>) d" by blast
  then show ?thesis
  proof cases
    case 1
    with explained_evolves(2,10) [OF 1] assms(2,3) show ?thesis by (auto simp: fresh_ids_def)
  next
    case 2
    with explained_evolves(2,10) [OF 2] assms(2,3) show ?thesis
      by (auto simp: fresh_ids_def retained_ids_def)
  qed
next
  case (2 m p)
  with reduce_boot_changed [of s m p d] assms providedD [OF boot_changed_kept, of s m p d]
  show ?thesis by auto
qed (use reduce_explained [OF assms(1)] explained_evolves(2,10) [of s d] assms(2,3) in
    \<open>auto simp: fresh_ids_def\<close>)

theorem admitted_identities_are_fresh_witness:
  "action_sequence_high_water (sample_state 0) < aid_sequence (sample_action APPLICATION 1) \<and>
   sample_action APPLICATION 1 \<in> retained_ids (dec_state (sample_step 0))"
proof -
  have "sample_action APPLICATION 1 \<in> retained_ids (dec_state (sample_step 0))"
    "sample_action APPLICATION 1 \<notin> retained_ids (sample_state 0)" by code_simp+
  with admitted_identities_are_fresh [OF sample_step_0] show ?thesis by blast
qed

end
