(* ===== verification/Defects.thy ===== *)
theory Defects
  imports Guarantees
begin

text \<open>
  A branch of the reducer that can never return: the stop of an internal-only
  application that external hardware has made unsafe. The branch keeps the application
  in the state it validates, and the validation forbids exactly that application while
  the latest observation shows external hardware.
\<close>

lemma append_tombstone_application:
  "append_tombstone s r l = Inr t \<Longrightarrow>
     application t = application s \<and> latest_observation t = latest_observation s"
  by (auto dest!: append_tombstone_state)

lemma discard_planning_application:
  "discard_planning s = Inr (t, es) \<Longrightarrow>
     application t = application s \<and> latest_observation t = latest_observation s"
  by (auto simp: discard_planning_def idle_desktop_def bindE_eq_Inr
      dest!: append_tombstone_application split: option.splits if_splits)

lemma drop_admitted_parts_application:
  "drop_admitted_probe s = Inr t \<Longrightarrow>
     application t = application s \<and> latest_observation t = latest_observation s"
  "drop_admitted_preparation s = Inr (t, es) \<Longrightarrow>
     application t = application s \<and> latest_observation t = latest_observation s"
  "drop_admitted_finalization s = Inr t \<Longrightarrow>
     application t = application s \<and> latest_observation t = latest_observation s"
  "drop_admitted_application s = Inr t \<Longrightarrow> application s = Some a \<Longrightarrow> lifecycle a \<noteq> ADMITTED \<Longrightarrow>
     t = s"
  by (auto simp: drop_admitted_probe_def drop_admitted_application_def
      drop_admitted_preparation_def drop_admitted_finalization_def bindE_eq_Inr
      dest!: append_tombstone_application discard_planning_application
      split: option.splits if_splits)

lemma drop_admitted_keeps_application:
  assumes "drop_admitted s = Inr (t, es)" and "application s = Some a" and "lifecycle a \<noteq> ADMITTED"
  shows "application t = Some a \<and> latest_observation t = latest_observation s"
proof -
  obtain s1 s2 s3 where "drop_admitted_probe s = Inr s1" "drop_admitted_application s1 = Inr s2"
    "drop_admitted_preparation s2 = Inr (s3, es)" "drop_admitted_finalization s3 = Inr t"
    using assms(1) by (auto simp: drop_admitted_def bindE_eq_Inr)
  with drop_admitted_parts_application(1) [of s s1] drop_admitted_parts_application(4) [of s1 s2 a]
    drop_admitted_parts_application(2) [of s2 s3 es] drop_admitted_parts_application(3) [of s3 t]
    assms(2,3)
  show ?thesis by simp
qed

lemma schedule_state:
  "schedule s n es = Inr d \<Longrightarrow>
     dec_state d = s\<lparr>next_timer_ms := Some n\<rparr> \<and> passes (assert_controller_invariants (dec_state d))"
  by (auto simp: schedule_def decide_def bindE_eq_Inr passes_def)

lemma forbidden_application:
  assumes "schedule s n es = Inr d" and "latest_observation s = Some ob"
    and "has_external_hardware ob" and "application s = Some a" and "ap_scope a = INTERNAL_ONLY"
  shows False
proof -
  have "dec_state d = s\<lparr>next_timer_ms := Some n\<rparr>"
    "passes (assert_controller_invariants (dec_state d))"
    using schedule_state [OF assms(1)] by blast+
  then show False
    using invariants_external(2) [of "dec_state d" ob a] assms(2-5) by simp
qed

lemma observe_internal_application_raises:
  assumes "record_observation s ob = Inr t" and "has_external_hardware ob"
    and "application s = Some a" and "ap_scope a = INTERNAL_ONLY" and "lifecycle a = DISPATCHED"
  shows "observe_valid t prior ob \<noteq> Inr d" and "observe_invalid t ob \<noteq> Inr d"
proof -
  have t: "latest_observation t = Some ob" "application t = Some a"
    using record_observation_eq(1,7) [OF assms(1)] assms(3) by simp_all
  show "observe_valid t prior ob \<noteq> Inr d"
    using t assms(2,4,5)
    by (auto simp: observe_valid_def live_internal_application_def Let_def
        stop_internal_application_def bindE_eq_Inr
        elim!: forbidden_application [where ob = ob and a = "a\<lparr>lifecycle := STOPPING\<rparr>"])
  show "observe_invalid t ob \<noteq> Inr d"
  proof
    assume "observe_invalid t ob = Inr d"
    then obtain s1 s2 es where s1: "s1 = t\<lparr>external_intent := True,
        candidate := (if internal_candidate t then None else candidate t),
        unplug_proof := None, verify_since_ms := None\<rparr>"
      and s2: "drop_admitted s1 = Inr (s2, es)"
      and d: "(if live_internal_application s2 {DISPATCHED, STOPPING}
        then stop_application s2 (the (application s2)) (ob_observed_at_ms ob) es
        else settle_invalid s2 ob es) = Inr d"
      using assms(2) by (auto simp: observe_invalid_def Let_def bindE_eq_Inr)
    have "application s2 = Some a" "latest_observation s2 = Some ob"
      using drop_admitted_keeps_application [OF s2, of a] t assms(5) by (simp_all add: s1)
    with d assms(2,4,5) show False
      by (auto simp: live_internal_application_def stop_application_def bindE_eq_Inr
          elim!: forbidden_application [where ob = ob and a = "a\<lparr>lifecycle := STOPPING\<rparr>"])
  qed
qed

text \<open>C33
  When external hardware appears while an internal-only application runs, the reducer
  means to stop the application, but the decision never passes its own invariants: the
  event raises whatever the observation's validity, and no stop is requested.\<close>

theorem internal_only_stop_raises:
  assumes "md_boot_id m = boot_id s" and "recovery_units s = []"
    and "\<not> stale_observation s ob" and "has_external_hardware ob"
    and "application s = Some a" and "ap_scope a = INTERNAL_ONLY" and "lifecycle a = DISPATCHED"
  shows "\<exists>e. reduce s (ObservationCompleted m ob) = Inl e"
proof (rule ccontr)
  assume "\<nexists>e. reduce s (ObservationCompleted m ob) = Inl e"
  then obtain d where "reduce s (ObservationCompleted m ob) = Inr d"
    by (metis sum.exhaust)
  then obtain t where t: "record_observation s ob = Inr t"
    and d: "observe_valid t (latest_observation s) ob = Inr d \<or> observe_invalid t ob = Inr d"
    using assms(1-3) by (auto simp: reduce_def observe_def bindE_eq_Inr split: if_splits)
  from d observe_internal_application_raises [OF t assms(4-7)] show False by blast
qed

theorem internal_only_stop_raises_witness:
  "\<exists>e. reduce (undock_state 3) (undock_events ! 3) = Inl e"
proof -
  have facts: "md_boot_id (sample_metadata 3500) = boot_id (undock_state 3)"
    "recovery_units (undock_state 3) = []"
    "\<not> stale_observation (undock_state 3) (sample_observation 3 3500 False)"
    "has_external_hardware (sample_observation 3 3500 False)"
    "present (application (undock_state 3))
       (\<lambda>a. ap_scope a = INTERNAL_ONLY \<and> lifecycle a = DISPATCHED)" by code_simp+
  then obtain a where "application (undock_state 3) = Some a" "ap_scope a = INTERNAL_ONLY"
    "lifecycle a = DISPATCHED" by (auto simp: present_iff)
  from internal_only_stop_raises [OF facts(1-4) this]
  show ?thesis by (simp add: undock_events_def sample_observed_def)
qed

end
