(* ===== verification/Scheduler.thy ===== *)
theory Scheduler
  imports Reducer
begin

text \<open>
  The deadline producer of \<^verbatim>\<open>runtime/scheduler.py\<close>: a task per armed deadline that
  sleeps until it is due and puts one \<^verbatim>\<open>TimerFired\<close> on the controller's queue. The
  event loop is a step relation on the scheduler's fields, its tasks and the queue;
  the clock's readings are arguments of the step that reads them.
\<close>

section \<open>State\<close>

text \<open>
  A task is created waiting, and ends by firing or by cancellation. \<^verbatim>\<open>task.cancel()\<close>
  on a task that is not done makes its next resumption raise \<^verbatim>\<open>CancelledError\<close> at the
  await of \<^verbatim>\<open>sleep_until\<close>, before anything is put on the queue.
\<close>

datatype task_status = Waiting int boot_id | Cancelling | Done

record scheduler =
  deadline_ms :: "int option"
  deadline_boot :: "boot_id option"
  producer :: "nat option"
  tasks :: "task_status list"
  queue :: "event list"

definition new_scheduler :: scheduler where
  "new_scheduler =
     \<lparr> deadline_ms = None, deadline_boot = None, producer = None, tasks = [], queue = [] \<rparr>"

definition task_done :: "scheduler \<Rightarrow> nat \<Rightarrow> bool" where
  "task_done s i \<longleftrightarrow> tasks s ! i = Done"

text \<open>\<^verbatim>\<open>task.cancel()\<close>: a task that is done stays as it is.\<close>

definition cancel :: "scheduler \<Rightarrow> nat \<Rightarrow> scheduler" where
  "cancel s i = (if task_done s i then s else s\<lparr>tasks := (tasks s)[i := Cancelling]\<rparr>)"

definition cancel_task :: "scheduler \<Rightarrow> scheduler" where
  "cancel_task s =
     (case producer s of None \<Rightarrow> s\<lparr>producer := None\<rparr> | Some i \<Rightarrow> cancel (s\<lparr>producer := None\<rparr>) i)"

text \<open>\<^verbatim>\<open>asyncio.create_task(self._wait(deadline_ms, boot_id))\<close>.\<close>

definition create_task :: "scheduler \<Rightarrow> int \<Rightarrow> boot_id \<Rightarrow> scheduler" where
  "create_task s d b =
     s\<lparr>tasks := tasks s @ [Waiting d b], producer := Some (length (tasks s))\<rparr>"

definition already_armed :: "scheduler \<Rightarrow> int option \<Rightarrow> boot_id \<Rightarrow> bool" where
  "already_armed s d b \<longleftrightarrow>
     d = deadline_ms s \<and> Some b = deadline_boot s \<and>
     present (producer s) (\<lambda>i. \<not> task_done s i)"

definition arm :: "scheduler \<Rightarrow> int option \<Rightarrow> boot_id \<Rightarrow> scheduler result" where
  "arm s d b =
     (if present d (\<lambda>n. n < 0)
      then Inl (ValueError ''scheduler deadline must be non-negative'')
      else if already_armed s d b then Inr s
      else let t = (cancel_task s)\<lparr>deadline_ms := d, deadline_boot := Some b\<rparr>
           in Inr (case d of None \<Rightarrow> t | Some n \<Rightarrow> create_task t n b))"

definition close :: "scheduler \<Rightarrow> scheduler" where
  "close s =
     (let t = s\<lparr>deadline_ms := None, deadline_boot := None, producer := None\<rparr>
      in case producer s of None \<Rightarrow> t | Some i \<Rightarrow> cancel t i)"

text \<open>
  The rest of \<^verbatim>\<open>_wait\<close> once \<^verbatim>\<open>sleep_until\<close> has returned, with the clock's reading,
  and its \<^verbatim>\<open>finally\<close> block.
\<close>

definition release :: "scheduler \<Rightarrow> nat \<Rightarrow> scheduler" where
  "release s i =
     (if producer s = Some i
      then s\<lparr>producer := None, deadline_ms := None, deadline_boot := None\<rparr> else s)"

definition fire :: "scheduler \<Rightarrow> nat \<Rightarrow> int \<Rightarrow> boot_id \<Rightarrow> int \<Rightarrow> scheduler" where
  "fire s i d b clock_ms =
     release (s\<lparr>tasks := (tasks s)[i := Done],
                queue := queue s @ [TimerFired \<lparr>processed_at_ms = max d clock_ms, md_boot_id = b\<rparr> d]\<rparr>)
       i"

definition unwind :: "scheduler \<Rightarrow> nat \<Rightarrow> scheduler" where
  "unwind s i = release (s\<lparr>tasks := (tasks s)[i := Done]\<rparr>) i"

section \<open>Steps\<close>

text \<open>
  What can happen: the controller arms or closes, a sleeping task resumes at its
  deadline, a cancelled task unwinds, the controller takes an event from the queue.
\<close>

datatype scheduler_op =
    Arm "int option" boot_id | Close | Fire nat int | Unwind nat | Take

inductive sched_step :: "scheduler \<Rightarrow> scheduler_op \<Rightarrow> scheduler \<Rightarrow> bool" where
  step_arm: "arm s d b = Inr t \<Longrightarrow> sched_step s (Arm d b) t"
| step_close: "sched_step s Close (close s)"
| step_fire: "i < length (tasks s) \<Longrightarrow> tasks s ! i = Waiting d b \<Longrightarrow>
    sched_step s (Fire i clock_ms) (fire s i d b clock_ms)"
| step_unwind: "i < length (tasks s) \<Longrightarrow> tasks s ! i = Cancelling \<Longrightarrow>
    sched_step s (Unwind i) (unwind s i)"
| step_take: "queue s = e # es \<Longrightarrow> sched_step s Take (s\<lparr>queue := es\<rparr>)"

inductive_cases sched_stepE: "sched_step s op t"

inductive sched_reachable :: "scheduler \<Rightarrow> bool" where
  reach_new: "sched_reachable new_scheduler"
| reach_step: "sched_reachable s \<Longrightarrow> sched_step s op t \<Longrightarrow> sched_reachable t"

section \<open>One producer\<close>

text \<open>
  The producer is the only waiting task, and it waits for the recorded deadline and
  boot; without a producer nothing waits.
\<close>

definition waiting :: "scheduler \<Rightarrow> nat \<Rightarrow> int \<Rightarrow> boot_id \<Rightarrow> bool" where
  "waiting s i d b \<longleftrightarrow> i < length (tasks s) \<and> tasks s ! i = Waiting d b"

definition sole_producer :: "scheduler \<Rightarrow> bool" where
  "sole_producer s \<longleftrightarrow>
     (\<forall>i d b. waiting s i d b \<longleftrightarrow>
        producer s = Some i \<and> deadline_ms s = Some d \<and> deadline_boot s = Some b) \<and>
     (producer s = None \<longleftrightarrow> deadline_ms s = None) \<and>
     (producer s \<noteq> None \<longrightarrow> deadline_boot s \<noteq> None)"

lemma nth_list_update_bound: "j < length xs \<Longrightarrow> xs[i := x] ! j = (if i = j then x else xs ! j)"
  by (cases "i = j") simp_all

lemma waiting_cancel [simp]:
  "waiting (cancel s i) j d b \<longleftrightarrow> waiting s j d b \<and> j \<noteq> i"
  by (auto simp: cancel_def waiting_def task_done_def nth_list_update_bound split: if_splits)

lemma waiting_update [simp]:
  "waiting (s\<lparr>deadline_ms := x\<rparr>) = waiting s" "waiting (s\<lparr>deadline_boot := y\<rparr>) = waiting s"
  "waiting (s\<lparr>producer := z\<rparr>) = waiting s" "waiting (s\<lparr>queue := q\<rparr>) = waiting s"
  "waiting (s\<lparr>tasks := (tasks s)[i := Done]\<rparr>) j d b \<longleftrightarrow> waiting s j d b \<and> j \<noteq> i"
  by (auto simp: waiting_def fun_eq_iff nth_list_update_bound split: if_splits)

lemma waiting_create [simp]:
  "waiting (create_task s n c) j d b \<longleftrightarrow>
     waiting s j d b \<or> (j = length (tasks s) \<and> d = n \<and> b = c)"
  by (auto simp: create_task_def waiting_def nth_append)

lemma waiting_bound: "waiting s i d b \<Longrightarrow> i < length (tasks s)"
  by (simp add: waiting_def)

lemma cancel_fields [simp]:
  "producer (cancel s i) = producer s" "deadline_ms (cancel s i) = deadline_ms s"
  "deadline_boot (cancel s i) = deadline_boot s" "queue (cancel s i) = queue s"
  "length (tasks (cancel s i)) = length (tasks s)"
  by (simp_all add: cancel_def)

lemma cancel_task_idle:
  assumes "sole_producer s"
  shows "\<not> waiting (cancel_task s) i d b" and "producer (cancel_task s) = None"
    and "queue (cancel_task s) = queue s"
  using assms by (auto simp: cancel_task_def sole_producer_def split: option.split)

lemma arm_sole_producer:
  assumes "sole_producer s" and "arm s d b = Inr t"
  shows "sole_producer t" and "queue t = queue s"
proof -
  have "sole_producer t \<and> queue t = queue s"
  proof (cases "already_armed s d b")
    case True
    with assms show ?thesis by (auto simp: arm_def split: if_splits)
  next
    case False
    let ?u = "(cancel_task s)\<lparr>deadline_ms := d, deadline_boot := Some b\<rparr>"
    have t: "t = (case d of None \<Rightarrow> ?u | Some n \<Rightarrow> create_task ?u n b)"
      using assms(2) False by (simp add: arm_def Let_def split: if_splits)
    note idle = cancel_task_idle [OF assms(1)]
    show ?thesis
    proof (cases d)
      case None
      with t idle show ?thesis by (simp add: sole_producer_def)
    next
      case (Some n)
      with t idle show ?thesis
        by (auto simp: sole_producer_def) (auto simp: create_task_def)
    qed
  qed
  then show "sole_producer t" and "queue t = queue s" by blast+
qed

lemma close_sole_producer: "sole_producer s \<Longrightarrow> sole_producer (close s)"
  by (auto simp: close_def sole_producer_def Let_def split: option.split)

lemma fire_sole_producer:
  assumes "sole_producer s" and "waiting s i d b"
  shows "sole_producer (fire s i d b clock)" and "producer s = Some i"
    and "deadline_ms s = Some d" and "deadline_boot s = Some b"
proof -
  show facts: "producer s = Some i" "deadline_ms s = Some d" "deadline_boot s = Some b"
    using assms by (auto simp: sole_producer_def)
  with assms(1) show "sole_producer (fire s i d b clock)"
    by (auto simp: fire_def release_def sole_producer_def)
qed

lemma unwinding_not_producer:
  assumes "sole_producer s" and "tasks s ! i = Cancelling"
  shows "producer s \<noteq> Some i"
proof
  assume "producer s = Some i"
  then obtain d b where "waiting s i d b" using assms(1) by (auto simp: sole_producer_def)
  with assms(2) show False by (simp add: waiting_def)
qed

lemma unwind_sole_producer:
  assumes "sole_producer s" and "i < length (tasks s)" and "tasks s ! i = Cancelling"
  shows "sole_producer (unwind s i)"
proof -
  have "\<not> waiting s i d b" for d b using assms(3) by (simp add: waiting_def)
  moreover have "producer s \<noteq> Some i" by (rule unwinding_not_producer [OF assms(1,3)])
  ultimately show ?thesis
    using assms(1) by (auto simp: unwind_def release_def sole_producer_def)
qed

lemma take_sole_producer: "sole_producer s \<Longrightarrow> sole_producer (s\<lparr>queue := es\<rparr>)"
  unfolding sole_producer_def by auto

lemma sched_step_sole_producer: "sched_step s op t \<Longrightarrow> sole_producer s \<Longrightarrow> sole_producer t"
  by (induction rule: sched_step.induct)
    (auto simp: waiting_def intro: arm_sole_producer close_sole_producer fire_sole_producer
      unwind_sole_producer take_sole_producer)

lemma reachable_sole_producer: "sched_reachable s \<Longrightarrow> sole_producer s"
proof (induction rule: sched_reachable.induct)
  case reach_new
  show ?case by (simp add: sole_producer_def new_scheduler_def waiting_def)
qed (rule sched_step_sole_producer)

section \<open>Refinement of a single alarm\<close>

text \<open>
  The scheduler promises a single alarm: set replaces it, clear removes it, and only a
  set alarm rings, once. \<open>alarm\<close> is the abstract state, \<open>alarm_step\<close> its transitions.
\<close>

type_synonym alarm = "(int \<times> boot_id) option"

definition the_alarm :: "scheduler \<Rightarrow> alarm" where
  "the_alarm s =
     (case (producer s, deadline_ms s, deadline_boot s) of
        (Some i, Some d, Some b) \<Rightarrow> Some (d, b) | _ \<Rightarrow> None)"

inductive alarm_step :: "alarm \<Rightarrow> scheduler_op \<Rightarrow> event list \<Rightarrow> alarm \<Rightarrow> bool" where
  alarm_set: "0 \<le> d \<Longrightarrow> alarm_step a (Arm (Some d) b) [] (Some (d, b))"
| alarm_unset: "alarm_step a (Arm None b) [] None"
| alarm_close: "alarm_step a Close [] None"
| alarm_ring: "alarm_step (Some (d, b)) (Fire i clock_ms)
    [TimerFired \<lparr>processed_at_ms = max d clock_ms, md_boot_id = b\<rparr> d] None"
| alarm_unwind: "alarm_step a (Unwind i) [] a"
| alarm_take: "alarm_step a Take [] a"

inductive_cases alarm_stepE: "alarm_step a op es b"

text \<open>What a step puts on the queue.\<close>

definition emitted :: "scheduler \<Rightarrow> scheduler \<Rightarrow> event list" where
  "emitted s t = drop (length (queue s)) (queue t)"

lemma the_alarm_sole:
  assumes "sole_producer s"
  shows "the_alarm s = Some (d, b) \<longleftrightarrow> (\<exists>i. waiting s i d b)"
    and "the_alarm s = None \<longleftrightarrow> producer s = None"
  using assms by (auto simp: the_alarm_def sole_producer_def split: option.splits)

lemma arm_alarm:
  assumes "sole_producer s" and "arm s d b = Inr t"
  shows "the_alarm t = (case d of None \<Rightarrow> None | Some n \<Rightarrow> Some (n, b))"
    and "present d (\<lambda>n. 0 \<le> n) \<or> d = None"
proof -
  show "present d (\<lambda>n. 0 \<le> n) \<or> d = None"
    using assms(2) by (cases d) (auto simp: arm_def not_less split: if_splits)
  show "the_alarm t = (case d of None \<Rightarrow> None | Some n \<Rightarrow> Some (n, b))"
  proof (cases "already_armed s d b")
    case True
    then have "t = s" using assms(2) by (simp add: arm_def split: if_splits)
    with True assms(1) show ?thesis
      by (cases d) (auto simp: already_armed_def present_iff the_alarm_def sole_producer_def)
  next
    case False
    with assms(2) cancel_task_idle(2) [OF assms(1)] show ?thesis
      by (auto simp: arm_def Let_def the_alarm_def create_task_def split: option.splits if_splits)
  qed
qed

lemma step_refines_alarm:
  assumes "sched_step s op t" and "sole_producer s"
  shows "alarm_step (the_alarm s) op (emitted s t) (the_alarm t)"
  using assms
proof (cases rule: sched_step.cases)
  case (step_arm d b)
  with arm_alarm [OF assms(2) step_arm(2)] arm_sole_producer(2) [OF assms(2) step_arm(2)]
  show ?thesis
    by (auto simp: emitted_def present_iff intro: alarm_set alarm_unset split: option.splits)
next
  case step_close
  then show ?thesis
    by (auto simp: close_def emitted_def the_alarm_def Let_def intro: alarm_close
        split: option.splits)
next
  case (step_fire i d b clock_ms)
  then have w: "waiting s i d b" by (simp add: waiting_def)
  then have "the_alarm s = Some (d, b)" using the_alarm_sole(1) [OF assms(2)] by blast
  with step_fire fire_sole_producer(2) [OF assms(2) w] show ?thesis
    by (auto simp: fire_def release_def emitted_def the_alarm_def intro: alarm_ring)
next
  case (step_unwind i)
  with unwinding_not_producer [OF assms(2)] show ?thesis
    by (auto simp: unwind_def release_def emitted_def the_alarm_def intro: alarm_unwind)
next
  case (step_take e es)
  then show ?thesis by (auto simp: emitted_def the_alarm_def intro: alarm_take)
qed

text \<open>C11
  Every step of the scheduler, whatever the interleaving of arming, closing, firing and
  the unwinding of cancelled tasks, is a step of a single alarm: at most the current
  deadline fires, never before it is due, and a fired or replaced deadline is gone.\<close>

theorem scheduler_refines_alarm:
  assumes "sched_reachable s" and "sched_step s op t"
  shows "alarm_step (the_alarm s) op (emitted s t) (the_alarm t)"
  using assms(2) reachable_sole_producer [OF assms(1)] by (rule step_refines_alarm)

text \<open>
  At any time at most one task waits, and it waits for the recorded deadline.\<close>

theorem one_waiting_producer:
  assumes "sched_reachable s"
  shows "length (filter (\<lambda>t. t \<noteq> Cancelling \<and> t \<noteq> Done) (tasks s)) =
    (if deadline_ms s = None then 0 else 1)"
proof -
  have sole: "sole_producer s" by (rule reachable_sole_producer [OF assms])
  have live: "t \<noteq> Cancelling \<and> t \<noteq> Done \<longleftrightarrow> (\<exists>d b. t = Waiting d b)" for t
    by (cases t) auto
  have "length (filter (\<lambda>t. t \<noteq> Cancelling \<and> t \<noteq> Done) (tasks s)) =
      card {i. i < length (tasks s) \<and> (\<exists>d b. tasks s ! i = Waiting d b)}"
    by (simp only: length_filter_conv_card live)
  also have "{i. i < length (tasks s) \<and> (\<exists>d b. tasks s ! i = Waiting d b)} =
      {i. \<exists>d b. waiting s i d b}"
    by (auto simp: waiting_def)
  also have "\<dots> = (case producer s of None \<Rightarrow> {} | Some i \<Rightarrow> {i})"
    using sole by (auto simp: sole_producer_def split: option.split)
  finally show ?thesis
    using sole by (auto simp: sole_producer_def split: option.splits)
qed

section \<open>A concrete schedule\<close>

definition sample_armed :: scheduler where
  "sample_armed = projr (arm new_scheduler (Some 100) (BootId 1))"

definition sample_rearmed :: scheduler where
  "sample_rearmed = projr (arm sample_armed (Some 50) (BootId 1))"

lemma sample_schedule:
  "sched_step new_scheduler (Arm (Some 100) (BootId 1)) sample_armed"
  "sched_step sample_armed (Arm (Some 50) (BootId 1)) sample_rearmed"
proof -
  have "arm new_scheduler (Some 100) (BootId 1) = Inr sample_armed"
    "arm sample_armed (Some 50) (BootId 1) = Inr sample_rearmed" by code_simp+
  then show "sched_step new_scheduler (Arm (Some 100) (BootId 1)) sample_armed"
    "sched_step sample_armed (Arm (Some 50) (BootId 1)) sample_rearmed"
    by (auto intro: step_arm)
qed

lemma sample_rearmed_reachable: "sched_reachable sample_rearmed"
  by (intro reach_step [OF _ sample_schedule(2)] reach_step [OF reach_new sample_schedule(1)])

theorem scheduler_refines_alarm_witness:
  "alarm_step (Some (50, BootId 1)) (Fire 1 60)
     [TimerFired \<lparr>processed_at_ms = 60, md_boot_id = BootId 1\<rparr> 50] None"
proof -
  let ?t = "fire sample_rearmed 1 50 (BootId 1) 60"
  have "1 < length (tasks sample_rearmed)" "tasks sample_rearmed ! 1 = Waiting 50 (BootId 1)"
    by code_simp+
  then have "sched_step sample_rearmed (Fire 1 60) ?t" by (rule step_fire)
  moreover have "the_alarm sample_rearmed = Some (50, BootId 1)" "the_alarm ?t = None"
    "emitted sample_rearmed ?t = [TimerFired \<lparr>processed_at_ms = 60, md_boot_id = BootId 1\<rparr> 50]"
    by code_simp+
  ultimately show ?thesis
    using scheduler_refines_alarm [OF sample_rearmed_reachable] by metis
qed


end
