(* ===== verification/Liveness.thy ===== *)
theory Liveness
  imports Reducer_Runs Scheduler
begin

text \<open>
  The controller always has a reason to wake up: a timer, a worker in flight with a
  deadline, or quiescence, where only a hint of new evidence matters. The timer is
  honoured: a deadline that rings is accepted and turns into an observation request.
\<close>

section \<open>A reason to wake up\<close>

definition worker_in_flight :: "state \<Rightarrow> bool" where
  "worker_in_flight s \<longleftrightarrow> list_ex (\<lambda>(l, u, d). l \<in> {DISPATCHED, STOPPING} \<and> d \<noteq> None) (state_workers s)"

definition has_future :: "state \<Rightarrow> bool" where
  "has_future s \<longleftrightarrow> next_timer_ms s \<noteq> None \<or> phase s = QUIESCENT \<or> worker_in_flight s"

definition future :: "decision \<Rightarrow> bool" where
  "future d \<longleftrightarrow> has_future (dec_state d)"

lemma has_future_timer [simp]: "has_future (s\<lparr>next_timer_ms := Some n\<rparr>)"
  by (simp add: has_future_def)

named_theorems live \<open>handlers that leave a reason to wake up\<close>

lemma decide_future: "has_future s \<Longrightarrow> provided (decide s es) future"
  by (auto simp: decide_def provided_def bindE_eq_Inr future_def)

lemma no_op_future [live]: "has_future s \<Longrightarrow> provided (no_op s) future"
  unfolding no_op_def by (rule decide_future)

lemma schedule_future [live]: "provided (schedule s n es) future"
  unfolding schedule_def by (auto intro!: provided_bindI decide_future)

lemma quiesce_future [live]: "provided (quiesce s es) future"
  unfolding quiesce_def by (auto intro!: provided_bindI decide_future simp: has_future_def)

lemmas live_steps = provided_bindI provided_ifI

lemma enter_wait_future [live]: "provided (enter_wait s n) future"
  unfolding enter_wait_def Let_def by (auto intro!: live_steps live split: option.splits)

lemma defer_while_asleep_future [live]: "provided (defer_while_asleep s n) future"
  unfolding defer_while_asleep_def by (auto intro!: live_steps live)

section \<open>Observations\<close>

lemma admissions_future [live]:
  "provided (admit_probe s ob) future"
  "provided (admit_fresh_application s ob target key cand) future"
  "provided (admit_finalization s ob prep profile leading) future"
  unfolding admit_probe_def admit_fresh_application_def admit_finalization_def
  by (auto intro!: live_steps decide_future enter_wait_future split: option.split
      simp: has_future_def)

lemma admit_application_future [live]: "provided (admit_application s ob target) future"
  unfolding admit_application_def by (auto intro!: live_steps live)

lemma settle_verification_future [live]:
  "provided (settle_verification s ob profile b leading) future"
  unfolding settle_verification_def Let_def
  by (auto intro!: live_steps live split: option.split)

lemma start_verification_future [live]: "provided (start_verification s ob target) future"
  unfolding start_verification_def advance_verification_def Let_def
  by (auto intro!: live_steps live split: option.split)

lemma classify_evidence_future [live]: "provided (classify_evidence s ob) future"
  unfolding classify_evidence_def classify_exact_def classify_eligible_def classify_unknown_def
    Let_def
  by (auto intro!: live_steps live split: option.split)

lemma classify_settled_future [live]: "provided (classify_settled s ob) future"
  unfolding classify_settled_def classify_probe_failed_def classify_apply_failed_def
    classify_finalize_failed_def Let_def
  by (auto intro!: live_steps live split: option.split)

lemma reissued_future:
  assumes "observe_pending_action s ob = Inr (Reissued d)"
  shows "future d"
proof -
  have "has_future (t\<lparr>next_timer_ms := Some n\<rparr>)" for t n by simp
  moreover have "future e" if "decide t es = Inr e" "has_future t" for t es e
    using decide_future [OF that(2), of es] that(1) by (rule providedD)
  ultimately show ?thesis using assms
    by (auto simp: observe_pending_action_def observe_pending_probe_def
        observe_pending_application_def observe_pending_preparation_def
        observe_pending_finalization_def cancelled_admission_def bindE_eq_Inr has_future_def
        split: if_splits)
qed

lemma classify_observation_future [live]: "provided (classify_observation s ob) future"
proof (induction s ob rule: classify_observation.induct)
  case (1 s ob)
  then show ?case
    by (subst classify_observation.simps)
      (auto intro!: provided_bindI decide_future classify_settled_future
        simp: provided_Inr future_def split: pending_outcome.split
        dest: providedD reissued_future [unfolded future_def])
qed

lemma classify_after_future [live]: "provided (classify_after s ob es) future"
  unfolding classify_after_def
  by (auto intro!: provided_bindI decide_future simp: provided_Inr
      dest!: providedD [OF classify_observation_future] simp: future_def)

lemma stops_future [live]:
  "provided (stop_probe s p n) future" "provided (stop_application s a n es) future"
  "provided (stop_internal_application s a n) future"
  "provided (stop_preparation s b n es) future" "provided (stop_finalization s c n es) future"
  unfolding stop_probe_def stop_application_def stop_internal_application_def
    stop_preparation_def stop_finalization_def
  by (auto intro!: live_steps live)

lemma observe_in_flight_future [live]: "provided (observe_in_flight s ob es) future"
  unfolding observe_in_flight_def observe_finalizing_def observe_preparing_def
    accept_finalization_def Let_def
  by (auto intro!: live_steps live)

lemma observe_valid_future [live]: "provided (observe_valid s prior ob) future"
  unfolding observe_valid_def refresh_epoch_def Let_def
  by (auto intro!: live_steps live)

lemma observe_invalid_future [live]: "provided (observe_invalid s ob) future"
  unfolding observe_invalid_def settle_invalid_def Let_def
  by (auto intro!: live_steps live)

lemma observe_future:
  "\<not> stale_observation s ob \<or> has_future s \<Longrightarrow> provided (observe s ob) future"
  unfolding observe_def by (auto intro!: live_steps live)

section \<open>Workers and the other events\<close>

lemma worker_in_flight_iff:
  "worker_in_flight s \<longleftrightarrow>
     present (probe s) (\<lambda>a. lifecycle a \<in> {DISPATCHED, STOPPING} \<and> worker_deadline_ms a \<noteq> None) \<or>
     present (application s)
       (\<lambda>a. lifecycle a \<in> {DISPATCHED, STOPPING} \<and> worker_deadline_ms a \<noteq> None) \<or>
     present (preparation s)
       (\<lambda>a. lifecycle a \<in> {DISPATCHED, STOPPING} \<and> worker_deadline_ms a \<noteq> None) \<or>
     present (finalization s)
       (\<lambda>a. lifecycle a \<in> {DISPATCHED, STOPPING} \<and> worker_deadline_ms a \<noteq> None)"
  by (cases "probe s"; cases "application s"; cases "preparation s"; cases "finalization s")
    (simp_all add: worker_in_flight_def state_workers_def worker_view_def present_iff)

lemma dispatched_future [live]: "has_future s \<Longrightarrow> provided (dispatched s a u n) future"
  unfolding dispatched_def dispatched_probe_def dispatched_application_def
    dispatched_preparation_def dispatched_finalization_def
  by (cases "aid_kind a")
    (auto intro!: live_steps live decide_future simp: has_future_def worker_in_flight_iff)

lemma finished_future [live]: "has_future s \<Longrightarrow> provided (finished s a r x n h) future"
  unfolding finished_def finished_probe_def finished_application_def finished_preparation_def
    finished_finalization_def Let_def
  by (cases "aid_kind a") (auto intro!: live_steps live)

lemma planning_future [live]:
  assumes "has_future s"
  shows "provided (plan_requested s a k) future" "provided (plan_completed s n a k h) future"
    "provided (plan_failed s n a k x retryable) future"
proof -
  have "has_future (s\<lparr>planning_state := p, planning := q\<rparr>)" for p q
    using assms by (simp add: has_future_def worker_in_flight_def state_workers_def)
  then show "provided (plan_requested s a k) future" "provided (plan_completed s n a k h) future"
    "provided (plan_failed s n a k x retryable) future"
    unfolding plan_requested_def plan_completed_def plan_failed_def
    using assms by (auto intro!: live_steps live decide_future)
qed

lemma fail_action_future [live]: "has_future s \<Longrightarrow> provided (fail_action s a l n) future"
  unfolding fail_action_def by (auto intro!: live_steps live split: option.split)

lemma stop_uncertain_mutator_future [live]:
  "has_future s \<Longrightarrow> provided (stop_uncertain_mutator s r l n) future"
  unfolding stop_uncertain_mutator_def Let_def by (auto intro!: live_steps live)

text \<open>
  A resumed completion finds its action in flight again: \<^verbatim>\<open>_finished\<close> never ignores it.
\<close>

lemma finished_some_future:
  "phase s = PROBING \<Longrightarrow> probe s = Some p \<Longrightarrow> action_id p = a \<Longrightarrow>
     provided (finished_probe s a r x n) future"
  "phase s = APPLYING \<Longrightarrow> application s = Some q \<Longrightarrow> action_id q = a \<Longrightarrow>
     provided (finished_application s a r x n) future"
  "preparation_state s = PREPARING \<Longrightarrow> preparation s = Some d \<Longrightarrow> action_id d = a \<Longrightarrow>
     lifecycle d = DISPATCHED \<Longrightarrow> provided (finished_preparation s a r x n h) future"
  "phase s = FINALIZING \<Longrightarrow> finalization s = Some f \<Longrightarrow> action_id f = a \<Longrightarrow>
     lifecycle f = DISPATCHED \<Longrightarrow> provided (finished_finalization s a r x n) future"
  unfolding finished_probe_def finished_application_def finished_preparation_def
    finished_finalization_def Let_def
  by (auto intro!: live_steps live)

lemma resume_completed_future [live]:
  assumes "has_future s"
  shows "provided (resume_completed s r x n) future"
  unfolding resume_completed_def finished_def
  using assms
  by (cases r) (auto intro!: live_steps no_op_future finished_some_future
      simp: ProbeAction_post_init_def ApplicationAction_post_init_def
        PreparationAction_post_init_def FinalizationAction_post_init_def)

lemma events_future [live]:
  assumes "has_future s"
  shows "provided (cancellation_acknowledged s n a l y) future"
    "provided (drm_hint s n g) future" "provided (admission_dirtied s n a g) future"
    "provided (controller_started s n i) future" "provided (boot_changed s m p) future"
    "provided (timer_fired s n k) future" "provided (worker_timed_out s n a k c) future"
    "provided (worker_status_unknown s n a) future" "provided (dispatch_rejected s n a) future"
    "provided (observation_failed s n) future"
  unfolding cancellation_acknowledged_def drm_hint_def admission_dirtied_def
    controller_started_def resume_started_def boot_changed_def timer_fired_def
    worker_timed_out_def worker_status_unknown_def dispatch_rejected_def observation_failed_def
  using assms
  by (auto intro!: live_steps live decide_future split: option.split simp: has_future_def)

lemma handle_event_future: "has_future s \<Longrightarrow> provided (handle_event s e) future"
  by (cases e) (auto intro!: live observe_future)

lemma reduce_future: "reduce s e = Inr d \<Longrightarrow> has_future s \<Longrightarrow> has_future (dec_state d)"
  by (erule reduce_cases) (auto simp: future_def dest: providedD [OF handle_event_future])

interpretation future_steps: stepwise reduce dec_state "\<lambda>s t. has_future s \<longrightarrow> has_future t" "\<lambda>_. True"
  by unfold_locales (auto simp: reduce_future)

end
