(* ===== verification/Timers.thy ===== *)
theory Timers
  imports Liveness Scenario
begin

text \<open>
  The deadline scheduler and the reducer together. The locale \<open>wake_source\<close> is what the
  controller relies on: an event is only put on the queue by the alarm that was set,
  and not before it is due. It is interpreted on the scheduler; inside it, a ring of
  the reducer's own timer always yields an observation request.
\<close>

section \<open>Progress\<close>

text \<open>C16
  Over any sequence of events the controller keeps a reason to wake up: a timer, a
  worker in flight with an absolute deadline, or quiescence.\<close>

theorem never_stranded:
  assumes "run s es = Inr d" and "has_future s"
  shows "has_future (dec_state d)"
  using future_steps.iterate_relates [OF run_iterate [OF assms(1)]] assms(2)
  by (simp add: list_all_iff)

theorem never_stranded_witness:
  "next_timer_ms (dec_state (sample_decision 2)) = None \<and> has_future (dec_state (sample_decision 2))"
proof -
  have "returns (run (sample_state 1) [sample_events ! 1])
      (\<lambda>d. dec_state d = dec_state (sample_decision 2))"
    "has_future (sample_state 1)"
    "next_timer_ms (dec_state (sample_decision 2)) = None" by code_simp+
  then obtain d where r: "run (sample_state 1) [sample_events ! 1] = Inr d"
    "dec_state d = dec_state (sample_decision 2)"
    and facts: "has_future (sample_state 1)" "next_timer_ms (dec_state (sample_decision 2)) = None"
    by (auto simp only: returns_def)
  from never_stranded [OF r(1) facts(1)] r(2) facts(2) show ?thesis by simp
qed

section \<open>Ringing\<close>

lemma checks_next_timer:
  "check_phase_relationships (s\<lparr>next_timer_ms := n\<rparr>) = check_phase_relationships s"
  "check_planning_relationships (s\<lparr>next_timer_ms := n\<rparr>) = check_planning_relationships s"
  "check_worker_acknowledgements (s\<lparr>next_timer_ms := n\<rparr>) = check_worker_acknowledgements s"
  "check_numbered_safety_rules (s\<lparr>next_timer_ms := n\<rparr>) = check_numbered_safety_rules s"
  "check_attempt_history (s\<lparr>next_timer_ms := n\<rparr>) = check_attempt_history s"
  by (simp_all add: check_phase_relationships_def check_planning_relationships_def
      check_worker_acknowledgements_def check_numbered_safety_rules_def state_workers_def
      check_attempt_history_def cong: if_cong option.case_cong)

lemma identities_next_timer:
  "check_action_identities (s\<lparr>next_timer_ms := n\<rparr>) = check_action_identities s"
proof -
  have "state_actions (s\<lparr>next_timer_ms := n\<rparr>) = state_actions s"
    "check_action_id (s\<lparr>next_timer_ms := n\<rparr>) = check_action_id s"
    "check_terminal_evidence (s\<lparr>next_timer_ms := n\<rparr>) = check_terminal_evidence s"
    "check_recovery_unit (s\<lparr>next_timer_ms := n\<rparr>) = check_recovery_unit s"
    "state_transitions (s\<lparr>next_timer_ms := n\<rparr>) = state_transitions s"
    "check_transition_id (s\<lparr>next_timer_ms := n\<rparr>) = check_transition_id s"
    by (simp_all add: fun_eq_iff state_actions_def check_action_id_def check_terminal_evidence_def
        check_recovery_unit_def state_transitions_def check_transition_id_def
        cong: if_cong option.case_cong)
  then show ?thesis by (simp add: check_action_identities_def)
qed

lemma authorization_next_timer:
  "check_action_authorization (s\<lparr>next_timer_ms := n\<rparr>) = check_action_authorization s"
proof -
  have "check_application_authorization (s\<lparr>next_timer_ms := n\<rparr>) = check_application_authorization s"
    "check_probe_authorization (s\<lparr>next_timer_ms := n\<rparr>) = check_probe_authorization s"
    "check_preparation_authorization (s\<lparr>next_timer_ms := n\<rparr>) = check_preparation_authorization s"
    "check_finalization_authorization (s\<lparr>next_timer_ms := n\<rparr>) = check_finalization_authorization s"
    by (simp_all add: fun_eq_iff check_application_authorization_def check_probe_authorization_def
        check_preparation_authorization_def check_finalization_authorization_def proof_lasted_def
        cong: if_cong option.case_cong)
  then show ?thesis by (simp add: check_action_authorization_def)
qed

lemma authority_next_timer:
  "passes (check_observation_authority s) \<Longrightarrow>
     passes (check_observation_authority (s\<lparr>next_timer_ms := Some n\<rparr>))"
  by (auto simp: check_observation_authority_def split: option.splits)

lemma invariants_next_timer:
  assumes "passes (assert_controller_invariants s)"
  shows "passes (assert_controller_invariants (s\<lparr>next_timer_ms := Some n\<rparr>))"
  using assms
  by (simp add: assert_controller_invariants_def checks_next_timer identities_next_timer
      authorization_next_timer authority_next_timer)

lemma ring_accepted:
  assumes "passes (assert_controller_invariants s)" and "passes (State_post_init s)"
    and "next_timer_ms s = Some d" and "d \<le> now_ms"
    and "phase s \<noteq> RECOVERING \<or> recovery_units s = []"
  shows "reduce s (TimerFired \<lparr>processed_at_ms = now_ms, md_boot_id = boot_id s\<rparr> d) =
    Inr \<lparr>dec_state = s\<lparr>next_timer_ms := Some now_ms\<rparr>,
         dec_effects = [RequestObservation TIMER, Schedule now_ms]\<rparr>"
proof -
  have "0 \<le> d" using assms(2,3) by (simp add: State_post_init_def)
  then have now: "0 \<le> now_ms" using assms(4) by linarith
  then have "passes (State_post_init (s\<lparr>next_timer_ms := Some now_ms\<rparr>))"
    using assms(2) by (simp add: State_post_init_def)
  moreover have "assert_controller_invariants (s\<lparr>next_timer_ms := Some now_ms\<rparr>) = Inr ()"
    using invariants_next_timer [OF assms(1)] assms(3) by (simp add: passes_def)
  moreover have "assert_controller_invariants s = Inr ()" using assms(1) by (simp add: passes_def)
  ultimately show ?thesis
    using assms(3,4,5) now
    by (auto simp: reduce_def timer_fired_def decide_def replace_state_passes mk_effect_def)
qed

locale wake_source =
  fixes reachable :: "'s \<Rightarrow> bool" and step :: "'s \<Rightarrow> 'o \<Rightarrow> 's \<Rightarrow> bool"
    and set_alarm :: "'s \<Rightarrow> alarm" and emits :: "'s \<Rightarrow> 's \<Rightarrow> event list"
  assumes rings: "reachable s \<Longrightarrow> step s op t \<Longrightarrow> e \<in> set (emits s t) \<Longrightarrow>
    \<exists>d b now_ms. set_alarm s = Some (d, b) \<and> set_alarm t = None \<and> d \<le> now_ms \<and>
      e = TimerFired \<lparr>processed_at_ms = now_ms, md_boot_id = b\<rparr> d"
begin

lemma ring_observes:
  assumes "reachable s" and "step s op t" and "e \<in> set (emits s t)"
    and "passes (assert_controller_invariants c)" and "passes (State_post_init c)"
    and "next_timer_ms c = Some d" and "set_alarm s = Some (d, boot_id c)"
    and "phase c \<noteq> RECOVERING \<or> recovery_units c = []"
  shows "\<exists>dec. reduce c e = Inr dec \<and> RequestObservation TIMER \<in> set (dec_effects dec)"
proof -
  obtain now_ms where "d \<le> now_ms"
    "e = TimerFired \<lparr>processed_at_ms = now_ms, md_boot_id = boot_id c\<rparr> d"
    using rings [OF assms(1-3)] assms(7) by auto
  with ring_accepted [OF assms(4-6) _ assms(8)] show ?thesis by auto
qed

lemma rings_once:
  assumes "reachable s" and "step s op t" and "e \<in> set (emits s t)" and "step t op' u"
    and "reachable t"
  shows "emits t u = []"
  using rings [OF assms(1-3)] rings [OF assms(5,4), of "hd (emits t u)"]
  by (cases "emits t u") auto

end

interpretation deadlines: wake_source sched_reachable sched_step the_alarm emitted
proof unfold_locales
  fix s op t e assume s: "sched_reachable s" "sched_step s op t" and e: "e \<in> set (emitted s t)"
  have "alarm_step (the_alarm s) op (emitted s t) (the_alarm t)"
    using s(2) reachable_sole_producer [OF s(1)] by (rule step_refines_alarm)
  then show "\<exists>d b now_ms. the_alarm s = Some (d, b) \<and> the_alarm t = None \<and> d \<le> now_ms \<and>
      e = TimerFired \<lparr>processed_at_ms = now_ms, md_boot_id = b\<rparr> d"
    using e by (cases rule: alarm_step.cases) auto
qed

text \<open>C31
  When the scheduler is armed with the controller's next timer, the event it fires is
  never refused: the reducer asks for an observation.\<close>

theorem timers_are_honoured:
  assumes "sched_reachable s" and "sched_step s op t" and "e \<in> set (emitted s t)"
    and "passes (assert_controller_invariants c)" and "passes (State_post_init c)"
    and "next_timer_ms c = Some d" and "the_alarm s = Some (d, boot_id c)"
    and "phase c \<noteq> RECOVERING \<or> recovery_units c = []"
  shows "\<exists>dec. reduce c e = Inr dec \<and> RequestObservation TIMER \<in> set (dec_effects dec)"
  using assms by (rule deadlines.ring_observes)

definition sample_timer_state :: state where
  "sample_timer_state = sample_start\<lparr>next_timer_ms := Some 50\<rparr>"

theorem timers_are_honoured_witness:
  "\<exists>dec. reduce sample_timer_state
      (TimerFired \<lparr>processed_at_ms = 60, md_boot_id = BootId 1\<rparr> 50) = Inr dec \<and>
    RequestObservation TIMER \<in> set (dec_effects dec)"
proof -
  let ?t = "fire sample_rearmed 1 50 (BootId 1) 60"
  have "1 < length (tasks sample_rearmed)" "tasks sample_rearmed ! 1 = Waiting 50 (BootId 1)"
    by code_simp+
  then have step: "sched_step sample_rearmed (Fire 1 60) ?t" by (rule step_fire)
  have "emitted sample_rearmed ?t = [TimerFired \<lparr>processed_at_ms = 60, md_boot_id = BootId 1\<rparr> 50]"
    by code_simp
  then have e: "TimerFired \<lparr>processed_at_ms = 60, md_boot_id = BootId 1\<rparr> 50 \<in>
      set (emitted sample_rearmed ?t)" by simp
  have "passes (assert_controller_invariants sample_timer_state)"
    "passes (State_post_init sample_timer_state)" "next_timer_ms sample_timer_state = Some 50"
    "the_alarm sample_rearmed = Some (50, boot_id sample_timer_state)"
    "phase sample_timer_state \<noteq> RECOVERING \<or> recovery_units sample_timer_state = []"
    by code_simp+
  then show ?thesis by (rule timers_are_honoured [OF sample_rearmed_reachable step e])
qed

section \<open>Waiting\<close>

text \<open>C35
  A controller that waits for usable evidence looks again within two seconds while the
  aggressive budget lasts and within thirty seconds afterwards, and the budget is
  thirty seconds from its first use: it is never extended by waiting.\<close>

theorem waiting_is_bounded:
  assumes "enter_wait s now_ms = Inr d"
  shows "present (next_timer_ms (dec_state d)) (\<lambda>t.
      (phase (dec_state d) = DISCOVER_FAST \<and> t - now_ms \<le> 2000 \<and>
         present (aggressive_deadline_ms (dec_state d)) (\<lambda>b. now_ms < b \<and> t \<le> b)) \<or>
      (phase (dec_state d) = WAIT_SLOW \<and> 5000 \<le> t - now_ms \<and> t - now_ms \<le> 30000)) \<and>
    present (aggressive_deadline_ms (dec_state d)) (\<lambda>b.
      b = (case aggressive_deadline_ms s of None \<Rightarrow> now_ms + 30000 | Some b' \<Rightarrow> b'))"
proof -
  have fast: "FAST_DELAYS_MS ! nat (min k 4) \<le> 2000" for k
  proof -
    have "nat (min k 4) \<in> {0, 1, 2, 3, 4}" by (auto simp: nat_le_iff min_def)
    then show ?thesis by (auto simp: FAST_DELAYS_MS_def numeral_eq_Suc)
  qed
  have slow: "5000 \<le> SLOW_DELAYS_MS ! nat (min k 3)" "SLOW_DELAYS_MS ! nat (min k 3) \<le> 30000" for k
  proof -
    have "nat (min k 3) \<in> {0, 1, 2, 3}" by (auto simp: nat_le_iff min_def)
    then show "5000 \<le> SLOW_DELAYS_MS ! nat (min k 3)" "SLOW_DELAYS_MS ! nat (min k 3) \<le> 30000"
      by (auto simp: SLOW_DELAYS_MS_def numeral_eq_Suc)
  qed
  have lens: "int (length FAST_DELAYS_MS) - 1 = 4" "int (length SLOW_DELAYS_MS) - 1 = 3"
    by (simp_all add: FAST_DELAYS_MS_def SLOW_DELAYS_MS_def)
  have firsts: "FAST_DELAYS_MS ! 0 = 0" "SLOW_DELAYS_MS ! 0 = 5000"
    by (simp_all add: FAST_DELAYS_MS_def SLOW_DELAYS_MS_def)
  show ?thesis
    using assms fast slow
    by (cases "aggressive_deadline_ms s")
      (auto simp: enter_wait_def clear_proof_def lens firsts Let_def bindE_eq_Inr schedule_def decide_def
        AGGRESSIVE_BUDGET_MS_def min_le_iff_disj algebra_simps split: if_splits)
qed

theorem waiting_is_bounded_witness:
  "returns (enter_wait sample_start 100) (\<lambda>d.
     present (aggressive_deadline_ms (dec_state d)) (\<lambda>b. b = 30100))"
proof -
  have "returns (enter_wait sample_start 100) (\<lambda>_. True)"
    "aggressive_deadline_ms sample_start = None" by code_simp+
  then obtain d where d: "enter_wait sample_start 100 = Inr d"
    and none: "aggressive_deadline_ms sample_start = None" by (auto simp: returns_def)
  from waiting_is_bounded [OF d] show ?thesis
    by (simp add: d none returns_def) 
qed

end
