(* ===== verification/Bijection.thy ===== *)
theory Bijection
  imports Prelude "HOL-Library.Product_Lexorder" "HOL-Library.Multiset"
begin

text \<open>
  The exact output-bijection search of \<^verbatim>\<open>observer/mapping.py\<close>: a backtracking search
  over the saved outputs, most constrained first, that stops at the second solution.
  The search is shown to enumerate, up to two, the complete bijections of the
  candidate edges, so its result decides existence and uniqueness.
\<close>

section \<open>The search\<close>

text \<open>
  A \<^verbatim>\<open>dict[str, tuple[str, ...]]\<close> in insertion order is a list of entries with
  distinct keys; \<^verbatim>\<open>mapping\<close> is built and unwound like a stack, so it is the list of
  entries in the order of the search.
\<close>

type_synonym candidates = "(string \<times> string list) list"
type_synonym solution = "(string \<times> string) list"

definition MAX_MAPPING_SOLUTIONS :: nat where
  "MAX_MAPPING_SOLUTIONS = 2"

definition ordered_candidates :: "candidates \<Rightarrow> candidates" where
  "ordered_candidates cs = sort_key (\<lambda>(out, lives). (length lives, out)) cs"

fun search :: "string set \<Rightarrow> candidates \<Rightarrow> string set \<Rightarrow> solution \<Rightarrow> solution list \<Rightarrow> solution list" where
  "search required [] used mapping solutions =
     (if length solutions \<ge> MAX_MAPPING_SOLUTIONS then solutions
      else if used = required then solutions @ [mapping] else solutions)"
| "search required ((saved, lives) # rest) used mapping solutions =
     (if length solutions \<ge> MAX_MAPPING_SOLUTIONS then solutions
      else foldl (\<lambda>sols live.
             if live \<in> used then sols
             else search required rest (insert live used) (mapping @ [(saved, live)]) sols)
           solutions lives)"

definition unique_bijection :: "candidates \<Rightarrow> string set \<Rightarrow> solution option result" where
  "unique_bijection cs required =
     (let solutions = search required (ordered_candidates cs) {} [] []
      in if length solutions > 1 then Inl AmbiguousBijectionError
         else Inr (case solutions of [] \<Rightarrow> None | s # _ \<Rightarrow> Some s))"

section \<open>The reference enumeration\<close>

text \<open>All ways to extend a partial mapping, in the order the search visits them.\<close>

fun completions ::
  "string set \<Rightarrow> candidates \<Rightarrow> string set \<Rightarrow> solution \<Rightarrow> solution list" where
  "completions required [] used mapping = (if used = required then [mapping] else [])"
| "completions required ((saved, lives) # rest) used mapping =
     concat (map (\<lambda>live. if live \<in> used then []
        else completions required rest (insert live used) (mapping @ [(saved, live)])) lives)"

lemma take_append_take: "take n (take n xs @ ys) = take n (xs @ ys)"
  by (cases "n \<le> length xs") simp_all

lemma search_full:
  "length sols \<ge> MAX_MAPPING_SOLUTIONS \<Longrightarrow> search r cs u m sols = sols"
  by (cases cs) auto

text \<open>The search returns the first two completions.\<close>

lemma search_completions:
  "length sols \<le> 2 \<Longrightarrow> search r cs u m sols = take 2 (sols @ completions r cs u m)"
proof (induction cs arbitrary: u m sols)
  case Nil
  then show ?case by (auto simp: MAX_MAPPING_SOLUTIONS_def)
next
  case (Cons c rest)
  obtain saved lives where c: "c = (saved, lives)" by (cases c)
  let ?ext = "\<lambda>live. if live \<in> u then []
        else completions r rest (insert live u) (m @ [(saved, live)])"
  let ?step = "\<lambda>sols live. if live \<in> u then sols
        else search r rest (insert live u) (m @ [(saved, live)]) sols"
  have step: "?step ss l = take 2 (ss @ ?ext l)" if "length ss \<le> 2" for ss l
    using that Cons.IH by simp
  have fold: "foldl ?step ss ls = take 2 (ss @ concat (map ?ext ls))" if "length ss \<le> 2" for ss ls
    using that
  proof (induction ls arbitrary: ss)
    case (Cons l ls)
    have "foldl ?step ss (l # ls) = foldl ?step (take 2 (ss @ ?ext l)) ls"
      using step [OF Cons.prems] by simp
    also have "\<dots> = take 2 (take 2 (ss @ ?ext l) @ concat (map ?ext ls))"
      by (rule Cons.IH) simp
    also have "\<dots> = take 2 ((ss @ ?ext l) @ concat (map ?ext ls))"
      by (rule take_append_take)
    also have "\<dots> = take 2 (ss @ concat (map ?ext (l # ls)))" by simp
    finally show ?case .
  qed simp
  show ?case
    using fold [OF Cons.prems] Cons.prems by (auto simp: c MAX_MAPPING_SOLUTIONS_def)
qed

text \<open>What a completion is: one unused edge for every saved output, covering the rest.\<close>

definition extends :: "candidates \<Rightarrow> solution \<Rightarrow> bool" where
  "extends cs e \<longleftrightarrow> list_all2 (\<lambda>(saved, lives) (o', live). o' = saved \<and> live \<in> set lives) cs e"

lemma extends_simps [simp]:
  "extends [] e \<longleftrightarrow> e = []"
  "extends ((saved, lives) # cs) e \<longleftrightarrow>
     (\<exists>live e'. e = (saved, live) # e' \<and> live \<in> set lives \<and> extends cs e')"
  by (auto simp: extends_def list_all2_Cons1)

lemma completions_iff:
  "s \<in> set (completions r cs u m) \<longleftrightarrow>
     (\<exists>e. s = m @ e \<and> extends cs e \<and> distinct (map snd e) \<and>
        set (map snd e) \<inter> u = {} \<and> u \<union> set (map snd e) = r)"
proof (induction cs arbitrary: u m)
  case (Cons c rest)
  obtain saved lives where c: "c = (saved, lives)" by (cases c)
  show ?case
  proof
    assume "s \<in> set (completions r (c # rest) u m)"
    then obtain live e where "live \<in> set lives" "live \<notin> u" "s = m @ (saved, live) # e"
      "extends rest e" "distinct (map snd e)" "set (map snd e) \<inter> insert live u = {}"
      "insert live u \<union> set (map snd e) = r"
      by (auto simp: c Cons.IH split: if_splits)
    then show "\<exists>e. s = m @ e \<and> extends (c # rest) e \<and> distinct (map snd e) \<and>
        set (map snd e) \<inter> u = {} \<and> u \<union> set (map snd e) = r"
      by (intro exI [of _ "(saved, live) # e"]) (auto simp: c)
  next
    assume "\<exists>e. s = m @ e \<and> extends (c # rest) e \<and> distinct (map snd e) \<and>
        set (map snd e) \<inter> u = {} \<and> u \<union> set (map snd e) = r"
    then obtain live e where e: "s = (m @ [(saved, live)]) @ e" "live \<in> set lives" "extends rest e"
      "live \<notin> u" "distinct (map snd e)" "set (map snd e) \<inter> insert live u = {}"
      "insert live u \<union> set (map snd e) = r"
      by (auto simp: c)
    then have "s \<in> set (completions r rest (insert live u) (m @ [(saved, live)]))"
      unfolding Cons.IH by blast
    with e(2,4) show "s \<in> set (completions r (c # rest) u m)" by (auto simp: c)
  qed
qed auto

lemma completions_prefix:
  "s \<in> set (completions r cs u m) \<Longrightarrow> take (length m) s = m"
  by (auto simp: completions_iff)

lemma completions_distinct:
  "(\<forall>(saved, lives) \<in> set cs. distinct lives) \<Longrightarrow> distinct (completions r cs u m)"
proof (induction cs arbitrary: u m)
  case (Cons c rest)
  obtain saved lives where c: "c = (saved, lives)" by (cases c)
  let ?ext = "\<lambda>live. if live \<in> u then []
        else completions r rest (insert live u) (m @ [(saved, live)])"
  have "l = l'" if "x \<in> set (?ext l)" "x \<in> set (?ext l')" for l l' x
    using that by (auto simp: completions_iff split: if_splits)
  moreover have "distinct (?ext l)" for l using Cons by simp
  moreover have "distinct lives" using Cons.prems by (simp add: c)
  ultimately have "distinct (concat (map ?ext lives))"
    by (induction lives) (simp_all only: list.map concat.simps distinct_append distinct.simps
        set_concat set_map disjoint_iff, blast)
  then show ?case by (simp add: c)
qed simp

section \<open>Complete bijections\<close>

text \<open>
  A complete bijection of the candidate edges: it maps every saved output to one of its
  candidates, injectively, and covers exactly the required live outputs.
\<close>

definition complete_bijection :: "candidates \<Rightarrow> string set \<Rightarrow> (string \<rightharpoonup> string) \<Rightarrow> bool" where
  "complete_bijection cs required f \<longleftrightarrow>
     dom f = fst ` set cs \<and> inj_on f (dom f) \<and> ran f = required \<and>
     (\<forall>(saved, lives) \<in> set cs. \<exists>live \<in> set lives. f saved = Some live)"

lemma extends_keys: "extends cs e \<Longrightarrow> map fst e = map fst cs"
  unfolding extends_def by (induction rule: list_all2_induct) auto

lemma extends_lookup:
  assumes "extends cs e" and "distinct (map fst cs)" and "(saved, lives) \<in> set cs"
  shows "\<exists>live \<in> set lives. map_of e saved = Some live"
  using assms by (induction cs arbitrary: e) (auto simp: image_iff, force)

lemma inj_map_of:
  assumes "distinct (map fst e)" and "distinct (map snd e)"
  shows "inj_on (map_of e) (dom (map_of e))"
proof (rule inj_onI)
  fix x y assume x: "x \<in> dom (map_of e)" and y: "y \<in> dom (map_of e)"
    and eq: "map_of e x = map_of e y"
  then obtain l where "map_of e x = Some l" "map_of e y = Some l" by (metis domD)
  then have "(x, l) \<in> set e" "(y, l) \<in> set e" by (simp_all add: map_of_SomeD)
  with assms(2) show "x = y"
    using inj_onD [of snd "set e" "(x, l)" "(y, l)"] by (simp add: distinct_map)
qed

definition solutions_of :: "candidates \<Rightarrow> string set \<Rightarrow> solution list" where
  "solutions_of cs required = completions required (ordered_candidates cs) {} []"

lemma ordered_candidates_props [simp]:
  "set (ordered_candidates cs) = set cs"
  "distinct (map fst (ordered_candidates cs)) \<longleftrightarrow> distinct (map fst cs)"
proof -
  show "set (ordered_candidates cs) = set cs" by (simp add: ordered_candidates_def)
  have "mset (map fst (ordered_candidates cs)) = mset (map fst cs)"
    by (simp add: ordered_candidates_def)
  then show "distinct (map fst (ordered_candidates cs)) \<longleftrightarrow> distinct (map fst cs)"
    by (rule mset_eq_imp_distinct_iff)
qed

lemma solutions_of_sound:
  assumes "s \<in> set (solutions_of cs required)" and "distinct (map fst cs)"
  shows "complete_bijection cs required (map_of s)"
    and "map fst s = map fst (ordered_candidates cs)"
proof -
  have s: "extends (ordered_candidates cs) s" "distinct (map snd s)" "set (map snd s) = required"
    using assms(1) by (auto simp: solutions_of_def completions_iff)
  show keys: "map fst s = map fst (ordered_candidates cs)" by (rule extends_keys [OF s(1)])
  then have dist: "distinct (map fst s)" using assms(2) by simp
  have "fst ` set s = fst ` set cs"
    using keys by (metis ordered_candidates_props(1) set_map)
  then have "dom (map_of s) = fst ` set cs" by (simp add: dom_map_of_conv_image_fst)
  with s(2,3) dist assms(2) show "complete_bijection cs required (map_of s)"
    using extends_lookup [OF s(1)] inj_map_of [OF dist s(2)]
    by (auto simp: complete_bijection_def ran_distinct [OF dist])
qed

lemma complete_bijection_solution:
  assumes "complete_bijection cs required f" and "distinct (map fst cs)"
  shows "\<exists>s \<in> set (solutions_of cs required). map_of s = f"
proof -
  let ?os = "ordered_candidates cs"
  let ?s = "map (\<lambda>(saved, lives). (saved, the (f saved))) ?os"
  have f: "dom f = fst ` set cs" "inj_on f (dom f)" "ran f = required"
    "\<And>saved lives. (saved, lives) \<in> set cs \<Longrightarrow> \<exists>live \<in> set lives. f saved = Some live"
    using assms(1) by (auto simp: complete_bijection_def)
  have fsts: "map fst ?s = map fst ?os" by (induction ?os) auto
  have ext: "extends ?os ?s"
    using f(4) by (fastforce simp: extends_def list_all2_map2 list_all2_same)
  have of: "map_of ?s x = f x" for x
  proof (cases "x \<in> dom f")
    case True
    then obtain lives where "(x, lives) \<in> set cs" using f(1) by auto
    moreover have "distinct (map fst ?s)" unfolding fsts using assms(2) by simp
    ultimately have "map_of ?s x = Some (the (f x))"
      by (intro map_of_is_SomeI) force+
    with True show ?thesis by auto
  next
    case False
    then have "x \<notin> fst ` set ?s" using f(1) fsts
      by (metis list.set_map ordered_candidates_props(1))
    with False show ?thesis by (metis domIff map_of_eq_None_iff)
  qed
  then have eq: "map_of ?s = f" by blast
  have dist: "distinct (map fst ?s)" unfolding fsts using assms(2) by simp
  have "set (map snd ?s) = ran (map_of ?s)"
    unfolding ran_distinct [OF dist] by (rule set_map)
  then have snds: "set (map snd ?s) = required" unfolding eq f(3) .
  have "distinct (map snd ?s)"
  proof -
    have "distinct ?s" using dist unfolding distinct_map by (rule conjunct1)
    moreover have "inj_on snd (set ?s)"
    proof (rule inj_onI)
      fix p q assume p: "p \<in> set ?s" and q: "q \<in> set ?s" and "snd p = snd q"
      have val: "f (fst r) = Some (snd r)" if "r \<in> set ?s" for r
        using map_of_is_SomeI [OF dist, of "fst r" "snd r"] that unfolding eq by simp
      have "f (fst p) = Some (snd p)" "f (fst q) = Some (snd p)"
        unfolding \<open>snd p = snd q\<close> using val [OF p] val [OF q] \<open>snd p = snd q\<close> by simp_all
      then have "fst p = fst q" using f(2) by (metis domI inj_onD)
      with \<open>snd p = snd q\<close> show "p = q" by (simp add: prod_eq_iff)
    qed
    ultimately show ?thesis unfolding distinct_map [of snd] by (rule conjI)
  qed
  with ext snds have "?s \<in> set (solutions_of cs required)"
    unfolding solutions_of_def completions_iff by (intro exI [of _ ?s]) (simp del: map_map set_map)
  with eq show ?thesis by blast
qed

lemma map_of_rebuild:
  "distinct (map fst s) \<Longrightarrow> map (\<lambda>k. (k, the (map_of s k))) (map fst s) = s"
  by (simp add: o_def) (rule map_idI, auto)

lemma solutions_of_inj:
  assumes "s \<in> set (solutions_of cs required)" and "t \<in> set (solutions_of cs required)"
    and "map_of s = map_of t" and "distinct (map fst cs)"
  shows "s = t"
proof -
  have keys: "map fst s = map fst t"
    using solutions_of_sound(2) [OF _ assms(4)] assms(1,2) by metis
  moreover have "distinct (map fst s)"
    using solutions_of_sound(2) [OF assms(1,4)] assms(4) by simp
  ultimately show ?thesis using assms(3) map_of_rebuild by metis
qed

section \<open>Existence and uniqueness\<close>

lemma unique_bijection_solutions:
  "unique_bijection cs required =
     (case solutions_of cs required of
        [] \<Rightarrow> Inr None | [s] \<Rightarrow> Inr (Some s) | _ \<Rightarrow> Inl AmbiguousBijectionError)"
  by (auto simp: unique_bijection_def search_completions solutions_of_def
      split: list.split)

lemma solutions_of_distinct:
  assumes "\<forall>(saved, lives) \<in> set cs. distinct lives"
  shows "distinct (solutions_of cs required)"
  unfolding solutions_of_def by (rule completions_distinct) (use assms in simp)

text \<open>C15
  The search returns a mapping exactly when it is the sole complete bijection of the
  candidate edges onto the required outputs, returns nothing exactly when there is
  none, and raises exactly when there are two.\<close>

theorem unique_bijection_decides:
  assumes "distinct (map fst cs)" and "\<forall>(saved, lives) \<in> set cs. distinct lives"
  shows "case unique_bijection cs required of
      Inr (Some s) \<Rightarrow> complete_bijection cs required (map_of s) \<and>
        (\<forall>f. complete_bijection cs required f \<longrightarrow> f = map_of s)
    | Inr None \<Rightarrow> \<nexists>f. complete_bijection cs required f
    | Inl e \<Rightarrow> e = AmbiguousBijectionError \<and>
        (\<exists>f g. f \<noteq> g \<and> complete_bijection cs required f \<and> complete_bijection cs required g)"
proof -
  note sound = solutions_of_sound(1) [OF _ assms(1)]
  note complete = complete_bijection_solution [OF _ assms(1)]
  consider (none) "solutions_of cs required = []"
    | (one) s where "solutions_of cs required = [s]"
    | (many) s t ss where "solutions_of cs required = s # t # ss"
    by (metis list.exhaust)
  then show ?thesis
  proof cases
    case none
    with complete [of required] show ?thesis by (auto simp: unique_bijection_solutions)
  next
    case one
    with sound complete [of required] show ?thesis by (auto simp: unique_bijection_solutions)
  next
    case many
    then have "s \<noteq> t" using solutions_of_distinct [OF assms(2), of required] by simp
    moreover have st: "s \<in> set (solutions_of cs required)" "t \<in> set (solutions_of cs required)"
      using many by simp_all
    ultimately have "map_of s \<noteq> map_of t" using solutions_of_inj [OF st _ assms(1)] by blast
    with sound [OF st(1)] sound [OF st(2)] show ?thesis
      by (auto simp: unique_bijection_solutions many)
  qed
qed

definition sample_candidates :: candidates where
  "sample_candidates = [(''HDMI-1'', [''HDMI-A-0'', ''DP-0'']), (''eDP-1'', [''eDP'']),
     (''DP-2'', [''DP-0''])]"

theorem unique_bijection_decides_witness:
  "unique_bijection sample_candidates {''HDMI-A-0'', ''DP-0'', ''eDP''} =
     Inr (Some [(''DP-2'', ''DP-0''), (''eDP-1'', ''eDP''), (''HDMI-1'', ''HDMI-A-0'')]) \<and>
   complete_bijection sample_candidates {''HDMI-A-0'', ''DP-0'', ''eDP''}
     (map_of [(''DP-2'', ''DP-0''), (''eDP-1'', ''eDP''), (''HDMI-1'', ''HDMI-A-0'')])"
proof -
  have eq: "unique_bijection sample_candidates {''HDMI-A-0'', ''DP-0'', ''eDP''} =
     Inr (Some [(''DP-2'', ''DP-0''), (''eDP-1'', ''eDP''), (''HDMI-1'', ''HDMI-A-0'')])"
    by code_simp
  have "distinct (map fst sample_candidates)"
    "\<forall>(saved, lives) \<in> set sample_candidates. distinct lives"
    by (simp_all add: sample_candidates_def)
  from unique_bijection_decides [OF this, of "{''HDMI-A-0'', ''DP-0'', ''eDP''}"] eq
  show ?thesis by simp
qed

lemma map_sort_key: "map f (sort_key f xs) = sort (map f xs)"
  by (rule properties_for_sort [symmetric]) simp_all

lemma sort_key_mset_eq:
  assumes "mset xs = mset ys" and "inj_on f (set xs)"
  shows "sort_key f xs = sort_key f ys"
proof -
  have "mset (map f xs) = mset (map f ys)" using assms(1) by simp
  then have "map f (sort_key f xs) = map f (sort_key f ys)"
    unfolding map_sort_key by (intro properties_for_sort) simp_all
  moreover have "set ys = set xs" using assms(1) by (metis set_mset_mset)
  ultimately show ?thesis using assms(2) by (auto intro: map_inj_on [where f = f])
qed

text \<open>
  The result does not depend on the order in which the candidate entries were inserted.\<close>

theorem unique_bijection_order:
  assumes "mset cs = mset ds" and "distinct (map fst cs)"
  shows "unique_bijection cs required = unique_bijection ds required"
proof -
  have "inj_on (\<lambda>(out, lives). (length lives, out)) (set cs)"
    using assms(2) by (intro inj_onI) (auto dest: eq_key_imp_eq_value)
  then have "ordered_candidates cs = ordered_candidates ds"
    unfolding ordered_candidates_def by (rule sort_key_mset_eq [OF assms(1)])
  then show ?thesis by (simp add: unique_bijection_def)
qed


end
