(* ===== verification/Recovery.thy ===== *)
theory Recovery
  imports Reducer "HOL-Library.AList"
begin

text \<open>
  Restart reconciliation, \<^verbatim>\<open>runtime/recovery.py\<close>: the persisted state is compared with
  an independent scan of the supervisor's workers and of durable terminal results, and
  either resumes or is replaced by a minimal \<^verbatim>\<open>RECOVERING\<close> state without authority.
  The scan itself, \<^verbatim>\<open>WorkerNamespaceScanner.scan\<close>, is an argument: a snapshot, or the
  type name and message of the exception it raised. A \<^verbatim>\<open>dict\<close> is the list of its
  entries in insertion order.
\<close>

section \<open>Scanned facts\<close>

definition MAX_EXIT_STATUS :: int where "MAX_EXIT_STATUS = 255"

record verified_worker_result =
  vr_unit :: worker_unit
  vr_terminal_lifecycle :: action_lifecycle
  vr_exit_status :: int
  vr_finished_monotonic_ms :: int
  vr_plan_hash :: "plan_hash option"

definition VerifiedWorkerResult_post_init :: "verified_worker_result \<Rightarrow> unit result" where
  "VerifiedWorkerResult_post_init r = checks
     [check (vr_terminal_lifecycle r \<in> TERMINAL_ACTION_LIFECYCLES)
        (ValueError ''verified worker result must have a terminal lifecycle''),
      check (0 \<le> vr_exit_status r \<and> vr_exit_status r \<le> MAX_EXIT_STATUS)
        (ValueError ''verified worker result exit status must be between zero and 255''),
      check (\<not> vr_finished_monotonic_ms r < 0)
        (ValueError ''verified worker result finish time must be non-negative''),
      check (\<not> (vr_terminal_lifecycle r = COMPLETED \<and> vr_exit_status r \<noteq> 0))
        (ValueError ''completed verified worker result requires status zero''),
      check (\<not> (vr_terminal_lifecycle r \<noteq> COMPLETED \<and> vr_exit_status r = 0))
        (ValueError ''non-completed verified worker result requires non-zero status'')]"

definition vr_action_id :: "verified_worker_result \<Rightarrow> action_id" where
  "vr_action_id r = unit_action_id (vr_unit r)"

record worker_namespace_snapshot =
  ns_units :: "worker_unit list"
  ns_tombstones :: "action_tombstone list"
  ns_results :: "verified_worker_result list"
  ns_action_high_water :: int
  ns_transition_high_water :: int
  ns_finalized_profile :: "string option"
  ns_ambiguities :: "string list"

definition empty_snapshot :: worker_namespace_snapshot where
  "empty_snapshot =
     \<lparr> ns_units = [], ns_tombstones = [], ns_results = [], ns_action_high_water = 0,
       ns_transition_high_water = 0, ns_finalized_profile = None, ns_ambiguities = [] \<rparr>"

definition WorkerNamespaceSnapshot_post_init :: "worker_namespace_snapshot \<Rightarrow> unit result" where
  "WorkerNamespaceSnapshot_post_init n = checks
     [check (\<not> ns_action_high_water n < 0)
        (ValueError ''recovered action high-water mark must be non-negative''),
      check (\<not> ns_transition_high_water n < 0)
        (ValueError ''recovered transition high-water mark must be non-negative''),
      check (\<not> present (ns_finalized_profile n) is_blank)
        (ValueError ''verified finalized profile must not be empty''),
      check (\<not> list_ex is_blank (ns_ambiguities n))
        (ValueError ''recovery ambiguity descriptions must not be empty''),
      check (length (remdups (map vr_action_id (ns_results n))) =
             length (map vr_action_id (ns_results n)))
        (ValueError ''verified worker results must have unique action identities''),
      checks (map (\<lambda>r. check
          (\<not> present (tombstone_for (ns_tombstones n) (vr_action_id r))
               (\<lambda>t. tomb_lifecycle t \<noteq> vr_terminal_lifecycle r))
          (ValueError ''verified worker result conflicts with its tombstone''))
        (ns_results n))]"

record recovery_result =
  rr_state :: state
  rr_authority_allowed :: bool
  rr_requires_fresh_observation :: bool
  rr_reasons :: "string list"
  rr_effects :: "effect list"

definition RecoveryResult_post_init :: "recovery_result \<Rightarrow> unit result" where
  "RecoveryResult_post_init r = checks
     [check (rr_effects r = [])
        (ValueError ''recovery reconciliation cannot directly authorize effects''),
      check (\<not> (\<not> rr_authority_allowed r \<and> phase (rr_state r) \<noteq> RECOVERING))
        (ValueError ''denied recovery authority requires RECOVERING state'')]"

section \<open>Accessors\<close>

fun lifecycle_value :: "action_lifecycle \<Rightarrow> string" where
  "lifecycle_value ADMITTED = ''admitted''"
| "lifecycle_value DISPATCHED = ''dispatched''"
| "lifecycle_value STOPPING = ''stopping''"
| "lifecycle_value RESULT_PENDING = ''result_pending''"
| "lifecycle_value COMPLETED = ''completed''"
| "lifecycle_value FAILED = ''failed''"
| "lifecycle_value CANCELLED = ''cancelled''"
| "lifecycle_value UNKNOWN = ''unknown''"
| "lifecycle_value TIMED_OUT = ''timed_out''"

fun record_exit_status :: "action_record \<Rightarrow> int option" where
  "record_exit_status (ProbeRecord a) = exit_status a"
| "record_exit_status (ApplicationRecord a) = exit_status a"
| "record_exit_status (PlanningRecord a) = exit_status a"
| "record_exit_status (PreparationRecord a) = exit_status a"
| "record_exit_status (FinalizationRecord a) = exit_status a"

text \<open>\<^verbatim>\<open>getattr(action, "plan_hash", None)\<close> on an action that is not a plan.\<close>

fun record_plan_hash :: "action_record \<Rightarrow> plan_hash option" where
  "record_plan_hash (PreparationRecord a) = Some (da_plan_hash a)"
| "record_plan_hash (FinalizationRecord a) = Some (da_plan_hash a)"
| "record_plan_hash (PlanningRecord a) = pl_plan_hash a"
| "record_plan_hash _ = None"

section \<open>Replaying verified results\<close>

definition result_dispatch_event ::
  "verified_worker_result \<Rightarrow> event_metadata \<Rightarrow> event result" where
  "result_dispatch_event r m =
     (let a = vr_action_id r in case aid_kind a of
        PROBE \<Rightarrow> construct event_post_init (ProbeDispatched m a (vr_unit r))
      | APPLICATION \<Rightarrow> construct event_post_init (ApplicationDispatched m a (vr_unit r))
      | PREPARATION \<Rightarrow> construct event_post_init (PreparationDispatched m a (vr_unit r))
      | FINALIZATION \<Rightarrow> construct event_post_init (FinalizationDispatched m a (vr_unit r))
      | PLAN \<Rightarrow> Inl (ValueError ''planning action cannot have a verified systemd result''))"

fun result_outcome :: "action_lifecycle \<Rightarrow> worker_outcome option" where
  "result_outcome COMPLETED = Some OUTCOME_SUCCEEDED"
| "result_outcome FAILED = Some OUTCOME_FAILED"
| "result_outcome CANCELLED = Some OUTCOME_CANCELLED"
| "result_outcome _ = None"

definition result_completion_event ::
  "verified_worker_result \<Rightarrow> event_metadata \<Rightarrow> event result" where
  "result_completion_event r m =
     (case result_outcome (vr_terminal_lifecycle r) of
        None \<Rightarrow> Inl (ValueError
          ''unknown and timed-out results require cancellation reconciliation'')
      | Some outcome \<Rightarrow>
        let a = vr_action_id r; status = Some (vr_exit_status r) in (case aid_kind a of
          PROBE \<Rightarrow> construct event_post_init (ProbeFinished m a outcome status)
        | APPLICATION \<Rightarrow> construct event_post_init (ApplicationFinished m a outcome status)
        | PREPARATION \<Rightarrow> (case vr_plan_hash r of
            None \<Rightarrow> Inl (ValueError ''verified preparation result lacks its exact plan hash'')
          | Some h \<Rightarrow> construct event_post_init (PreparationFinished m a outcome status h))
        | FINALIZATION \<Rightarrow> construct event_post_init (FinalizationFinished m a outcome status)
        | PLAN \<Rightarrow> Inl (ValueError ''planning action cannot have a verified systemd result'')))"

definition verified_result_is_represented :: "state \<Rightarrow> verified_worker_result \<Rightarrow> bool" where
  "verified_result_is_represented s r =
     (let a = vr_action_id r;
          action = action_for_id s a;
          tombstone = find (\<lambda>t. tomb_action_id t = a) (action_tombstones s);
          l = vr_terminal_lifecycle r
      in if present action is_planning_record then False
         else if l = COMPLETED \<and> aid_kind a \<in> {PREPARATION, FINALIZATION}
         then (case action of
             None \<Rightarrow> False
           | Some x \<Rightarrow>
             if record_unit x \<noteq> Some (vr_unit r) \<or>
                record_exit_status x \<noteq> Some (vr_exit_status r) \<or>
                record_plan_hash x \<noteq> vr_plan_hash r then False
             else if record_lifecycle x = RESULT_PENDING then tombstone = None
             else record_lifecycle x = COMPLETED \<and>
                  tombstone = Some (ActionTombstone a COMPLETED))
         else if l \<in> {FAILED, UNKNOWN, TIMED_OUT}
         then present action (\<lambda>x. record_unit x = Some (vr_unit r) \<and> record_lifecycle x = l \<and>
                record_exit_status x = Some (vr_exit_status r) \<and>
                record_plan_hash x = vr_plan_hash r) \<and>
              tombstone = Some (ActionTombstone a l)
         else action = None \<and> tombstone = Some (ActionTombstone a l))"

definition verified_result_relationship_error ::
  "action_record \<Rightarrow> verified_worker_result \<Rightarrow> string option" where
  "verified_result_relationship_error x r =
     (if is_planning_record x
      then Some ''planning actions cannot have systemd terminal results''
      else if record_lifecycle x \<noteq> ADMITTED \<and> record_unit x \<noteq> Some (vr_unit r)
      then Some ''worker identity conflicts with verified terminal transaction output''
      else if aid_kind (record_id x) \<in> {PREPARATION, FINALIZATION} \<and>
              record_plan_hash x \<noteq> vr_plan_hash r
      then Some ''plan proof conflicts with verified terminal transaction output''
      else if record_lifecycle x \<notin> {ADMITTED, DISPATCHED, STOPPING, RESULT_PENDING} \<union>
              TERMINAL_ACTION_LIFECYCLES
      then Some (''cannot reconcile a terminal result from '' @
                 lifecycle_value (record_lifecycle x))
      else None)"

text \<open>
  \<^verbatim>\<open>_apply_verified_result\<close>: an admission is dispatched first, then the result is the
  acknowledgement of a stop, an uncertain end, or an ordinary completion.
\<close>

definition promote_admission ::
  "state \<Rightarrow> action_record \<Rightarrow> verified_worker_result \<Rightarrow> event_metadata \<Rightarrow>
   (state \<times> action_record) option result" where
  "promote_admission s x r m =
     (if record_lifecycle x = ADMITTED
      then bindE (result_dispatch_event r m) (\<lambda>e.
           bindE (reduce s e) (\<lambda>d.
           Inr (map_option (\<lambda>y. (dec_state d, y)) (action_for_id (dec_state d) (vr_action_id r)))))
      else Inr (Some (s, x)))"

definition cancellation_event ::
  "verified_worker_result \<Rightarrow> event_metadata \<Rightarrow> event result" where
  "cancellation_event r m =
     construct event_post_init
       (WorkerCancellationAcknowledged m (vr_action_id r) (vr_terminal_lifecycle r)
          (vr_exit_status r))"

definition apply_promoted_result ::
  "state \<Rightarrow> action_record \<Rightarrow> verified_worker_result \<Rightarrow> event_metadata \<Rightarrow> state result" where
  "apply_promoted_result s x r m =
     (if record_lifecycle x = STOPPING
      then bindE (cancellation_event r m) (\<lambda>e. bindE (reduce s e) (\<lambda>d. Inr (dec_state d)))
      else if vr_terminal_lifecycle r \<in> {UNKNOWN, TIMED_OUT}
      then bindE (construct event_post_init
             (WorkerStatusUnknown m (vr_action_id r)
                ''recovery: exact inactive worker terminal result'')) (\<lambda>e.
           bindE (reduce s e) (\<lambda>d.
           bindE (cancellation_event r m) (\<lambda>e'.
           bindE (reduce (dec_state d) e') (\<lambda>d'. Inr (dec_state d')))))
      else bindE (result_completion_event r m) (\<lambda>e.
           bindE (reduce s e) (\<lambda>d. Inr (dec_state d))))"

definition apply_verified_result ::
  "state \<Rightarrow> action_record \<Rightarrow> verified_worker_result \<Rightarrow> state option result" where
  "apply_verified_result s x r =
     (if is_planning_record x then Inr None
      else
        bindE (construct EventMetadata_post_init
          \<lparr>processed_at_ms = vr_finished_monotonic_ms r, md_boot_id = boot_id s\<rparr>) (\<lambda>m.
        bindE (promote_admission s x r m) (\<lambda>promoted.
        (case promoted of
           None \<Rightarrow> Inr None
         | Some (t, y) \<Rightarrow> bindE (apply_promoted_result t y r m) (\<lambda>u. Inr (Some u))))))"

text \<open>The accumulators of \<^verbatim>\<open>_reconcile_verified_results\<close>.\<close>

record reconciliation =
  rc_state :: state
  rc_matched :: "action_id set"
  rc_changed :: bool
  rc_reasons :: "string list"

definition add_reason :: "reconciliation \<Rightarrow> string \<Rightarrow> reconciliation" where
  "add_reason c reason = c\<lparr>rc_reasons := rc_reasons c @ [reason]\<rparr>"

text \<open>One round of the loop, from the point where the result has matched an action.\<close>

definition reconcile_matched ::
  "reconciliation \<Rightarrow> verified_worker_result \<Rightarrow> action_record \<Rightarrow> reconciliation result" where
  "reconcile_matched c r x =
     (let s = rc_state c; key = action_id_value (vr_action_id r) in
      if record_lifecycle x \<in> TERMINAL_ACTION_LIFECYCLES \<union> {RESULT_PENDING}
      then Inr (if verified_result_is_represented s r then c
                else add_reason c (''persisted result state for '' @ key @
                       '' conflicts with verified terminal transaction output''))
      else
        bindE (apply_verified_result s x r) (\<lambda>reconciled.
        (case reconciled of
           None \<Rightarrow> Inr (add_reason c (''persisted action '' @ key @
                    '' vanished during terminal reconciliation''))
         | Some t \<Rightarrow>
           Inr (if verified_result_is_represented t r
                then c\<lparr>rc_state := t, rc_changed := True\<rparr>
                else add_reason (c\<lparr>rc_state := t\<rparr>) (''verified terminal result for '' @ key @
                       '' does not match its persisted action proof'')))))"

definition reconcile_result ::
  "reconciliation \<Rightarrow> verified_worker_result \<Rightarrow> reconciliation result" where
  "reconcile_result c r =
     (case action_for_id (rc_state c) (vr_action_id r) of
        None \<Rightarrow> Inr c
      | Some x \<Rightarrow>
        if is_planning_record x then Inr c
        else let c1 = c\<lparr>rc_matched := insert (vr_action_id r) (rc_matched c)\<rparr> in
          (case verified_result_relationship_error x r of
             Some problem \<Rightarrow>
               Inr (add_reason c1
                 (''persisted '' @ action_id_value (vr_action_id r) @ '': '' @ problem))
           | None \<Rightarrow> reconcile_matched c1 r x))"

fun reconcile_all ::
  "reconciliation \<Rightarrow> verified_worker_result list \<Rightarrow> reconciliation result" where
  "reconcile_all c [] = Inr c"
| "reconcile_all c (r # rs) = bindE (reconcile_result c r) (\<lambda>d. reconcile_all d rs)"

definition reconcile_verified_results ::
  "state \<Rightarrow> verified_worker_result list \<Rightarrow> reconciliation result" where
  "reconcile_verified_results s results =
     reconcile_all \<lparr>rc_state = s, rc_matched = {}, rc_changed = False, rc_reasons = []\<rparr>
       (sort_key (\<lambda>r. action_id_value (vr_action_id r)) results)"

section \<open>Units and tombstones by identity\<close>

definition unit_map_step ::
  "(string \<times> worker_unit) list \<times> string list \<Rightarrow> worker_unit \<Rightarrow>
   (string \<times> worker_unit) list \<times> string list" where
  "unit_map_step acc u =
     (let (units, reasons) = acc; key = action_id_value (unit_action_id u) in
      case map_of units key of
        None \<Rightarrow> (units @ [(key, u)], reasons)
      | Some previous \<Rightarrow>
          (units, reasons @ [if previous \<noteq> u then ''conflicting units for action '' @ key
                             else ''duplicate unit for action '' @ key]))"

definition unit_map :: "worker_unit list \<Rightarrow> (string \<times> worker_unit) list \<times> string list" where
  "unit_map units = foldl unit_map_step ([], []) units"

definition unique_units :: "worker_unit list \<Rightarrow> worker_unit list" where
  "unique_units units =
     (let m = fst (unit_map units) in map (\<lambda>k. the (map_of m k)) (sort (map fst m)))"

definition merge_tombstone ::
  "(string \<times> action_tombstone) list \<times> string list \<Rightarrow> action_tombstone \<Rightarrow>
   (string \<times> action_tombstone) list \<times> string list" where
  "merge_tombstone acc t =
     (let (merged, reasons) = acc; key = action_id_value (tomb_action_id t) in
      if present (map_of merged key) (\<lambda>p. tomb_lifecycle p \<noteq> tomb_lifecycle t)
      then if present (map_of merged key)
                (\<lambda>p. tomb_lifecycle p = FAILED \<and> tomb_lifecycle t = COMPLETED)
           then (merged, reasons)
           else (AList.update key t merged,
                 reasons @ [''conflicting terminal lifecycle for action '' @ key])
      else (AList.update key t merged, reasons))"

definition merge_tombstones ::
  "action_tombstone list \<Rightarrow> action_tombstone list \<Rightarrow> action_tombstone list \<times> string list" where
  "merge_tombstones persisted verified =
     (let (merged, reasons) = foldl merge_tombstone ([], []) (persisted @ verified)
      in (sort_key (\<lambda>t. action_id_value (tomb_action_id t)) (map snd merged), reasons))"

section \<open>High-water marks\<close>

definition max_of :: "int \<Rightarrow> int list \<Rightarrow> int" where
  "max_of x xs = fold max xs x"

definition id_sequences :: "action_id list \<Rightarrow> int list" where
  "id_sequences = map aid_sequence"

definition action_high_water ::
  "state option \<Rightarrow> worker_namespace_snapshot \<Rightarrow> action_tombstone list \<Rightarrow> worker_unit list \<Rightarrow> int"
where
  "action_high_water persisted snapshot tombstones units =
     max_of (ns_action_high_water snapshot)
       (id_sequences (map unit_action_id units) @
        id_sequences (map tomb_action_id (ns_tombstones snapshot)) @
        id_sequences (map vr_action_id (ns_results snapshot)) @
        id_sequences (map tomb_action_id tombstones) @
        (case persisted of None \<Rightarrow> [] | Some s \<Rightarrow>
           [action_sequence_high_water s] @
           id_sequences (map record_id (state_actions s)) @
           id_sequences (map tomb_action_id (action_tombstones s)) @
           id_sequences (map unit_action_id (recovery_units s))))"

definition transition_high_water ::
  "state option \<Rightarrow> worker_namespace_snapshot \<Rightarrow> int" where
  "transition_high_water persisted snapshot =
     max_of (ns_transition_high_water snapshot)
       (case persisted of None \<Rightarrow> [] | Some s \<Rightarrow>
          [transition_sequence_high_water s] @ map tid_sequence (state_transitions s))"

section \<open>Contradictions\<close>

definition terminal_evidence_reason :: "state \<Rightarrow> action_record \<Rightarrow> string list" where
  "terminal_evidence_reason s x =
     (let tombstone = tombstone_for (action_tombstones s) (record_id x);
          terminal = record_lifecycle x \<in> TERMINAL_ACTION_LIFECYCLES;
          matches = present tombstone (\<lambda>t. tomb_lifecycle t = record_lifecycle x)
      in if terminal \<and> \<not> matches
         then [''retained terminal action '' @ action_id_value (record_id x) @
               '' lacks matching terminal evidence'']
         else if tombstone \<noteq> None \<and> (\<not> terminal \<or> \<not> matches)
         then [''retained action '' @ action_id_value (record_id x) @
               '' conflicts with terminal evidence'']
         else [])"

definition persisted_terminal_evidence_reasons :: "state \<Rightarrow> string list" where
  "persisted_terminal_evidence_reasons s =
     concat (map (terminal_evidence_reason s) (state_actions s)) @
     map (\<lambda>u. ''possibly-live recovery worker '' @ action_id_value (unit_action_id u) @
              '' also has terminal evidence'')
       (filter (\<lambda>u. unit_action_id u \<in> set (map tomb_action_id (action_tombstones s)))
          (recovery_units s))"

definition represented_worker_units :: "state \<Rightarrow> worker_unit list" where
  "represented_worker_units s = somes (map record_unit (state_actions s))"

definition retained_units :: "state \<Rightarrow> action_id set \<Rightarrow> worker_unit list" where
  "retained_units s verified = filter (\<lambda>u. unit_action_id u \<notin> verified) (recovery_units s)"

definition same_boot_recovery_units ::
  "state \<Rightarrow> worker_namespace_snapshot \<Rightarrow> action_id set \<Rightarrow> worker_unit list" where
  "same_boot_recovery_units s snapshot verified =
     unique_units (retained_units s verified @ ns_units snapshot)"

text \<open>
  The contradictions of \<^verbatim>\<open>_same_boot_relationship_reasons\<close>. The source iterates over
  sets of keys in an unspecified order; the model takes the order of the dictionary
  the keys come from, and only whether a reason exists matters to the callers.
\<close>

definition expected_units :: "state \<Rightarrow> (string \<times> action_record) list" where
  "expected_units s =
     map (\<lambda>x. (action_id_value (record_id x), x))
       (filter (\<lambda>x. record_unit x \<noteq> None) (state_actions s))"

definition expected_unit_reason ::
  "(string \<times> worker_unit) list \<Rightarrow> action_id set \<Rightarrow> string \<times> action_record \<Rightarrow> string list" where
  "expected_unit_reason scanned verified entry =
     (let (key, x) = entry in
      case map_of scanned key of
        None \<Rightarrow>
          if record_id x \<notin> verified \<and> record_lifecycle x \<in> {DISPATCHED, STOPPING, RESULT_PENDING}
          then [''persisted in-flight worker '' @ key @ '' is not discoverable''] else []
      | Some u \<Rightarrow>
          if record_unit x \<noteq> Some u
          then [''worker unit identity differs for action '' @ key]
          else if record_lifecycle x \<notin> {DISPATCHED, STOPPING}
          then [''scanner-confirmed possibly-live worker '' @ key @ '' conflicts with persisted '' @
                lifecycle_value (record_lifecycle x) @ '' lifecycle'']
          else [])"

definition same_boot_relationship_reasons ::
  "state \<Rightarrow> worker_namespace_snapshot \<Rightarrow> action_id set \<Rightarrow> string list" where
  "same_boot_relationship_reasons s snapshot verified =
     (let (scanned, scan_reasons) = unit_map (ns_units snapshot);
          (retained, retained_reasons) = unit_map (retained_units s verified);
          expected = expected_units s
      in scan_reasons @ retained_reasons @
         map (\<lambda>(key, u). ''recovery worker unit identity differs for action '' @ key)
           (filter (\<lambda>(key, u). present (map_of retained key) (\<lambda>v. v \<noteq> u)) scanned) @
         concat (map (expected_unit_reason scanned verified) expected) @
         map (\<lambda>(key, u). ''surviving worker '' @ key @ '' is absent from persisted state'')
           (filter (\<lambda>(key, u). map_of expected key = None \<and> map_of retained key = None) scanned) @
         map (\<lambda>(key, u). if map_of scanned key \<noteq> None
             then ''persisted recovery worker '' @ key @ '' remains live''
             else ''persisted recovery worker '' @ key @
                  '' lacks a verified terminal tombstone'')
           (filter (\<lambda>(key, u). map_of expected key = None) retained))"

section \<open>Recovered states\<close>

definition minimum_recovery_state ::
  "boot_id \<Rightarrow> controller_instance_id \<Rightarrow> display_identity \<Rightarrow> worker_namespace_snapshot \<Rightarrow>
   action_tombstone list \<Rightarrow> state option \<Rightarrow> worker_unit list option \<Rightarrow> state result" where
  "minimum_recovery_state boot inst display snapshot tombstones persisted units =
     (let recovered = unique_units (case units of None \<Rightarrow> ns_units snapshot | Some us \<Rightarrow> us);
          required = present persisted desktop_finalization_required;
          finalized = (if required then None else ns_finalized_profile snapshot)
      in replace_state ((initial_state boot inst display)\<lparr>
           phase := RECOVERING,
           desktop_finalized_profile := finalized,
           desktop_finalization_required := required,
           baseline_adoption := (finalized = None \<and> \<not> required),
           action_sequence_high_water :=
             action_high_water persisted snapshot tombstones recovered,
           transition_sequence_high_water := transition_high_water persisted snapshot,
           action_tombstones := tombstones,
           recovery_units := recovered\<rparr>))"

definition boot_mismatch_state ::
  "state \<Rightarrow> boot_id \<Rightarrow> controller_instance_id \<Rightarrow> worker_namespace_snapshot \<Rightarrow>
   action_tombstone list \<Rightarrow> state result" where
  "boot_mismatch_state s boot inst snapshot tombstones =
     replace_state (s\<lparr>
       boot_id := boot,
       controller_instance := inst,
       phase := RECOVERING,
       planning_state := PLAN_IDLE,
       preparation_state := PREPARE_IDLE,
       latest_observation := None,
       physical_token := None,
       candidate := None,
       aggressive_deadline_ms := None,
       next_timer_ms := None,
       backoff_index := 0,
       verify_since_ms := None,
       last_drm_at_ms := None,
       stable_x_profile := None,
       desktop_finalized_profile := None,
       desktop_finalization_required := True,
       external_intent := False,
       baseline_adoption := False,
       attempted_probe_keys := {},
       probe := None,
       attempted_application_keys := {},
       immediate_retry_used_profiles := {},
       application := None,
       planning := None,
       preparation := None,
       finalization := None,
       unknown_key := None,
       unknown_since_ms := None,
       unplug_proof := None,
       observation_generation := ObservationGeneration 0,
       event_generation := EventGeneration 0,
       action_sequence_high_water :=
         action_high_water (Some s) snapshot tombstones (ns_units snapshot),
       transition_sequence_high_water := transition_high_water (Some s) snapshot,
       action_tombstones := tombstones,
       recovery_units := unique_units (ns_units snapshot)\<rparr>)"

text \<open>Every branch of \<^verbatim>\<open>recover_state\<close> ends by asserting the invariants.\<close>

definition recovered ::
  "state result \<Rightarrow> bool \<Rightarrow> bool \<Rightarrow> string list \<Rightarrow> recovery_result result" where
  "recovered r authority fresh reasons =
     bindE r (\<lambda>s.
     bindE (assert_controller_invariants s) (\<lambda>_.
     construct RecoveryResult_post_init
       \<lparr> rr_state = s, rr_authority_allowed = authority,
         rr_requires_fresh_observation = fresh, rr_reasons = reasons, rr_effects = [] \<rparr>))"

section \<open>recover\_state\<close>

text \<open>What an exception of the scanner leaves: its type name and message.\<close>

type_synonym scan_outcome = "(string \<times> string) + worker_namespace_snapshot"

definition recover_scan_failure ::
  "state option \<Rightarrow> boot_id \<Rightarrow> controller_instance_id \<Rightarrow> display_identity \<Rightarrow> string \<Rightarrow> string \<Rightarrow>
   recovery_result result" where
  "recover_scan_failure persisted boot inst display type_name message =
     (let units = (case persisted of None \<Rightarrow> []
           | Some s \<Rightarrow> unique_units (recovery_units s @ represented_worker_units s))
      in recovered
           (minimum_recovery_state boot inst display empty_snapshot [] persisted (Some units))
           False True [''worker namespace scan failed: '' @ type_name @ '': '' @ message])"

definition result_tombstones :: "worker_namespace_snapshot \<Rightarrow> action_tombstone list" where
  "result_tombstones snapshot =
     map (\<lambda>r. ActionTombstone (vr_action_id r) (vr_terminal_lifecycle r)) (ns_results snapshot)"

definition scanned_ids :: "worker_namespace_snapshot \<Rightarrow> action_id set" where
  "scanned_ids snapshot = set (map unit_action_id (ns_units snapshot))"

text \<open>
  Terminal evidence of a worker that is still there contradicts the scan: the
  tombstone is dropped and a reason is given.
\<close>

definition contradicted ::
  "worker_namespace_snapshot \<Rightarrow> action_tombstone list \<Rightarrow> action_id list" where
  "contradicted snapshot ts =
     sort_key action_id_value
       (remdups (filter (\<lambda>a. a \<in> scanned_ids snapshot) (map tomb_action_id ts)))"

definition uncontradicted ::
  "worker_namespace_snapshot \<Rightarrow> action_tombstone list \<Rightarrow> action_tombstone list" where
  "uncontradicted snapshot ts =
     filter (\<lambda>t. tomb_action_id t \<notin> set (contradicted snapshot ts)) ts"

definition contradiction_reasons ::
  "worker_namespace_snapshot \<Rightarrow> action_tombstone list \<Rightarrow> string \<Rightarrow> string list" where
  "contradiction_reasons snapshot ts evidence =
     map (\<lambda>a. ''surviving worker '' @ action_id_value a @ '' also has a '' @ evidence)
       (contradicted snapshot ts)"

definition scan_tombstones ::
  "worker_namespace_snapshot \<Rightarrow> (action_tombstone list \<times> string list) result" where
  "scan_tombstones snapshot =
     (let (merged, merge_reasons) =
            merge_tombstones [] (ns_tombstones snapshot @ result_tombstones snapshot)
      in bindE (bound_action_tombstones (uncontradicted snapshot merged) {}) (\<lambda>bounded.
         Inr (bounded,
           ns_ambiguities snapshot @ snd (unit_map (ns_units snapshot)) @ merge_reasons @
           contradiction_reasons snapshot merged ''verified terminal tombstone'')))"

text \<open>The reconciliation with a persisted state of the same display and boot.\<close>

definition deferred_ids :: "reconciliation \<Rightarrow> action_id set" where
  "deferred_ids c =
     Set.filter (\<lambda>a. present (action_for_id (rc_state c) a)
       (\<lambda>x. record_lifecycle x = RESULT_PENDING)) (rc_matched c)"

definition verified_ids :: "worker_namespace_snapshot \<Rightarrow> action_id set" where
  "verified_ids snapshot =
     set (map tomb_action_id (ns_tombstones snapshot @ result_tombstones snapshot))"

definition recover_same_boot ::
  "state \<Rightarrow> boot_id \<Rightarrow> controller_instance_id \<Rightarrow> display_identity \<Rightarrow> worker_namespace_snapshot \<Rightarrow>
   string list \<Rightarrow> recovery_result result" where
  "recover_same_boot persisted boot inst display snapshot scan_reasons =
     bindE (reconcile_verified_results persisted (ns_results snapshot)) (\<lambda>c.
     let s = rc_state c;
         verified = ns_tombstones snapshot @ result_tombstones snapshot;
         (merged, merge_reasons) =
           merge_tombstones (action_tombstones s)
             (filter (\<lambda>t. tomb_action_id t \<notin> deferred_ids c) verified);
         protected_ids = set (map record_id (state_actions s))
     in bindE (bound_action_tombstones (uncontradicted snapshot merged) protected_ids)
          (\<lambda>tombstones.
        let units = same_boot_recovery_units s snapshot (verified_ids snapshot);
            reasons = scan_reasons @ merge_reasons @
              contradiction_reasons snapshot merged ''terminal tombstone'' @
              (if present (ns_finalized_profile snapshot)
                    (\<lambda>p. desktop_finalized_profile s \<noteq> Some p)
               then [''verified finalized profile disagrees with persisted state''] else []) @
              rc_reasons c @ persisted_terminal_evidence_reasons s @
              same_boot_relationship_reasons s snapshot (verified_ids snapshot)
        in if reasons \<noteq> []
           then recovered
             (minimum_recovery_state boot inst display snapshot tombstones (Some s) (Some units))
             False True reasons
           else recovered
             (replace_state (s\<lparr>
                controller_instance := inst,
                recovery_units := units,
                action_sequence_high_water := action_high_water (Some s) snapshot tombstones units,
                transition_sequence_high_water := transition_high_water (Some s) snapshot,
                action_tombstones := tombstones\<rparr>))
             True (rc_changed c) []))"

definition recover_state ::
  "state option \<Rightarrow> boot_id \<Rightarrow> controller_instance_id \<Rightarrow> display_identity \<Rightarrow> scan_outcome \<Rightarrow>
   string option \<Rightarrow> recovery_result result" where
  "recover_state persisted boot inst display scan corruption =
     (case scan of
        Inl (type_name, message) \<Rightarrow>
          recover_scan_failure persisted boot inst display type_name message
      | Inr snapshot \<Rightarrow>
        bindE (scan_tombstones snapshot) (\<lambda>(tombstones, reasons).
        (case persisted of
           None \<Rightarrow>
             recovered
               (minimum_recovery_state boot inst display snapshot tombstones None None)
               (corruption = None \<and> reasons = [] \<and> ns_units snapshot = []) True
               (reasons @ [case corruption of
                  Some c \<Rightarrow> ''authoritative state is corrupt: '' @ c
                | None \<Rightarrow> ''authoritative state is missing''])
         | Some s \<Rightarrow>
             if display_identity s \<noteq> display
             then recovered
               (minimum_recovery_state boot inst display snapshot tombstones (Some s) None)
               False True
               (reasons @
                [''persisted display identity does not match requested display identity''])
             else if boot_id s \<noteq> boot
             then recovered (boot_mismatch_state s boot inst snapshot tombstones)
               False True reasons
             else recover_same_boot s boot inst display snapshot reasons)))"

end
