(* ===== verification/Recovery_Sound.thy ===== *)
theory Recovery_Sound
  imports Recovery Scenario "HOL-Library.Multiset"
begin

text \<open>
  What restart reconciliation guarantees: units and tombstones are merged by identity,
  the recovered marks cover every identity seen, a contradiction is quarantined without
  raising, and authority is only given back when the scan and the state agree exactly.
\<close>

section \<open>Units by identity\<close>

lemma unit_map_snoc: "unit_map (us @ [u]) = unit_map_step (unit_map us) u"
  by (simp add: unit_map_def)

abbreviation unit_key :: "worker_unit \<Rightarrow> string" where
  "unit_key u \<equiv> action_id_value (unit_action_id u)"

text \<open>The dictionary has distinct keys, holds scanned units under their own keys, and all keys.\<close>

lemma unit_map_entries:
  "distinct (map fst (fst (unit_map us))) \<and>
   (\<forall>(k, u) \<in> set (fst (unit_map us)). u \<in> set us \<and> k = unit_key u) \<and>
   fst ` set (fst (unit_map us)) = unit_key ` set us"
proof (induction us rule: rev_induct)
  case Nil
  then show ?case by (simp add: unit_map_def)
next
  case (snoc u us)
  obtain m rs where m: "unit_map us = (m, rs)" by (cases "unit_map us")
  show ?case
  proof (cases "map_of m (unit_key u)")
    case None
    then have "unit_key u \<notin> fst ` set m" by (simp add: map_of_eq_None_iff)
    with None snoc show ?thesis
      by (auto simp: unit_map_snoc unit_map_step_def m Let_def)
  next
    case (Some v)
    then have "unit_key u \<in> fst ` set m" by (force dest: map_of_SomeD)
    with Some snoc show ?thesis
      by (auto simp: unit_map_snoc unit_map_step_def m Let_def)
  qed
qed

lemma unit_map_reasons:
  "snd (unit_map us) = [] \<longleftrightarrow> distinct (map unit_key us)"
proof (induction us rule: rev_induct)
  case Nil
  then show ?case by (simp add: unit_map_def)
next
  case (snoc u us)
  obtain m rs where m: "unit_map us = (m, rs)" by (cases "unit_map us")
  have "map_of m (unit_key u) = None \<longleftrightarrow> unit_key u \<notin> unit_key ` set us"
    using unit_map_entries [of us] m by (simp add: map_of_eq_None_iff)
  with snoc show ?case
    by (cases "map_of m (unit_key u)")
      (auto simp: unit_map_snoc unit_map_step_def m Let_def)
qed

lemma unit_map_complete:
  assumes "snd (unit_map us) = []"
  shows "fst (unit_map us) = map (\<lambda>u. (unit_key u, u)) us"
  using assms
proof (induction us rule: rev_induct)
  case Nil
  then show ?case by (simp add: unit_map_def)
next
  case (snoc u us)
  obtain m rs where m: "unit_map us = (m, rs)" by (cases "unit_map us")
  have "unit_key u \<notin> unit_key ` set us" "distinct (map unit_key us)"
    using snoc.prems unfolding unit_map_reasons by auto
  then have "map_of m (unit_key u) = None" "rs = []"
    using unit_map_entries [of us] unit_map_reasons [of us] m by (simp_all add: map_of_eq_None_iff)
  with snoc m show ?case
    by (simp add: unit_map_snoc unit_map_step_def Let_def)
qed

lemma unique_units_entries:
  "distinct (map unit_key (unique_units us))"
  "set (unique_units us) \<subseteq> set us"
  "unit_key ` set (unique_units us) = unit_key ` set us"
proof -
  let ?m = "fst (unit_map us)"
  have dist: "distinct (map fst ?m)" and own: "\<And>k u. (k, u) \<in> set ?m \<Longrightarrow> u \<in> set us \<and> k = unit_key u"
    and keys: "fst ` set ?m = unit_key ` set us"
    using unit_map_entries [of us] by auto
  have look: "\<exists>u \<in> set us. map_of ?m k = Some u \<and> unit_key u = k" if "k \<in> fst ` set ?m" for k
    using that own by (metis (no_types) domI domIff dom_map_of_conv_image_fst map_of_SomeD
        option.exhaust)
  have ks: "map unit_key (unique_units us) = sort (map fst ?m)"
  proof -
    have "unit_key (the (map_of ?m k)) = k" if "k \<in> set (sort (map fst ?m))" for k
      using look [of k] that by auto
    then show ?thesis
      by (simp only: unique_units_def Let_def map_map o_def) (rule map_idI, blast)
  qed
  show "distinct (map unit_key (unique_units us))" using dist by (simp add: ks)
  show "set (unique_units us) \<subseteq> set us"
    using look by (force simp: unique_units_def Let_def)
  show "unit_key ` set (unique_units us) = unit_key ` set us"
    using ks keys by (metis set_map set_sort)
qed

lemma unique_units_ids:
  "distinct (map unit_action_id (unique_units us))"
  using unique_units_entries(1) [of us] by (auto simp: distinct_map inj_on_def)

lemma unique_units_identity:
  assumes "distinct (map unit_key us)"
  shows "set (unique_units us) = set us"
proof
  show "set us \<subseteq> set (unique_units us)"
  proof
    fix u assume u: "u \<in> set us"
    then obtain v where v: "v \<in> set (unique_units us)" "unit_key v = unit_key u"
      using unique_units_entries(3) [of us] by (metis imageE imageI)
    then have "v = u"
      using u assms unique_units_entries(2) [of us] by (auto simp: distinct_map dest: inj_onD)
    with v show "u \<in> set (unique_units us)" by simp
  qed
qed (rule unique_units_entries(2))

section \<open>Merged tombstones\<close>

abbreviation tomb_key :: "action_tombstone \<Rightarrow> string" where
  "tomb_key t \<equiv> action_id_value (tomb_action_id t)"

lemma set_update_subset: "set (AList.update k v m) \<subseteq> insert (k, v) (set m)"
  by (induction m) auto

lemma merge_step_cases:
  obtains "merge_tombstone (m, rs) t = (m, rs)"
      "present (map_of m (tomb_key t)) (\<lambda>p. tomb_lifecycle p = FAILED \<and> tomb_lifecycle t = COMPLETED)"
  | "merge_tombstone (m, rs) t = (AList.update (tomb_key t) t m, rs)"
      "\<not> present (map_of m (tomb_key t)) (\<lambda>p. tomb_lifecycle p \<noteq> tomb_lifecycle t)"
  | r where "merge_tombstone (m, rs) t = (AList.update (tomb_key t) t m, rs @ [r])"
proof (cases "present (map_of m (tomb_key t)) (\<lambda>p. tomb_lifecycle p \<noteq> tomb_lifecycle t)")
  case False
  with that(2) show thesis by (simp add: merge_tombstone_def Let_def)
next
  case True
  then show thesis
    using that(1,3)
    by (cases "present (map_of m (tomb_key t))
        (\<lambda>p. tomb_lifecycle p = FAILED \<and> tomb_lifecycle t = COMPLETED)")
      (simp_all add: merge_tombstone_def Let_def)
qed

lemma merge_fold_entries:
  "distinct (map fst (fst (foldl merge_tombstone ([], []) ts))) \<and>
   (\<forall>(k, t) \<in> set (fst (foldl merge_tombstone ([], []) ts)). k = tomb_key t \<and> t \<in> set ts)"
proof (induction ts rule: rev_induct)
  case (snoc t ts)
  obtain m rs where m: "foldl merge_tombstone ([], []) ts = (m, rs)"
    by (cases "foldl merge_tombstone ([], []) ts")
  show ?case
    using snoc set_update_subset [of "tomb_key t" t m] distinct_update [of m "tomb_key t" t]
    by (cases rule: merge_step_cases [of m rs t]) (auto simp: m simp del: AList.update.simps)
qed simp

text \<open>
  Without a reason every tombstone is represented: the entry of its key has its
  lifecycle, or a persisted failure stands against a completed result.
\<close>

lemma merge_fold_agrees:
  assumes "snd (foldl merge_tombstone ([], []) ts) = []" and "t \<in> set ts"
  shows "present (map_of (fst (foldl merge_tombstone ([], []) ts)) (tomb_key t)) (\<lambda>p.
    tomb_lifecycle p = tomb_lifecycle t \<or>
    tomb_lifecycle p = FAILED \<and> tomb_lifecycle t = COMPLETED)"
  using assms
proof (induction ts rule: rev_induct)
  case (snoc u ts)
  obtain m rs where m: "foldl merge_tombstone ([], []) ts = (m, rs)"
    by (cases "foldl merge_tombstone ([], []) ts")
  show ?case
  proof (cases rule: merge_step_cases [of m rs u])
    case 1
    with snoc m show ?thesis by (cases "t = u") (auto simp: present_iff)
  next
    case 2
    with snoc m have rs: "rs = []" by simp
    show ?thesis
    proof (cases "tomb_key t = tomb_key u \<and> t \<in> set ts")
      case True
      with snoc.IH m rs 2 show ?thesis by (auto simp: present_iff update_Some_unfold)
    next
      case False
      with snoc m rs 2 show ?thesis by (auto simp: present_iff update_Some_unfold update_conv')
    qed
  next
    case (3 r)
    with snoc m show ?thesis by simp
  qed
qed simp

lemma merge_tombstones_entries:
  assumes "merge_tombstones persisted verified = (ts, rs)"
  shows "distinct (map tomb_key ts)" and "sorted (map tomb_key ts)"
    and "set ts \<subseteq> set persisted \<union> set verified"
    and "distinct (map tomb_action_id ts)"
proof -
  let ?m = "fst (foldl merge_tombstone ([], []) (persisted @ verified))"
  have ts: "ts = sort_key tomb_key (map snd ?m)"
    using assms by (simp add: merge_tombstones_def split: prod.splits)
  note m = merge_fold_entries [of "persisted @ verified"]
  have "map tomb_key (map snd ?m) = map fst ?m" using m by (auto simp: split_beta)
  then have "distinct (map tomb_key (map snd ?m))" using m by metis
  moreover have "mset (map tomb_key ts) = mset (map tomb_key (map snd ?m))"
    unfolding ts mset_map mset_sort by (rule refl)
  ultimately show dist: "distinct (map tomb_key ts)" by (metis mset_eq_imp_distinct_iff)
  show "sorted (map tomb_key ts)" unfolding ts by simp
  show "set ts \<subseteq> set persisted \<union> set verified" unfolding ts using m by fastforce
  show "distinct (map tomb_action_id ts)"
    using dist by (auto simp: distinct_map inj_on_def)
qed

section \<open>High-water marks\<close>

lemma max_of_ge: "x \<le> max_of x xs" and max_of_ge_member: "y \<in> set xs \<Longrightarrow> y \<le> max_of x xs"
proof -
  have "x \<le> max_of x xs \<and> (\<forall>y \<in> set xs. y \<le> max_of x xs)"
    by (induction xs arbitrary: x) (auto simp: max_of_def, force+)
  then show "x \<le> max_of x xs" and "y \<in> set xs \<Longrightarrow> y \<le> max_of x xs" by blast+
qed

text \<open>Every identity the scan or the recovered state mentions lies below the mark.\<close>

lemma action_high_water_covers:
  "ns_action_high_water n \<le> action_high_water p n ts us"
  "u \<in> set us \<Longrightarrow> aid_sequence (unit_action_id u) \<le> action_high_water p n ts us"
  "t \<in> set (ns_tombstones n) \<union> set ts \<Longrightarrow>
     aid_sequence (tomb_action_id t) \<le> action_high_water p n ts us"
  "r \<in> set (ns_results n) \<Longrightarrow> aid_sequence (vr_action_id r) \<le> action_high_water p n ts us"
  "p = Some s \<Longrightarrow> action_sequence_high_water s \<le> action_high_water p n ts us"
  "p = Some s \<Longrightarrow> a \<in> retained_ids s \<union> tombstone_ids s \<Longrightarrow>
     aid_sequence a \<le> action_high_water p n ts us"
proof -
  show "p = Some s \<Longrightarrow> a \<in> retained_ids s \<union> tombstone_ids s \<Longrightarrow>
     aid_sequence a \<le> action_high_water p n ts us"
    unfolding action_high_water_def
    by (intro max_of_ge_member)
      (auto simp: id_sequences_def tombstone_ids_def simp flip: state_actions_ids)
qed (auto simp: action_high_water_def id_sequences_def intro: max_of_ge max_of_ge_member)

lemma transition_high_water_covers:
  "ns_transition_high_water n \<le> transition_high_water p n"
  "p = Some s \<Longrightarrow> transition_sequence_high_water s \<le> transition_high_water p n"
  "p = Some s \<Longrightarrow> i \<in> set (state_transitions s) \<Longrightarrow> tid_sequence i \<le> transition_high_water p n"
  by (auto simp: transition_high_water_def intro: max_of_ge max_of_ge_member)

section \<open>Quarantined states\<close>

text \<open>A state without any action, evidence or proof, as the denied branches build it.\<close>

definition bare :: "state \<Rightarrow> bool" where
  "bare s \<longleftrightarrow> phase s = RECOVERING \<and> latest_observation s = None \<and> probe s = None \<and>
     application s = None \<and> planning s = None \<and> preparation s = None \<and> finalization s = None \<and>
     unplug_proof s = None"

lemma bare_invariants:
  assumes "bare s" and "distinct (map tomb_action_id (action_tombstones s))"
    and "distinct (map unit_action_id (recovery_units s))"
    and "\<forall>a \<in> set (map tomb_action_id (action_tombstones s)) \<union>
           set (map unit_action_id (recovery_units s)).
           aid_sequence a \<le> action_sequence_high_water s"
    and "set (map unit_action_id (recovery_units s)) \<inter>
           set (map tomb_action_id (action_tombstones s)) = {}"
  shows "passes (assert_controller_invariants s)"
proof -
  have none: "state_actions s = []" "state_workers s = []" "state_transitions s = []"
    using assms(1) by (simp_all add: bare_def state_actions_def state_workers_def
        state_transitions_def)
  have "passes (check_action_identities s)"
    using assms(1-5) none
    by (auto simp: check_action_identities_def check_action_id_def length_remdups_eq Let_def
        bare_def)
  then show ?thesis
    using assms(1) none
    by (simp add: assert_controller_invariants_def bare_def check_phase_relationships_def
        check_planning_relationships_def check_worker_acknowledgements_def
        check_observation_authority_def check_action_authorization_def
        check_numbered_safety_rules_def check_attempt_history_def)
qed

lemma uncontradicted_props:
  "set (uncontradicted n ts) \<subseteq> set ts"
  "t \<in> set (uncontradicted n ts) \<Longrightarrow> tomb_action_id t \<notin> scanned_ids n"
  "distinct (map f ts) \<Longrightarrow> distinct (map f (uncontradicted n ts))"
  by (auto simp: uncontradicted_def contradicted_def intro: distinct_map_filter)

lemma scan_tombstones_props:
  assumes "scan_tombstones n = Inr (ts, rs)"
  shows "distinct (map tomb_action_id ts)" and "tomb_action_id ` set ts \<inter> scanned_ids n = {}"
    and "length ts \<le> ACTION_TOMBSTONE_RETENTION_LIMIT"
proof -
  obtain merged mrs where m:
      "merge_tombstones [] (ns_tombstones n @ result_tombstones n) = (merged, mrs)"
    and b: "bound_action_tombstones (uncontradicted n merged) {} = Inr ts"
    using assms by (auto simp: scan_tombstones_def Let_def bindE_eq_Inr split: prod.splits)
  have dist: "distinct (map tomb_action_id (uncontradicted n merged))"
    by (rule uncontradicted_props(3) [OF merge_tombstones_entries(4) [OF m]])
  show "distinct (map tomb_action_id ts)"
    by (rule bound_action_tombstones_cases(4) [OF b dist])
  show "length ts \<le> ACTION_TOMBSTONE_RETENTION_LIMIT"
    by (rule bound_action_tombstones_cases(2) [OF b])
  have "set ts \<subseteq> set (uncontradicted n merged)"
    using bound_action_tombstones_cases(1) [OF b] by (auto elim: list_emb_set)
  then show "tomb_action_id ` set ts \<inter> scanned_ids n = {}"
    using uncontradicted_props(2) [of _ n merged] by fast
qed

lemma scan_tombstones_total: "\<exists>ts rs. scan_tombstones n = Inr (ts, rs)"
proof -
  obtain merged mrs where m:
      "merge_tombstones [] (ns_tombstones n @ result_tombstones n) = (merged, mrs)"
    by (cases "merge_tombstones [] (ns_tombstones n @ result_tombstones n)")
  have "distinct (map tomb_action_id (uncontradicted n merged))"
    by (rule uncontradicted_props(3) [OF merge_tombstones_entries(4) [OF m]])
  from bound_action_tombstones_total [OF this, of "{}"] m show ?thesis
    by (auto simp: scan_tombstones_def)
qed

section \<open>The branches\<close>

text \<open>
  What every branch returns: the invariants hold, no effects are authorised, the
  identity of this start is in place, and without authority nothing but the
  quarantine, the tombstones and the marks is left.
\<close>

definition recovery_sound ::
  "boot_id \<Rightarrow> controller_instance_id \<Rightarrow> display_identity \<Rightarrow> recovery_result \<Rightarrow> bool" where
  "recovery_sound boot inst display r \<longleftrightarrow>
     passes (assert_controller_invariants (rr_state r)) \<and> rr_effects r = [] \<and>
     boot_id (rr_state r) = boot \<and> controller_instance (rr_state r) = inst \<and>
     display_identity (rr_state r) = display \<and>
     (\<not> rr_authority_allowed r \<longrightarrow> bare (rr_state r))"

lemma recovered_eq:
  "recovered q authority fresh reasons = Inr r \<longleftrightarrow>
     (\<exists>s. q = Inr s \<and> passes (assert_controller_invariants s) \<and>
        (authority \<or> phase s = RECOVERING) \<and>
        r = \<lparr> rr_state = s, rr_authority_allowed = authority,
              rr_requires_fresh_observation = fresh, rr_reasons = reasons, rr_effects = [] \<rparr>)"
  by (auto simp: recovered_def bindE_eq_Inr RecoveryResult_post_init_def passes_def)

lemma minimum_recovery_state_eq:
  assumes "minimum_recovery_state boot inst display n ts p us = Inr s"
  shows "bare s" and "boot_id s = boot" and "controller_instance s = inst"
    and "display_identity s = display" and "action_tombstones s = ts"
    and "recovery_units s = unique_units (case us of None \<Rightarrow> ns_units n | Some vs \<Rightarrow> vs)"
    and "action_sequence_high_water s = action_high_water p n ts (recovery_units s)"
    and "transition_sequence_high_water s = transition_high_water p n"
  using assms by (simp_all add: minimum_recovery_state_def Let_def bare_def initial_state_def)

lemma boot_mismatch_state_eq:
  assumes "boot_mismatch_state p boot inst n ts = Inr s"
  shows "bare s" and "boot_id s = boot" and "controller_instance s = inst"
    and "display_identity s = display_identity p" and "action_tombstones s = ts"
    and "recovery_units s = unique_units (ns_units n)"
    and "action_sequence_high_water s = action_high_water (Some p) n ts (ns_units n)"
    and "transition_sequence_high_water s = transition_high_water (Some p) n"
  using assms by (simp_all add: boot_mismatch_state_def bare_def)

text \<open>Reconciled results keep the state's boot and display.\<close>

lemma reduce_identity:
  assumes "reduce s e = Inr d" and "\<not> is_restart e"
  shows "boot_id (dec_state d) = boot_id s \<and> display_identity (dec_state d) = display_identity s \<and>
    action_sequence_high_water s \<le> action_sequence_high_water (dec_state d) \<and>
    transition_sequence_high_water s \<le> transition_sequence_high_water (dec_state d)"
proof -
  have ex: "explained s d" by (rule reduce_explained [OF assms])
  then obtain u where u: "refreshed s u" and f: "frame u (dec_state d)"
    by (auto simp: explained_def accounted_def)
  obtain lo og eg ld vs up cd df where su: "u = s\<lparr>latest_observation := lo,
      observation_generation := og, event_generation := eg, last_drm_at_ms := ld,
      verify_since_ms := vs, unplug_proof := up, candidate := cd,
      desktop_finalized_profile := df\<rparr>"
    using u unfolding refreshed_def by blast
  have "display_identity (dec_state d) = display_identity s" using f by (simp add: frame_def su)
  with explained_evolves(1,6,7) [OF ex] show ?thesis by simp
qed

definition reconciles :: "state \<Rightarrow> state \<Rightarrow> bool" where
  "reconciles s t \<longleftrightarrow> boot_id t = boot_id s \<and> display_identity t = display_identity s \<and>
     action_sequence_high_water s \<le> action_sequence_high_water t \<and>
     transition_sequence_high_water s \<le> transition_sequence_high_water t"

lemma reconciles_refl [simp]: "reconciles s s"
  and reconciles_trans: "reconciles s t \<Longrightarrow> reconciles t u \<Longrightarrow> reconciles s u"
  by (auto simp: reconciles_def)

lemma reduce_reconciles: "reduce s e = Inr d \<Longrightarrow> \<not> is_restart e \<Longrightarrow> reconciles s (dec_state d)"
  using reduce_identity [of s e d] by (simp add: reconciles_def)

lemma result_events_plain:
  "result_dispatch_event r m = Inr e \<Longrightarrow> \<not> is_restart e"
  "result_completion_event r m = Inr e \<Longrightarrow> \<not> is_restart e"
  "cancellation_event r m = Inr e \<Longrightarrow> \<not> is_restart e"
  by (auto simp: result_dispatch_event_def result_completion_event_def cancellation_event_def
      Let_def split: action_kind.splits option.splits)

lemma apply_verified_result_reconciles:
  assumes "apply_verified_result s x r = Inr (Some t)"
  shows "reconciles s t"
proof -
  obtain m s1 y where p: "promote_admission s x r m = Inr (Some (s1, y))"
    and a: "apply_promoted_result s1 y r m = Inr t"
    using assms by (auto simp: apply_verified_result_def bindE_eq_Inr split: if_splits option.splits)
  have "reconciles s s1"
    using p by (auto simp: promote_admission_def bindE_eq_Inr split: if_splits
        intro: reduce_reconciles dest: result_events_plain)
  moreover have "reconciles s1 t"
    using a by (auto simp: apply_promoted_result_def bindE_eq_Inr split: if_splits
        intro: reduce_reconciles reconciles_trans [OF reduce_reconciles reduce_reconciles]
        dest: result_events_plain)
  ultimately show ?thesis by (rule reconciles_trans)
qed

lemma rc_state_add_reason [simp]: "rc_state (add_reason c reason) = rc_state c"
  by (simp add: add_reason_def)

lemma reconcile_matched_reconciles:
  assumes "reconcile_matched c r x = Inr c'"
  shows "reconciles (rc_state c) (rc_state c')"
proof -
  from assms consider "rc_state c' = rc_state c"
    | t where "apply_verified_result (rc_state c) x r = Inr (Some t)" "rc_state c' = t"
    unfolding reconcile_matched_def Let_def
    by (force simp: bindE_eq_Inr split: if_splits option.splits)
  then show ?thesis
    by cases (simp_all add: apply_verified_result_reconciles)
qed

lemma reconcile_result_reconciles:
  assumes "reconcile_result c r = Inr c'"
  shows "reconciles (rc_state c) (rc_state c')"
proof -
  from assms consider "rc_state c' = rc_state c"
    | x where "reconcile_matched (c\<lparr>rc_matched := insert (vr_action_id r) (rc_matched c)\<rparr>) r x = Inr c'"
    unfolding reconcile_result_def Let_def
    by (force split: if_splits option.splits)
  then show ?thesis by cases (auto dest: reconcile_matched_reconciles)
qed

lemma reconcile_all_reconciles:
  "reconcile_all c rs = Inr c' \<Longrightarrow> reconciles (rc_state c) (rc_state c')"
  by (induction rs arbitrary: c)
    (auto simp: bindE_eq_Inr intro: reconciles_trans dest: reconcile_result_reconciles)

lemma reconcile_verified_results_reconciles:
  "reconcile_verified_results s rs = Inr c \<Longrightarrow> reconciles s (rc_state c)"
  unfolding reconcile_verified_results_def by (drule reconcile_all_reconciles) simp

text \<open>The same-boot branch either resumes without a reason or is quarantined.\<close>

lemma recover_same_boot_cases:
  assumes "recover_same_boot p boot inst display n reasons = Inr r"
  obtains (resumed) c ts where
      "reconcile_verified_results p (ns_results n) = Inr c" and "rr_authority_allowed r"
      "rr_reasons r = []" "reasons = []" "rr_effects r = []"
      "passes (assert_controller_invariants (rr_state r))"
      "rr_state r = (rc_state c)\<lparr>controller_instance := inst,
         recovery_units := same_boot_recovery_units (rc_state c) n
           (verified_ids n),
         action_sequence_high_water := action_high_water (Some (rc_state c)) n ts
           (same_boot_recovery_units (rc_state c) n
              (verified_ids n)),
         transition_sequence_high_water := transition_high_water (Some (rc_state c)) n,
         action_tombstones := ts\<rparr>"
      "same_boot_relationship_reasons (rc_state c) n
         (verified_ids n) = []"
      "tomb_action_id ` set ts \<inter> scanned_ids n = {}"
  | (quarantined) c ts us where
      "reconcile_verified_results p (ns_results n) = Inr c" and "\<not> rr_authority_allowed r"
      "rr_effects r = []" "rr_reasons r \<noteq> []"
      "passes (assert_controller_invariants (rr_state r))"
      "minimum_recovery_state boot inst display n ts (Some (rc_state c)) (Some us) =
         Inr (rr_state r)"
      "us = same_boot_recovery_units (rc_state c) n (verified_ids n)"
proof -
  obtain c where c: "reconcile_verified_results p (ns_results n) = Inr c"
    using assms by (auto simp: recover_same_boot_def bindE_eq_Inr)
  let ?verified = "ns_tombstones n @ result_tombstones n"
  obtain merged mrs where m: "merge_tombstones (action_tombstones (rc_state c))
      (filter (\<lambda>t. tomb_action_id t \<notin> deferred_ids c) ?verified) = (merged, mrs)"
    by fastforce
  obtain ts where b: "bound_action_tombstones (uncontradicted n merged)
      (set (map record_id (state_actions (rc_state c)))) = Inr ts"
    using assms c m by (auto simp: recover_same_boot_def Let_def bindE_eq_Inr)
  have "set ts \<subseteq> set (uncontradicted n merged)"
    using bound_action_tombstones_cases(1) [OF b] by (auto elim: list_emb_set)
  then have dis: "tomb_action_id ` set ts \<inter> scanned_ids n = {}"
    using uncontradicted_props(2) [of _ n merged] by fast
  show thesis
    using assms c m b dis
    by (auto simp: recover_same_boot_def Let_def bindE_eq_Inr recovered_eq
        intro: resumed quarantined split: if_splits)
qed

end
