(* ===== verification/Identities.thy ===== *)
theory Identities
  imports Model_Values
begin

text \<open>
  The textual identities of \<^verbatim>\<open>model.py\<close>. Units, tombstones and dictionaries of the
  runtime are keyed by \<^verbatim>\<open>ActionId.value\<close>, a string joined from the kind, the
  instance and the sequence; it is shown to determine the identity.
\<close>

section \<open>Decimal digits\<close>

lemma of_digit_char: "m < 10 \<Longrightarrow> (of_char (digit_char m) :: nat) = 48 + m"
  by (simp add: digit_char_def)

lemma digit_char_eq [simp]: "m < 10 \<Longrightarrow> n < 10 \<Longrightarrow> digit_char m = digit_char n \<longleftrightarrow> m = n"
  by (metis of_digit_char add_left_cancel)

lemma digit_char_minus [simp]: "m < 10 \<Longrightarrow> digit_char m \<noteq> CHR ''-''"
  using of_digit_char [of m] by auto

lemma nat_decimal_nonempty [simp]: "nat_decimal n \<noteq> []" "[] \<noteq> nat_decimal n"
  by (simp_all add: nat_decimal.simps [of n])

lemma nat_decimal_eq [simp]: "nat_decimal m = nat_decimal n \<longleftrightarrow> m = n"
proof (induction m arbitrary: n rule: nat_decimal.induct)
  case (1 m)
  consider "m < 10" "n < 10" | "m < 10" "\<not> n < 10" | "\<not> m < 10" "n < 10" | "\<not> m < 10" "\<not> n < 10"
    by blast
  then show ?case
  proof cases
    case 4
    then have "nat_decimal m = nat_decimal n \<longleftrightarrow> m div 10 = n div 10 \<and> m mod 10 = n mod 10"
      using "1.IH" [of "n div 10"]
      by (simp add: nat_decimal.simps [of m] nat_decimal.simps [of n])
    then show ?thesis by (metis div_mult_mod_eq)
  qed (auto simp: nat_decimal.simps [of m] nat_decimal.simps [of n])
qed

lemma nat_decimal_no_minus: "CHR ''-'' \<notin> set (nat_decimal n)"
proof (induction n rule: nat_decimal.induct)
  case (1 n)
  have "digit_char (n mod 10) \<noteq> CHR ''-''" by (rule digit_char_minus) simp
  with 1 show ?case
    using digit_char_minus [of n]
    by (cases "n < 10") (simp_all add: nat_decimal.simps [of n] eq_commute)
qed

lemma int_decimal_eq [simp]: "int_decimal i = int_decimal j \<longleftrightarrow> i = j"
proof -
  have "nat_decimal n \<noteq> CHR ''-'' # xs" for n xs
    using nat_decimal_no_minus [of n] by (metis list.set_intros(1))
  then show ?thesis by (auto simp: int_decimal_def eq_commute [of "CHR ''-'' # _"])
qed

section \<open>Hexadecimal digits\<close>

lemma of_hex_char: "m < 16 \<Longrightarrow> (of_char (hex_char m) :: nat) = (if m < 10 then 48 + m else 87 + m)"
  by (simp add: hex_char_def)

lemma hex_char_eq [simp]: "m < 16 \<Longrightarrow> n < 16 \<Longrightarrow> hex_char m = hex_char n \<longleftrightarrow> m = n"
proof
  assume "hex_char m = hex_char n" and m: "m < 16" and n: "n < 16"
  then have "(if m < 10 then 48 + m else 87 + m) = (if n < 10 then 48 + n else 87 + n)"
    using of_hex_char [OF m] of_hex_char [OF n] by metis
  then show "m = n" by (simp split: if_splits)
qed simp

lemma length_hex_digits [simp]: "length (hex_digits k n) = k"
  by (induction k arbitrary: n) simp_all

lemma hex_digits_eq: "hex_digits k m = hex_digits k n \<longleftrightarrow> m mod 16 ^ k = n mod 16 ^ k"
proof (induction k arbitrary: m n)
  case (Suc k)
  have split: "x mod 16 ^ Suc k = 16 * (x div 16 mod 16 ^ k) + x mod 16" for x :: nat
    by (metis mod_mult2_eq power_Suc)
  have "16 * a + x mod 16 = 16 * b + y mod 16 \<longleftrightarrow> a = b \<and> x mod 16 = y mod 16" for a b x y :: nat
  proof
    assume *: "16 * a + x mod 16 = 16 * b + y mod 16"
    then have "(16 * a + x mod 16) mod 16 = (16 * b + y mod 16) mod 16" by (rule arg_cong)
    then have "x mod 16 = y mod 16" by simp
    with * show "a = b \<and> x mod 16 = y mod 16" by simp
  qed auto
  then show ?case by (simp only: split) (simp add: Suc)
qed simp

lemma uuid_hex_eq [simp]: "uuid_hex u = uuid_hex v \<longleftrightarrow> u = v"
proof -
  have "unat w mod 16 ^ 32 = unat w" for w :: uuid
  proof -
    have "unat w < 2 ^ LENGTH(128)" by (rule unsigned_less)
    then show ?thesis by simp
  qed
  then show ?thesis by (auto simp: uuid_hex_def hex_digits_eq intro: unsigned_word_eqI)
qed

lemma length_uuid_hex [simp]: "length (uuid_hex u) = 32"
  by (simp add: uuid_hex_def)

section \<open>Identities\<close>

lemma split_instance:
  "uuid_hex u @ CHR ''-'' # xs = uuid_hex v @ CHR ''-'' # ys \<longleftrightarrow> u = v \<and> xs = ys"
  by simp

lemma action_id_value_eq [simp]: "action_id_value a = action_id_value b \<longleftrightarrow> a = b"
  by (cases "aid_kind a"; cases "aid_kind b")
    (auto simp: action_id_value_def split_instance action_id.expand controller_instance_id.expand)

lemma transition_id_value_eq [simp]: "transition_id_value t = transition_id_value u \<longleftrightarrow> t = u"
  by (auto simp: transition_id_value_def split_instance transition_id.expand
      controller_instance_id.expand)

text \<open>Evaluation computes the text of an identity only once its parts are known.\<close>

lemma identity_value_code [code]:
  "action_id_value (ActionId i k n) =
     action_kind_value k @ ''-'' @ uuid_hex (instance_value i) @ ''-'' @ int_decimal n"
  "transition_id_value (TransitionId i n) =
     ''transition-'' @ uuid_hex (instance_value i) @ ''-'' @ int_decimal n"
  by (simp_all add: action_id_value_def transition_id_value_def)

text \<open>C40
  Two actions have the same value exactly when they are the same action, and the same
  holds of transitions, whose values are never those of actions: a dictionary keyed by
  these strings is a map on identities.\<close>

theorem identity_strings_are_faithful:
  "(action_id_value a = action_id_value b \<longleftrightarrow> a = b) \<and>
   (transition_id_value t = transition_id_value u \<longleftrightarrow> t = u) \<and>
   action_id_value a \<noteq> transition_id_value t"
proof -
  have "action_id_value a \<noteq> transition_id_value t"
    by (cases "aid_kind a") (auto simp: action_id_value_def transition_id_value_def)
  then show ?thesis by simp
qed

end
