(* ===== verification/Recovery_Guarantees.thy ===== *)
theory Recovery_Guarantees
  imports Recovery_Sound Identities
begin

text \<open>
  The promises of \<^verbatim>\<open>recover_state\<close>: what it returns is sound, surviving workers stay
  excluded, no identity can be allocated twice, a quarantined start stays quarantined,
  and a scan that fails or contradicts never keeps the controller from starting.
\<close>

section \<open>Soundness\<close>

lemma recovered_quarantine:
  assumes "recovered q authority fresh reasons = Inr r"
    and "\<And>s. q = Inr s \<Longrightarrow> bare s \<and> boot_id s = boot \<and> controller_instance s = inst \<and>
      display_identity s = display"
  shows "recovery_sound boot inst display r"
  using assms by (auto simp: recovered_eq recovery_sound_def)

lemma minimum_quarantine:
  assumes "recovered (minimum_recovery_state boot inst display n ts p us) authority fresh reasons
    = Inr r"
  shows "recovery_sound boot inst display r"
  using assms by (rule recovered_quarantine) (auto dest: minimum_recovery_state_eq)

lemma recover_same_boot_sound:
  assumes "recover_same_boot p boot inst display n reasons = Inr r"
    and "boot_id p = boot" and "display_identity p = display"
  shows "recovery_sound boot inst display r"
  using assms(1)
proof (cases rule: recover_same_boot_cases)
  case (resumed c ts)
  with reconcile_verified_results_reconciles [OF resumed(1)] assms(2,3) show ?thesis
    by (simp add: recovery_sound_def reconciles_def)
next
  case (quarantined c ts us)
  with minimum_recovery_state_eq [OF quarantined(6)] show ?thesis
    by (simp add: recovery_sound_def)
qed

text \<open>The branches after a scan that returned.\<close>

lemma recover_state_scanned:
  assumes "recover_state p boot inst display (Inr n) corruption = Inr r"
  obtains (missing) ts reasons texts where "p = None" "scan_tombstones n = Inr (ts, reasons)"
      "recovered (minimum_recovery_state boot inst display n ts None None)
         (corruption = None \<and> reasons = [] \<and> ns_units n = []) True texts = Inr r"
  | (display) s ts reasons texts where "p = Some s" "scan_tombstones n = Inr (ts, reasons)"
      "display_identity s \<noteq> display"
      "recovered (minimum_recovery_state boot inst display n ts (Some s) None) False True texts
         = Inr r"
  | (boot) s ts reasons where "p = Some s" "scan_tombstones n = Inr (ts, reasons)"
      "display_identity s = display" "boot_id s \<noteq> boot"
      "recovered (boot_mismatch_state s boot inst n ts) False True reasons = Inr r"
  | (same) s ts reasons where "p = Some s" "scan_tombstones n = Inr (ts, reasons)"
      "display_identity s = display" "boot_id s = boot"
      "recover_same_boot s boot inst display n reasons = Inr r"
proof -
  obtain ts reasons where scan: "scan_tombstones n = Inr (ts, reasons)"
    using scan_tombstones_total by blast
  show thesis
  proof (cases p)
    case None
    with assms scan show thesis
      by (intro missing [OF None scan]) (simp add: recover_state_def)
  next
    case (Some s)
    with assms scan display boot same show thesis
      by (simp add: recover_state_def split: if_splits)
  qed
qed

lemma recovery_soundness:
  assumes "recover_state p boot inst display scan corruption = Inr r"
  shows "recovery_sound boot inst display r"
proof (cases scan)
  case (Inl a)
  with assms show ?thesis
    by (cases a) (auto simp: recover_state_def recover_scan_failure_def Let_def
        intro: minimum_quarantine)
next
  case (Inr n)
  from assms [unfolded Inr] show ?thesis
  proof (cases rule: recover_state_scanned)
    case (boot s ts reasons)
    from boot(5) boot_mismatch_state_eq boot(3) show ?thesis
      by (intro recovered_quarantine [OF boot(5)]) auto
  qed (blast intro: minimum_quarantine recover_same_boot_sound)+
qed

lemmas recovered_invariants = recovery_soundness [unfolded recovery_sound_def, THEN conjunct1]

lemma recovered_bare:
  "recover_state p boot inst display scan corruption = Inr r \<Longrightarrow> \<not> rr_authority_allowed r \<Longrightarrow>
     bare (rr_state r)"
  using recovery_soundness by (simp add: recovery_sound_def)

text \<open>C6
  Whatever a restart recovers satisfies the whole of the controller invariants, belongs
  to the boot, instance and display of this start, and authorises no effect; without
  authority it holds no action, evidence or proof.\<close>

theorem recovery_is_sound:
  assumes "recover_state p boot inst display scan corruption = Inr r"
  shows "recovery_sound boot inst display r"
  using assms by (rule recovery_soundness)

section \<open>A restart in the middle of an application\<close>

text \<open>
  The controller stopped while the docking profile was being applied; the supervisor
  still has the worker, or reports it with a terminal result, or nothing at all.
\<close>

definition sample_worker :: worker_unit where
  "sample_worker = sample_unit (sample_action APPLICATION 1)"

definition sample_restart :: controller_instance_id where
  "sample_restart = ControllerInstanceId 3"

definition sample_scan :: "worker_unit list \<Rightarrow> worker_namespace_snapshot" where
  "sample_scan us = empty_snapshot\<lparr>ns_units := us\<rparr>"

definition sample_stray :: worker_unit where
  "sample_stray = sample_unit (sample_action PROBE 9)"

definition sample_recover :: "state option \<Rightarrow> scan_outcome \<Rightarrow> recovery_result result" where
  "sample_recover p scan =
     recover_state p sample_boot sample_restart (DisplayIdentity '':0'') scan None"

definition sample_resumed :: recovery_result where
  "sample_resumed = projr (sample_recover (Some (sample_state 2)) (Inr (sample_scan [sample_worker])))"

definition sample_quarantined :: recovery_result where
  "sample_quarantined =
     projr (sample_recover (Some (sample_state 2)) (Inr (sample_scan [sample_worker, sample_stray])))"

lemma returns_projrD: "returns r P \<Longrightarrow> r = Inr (projr r) \<and> P (projr r)"
  by (auto simp: returns_def)

lemma sample_resumed_evaluated:
  "returns (sample_recover (Some (sample_state 2)) (Inr (sample_scan [sample_worker])))
     rr_authority_allowed"
  by code_simp

lemma sample_quarantined_evaluated:
  "returns (sample_recover (Some (sample_state 2))
       (Inr (sample_scan [sample_worker, sample_stray])))
     (\<lambda>r. \<not> rr_authority_allowed r \<and> recovery_units (rr_state r) \<noteq> [])"
  by code_simp

lemmas sample_resumed =
  returns_projrD [OF sample_resumed_evaluated, folded sample_resumed_def]
lemmas sample_quarantined =
  returns_projrD [OF sample_quarantined_evaluated, folded sample_quarantined_def]

theorem recovery_is_sound_witness:
  "recovery_sound sample_boot sample_restart (DisplayIdentity '':0'') sample_resumed \<and>
   rr_authority_allowed sample_resumed"
  using recovery_is_sound sample_resumed unfolding sample_recover_def by blast

section \<open>Marks\<close>

lemma recovery_units_covered:
  "u \<in> set (unique_units us) \<Longrightarrow> aid_sequence (unit_action_id u) \<le>
     action_high_water p n ts (unique_units us)"
  by (rule action_high_water_covers(2))

text \<open>What the marks of a recovered state cover, whichever branch built it.\<close>

definition marks_cover :: "state option \<Rightarrow> worker_namespace_snapshot \<Rightarrow> state \<Rightarrow> bool" where
  "marks_cover p n s \<longleftrightarrow>
     ns_action_high_water n \<le> action_sequence_high_water s \<and>
     ns_transition_high_water n \<le> transition_sequence_high_water s \<and>
     (\<forall>a \<in> set (map unit_action_id (ns_units n)) \<union> set (map tomb_action_id (ns_tombstones n)) \<union>
           set (map vr_action_id (ns_results n)).
        aid_sequence a \<le> action_sequence_high_water s) \<and>
     (\<forall>q. p = Some q \<longrightarrow>
        action_sequence_high_water q \<le> action_sequence_high_water s \<and>
        transition_sequence_high_water q \<le> transition_sequence_high_water s)"

lemma high_water_marks_cover:
  assumes "action_sequence_high_water s = action_high_water p n ts us"
    and "transition_sequence_high_water s = transition_high_water p n"
    and "unit_action_id ` set (ns_units n) \<subseteq> unit_action_id ` set us"
  shows "marks_cover p n s"
proof -
  have "aid_sequence (unit_action_id u) \<le> action_high_water p n ts us" if "u \<in> set (ns_units n)" for u
    using that assms(3) action_high_water_covers(2) [of _ us p n ts] by (metis imageE image_subset_iff)
  then show ?thesis
    using assms(1,2)
    by (auto simp: marks_cover_def intro: action_high_water_covers transition_high_water_covers)
qed

lemma marks_cover_mono:
  assumes "marks_cover (Some q) n s" and "reconciles p q"
  shows "marks_cover (Some p) n s"
  using assms by (auto simp: marks_cover_def reconciles_def)

lemma unit_ids_of_unique_units [simp]:
  "unit_action_id ` set (unique_units us) = unit_action_id ` set us"
proof -
  have "action_id_value ` unit_action_id ` set (unique_units us) =
      action_id_value ` unit_action_id ` set us"
    using unique_units_entries(3) [of us] by (simp add: image_image)
  then show ?thesis by (simp add: inj_image_eq_iff inj_on_def)
qed

lemma same_boot_units_scanned:
  "unit_action_id ` set (ns_units n) \<subseteq>
     unit_action_id ` set (same_boot_recovery_units s n v)"
  by (auto simp: same_boot_recovery_units_def)

lemma recovered_minimum_state:
  "recovered (minimum_recovery_state boot inst display n ts p us) authority fresh reasons = Inr r \<Longrightarrow>
     minimum_recovery_state boot inst display n ts p us = Inr (rr_state r)"
  by (auto simp: recovered_eq)

lemma minimum_marks_cover:
  assumes "minimum_recovery_state boot inst display n ts p us = Inr s"
    and "unit_action_id ` set (ns_units n) \<subseteq>
      unit_action_id ` set (case us of None \<Rightarrow> ns_units n | Some vs \<Rightarrow> vs)"
  shows "marks_cover p n s"
  by (rule high_water_marks_cover [OF minimum_recovery_state_eq(7,8) [OF assms(1)]])
    (simp add: minimum_recovery_state_eq(6) [OF assms(1)] assms(2))

lemma same_boot_marks_cover:
  assumes "recover_same_boot p boot inst display n reasons = Inr r"
  shows "marks_cover (Some p) n (rr_state r)"
  using assms
proof (cases rule: recover_same_boot_cases)
  case (resumed c ts)
  have "marks_cover (Some (rc_state c)) n (rr_state r)"
    using same_boot_units_scanned [of n "rc_state c" "verified_ids n"]
    by (intro high_water_marks_cover) (simp_all add: resumed(7))
  then show ?thesis
    by (rule marks_cover_mono [OF _ reconcile_verified_results_reconciles [OF resumed(1)]])
next
  case (quarantined c ts us)
  have "marks_cover (Some (rc_state c)) n (rr_state r)"
    using same_boot_units_scanned [of n "rc_state c" "verified_ids n"]
    by (intro minimum_marks_cover [OF quarantined(6)]) (simp add: quarantined(7))
  then show ?thesis
    by (rule marks_cover_mono [OF _ reconcile_verified_results_reconciles [OF quarantined(1)]])
qed

text \<open>
  C30
  After a restart the sequence marks lie above every identity the scan reports and
  above the marks that were persisted, so no identity of a surviving worker or of a
  finished transaction can be allocated again.\<close>

theorem recovered_marks_cover_everything:
  assumes "recover_state p boot inst display (Inr n) corruption = Inr r"
  shows "marks_cover p n (rr_state r)"
  using assms
proof (cases rule: recover_state_scanned)
  case (missing ts reasons texts)
  from missing(1) minimum_marks_cover [OF recovered_minimum_state [OF missing(3)]] show ?thesis
    by simp
next
  case (display s ts reasons texts)
  from display(1) minimum_marks_cover [OF recovered_minimum_state [OF display(4)]] show ?thesis
    by simp
next
  case (boot s ts reasons)
  then have "boot_mismatch_state s boot inst n ts = Inr (rr_state r)" by (auto simp: recovered_eq)
  from high_water_marks_cover [OF boot_mismatch_state_eq(7,8) [OF this]] boot(1) show ?thesis
    by simp
next
  case (same s ts reasons)
  from same_boot_marks_cover [OF same(5)] same(1) show ?thesis by simp
qed

theorem recovered_marks_cover_everything_witness:
  "marks_cover (Some (sample_state 2)) (sample_scan [sample_worker, sample_stray])
     (rr_state sample_quarantined)"
  using sample_quarantined unfolding sample_recover_def
  by (intro recovered_marks_cover_everything) blast

section \<open>Workers that survived\<close>

lemma minimum_units:
  "minimum_recovery_state boot inst display n ts p None = Inr s \<Longrightarrow>
     unit_action_id ` set (ns_units n) = unit_action_id ` set (recovery_units s)"
  by (simp add: minimum_recovery_state_eq(6))

text \<open>C24
  Every worker the scan found alive is held in the recovered state as a possibly-live
  unit, and no terminal evidence of it is kept, so the exclusion of display mutations
  survives the restart.\<close>

theorem survivors_stay_excluded:
  assumes "recover_state p boot inst display (Inr n) corruption = Inr r" and "u \<in> set (ns_units n)"
  shows "unit_action_id u \<in> unit_action_id ` set (recovery_units (rr_state r)) \<and>
    unit_action_id u \<notin> tomb_action_id ` set (action_tombstones (rr_state r))"
proof -
  have "unit_action_id ` set (ns_units n) \<subseteq> unit_action_id ` set (recovery_units (rr_state r))"
    using assms(1)
  proof (cases rule: recover_state_scanned)
    case (missing ts reasons texts)
    from minimum_units [OF recovered_minimum_state [OF missing(3)]] show ?thesis by blast
  next
    case (display s ts reasons texts)
    from minimum_units [OF recovered_minimum_state [OF display(4)]] show ?thesis by blast
  next
    case (boot s ts reasons)
    then have "boot_mismatch_state s boot inst n ts = Inr (rr_state r)" by (auto simp: recovered_eq)
    from boot_mismatch_state_eq(6) [OF this] show ?thesis by simp
  next
    case (same s ts reasons)
    from same(5) show ?thesis
    proof (cases rule: recover_same_boot_cases)
      case (resumed c ts)
      then show ?thesis using same_boot_units_scanned [of n "rc_state c" "verified_ids n"] by simp
    next
      case (quarantined c ts us)
      then show ?thesis
        using same_boot_units_scanned [of n "rc_state c" "verified_ids n"]
          minimum_recovery_state_eq(6) [OF quarantined(6)] by simp
    qed
  qed
  with assms(2) have member: "unit_action_id u \<in> unit_action_id ` set (recovery_units (rr_state r))"
    by blast
  have "passes (check_action_identities (rr_state r))"
    using recovered_invariants [OF assms(1)] by (simp add: assert_controller_invariants_def)
  with member show ?thesis by (auto simp: check_action_identities_def Let_def)
qed

theorem survivors_stay_excluded_witness:
  "unit_action_id sample_stray \<in>
     unit_action_id ` set (recovery_units (rr_state sample_quarantined)) \<and>
   unit_action_id sample_stray \<notin>
     tomb_action_id ` set (action_tombstones (rr_state sample_quarantined))"
  using sample_quarantined unfolding sample_recover_def
  by (intro survivors_stay_excluded) (auto simp: sample_scan_def)

text \<open>C36
  A start without authority that still knows possibly-live workers stays where it is:
  until the boot changes, the reducer answers every event with no change and no effect.\<close>

theorem quarantine_holds:
  assumes "recover_state p boot inst display scan corruption = Inr r"
    and "\<not> rr_authority_allowed r" and "recovery_units (rr_state r) \<noteq> []"
    and "\<not> is_boot_changed e"
  shows "reduce (rr_state r) e = Inr \<lparr>dec_state = rr_state r, dec_effects = []\<rparr>"
proof -
  have "passes (assert_controller_invariants (rr_state r))" "bare (rr_state r)"
    using recovered_invariants [OF assms(1)] recovered_bare [OF assms(1,2)] by blast+
  then show ?thesis
    using assms(3,4) by (auto simp: reduce_def no_op_def decide_def bare_def passes_def)
qed

theorem quarantine_holds_witness:
  "reduce (rr_state sample_quarantined) (sample_events ! 3) =
     Inr \<lparr>dec_state = rr_state sample_quarantined, dec_effects = []\<rparr>"
  using sample_quarantined unfolding sample_recover_def
  by (intro quarantine_holds) (auto simp: sample_events_def sample_observed_def)

section \<open>Authority\<close>

lemma no_unit_reason:
  assumes "expected_unit_reason scanned v (k, x) = []"
  shows "map_of scanned k = Some u \<Longrightarrow>
      record_unit x = Some u \<and> record_lifecycle x \<in> {DISPATCHED, STOPPING}"
    and "map_of scanned k = None \<Longrightarrow> record_lifecycle x \<in> {DISPATCHED, STOPPING, RESULT_PENDING} \<Longrightarrow>
      record_id x \<in> v"
  using assms by (auto simp: expected_unit_reason_def split: if_splits)

text \<open>Without a contradiction every scanned unit is the unit of a running action.\<close>

lemma agreement:
  assumes "same_boot_relationship_reasons s n v = []"
  shows "distinct (map unit_action_id (ns_units n))"
    and "u \<in> set (ns_units n) \<Longrightarrow> \<exists>x \<in> set (state_actions s). record_id x = unit_action_id u \<and>
      record_unit x = Some u \<and> record_lifecycle x \<in> {DISPATCHED, STOPPING}"
    and "x \<in> set (state_actions s) \<Longrightarrow> record_unit x = Some w \<Longrightarrow>
      record_lifecycle x \<in> {DISPATCHED, STOPPING, RESULT_PENDING} \<Longrightarrow> record_id x \<notin> v \<Longrightarrow>
      \<exists>u \<in> set (ns_units n). unit_action_id u = record_id x \<and> u = w"
proof -
  obtain scanned rs where sc: "unit_map (ns_units n) = (scanned, rs)" by fastforce
  obtain retained rs' where re: "unit_map (retained_units s v) = (retained, rs')" by fastforce
  have none: "rs = []" "\<forall>e \<in> set (expected_units s). expected_unit_reason scanned v e = []"
    "\<forall>(k, u) \<in> set scanned. map_of (expected_units s) k \<noteq> None \<or> map_of retained k \<noteq> None"
    "\<forall>(k, u) \<in> set retained. map_of (expected_units s) k \<noteq> None"
    using assms by (auto simp: same_boot_relationship_reasons_def sc re Let_def filter_empty_conv)
  have scanned: "scanned = map (\<lambda>u. (unit_key u, u)) (ns_units n)"
    using unit_map_complete [of "ns_units n"] sc none(1) by simp
  have dist: "distinct (map unit_key (ns_units n))"
    using unit_map_reasons [of "ns_units n"] sc none(1) by simp
  then show "distinct (map unit_action_id (ns_units n))" by (auto simp: distinct_map inj_on_def)
  have look: "map_of scanned (unit_key u) = Some u" if "u \<in> set (ns_units n)" for u
    using that dist by (simp add: scanned o_def)
  show "\<exists>x \<in> set (state_actions s). record_id x = unit_action_id u \<and>
      record_unit x = Some u \<and> record_lifecycle x \<in> {DISPATCHED, STOPPING}"
    if u: "u \<in> set (ns_units n)"
  proof -
    have "map_of (expected_units s) (unit_key u) \<noteq> None"
      using none(3,4) look [OF u] by (force dest: map_of_SomeD)
    then obtain x where x: "(unit_key u, x) \<in> set (expected_units s)"
      by (auto dest: map_of_SomeD)
    then have "expected_unit_reason scanned v (unit_key u, x) = []" using none(2) by blast
    from no_unit_reason(1) [OF this look [OF u]] x show ?thesis
      by (auto simp: expected_units_def)
  qed
  show "\<exists>u \<in> set (ns_units n). unit_action_id u = record_id x \<and> u = w"
    if x: "x \<in> set (state_actions s)" and w: "record_unit x = Some w"
      and l: "record_lifecycle x \<in> {DISPATCHED, STOPPING, RESULT_PENDING}"
      and v: "record_id x \<notin> v"
  proof -
    let ?k = "action_id_value (record_id x)"
    have "(?k, x) \<in> set (expected_units s)" using x w by (auto simp: expected_units_def)
    then have quiet: "expected_unit_reason scanned v (?k, x) = []" using none(2) by blast
    then obtain u where u: "map_of scanned ?k = Some u"
      using no_unit_reason(2) [OF quiet _ l] v by blast
    with no_unit_reason(1) [OF quiet u] w show ?thesis
      by (auto dest!: map_of_SomeD simp: scanned)
  qed
qed

text \<open>
  What authority over a persisted state rests on: the workers the supervisor reports are
  exactly those of the running actions, up to actions with a verified terminal result.
\<close>

definition workers_agree :: "state \<Rightarrow> worker_namespace_snapshot \<Rightarrow> bool" where
  "workers_agree s n \<longleftrightarrow>
     (\<forall>u \<in> set (ns_units n). \<exists>x \<in> set (state_actions s). record_id x = unit_action_id u \<and>
        record_unit x = Some u \<and> record_lifecycle x \<in> {DISPATCHED, STOPPING}) \<and>
     (\<forall>x \<in> set (state_actions s). \<forall>w. record_unit x = Some w \<longrightarrow>
        record_lifecycle x \<in> {DISPATCHED, STOPPING, RESULT_PENDING} \<longrightarrow>
        record_id x \<in> verified_ids n \<or> w \<in> set (ns_units n))"

text \<open>C10
  Authority is only given back after a scan without ambiguity, to a state of the same
  boot and display, whose running actions agree with the workers the scan found; a
  first start gets it only without any worker and without a corrupt record.\<close>

theorem authority_needs_agreement:
  assumes "recover_state p boot inst display scan corruption = Inr r" and "rr_authority_allowed r"
  shows "\<exists>n. scan = Inr n \<and> ns_ambiguities n = [] \<and>
    (case p of None \<Rightarrow> ns_units n = [] \<and> corruption = None
     | Some s \<Rightarrow> boot_id s = boot \<and> display_identity s = display \<and> workers_agree (rr_state r) n)"
proof (cases scan)
  case (Inl a)
  with assms show ?thesis
    by (cases a) (auto simp: recover_state_def recover_scan_failure_def Let_def recovered_eq)
next
  case (Inr n)
  have quiet: "ns_ambiguities n = []" if "scan_tombstones n = Inr (ts, [])" for ts
    using that by (auto simp: scan_tombstones_def Let_def bindE_eq_Inr split: prod.splits)
  from assms(1) [unfolded Inr] show ?thesis
  proof (cases rule: recover_state_scanned)
    case (missing ts reasons texts)
    with assms(2) quiet Inr show ?thesis by (auto simp: recovered_eq)
  next
    case (display s ts reasons texts)
    with assms(2) show ?thesis by (auto simp: recovered_eq)
  next
    case (boot s ts reasons)
    with assms(2) show ?thesis by (auto simp: recovered_eq)
  next
    case (same s ts reasons)
    from same(5) show ?thesis
    proof (cases rule: recover_same_boot_cases)
      case (resumed c ts')
      have "state_actions (rr_state r) = state_actions (rc_state c)"
        by (simp add: resumed(7) state_actions_def)
      then have "workers_agree (rr_state r) n"
        using agreement [OF resumed(8)] by (fastforce simp: workers_agree_def)
      with same resumed(4) quiet Inr show ?thesis by simp
    next
      case (quarantined c ts' us)
      with assms(2) show ?thesis by simp
    qed
  qed
qed

theorem authority_needs_agreement_witness:
  "workers_agree (rr_state sample_resumed) (sample_scan [sample_worker])"
  using authority_needs_agreement
      [of "Some (sample_state 2)" sample_boot sample_restart "DisplayIdentity '':0''"
        "Inr (sample_scan [sample_worker])" None sample_resumed]
    sample_resumed by (simp add: sample_recover_def)

section \<open>A restart is never prevented\<close>

lemma quarantine_returns:
  assumes "bare s" and "distinct (map tomb_action_id (action_tombstones s))"
    and "recovery_units s = unique_units us"
    and "\<forall>a \<in> set (map tomb_action_id (action_tombstones s)) \<union>
           set (map unit_action_id (recovery_units s)).
           aid_sequence a \<le> action_sequence_high_water s"
    and "unit_action_id ` set us \<inter> tomb_action_id ` set (action_tombstones s) = {}"
  shows "\<exists>r. recovered (Inr s) authority fresh reasons = Inr r \<and> rr_authority_allowed r = authority"
proof -
  have "passes (assert_controller_invariants s)"
    by (rule bare_invariants [OF assms(1,2) _ assms(4)])
      (use assms(3,5) in \<open>simp_all add: unique_units_ids\<close>)
  then show ?thesis using assms(1) by (auto simp: recovered_eq bare_def)
qed

lemma minimum_state_exists:
  assumes "passes (WorkerNamespaceSnapshot_post_init n)"
  shows "\<exists>s. minimum_recovery_state boot inst display n ts p us = Inr s"
proof -
  have "0 \<le> ns_action_high_water n" "0 \<le> ns_transition_high_water n"
    "\<And>q. ns_finalized_profile n = Some q \<Longrightarrow> \<not> is_blank q"
    using assms by (auto simp: WorkerNamespaceSnapshot_post_init_def)
  then show ?thesis
    by (auto simp: minimum_recovery_state_def Let_def State_post_init_def initial_state_def
        validate_desktop_finalization_requirement_def action_high_water_def
        transition_high_water_def intro!: order_trans [OF _ max_of_ge] split: option.splits)
qed

lemma minimum_returns:
  assumes "passes (WorkerNamespaceSnapshot_post_init n)" and "distinct (map tomb_action_id ts)"
    and "unit_action_id ` set (case us of None \<Rightarrow> ns_units n | Some vs \<Rightarrow> vs) \<inter>
      tomb_action_id ` set ts = {}"
  shows "\<exists>r. recovered (minimum_recovery_state boot inst display n ts p us) authority fresh reasons
      = Inr r \<and> rr_authority_allowed r = authority"
proof -
  obtain s where s: "minimum_recovery_state boot inst display n ts p us = Inr s"
    using minimum_state_exists [OF assms(1)] by blast
  note eqs = minimum_recovery_state_eq [OF s]
  show ?thesis
    unfolding s
    by (rule quarantine_returns [OF eqs(1) _ eqs(6)])
      (use assms(2,3) in \<open>auto simp: eqs(5,7) intro: action_high_water_covers\<close>)
qed

lemma boot_mismatch_returns:
  assumes "passes (WorkerNamespaceSnapshot_post_init n)" and "passes (State_post_init p)"
    and "distinct (map tomb_action_id ts)" and "tomb_action_id ` set ts \<inter> scanned_ids n = {}"
  shows "\<exists>r. recovered (boot_mismatch_state p boot inst n ts) authority fresh reasons = Inr r \<and>
    rr_authority_allowed r = authority"
proof -
  have "0 \<le> ns_action_high_water n" "0 \<le> ns_transition_high_water n"
    using assms(1) by (simp_all add: WorkerNamespaceSnapshot_post_init_def)
  then obtain s where s: "boot_mismatch_state p boot inst n ts = Inr s"
    using assms(2)
    by (auto simp: boot_mismatch_state_def State_post_init_def action_high_water_def
        validate_desktop_finalization_requirement_def transition_high_water_def
        intro!: order_trans [OF _ max_of_ge])
  note eqs = boot_mismatch_state_eq [OF s]
  have "aid_sequence (unit_action_id u) \<le> action_high_water (Some p) n ts (ns_units n)"
    if "u \<in> set (unique_units (ns_units n))" for u
    using that unique_units_entries(2) by (blast intro: action_high_water_covers(2))
  then show ?thesis
    unfolding s
    by (intro quarantine_returns [OF eqs(1) _ eqs(6)])
      (use assms(3,4) in \<open>auto simp: eqs(5,6,7) scanned_ids_def intro: action_high_water_covers\<close>)
qed

text \<open>C32
  A scan that raises, and a persisted record that is missing, of another display or of
  another boot, never make the start raise: the controller comes up quarantined, and
  only a missing record can leave it authority.\<close>

theorem restart_fails_closed:
  assumes "\<forall>n. scan = Inr n \<longrightarrow> passes (WorkerNamespaceSnapshot_post_init n)"
    and "\<forall>s. p = Some s \<longrightarrow> passes (State_post_init s)"
    and "\<forall>s n. p = Some s \<longrightarrow> scan = Inr n \<longrightarrow> display_identity s \<noteq> display \<or> boot_id s \<noteq> boot"
  shows "\<exists>r. recover_state p boot inst display scan corruption = Inr r \<and>
    (rr_authority_allowed r \<longrightarrow> p = None)"
proof (cases scan)
  case (Inl a)
  have "passes (WorkerNamespaceSnapshot_post_init empty_snapshot)" by code_simp
  from minimum_returns [OF this, of "[]" "Some _" boot inst display p False True]
  have "\<exists>r. recovered (minimum_recovery_state boot inst display empty_snapshot [] p (Some us))
      False True reasons = Inr r \<and> (rr_authority_allowed r \<longrightarrow> p = None)" for us reasons
    by fastforce
  then show ?thesis
    by (cases a) (simp add: Inl recover_state_def recover_scan_failure_def Let_def)
next
  case (Inr n)
  obtain ts reasons where scan: "scan_tombstones n = Inr (ts, reasons)"
    using scan_tombstones_total by blast
  have n: "passes (WorkerNamespaceSnapshot_post_init n)" using assms(1) Inr by blast
  have dis: "unit_action_id ` set (ns_units n) \<inter> tomb_action_id ` set ts = {}"
    using scan_tombstones_props(2) [OF scan] by (auto simp: scanned_ids_def)
  note minimum = minimum_returns [OF n scan_tombstones_props(1) [OF scan], of None, simplified, OF dis]
  show ?thesis
  proof (cases p)
    case None
    show ?thesis by (simp add: Inr None scan recover_state_def) (use minimum in blast)
  next
    case (Some s)
    have s: "passes (State_post_init s)" using assms(2) Some by blast
    show ?thesis
    proof (cases "display_identity s = display")
      case False
      show ?thesis by (simp add: Inr Some scan recover_state_def False) (use minimum in blast)
    next
      case True
      then have "boot_id s \<noteq> boot" using assms(3) Some Inr by blast
      with True boot_mismatch_returns [OF n s scan_tombstones_props(1,2) [OF scan]] show ?thesis
        by (simp add: Inr Some scan recover_state_def) blast
    qed
  qed
qed

theorem restart_fails_closed_witness:
  "\<exists>r. recover_state (Some sample_start) (BootId 7) sample_restart (DisplayIdentity '':0'')
      (Inr (sample_scan [sample_stray])) None = Inr r \<and>
    \<not> rr_authority_allowed r"
proof -
  have "passes (WorkerNamespaceSnapshot_post_init (sample_scan [sample_stray]))"
    "passes (State_post_init sample_start)" "boot_id sample_start \<noteq> BootId 7" by code_simp+
  with restart_fails_closed [of "Inr (sample_scan [sample_stray])" "Some sample_start"
      "DisplayIdentity '':0''" "BootId 7" sample_restart None]
  show ?thesis by blast
qed

section \<open>Terminal evidence\<close>

text \<open>
  When persisted and verified tombstones merge without a conflict, each of them is
  represented with its own lifecycle, except that a persisted failure stands against a
  worker that reports completion; every identity is represented once.\<close>

theorem merged_evidence_agrees:
  assumes "merge_tombstones persisted verified = (ts, [])"
  shows "distinct (map tomb_action_id ts) \<and>
    (\<forall>t \<in> set persisted \<union> set verified. \<exists>u \<in> set ts. tomb_action_id u = tomb_action_id t \<and>
      (tomb_lifecycle u = tomb_lifecycle t \<or>
       tomb_lifecycle u = FAILED \<and> tomb_lifecycle t = COMPLETED))"
proof (intro conjI ballI)
  show "distinct (map tomb_action_id ts)" by (rule merge_tombstones_entries(4) [OF assms])
  fix t assume "t \<in> set persisted \<union> set verified"
  then have t: "t \<in> set (persisted @ verified)" by simp
  let ?f = "foldl merge_tombstone ([], []) (persisted @ verified)"
  have quiet: "snd ?f = []" and ts: "set ts = snd ` set (fst ?f)"
    using assms by (simp_all add: merge_tombstones_def split_beta del: foldl_append)
      (metis image_set set_sort)
  from merge_fold_agrees [OF quiet t] obtain u where u: "map_of (fst ?f) (tomb_key t) = Some u"
    "tomb_lifecycle u = tomb_lifecycle t \<or> tomb_lifecycle u = FAILED \<and> tomb_lifecycle t = COMPLETED"
    by (auto simp: present_iff)
  have entry: "(tomb_key t, u) \<in> set (fst ?f)" using u(1) by (rule map_of_SomeD)
  then have "u \<in> set ts" unfolding ts by force
  moreover have "tomb_key u = tomb_key t"
    using merge_fold_entries [of "persisted @ verified"] entry by (metis (lifting) case_prodD)
  ultimately show "\<exists>u \<in> set ts. tomb_action_id u = tomb_action_id t \<and>
      (tomb_lifecycle u = tomb_lifecycle t \<or>
       tomb_lifecycle u = FAILED \<and> tomb_lifecycle t = COMPLETED)"
    using u(2) by auto
qed

end
