(* ===== verification/Dispatch.thy ===== *)
theory Dispatch
  imports Reducer
begin

text \<open>
  The vocabulary of \<^verbatim>\<open>runtime/dispatcher.py\<close>: the requests, prepared dispatches and
  completions the controller exchanges with the supervisor, with their validation, the
  errors of the adapter, and the audit-only \<^verbatim>\<open>NullDispatcher\<close>. The adapter itself,
  \<^verbatim>\<open>ActionDispatcher\<close>, is a protocol: its answers are arguments of the controller.
\<close>

section \<open>Bounded diagnostics\<close>

text \<open>\<^verbatim>\<open>" ".join(s.split())\<close>: the words of a text, separated by one space.\<close>

fun words_from :: "string \<Rightarrow> string \<Rightarrow> string list" where
  "words_from w [] = (if w = [] then [] else [rev w])"
| "words_from w (c # cs) =
     (if char_isspace c then (if w = [] then words_from [] cs else rev w # words_from [] cs)
      else words_from (c # w) cs)"

definition py_split :: "string \<Rightarrow> string list" where
  "py_split s = words_from [] s"

definition squeeze :: "string \<Rightarrow> string" where
  "squeeze s = join_str '' '' (py_split s)"

text \<open>\<^verbatim>\<open>text or default\<close>.\<close>

definition or_default :: "string \<Rightarrow> string \<Rightarrow> string" where
  "or_default s d = (if s = [] then d else s)"

definition bounded_reason :: "string \<Rightarrow> string \<Rightarrow> string" where
  "bounded_reason boundary detail =
     or_default (take 64 (squeeze boundary)) ''adapter'' @ '': '' @
     or_default (take 448 (squeeze detail)) ''unspecified failure''"

text \<open>An exception of an injected adapter: its class name and its text.\<close>

datatype exn = Exn (exn_type: string) (exn_text: string)

definition exception_detail :: "exn \<Rightarrow> string" where
  "exception_detail e = bounded_reason (exn_type e) (exn_text e)"

fun exn_of :: "error \<Rightarrow> exn" where
  "exn_of (ValueError m) = Exn ''ValueError'' m"
| "exn_of (TypeError m) = Exn ''TypeError'' m"
| "exn_of (ControllerInvariantError m) = Exn ''ControllerInvariantError'' m"
| "exn_of (UnknownEventError m) = Exn ''UnknownEventError'' m"
| "exn_of AmbiguousBijectionError = Exn ''AmbiguousBijectionError'' []"
| "exn_of (TransactionProtocolError m) = Exn ''TransactionProtocolError'' m"
| "exn_of (LayoutPlanningError m) = Exn ''LayoutPlanningError'' m"
| "exn_of (IndexError m) = Exn ''IndexError'' m"
| "exn_of (StateCodecError m) = Exn ''StateCodecError'' m"
| "exn_of JSONDecodeError = Exn ''JSONDecodeError'' []"

section \<open>Requests and results\<close>

record expected_topology =
  et_kernel_connected_outputs :: "string list"
  et_kernel_external_outputs :: "string list"
  et_x_connected_outputs :: "string list"
  et_x_active_outputs :: "string list"

definition validate_text :: "string \<Rightarrow> string \<Rightarrow> nat \<Rightarrow> unit result" where
  "validate_text v name maximum =
     check (\<not> (v = [] \<or> str_isspace v \<or> NUL \<in> set v \<or> length v > maximum))
       (TransactionProtocolError (name @ '' must be non-empty, bounded text without NUL bytes''))"

definition validate_sorted_unique_strings :: "string list \<Rightarrow> string \<Rightarrow> unit result" where
  "validate_sorted_unique_strings vs name = checks
     [checks (map (\<lambda>v. validate_text v name 4096) vs),
      check (vs = sort vs \<and> length vs = length (remdups vs))
        (TransactionProtocolError (name @ '' must be sorted and unique''))]"

definition ExpectedTopology_post_init :: "expected_topology \<Rightarrow> unit result" where
  "ExpectedTopology_post_init t = checks
     [validate_sorted_unique_strings (et_kernel_connected_outputs t) ''kernel_connected_outputs'',
      validate_sorted_unique_strings (et_kernel_external_outputs t) ''kernel_external_outputs'',
      validate_sorted_unique_strings (et_x_connected_outputs t) ''x_connected_outputs'',
      validate_sorted_unique_strings (et_x_active_outputs t) ''x_active_outputs'',
      check (set (et_kernel_external_outputs t) \<subseteq> set (et_kernel_connected_outputs t))
        (TransactionProtocolError ''expected kernel external outputs must be kernel-connected''),
      check (set (et_x_active_outputs t) \<subseteq> set (et_x_connected_outputs t))
        (TransactionProtocolError ''expected active X outputs must be X-connected'')]"

record request_context =
  rq_physical_epoch :: int
  rq_physical_token :: physical_token
  rq_output_mapping :: "output_mapping list"
  rq_expected_topology :: expected_topology
  rq_layout :: "string option"
  rq_planning_action_id :: "action_id option"
  rq_preparation_action_id :: "action_id option"
  rq_proof_duration_ms :: "int option"
  rq_probe_base_hash :: "string option"
  rq_probe_edid_integrity :: "edid_integrity option"
  rq_profile_configuration_hashes :: "configuration_content_hash list"

definition SHA256_HEX_LENGTH :: nat where
  "SHA256_HEX_LENGTH = 64"

definition WorkerRequestContext_post_init :: "request_context \<Rightarrow> unit result" where
  "WorkerRequestContext_post_init c = checks
     [check (\<not> rq_physical_epoch c < 0)
        (ValueError ''worker request physical epoch must be non-negative''),
      check (\<not> present (rq_layout c) is_blank)
        (ValueError ''worker request layout must not be empty''),
      check (\<not> present (rq_planning_action_id c) (\<lambda>a. aid_kind a \<noteq> PLAN))
        (ValueError ''worker request planning identity has the wrong action kind''),
      check (\<not> present (rq_preparation_action_id c) (\<lambda>a. aid_kind a \<noteq> PREPARATION))
        (ValueError ''worker request preparation identity has the wrong action kind''),
      check ((rq_preparation_action_id c = None) = (rq_proof_duration_ms c = None))
        (ValueError ''worker preparation identity and final proof must be supplied together''),
      check (\<not> present (rq_proof_duration_ms c) (\<lambda>n. n < 0))
        (ValueError ''worker final proof duration must be non-negative milliseconds''),
      check ((rq_probe_base_hash c = None) = (rq_probe_edid_integrity c = None))
        (ValueError ''worker probe identity hash and integrity must be supplied together''),
      check (\<not> present (rq_probe_edid_integrity c) (\<lambda>i. i \<notin> PROBE_ADMISSIBLE_EDID_INTEGRITIES))
        (ValueError ''worker probe proof requires broken extensions''),
      check (let keys = configuration_sort_keys (rq_profile_configuration_hashes c)
             in keys = sort keys \<and> length keys = length (remdups keys))
        (ValueError ''worker profile configuration hashes must be sorted and unique''),
      check (\<not> present (rq_probe_base_hash c) (\<lambda>h. length h \<noteq> SHA256_HEX_LENGTH \<or>
               \<not> list_all (\<lambda>x. x \<in> set ''0123456789abcdef'') h))
        (ValueError ''worker probe base identity must be a lowercase SHA-256 digest'')]"

record worker_completion =
  wc_action_id :: action_id
  wc_terminal_lifecycle :: action_lifecycle
  wc_exit_status :: int
  wc_plan_hash :: "plan_hash option"

definition WorkerCompletion_post_init :: "worker_completion \<Rightarrow> unit result" where
  "WorkerCompletion_post_init c = checks
     [check (0 \<le> wc_exit_status c \<and> wc_exit_status c \<le> 255)
        (ValueError ''worker completion exit status must be between zero and 255''),
      check (wc_terminal_lifecycle c \<in> TERMINAL_ACTION_LIFECYCLES)
        (ValueError ''worker completion requires an exact terminal lifecycle''),
      check (\<not> (wc_terminal_lifecycle c = COMPLETED \<and> wc_exit_status c \<noteq> 0))
        (ValueError ''completed worker completion requires exit status zero''),
      check (\<not> (wc_terminal_lifecycle c \<noteq> COMPLETED \<and> wc_exit_status c = 0))
        (ValueError ''non-completed worker completion requires a non-zero exit status'')]"

record prepared_dispatch =
  pd_action_id :: action_id
  pd_unit :: worker_unit
  pd_reference :: string
  pd_request_sha256 :: "string option"

definition PreparedDispatch_post_init :: "prepared_dispatch \<Rightarrow> unit result" where
  "PreparedDispatch_post_init d = checks
     [check (unit_action_id (pd_unit d) = pd_action_id d)
        (ValueError ''prepared request and worker unit action IDs must match''),
      check (\<not> is_blank (pd_reference d))
        (ValueError ''prepared dispatch reference must not be empty''),
      check (\<not> present (pd_request_sha256 d) (\<lambda>h. take 7 h \<noteq> ''sha256:''))
        (ValueError ''prepared dispatch request hash must use sha256 form'')]"

section \<open>Adapter errors\<close>

datatype dispatch_failure_stage = REQUEST_WRITE | UNIT_START | PREPARED_REQUEST_CLEANUP

fun stage_value :: "dispatch_failure_stage \<Rightarrow> string" where
  "stage_value REQUEST_WRITE = ''request_write''"
| "stage_value UNIT_START = ''unit_start''"
| "stage_value PREPARED_REQUEST_CLEANUP = ''prepared_request_cleanup''"

record dispatch_adapter_error =
  dae_stage :: dispatch_failure_stage
  dae_detail :: string
  dae_completion :: "worker_completion option"

definition dispatch_adapter_error ::
  "dispatch_failure_stage \<Rightarrow> string \<Rightarrow> worker_completion option \<Rightarrow> dispatch_adapter_error" where
  "dispatch_adapter_error stage detail completion =
     \<lparr> dae_stage = stage, dae_detail = or_default (take 512 (squeeze detail)) ''DispatchAdapterError'',
       dae_completion = completion \<rparr>"

text \<open>\<^verbatim>\<open>str(error)\<close>.\<close>

definition dae_text :: "dispatch_adapter_error \<Rightarrow> string" where
  "dae_text e = stage_value (dae_stage e) @ '': '' @ dae_detail e"

section \<open>The four worker effects\<close>

fun effect_action_id :: "effect \<Rightarrow> action_id option" where
  "effect_action_id (ActivateProbe a k out internal mode g ok) = Some a"
| "effect_action_id (ApplyProfile a k p m g ok) = Some a"
| "effect_action_id (PrepareDesktop a t tk p h g ok) = Some a"
| "effect_action_id (FinalizeDesktop a t tk p h g ok) = Some a"
| "effect_action_id _ = None"

fun admitted_generation :: "effect \<Rightarrow> event_generation option" where
  "admitted_generation (ActivateProbe a k out internal mode g ok) = Some g"
| "admitted_generation (ApplyProfile a k p m g ok) = Some g"
| "admitted_generation (PrepareDesktop a t tk p h g ok) = Some g"
| "admitted_generation (FinalizeDesktop a t tk p h g ok) = Some g"
| "admitted_generation _ = None"

fun effect_observation_key :: "effect \<Rightarrow> observation_key option" where
  "effect_observation_key (ActivateProbe a k out internal mode g ok) = Some ok"
| "effect_observation_key (ApplyProfile a k p m g ok) = Some ok"
| "effect_observation_key (PrepareDesktop a t tk p h g ok) = Some ok"
| "effect_observation_key (FinalizeDesktop a t tk p h g ok) = Some ok"
| "effect_observation_key _ = None"

lemma effect_action_id_mutating: "effect_action_id e = Some a \<Longrightarrow> is_mutating_effect e"
  by (cases e) simp_all

section \<open>NullDispatcher\<close>

datatype would_dispatch_kind = WOULD_PROBE | WOULD_APPLY | WOULD_PREPARE | WOULD_FINALIZE

record would_dispatch =
  wd_kind :: would_dispatch_kind
  wd_action_id :: action_id
  wd_effect :: effect
  wd_recorded_at_ms :: int

definition WouldDispatch_post_init :: "would_dispatch \<Rightarrow> unit result" where
  "WouldDispatch_post_init w = checks
     [check (\<not> wd_recorded_at_ms w < 0) (ValueError ''would-dispatch time must be non-negative''),
      check (effect_action_id (wd_effect w) = Some (wd_action_id w))
        (ValueError ''would-dispatch action and effect IDs must match'')]"

definition NULL_RECORD_RETENTION :: nat where
  "NULL_RECORD_RETENTION = 1024"

fun would_kind :: "effect \<Rightarrow> would_dispatch_kind" where
  "would_kind (ActivateProbe a k out internal mode g ok) = WOULD_PROBE"
| "would_kind (ApplyProfile a k p m g ok) = WOULD_APPLY"
| "would_kind (PrepareDesktop a t tk p h g ok) = WOULD_PREPARE"
| "would_kind _ = WOULD_FINALIZE"

text \<open>\<^verbatim>\<open>deque(maxlen=NULL_RECORD_RETENTION)\<close>: appending drops from the front.\<close>

definition append_bounded :: "nat \<Rightarrow> 'a list \<Rightarrow> 'a \<Rightarrow> 'a list" where
  "append_bounded n xs x = drop (length xs + 1 - n) (xs @ [x])"

definition record_would_dispatch ::
  "would_dispatch list \<Rightarrow> effect \<Rightarrow> action_id \<Rightarrow> int \<Rightarrow> (would_dispatch \<times> would_dispatch list) result"
where
  "record_would_dispatch records e a now_ms =
     bindE (construct WouldDispatch_post_init
       \<lparr> wd_kind = would_kind e, wd_action_id = a, wd_effect = e, wd_recorded_at_ms = now_ms \<rparr>)
     (\<lambda>w. Inr (w, append_bounded NULL_RECORD_RETENTION records w))"

section \<open>Diagnostics are never empty\<close>

lemma length_or_default: "length (or_default (take n s) d) \<le> max n (length d)"
  by (auto simp: or_default_def)

lemma reason_accepted: "\<not> is_blank (bounded_reason boundary detail)"
proof -
  have "CHR '':'' \<in> set (bounded_reason boundary detail)" by (simp add: bounded_reason_def)
  moreover have "\<not> char_isspace CHR '':''" by code_simp
  ultimately show ?thesis by (auto simp: is_blank_def str_isspace_def list_all_iff)
qed

text \<open>
  Whatever an adapter reports, the reason the controller builds from it is accepted by
  every event that carries a reason, and is at most 514 characters long.\<close>

theorem bounded_reason_is_reportable:
  "\<not> is_blank (bounded_reason boundary detail) \<and> length (bounded_reason boundary detail) \<le> 514"
  using reason_accepted length_or_default [of 64 "squeeze boundary" "''adapter''"]
    length_or_default [of 448 "squeeze detail" "''unspecified failure''"]
  by (simp add: bounded_reason_def)

end
