(* ===== verification/Runtime_World.thy ===== *)
theory Runtime_World
  imports Dispatch Scheduler "HOL-Library.AList"
begin

text \<open>
  The world of \<^verbatim>\<open>runtime/controller.py\<close>: the fields of \<^verbatim>\<open>SerializedController\<close> with its
  deadline scheduler, whose queue is the controller's, and the answers of the injected
  adapters. An adapter is consulted in order: every consultation advances a tick, and
  the environment says, for each tick, what the adapter answers and what the other
  tasks of the event loop did before the answer arrived. The controller's own code is
  sequential; it is only interleaved with other tasks at its \<^verbatim>\<open>await\<close>s.
\<close>

section \<open>State\<close>

text \<open>
  A planning task runs \<^verbatim>\<open>_run_plan\<close>, a monitor task \<^verbatim>\<open>_monitor_worker\<close>. A monitor that has
  reported stays in the dictionary until it is reconciled; \<^verbatim>\<open>monitor_running\<close> is whether
  the task still runs.
\<close>

record planning_task =
  plan_key :: planning_input_key
  plan_boot :: boot_id

record monitor_task =
  monitor_unit :: worker_unit
  monitor_deadline_ms :: int
  monitor_boot :: boot_id
  monitor_running :: bool

text \<open>What the controller does to the outside, in order.\<close>

datatype boundary =
    Committed event state
  | Published int
  | Submitted effect worker_unit int
  | StopSent action_id action_lifecycle
  | PlanStarted action_id

record world =
  w_state :: state
  w_scheduler :: scheduler
  w_generation :: int
  w_planning_tasks :: "(action_id \<times> planning_task) list"
  w_monitors :: "(action_id \<times> monitor_task) list"
  w_worker_started :: "(action_id \<times> int) list"
  w_pending_boot :: "canonical_observation option"
  w_fence_depth :: nat
  w_started :: bool
  w_records :: "would_dispatch list"
  w_tick :: nat
  w_trace :: "boundary list"

section \<open>The environment\<close>

text \<open>Tasks that run while the controller is suspended, one atomic step each.\<close>

datatype plan_end =
    PlanReturned planning_input_key plan_hash
  | PlanRaised exn bool
  | PlanCancelled

datatype activity = ACTIVE | INACTIVE | UnexpectedActivity string

record monitor_poll =
  poll_now_ms :: int
  poll_activity :: "exn + activity"
  poll_completion :: "exn + worker_completion option"
  poll_report_ms :: int
  poll_failure_ms :: int

datatype producer =
    Hint int
  | WorkerQueryFailure action_id string int
  | WorkerTimeout action_id int int
  | DeadlineFires nat int
  | DeadlineUnwinds nat
  | PlanEnds action_id plan_end int
  | MonitorPolls action_id monitor_poll

text \<open>
  What \<^verbatim>\<open>dispatcher.start\<close> may do under its documented contract: refuse without asking
  the fence, or ask the fence and submit at once when it passes. An uncertain failure
  may come before or after the submission.
\<close>

datatype submission =
    SubmissionAccepted
  | SubmissionFailed dispatch_adapter_error worker_completion
  | SubmissionUncertain exn
  | SubmissionUnexpected string

datatype start_script =
    StartDeclined
  | StartRefused dispatch_adapter_error
  | StartLost exn
  | StartSubmits submission

record environment =
  env_null_dispatcher :: bool
  env_clock :: "nat \<Rightarrow> int"
  env_meanwhile :: "nat \<Rightarrow> producer list"
  env_save :: "nat \<Rightarrow> exn option"
  env_audit :: "nat \<Rightarrow> exn option"
  env_observe :: "nat \<Rightarrow> exn + canonical_observation"
  env_write_request :: "nat \<Rightarrow> (exn + dispatch_adapter_error) + prepared_dispatch"
  env_start :: "nat \<Rightarrow> start_script"
  env_discard_prepared :: "nat \<Rightarrow> exn option"
  env_stop :: "nat \<Rightarrow> exn option"
  env_activity :: "nat \<Rightarrow> exn + activity"
  env_completion :: "nat \<Rightarrow> exn + worker_completion option"
  env_revoke_plan :: "nat \<Rightarrow> exn option"
  env_discard_plan :: "nat \<Rightarrow> exn option"
  env_cancel_pending :: "nat \<Rightarrow> bool"

section \<open>Sequencing\<close>

text \<open>A step of the controller returns, raises, or has used up its fuel.\<close>

datatype 'a outcome = Returned 'a | Raised exn | Exhausted

type_synonym 'a rt = "world \<Rightarrow> 'a outcome \<times> world"

definition ret :: "'a \<Rightarrow> 'a rt" where
  "ret x = (\<lambda>w. (Returned x, w))"

definition raise :: "exn \<Rightarrow> 'a rt" where
  "raise e = (\<lambda>w. (Raised e, w))"

definition exhausted :: "'a rt" where
  "exhausted = (\<lambda>w. (Exhausted, w))"

definition bindR :: "'a rt \<Rightarrow> ('a \<Rightarrow> 'b rt) \<Rightarrow> 'b rt" where
  "bindR m f = (\<lambda>w. case m w of (r, w') \<Rightarrow>
     (case r of Returned x \<Rightarrow> f x w' | Raised e \<Rightarrow> (Raised e, w') | Exhausted \<Rightarrow> (Exhausted, w')))"

definition thenR :: "unit rt \<Rightarrow> 'a rt \<Rightarrow> 'a rt" where
  "thenR m n = bindR m (\<lambda>_. n)"

definition gets :: "(world \<Rightarrow> 'a) \<Rightarrow> 'a rt" where
  "gets f = (\<lambda>w. (Returned (f w), w))"

definition modify :: "(world \<Rightarrow> world) \<Rightarrow> unit rt" where
  "modify f = (\<lambda>w. (Returned (), f w))"

definition lift :: "'a result \<Rightarrow> 'a rt" where
  "lift r = (case r of Inl e \<Rightarrow> raise (exn_of e) | Inr x \<Rightarrow> ret x)"

text \<open>\<^verbatim>\<open>try: m finally: f\<close>.\<close>

definition finally_do :: "'a rt \<Rightarrow> (world \<Rightarrow> world) \<Rightarrow> 'a rt" where
  "finally_do m f = (\<lambda>w. case m w of (r, w') \<Rightarrow> (r, f w'))"

fun for_each :: "('a \<Rightarrow> unit rt) \<Rightarrow> 'a list \<Rightarrow> unit rt" where
  "for_each f [] = ret ()"
| "for_each f (x # xs) = thenR (f x) (for_each f xs)"

definition skip_if :: "bool \<Rightarrow> unit rt \<Rightarrow> unit rt" where
  "skip_if b m = (if b then ret () else m)"

declare bindR_def [code_unfold] thenR_def [code_unfold]

section \<open>Consulting the environment\<close>

definition ask :: "(nat \<Rightarrow> 'a) \<Rightarrow> 'a rt" where
  "ask f = (\<lambda>w. (Returned (f (w_tick w)), w\<lparr>w_tick := Suc (w_tick w)\<rparr>))"

definition monotonic_ms :: "environment \<Rightarrow> int rt" where
  "monotonic_ms env = ask (env_clock env)"

text \<open>An adapter answer that must not be an exception.\<close>

definition must :: "(nat \<Rightarrow> exn option) \<Rightarrow> unit rt" where
  "must f = bindR (ask f) (\<lambda>r. case r of None \<Rightarrow> ret () | Some e \<Rightarrow> raise e)"

definition audit :: "environment \<Rightarrow> unit rt" where
  "audit env = must (env_audit env)"

definition metadata :: "environment \<Rightarrow> event_metadata rt" where
  "metadata env =
     bindR (monotonic_ms env) (\<lambda>now_ms.
     bindR (gets w_state) (\<lambda>s.
     lift (construct EventMetadata_post_init \<lparr>processed_at_ms = now_ms, md_boot_id = boot_id s\<rparr>)))"

definition metadata_at :: "int \<Rightarrow> boot_id \<Rightarrow> event_metadata result" where
  "metadata_at now_ms boot =
     construct EventMetadata_post_init \<lparr>processed_at_ms = now_ms, md_boot_id = boot\<rparr>"

text \<open>An event of the current boot, built when the clock has been read.\<close>

definition event_now :: "environment \<Rightarrow> (event_metadata \<Rightarrow> event) \<Rightarrow> event rt" where
  "event_now env f = bindR (metadata env) (\<lambda>m. lift (construct event_post_init (f m)))"

section \<open>The queue\<close>

definition put :: "event \<Rightarrow> world \<Rightarrow> world" where
  "put e w = w\<lparr>w_scheduler := (w_scheduler w)\<lparr>queue := queue (w_scheduler w) @ [e]\<rparr>\<rparr>"

text \<open>A producer builds its event outside the controller; if that raises nothing is put.\<close>

definition put_built :: "(event_metadata \<Rightarrow> event) \<Rightarrow> int \<Rightarrow> boot_id \<Rightarrow> world \<Rightarrow> world" where
  "put_built f now_ms boot w =
     (case bindE (metadata_at now_ms boot) (\<lambda>m. construct event_post_init (f m)) of
        Inl _ \<Rightarrow> w | Inr e \<Rightarrow> put e w)"

definition get_nowait :: "event rt" where
  "get_nowait = (\<lambda>w. case queue (w_scheduler w) of
      [] \<Rightarrow> (Raised (Exn ''QueueEmpty'' []), w)
    | e # es \<Rightarrow> (Returned e, w\<lparr>w_scheduler := (w_scheduler w)\<lparr>queue := es\<rparr>\<rparr>))"

end
