(* ===== verification/Producers.thy ===== *)
theory Producers
  imports Runtime_World
begin

text \<open>
  The tasks that put events on the controller's queue while its consumer is suspended:
  DRM hints, worker reports, planning tasks, worker monitors and the deadline producer.
  None of them touches the authoritative state.
\<close>

section \<open>Translating worker results\<close>

fun terminal_outcome :: "action_lifecycle \<Rightarrow> worker_outcome option" where
  "terminal_outcome COMPLETED = Some OUTCOME_SUCCEEDED"
| "terminal_outcome FAILED = Some OUTCOME_FAILED"
| "terminal_outcome CANCELLED = Some OUTCOME_CANCELLED"
| "terminal_outcome _ = None"

definition finished_event :: "worker_completion \<Rightarrow> event_metadata \<Rightarrow> event result" where
  "finished_event c m =
     (case terminal_outcome (wc_terminal_lifecycle c) of
        None \<Rightarrow> Inl (ValueError
          ''unknown/timed-out completion requires its dedicated reducer event'')
      | Some out \<Rightarrow>
        let a = wc_action_id c; status = Some (wc_exit_status c) in (case aid_kind a of
          PROBE \<Rightarrow> construct event_post_init (ProbeFinished m a out status)
        | APPLICATION \<Rightarrow> construct event_post_init (ApplicationFinished m a out status)
        | PREPARATION \<Rightarrow> (case wc_plan_hash c of
            None \<Rightarrow> Inl (ValueError ''preparation result lacks its bound plan hash'')
          | Some h \<Rightarrow> construct event_post_init (PreparationFinished m a out status h))
        | FINALIZATION \<Rightarrow> construct event_post_init (FinalizationFinished m a out status)
        | PLAN \<Rightarrow> Inl (ValueError ''planning actions cannot produce systemd worker completion'')))"

definition completion_event :: "worker_completion \<Rightarrow> event_metadata \<Rightarrow> int \<Rightarrow> event result" where
  "completion_event c m deadline =
     (if wc_terminal_lifecycle c = UNKNOWN
      then construct event_post_init (WorkerStatusUnknown m (wc_action_id c)
             ''supervisor: exact terminal transaction outcome is unknown'')
      else if wc_terminal_lifecycle c = TIMED_OUT
      then construct event_post_init (WorkerTimedOut m (wc_action_id c) deadline True)
      else finished_event c m)"

text \<open>\<^verbatim>\<open>WorkerCompletion\<close> validates itself inside the adapter that returns it.\<close>

definition checked :: "('a \<Rightarrow> unit result) \<Rightarrow> exn + 'a \<Rightarrow> exn + 'a" where
  "checked post_init r =
     (case r of Inl e \<Rightarrow> Inl e
      | Inr x \<Rightarrow> (case post_init x of Inl e \<Rightarrow> Inl (exn_of e) | Inr _ \<Rightarrow> Inr x))"

definition completion_post_init :: "worker_completion option \<Rightarrow> unit result" where
  "completion_post_init = on_some WorkerCompletion_post_init"

section \<open>Monitoring a worker\<close>

definition unknown_at :: "action_id \<Rightarrow> string \<Rightarrow> int \<Rightarrow> boot_id \<Rightarrow> event result" where
  "unknown_at a reason now_ms boot =
     bindE (metadata_at now_ms boot) (\<lambda>m.
     construct event_post_init (WorkerStatusUnknown m a reason))"

text \<open>One round of the polling loop: nothing while the worker is active, else its report.\<close>

definition poll_worker ::
  "action_id \<Rightarrow> monitor_task \<Rightarrow> monitor_poll \<Rightarrow> exn + event result option" where
  "poll_worker a t p =
     (if poll_now_ms p \<ge> monitor_deadline_ms t
      then Inr (Some (bindE (metadata_at (poll_now_ms p) (monitor_boot t)) (\<lambda>m.
             construct event_post_init (WorkerTimedOut m a (monitor_deadline_ms t) False))))
      else (case poll_activity p of
        Inl e \<Rightarrow> Inl e
      | Inr ACTIVE \<Rightarrow> Inr None
      | Inr (UnexpectedActivity v) \<Rightarrow> Inr (Some (unknown_at a
          (bounded_reason ''worker_query'' (''unexpected worker activity: '' @ v))
          (poll_report_ms p) (monitor_boot t)))
      | Inr INACTIVE \<Rightarrow> (case checked completion_post_init (poll_completion p) of
          Inl e \<Rightarrow> Inl e
        | Inr None \<Rightarrow> Inr (Some (unknown_at a
            ''supervisor: worker inactive without an exact result''
            (poll_report_ms p) (monitor_boot t)))
        | Inr (Some c) \<Rightarrow> Inr (Some
            (if wc_action_id c \<noteq> a
             then unknown_at a ''supervisor: terminal result action identity differs''
                    (poll_report_ms p) (monitor_boot t)
             else bindE (metadata_at (poll_report_ms p) (monitor_boot t)) (\<lambda>m.
                    completion_event c m (monitor_deadline_ms t)))))))"

text \<open>The report of the task: any exception in a round becomes an unknown status.\<close>

definition monitor_report ::
  "bool \<Rightarrow> action_id \<Rightarrow> monitor_task \<Rightarrow> monitor_poll \<Rightarrow> event result option" where
  "monitor_report null a t p =
     (if null
      then Some (unknown_at a ''supervisor: null dispatcher cannot own an acknowledged worker''
                   (poll_now_ms p) (monitor_boot t))
      else
        let failed = (\<lambda>e. unknown_at a (bounded_reason ''worker_query'' (exception_detail e))
                            (poll_failure_ms p) (monitor_boot t))
        in (case poll_worker a t p of
              Inl e \<Rightarrow> Some (failed e)
            | Inr None \<Rightarrow> None
            | Inr (Some (Inl e)) \<Rightarrow> Some (failed (exn_of e))
            | Inr (Some (Inr e)) \<Rightarrow> Some (Inr e)))"

section \<open>Planning tasks\<close>

definition plan_failed_event ::
  "action_id \<Rightarrow> planning_task \<Rightarrow> exn \<Rightarrow> bool \<Rightarrow> int \<Rightarrow> event result" where
  "plan_failed_event a t e retryable now_ms =
     bindE (metadata_at now_ms (plan_boot t)) (\<lambda>m.
     construct event_post_init (PlanFailed m a (plan_key t) (exception_detail e) None retryable))"

definition plan_event :: "action_id \<Rightarrow> planning_task \<Rightarrow> plan_end \<Rightarrow> int \<Rightarrow> event result option" where
  "plan_event a t end now_ms =
     (case end of
        PlanCancelled \<Rightarrow> None
      | PlanRaised e retryable \<Rightarrow> Some (plan_failed_event a t e retryable now_ms)
      | PlanReturned k h \<Rightarrow> Some (case
          bindE (check (plan_key t = k)
            (ValueError ''planner completion changed its exact admitted input key'')) (\<lambda>_.
          bindE (metadata_at now_ms (plan_boot t)) (\<lambda>m.
          construct event_post_init (PlanCompleted m a k h))) of
            Inl e \<Rightarrow> plan_failed_event a t (exn_of e) False now_ms
          | Inr e \<Rightarrow> Inr e))"

section \<open>One step of another task\<close>

definition publish_generation :: "world \<Rightarrow> world" where
  "publish_generation w = w\<lparr>w_trace := w_trace w @ [Published (w_generation w)]\<rparr>"

definition notify_drm_hint :: "int \<Rightarrow> world \<Rightarrow> world" where
  "notify_drm_hint now_ms w =
     (let w1 = publish_generation (w\<lparr>w_generation := w_generation w + 1\<rparr>)
      in put_built (\<lambda>m. DrmHintReceived m (EventGeneration (w_generation w1))) now_ms
           (boot_id (w_state w1)) w1)"

definition put_result :: "event result option \<Rightarrow> world \<Rightarrow> world" where
  "put_result r w = (case r of Some (Inr e) \<Rightarrow> put e w | _ \<Rightarrow> w)"

fun produce :: "bool \<Rightarrow> producer \<Rightarrow> world \<Rightarrow> world" where
  "produce null (Hint now_ms) w = notify_drm_hint now_ms w"
| "produce null (WorkerQueryFailure a reason now_ms) w =
     put_built (\<lambda>m. WorkerStatusUnknown m a (bounded_reason ''query'' reason)) now_ms
       (boot_id (w_state w)) w"
| "produce null (WorkerTimeout a deadline now_ms) w =
     put_built (\<lambda>m. WorkerTimedOut m a deadline False) now_ms (boot_id (w_state w)) w"
| "produce null (DeadlineFires i clock_ms) w =
     (let s = w_scheduler w in
      if i < length (tasks s)
      then (case tasks s ! i of
              Waiting d b \<Rightarrow> w\<lparr>w_scheduler := fire s i d b clock_ms\<rparr>
            | _ \<Rightarrow> w)
      else w)"
| "produce null (DeadlineUnwinds i) w =
     (let s = w_scheduler w in
      if i < length (tasks s) \<and> tasks s ! i = Cancelling
      then w\<lparr>w_scheduler := unwind s i\<rparr> else w)"
| "produce null (PlanEnds a end now_ms) w =
     (case map_of (w_planning_tasks w) a of
        None \<Rightarrow> w
      | Some t \<Rightarrow> put_result (plan_event a t end now_ms)
          (w\<lparr>w_planning_tasks := AList.delete a (w_planning_tasks w)\<rparr>))"
| "produce null (MonitorPolls a p) w =
     (case map_of (w_monitors w) a of
        None \<Rightarrow> w
      | Some t \<Rightarrow>
          if monitor_running t
          then (case monitor_report null a t p of
                  None \<Rightarrow> w
                | Some r \<Rightarrow> put_result (Some r)
                    (w\<lparr>w_monitors := AList.update a (t\<lparr>monitor_running := False\<rparr>) (w_monitors w)\<rparr>))
          else w)"

text \<open>What happens before the awaited answer arrives.\<close>

definition meanwhile :: "environment \<Rightarrow> unit rt" where
  "meanwhile env =
     (\<lambda>w. let w' = foldl (\<lambda>w p. produce (env_null_dispatcher env) p w) w
                     (env_meanwhile env (w_tick w))
          in (Returned (), w'\<lparr>w_tick := Suc (w_tick w')\<rparr>))"

text \<open>An awaited adapter call: the others run, then the answer or exception arrives.\<close>

definition await :: "environment \<Rightarrow> (nat \<Rightarrow> 'a) \<Rightarrow> 'a rt" where
  "await env f = thenR (meanwhile env) (ask f)"

end
