(* ===== verification/Controller.thy ===== *)
theory Controller
  imports Producers
begin

text \<open>
  The consumer of \<^verbatim>\<open>runtime/controller.py\<close>: an event is reduced, the decision is
  persisted before anything else happens, and its effects are carried out in order.
  Carrying out an effect may process further events, so every handler takes the event
  processor as an argument; \<open>process_event\<close> ties the knot with fuel. Logging and audit
  contents are left out; that an audit write can raise is not.
\<close>

section \<open>The workers of a state\<close>

definition worker_slots :: "state \<Rightarrow> worker_core option list" where
  "worker_slots s =
     [map_option worker_core.truncate (probe s), map_option worker_core.truncate (application s),
      map_option worker_core.truncate (preparation s),
      map_option worker_core.truncate (finalization s)]"

text \<open>The dictionary by action kind; a plan is a \<^verbatim>\<open>KeyError\<close>.\<close>

fun worker_slot :: "state \<Rightarrow> action_kind \<Rightarrow> worker_core option option" where
  "worker_slot s PROBE = Some (map_option worker_core.truncate (probe s))"
| "worker_slot s APPLICATION = Some (map_option worker_core.truncate (application s))"
| "worker_slot s PREPARATION = Some (map_option worker_core.truncate (preparation s))"
| "worker_slot s FINALIZATION = Some (map_option worker_core.truncate (finalization s))"
| "worker_slot s PLAN = None"

definition effect_is_current :: "state \<Rightarrow> action_id \<Rightarrow> event_generation \<Rightarrow> bool" where
  "effect_is_current s a g \<longleftrightarrow>
     (case worker_slot s (aid_kind a) of
        Some (Some x) \<Rightarrow> action_id x = a \<and> lifecycle x = ADMITTED \<and> admitted_event_generation x = g
      | _ \<Rightarrow> False)"

definition final_dispatch_fence_passes :: "world \<Rightarrow> action_id \<Rightarrow> event_generation \<Rightarrow> bool" where
  "final_dispatch_fence_passes w a g \<longleftrightarrow>
     EventGeneration (w_generation w) = g \<and> effect_is_current (w_state w) a g"

section \<open>Worker monitors\<close>

definition monitored :: "boot_id \<Rightarrow> worker_core \<Rightarrow> (action_id \<times> monitor_task) option" where
  "monitored boot x =
     (case (worker_unit x, worker_deadline_ms x) of
        (Some u, Some d) \<Rightarrow>
          if lifecycle x = DISPATCHED
          then Some (action_id x, \<lparr> monitor_unit = u, monitor_deadline_ms = d,
                 monitor_boot = boot, monitor_running = True \<rparr>)
          else None
      | _ \<Rightarrow> None)"

fun first_monitored :: "boot_id \<Rightarrow> worker_core option list \<Rightarrow> (action_id \<times> monitor_task) option" where
  "first_monitored boot [] = None"
| "first_monitored boot (None # xs) = first_monitored boot xs"
| "first_monitored boot (Some x # xs) =
     (case monitored boot x of Some e \<Rightarrow> Some e | None \<Rightarrow> first_monitored boot xs)"

definition reconcile_monitors ::
  "(action_id \<times> monitor_task) option \<Rightarrow> (action_id \<times> monitor_task) list \<Rightarrow>
   (action_id \<times> monitor_task) list" where
  "reconcile_monitors expected ms =
     (case expected of
        None \<Rightarrow> []
      | Some (a, t) \<Rightarrow>
          let kept = filter (\<lambda>(b, _). b = a) ms in if kept = [] then [(a, t)] else kept)"

definition reconcile_worker_monitor :: "unit rt" where
  "reconcile_worker_monitor = modify (\<lambda>w. w\<lparr>w_monitors :=
     reconcile_monitors (first_monitored (boot_id (w_state w)) (worker_slots (w_state w)))
       (w_monitors w)\<rparr>)"

section \<open>Committing a decision\<close>

fun ends_worker :: "event \<Rightarrow> action_id option" where
  "ends_worker (ProbeFinished m a out st) = Some a"
| "ends_worker (ApplicationFinished m a out st) = Some a"
| "ends_worker (PreparationFinished m a out st h) = Some a"
| "ends_worker (FinalizationFinished m a out st) = Some a"
| "ends_worker (WorkerCancellationAcknowledged m a l st) = Some a"
| "ends_worker _ = None"

definition adopt_generation :: "event \<Rightarrow> state \<Rightarrow> int \<Rightarrow> int" where
  "adopt_generation e s g =
     (let g' = event_generation_value (event_generation s)
      in if is_boot_changed e then g' else max g g')"

definition forget_worker :: "event \<Rightarrow> world \<Rightarrow> world" where
  "forget_worker e w =
     (case ends_worker e of None \<Rightarrow> w
      | Some a \<Rightarrow> w\<lparr>w_worker_started := AList.delete a (w_worker_started w)\<rparr>)"

definition rearm :: "unit rt" where
  "rearm =
     bindR (gets w_state) (\<lambda>s.
     bindR (gets w_scheduler) (\<lambda>sched.
     bindR (lift (arm sched (next_timer_ms s) (boot_id s))) (\<lambda>sched'.
     modify (\<lambda>w. w\<lparr>w_scheduler := sched'\<rparr>))))"

definition persist :: "environment \<Rightarrow> event \<Rightarrow> state \<Rightarrow> unit rt" where
  "persist env e t =
     thenR (must (env_save env))
     (modify (\<lambda>w. w\<lparr>w_trace := w_trace w @ [Committed e t], w_state := t,
        w_generation := adopt_generation e t (w_generation w)\<rparr>))"

definition commit :: "environment \<Rightarrow> event \<Rightarrow> decision rt" where
  "commit env e =
     bindR (gets w_state) (\<lambda>s.
     bindR (lift (reduce s e)) (\<lambda>d.
     thenR (persist env e (dec_state d))
     (thenR (modify publish_generation)
     (thenR (audit env)
     (thenR (modify (forget_worker e))
     (thenR rearm
     (thenR reconcile_worker_monitor
     (ret d))))))))"

end
