(* ===== verification/Request_Context.thy ===== *)
theory Request_Context
  imports Dispatch
begin

text \<open>
  \<^verbatim>\<open>SerializedController._worker_request_context\<close>: what a worker is told, read off the
  persisted state that admitted its effect. Each request is only built on the exact
  observation, epoch, mapping and plan of the admission.
\<close>

section \<open>The admitting observation\<close>

definition admitted_observation ::
  "state \<Rightarrow> observation_key \<Rightarrow> event_generation \<Rightarrow> canonical_observation result" where
  "admitted_observation s key g =
     (let lacks = Inl (ValueError ''admitted effect lacks its exact persisted observation proof'')
      in case latest_observation s of
           None \<Rightarrow> lacks
         | Some ob \<Rightarrow>
             if \<not> ob_valid ob \<or> ob_observation_key ob \<noteq> key \<or> ob_event_generation ob \<noteq> g \<or>
                physical_token s \<noteq> Some (ob_physical_token ob)
             then lacks else Inr ob)"

definition topology_of :: "canonical_observation \<Rightarrow> expected_topology" where
  "topology_of ob =
     \<lparr> et_kernel_connected_outputs = ob_kernel_connected_outputs ob,
       et_kernel_external_outputs = ob_kernel_external_outputs ob,
       et_x_connected_outputs = ob_x_connected_outputs ob,
       et_x_active_outputs = ob_x_active_outputs ob \<rparr>"

text \<open>The fields every request has, with the defaults of the optional ones.\<close>

definition plain_context ::
  "state \<Rightarrow> canonical_observation \<Rightarrow> output_mapping list \<Rightarrow> request_context" where
  "plain_context s ob mapping =
     \<lparr> rq_physical_epoch = physical_epoch s, rq_physical_token = ob_physical_token ob,
       rq_output_mapping = mapping, rq_expected_topology = topology_of ob,
       rq_layout = None, rq_planning_action_id = None, rq_preparation_action_id = None,
       rq_proof_duration_ms = None, rq_probe_base_hash = None, rq_probe_edid_integrity = None,
       rq_profile_configuration_hashes = [] \<rparr>"

text \<open>\<^verbatim>\<open>ExpectedTopology(...)\<close> is built first, then the context around it.\<close>

definition build_context :: "request_context \<Rightarrow> request_context result" where
  "build_context c =
     bindE (construct ExpectedTopology_post_init (rq_expected_topology c)) (\<lambda>_.
     construct WorkerRequestContext_post_init c)"

section \<open>Per kind of worker\<close>

definition probe_context ::
  "state \<Rightarrow> canonical_observation \<Rightarrow> probe_attempt_key \<Rightarrow> string \<Rightarrow> string \<Rightarrow> string \<Rightarrow>
   request_context result" where
  "probe_context s ob key output internal mode =
     bindE (check (pak_physical_epoch key = physical_epoch s)
       (ValueError ''probe effect physical epoch is no longer current'')) (\<lambda>_.
     let matches = filter (\<lambda>m. bi_profile m = pak_profile key \<and> bi_output m = output)
           (ob_base_identity_profiles ob);
         edid = find (\<lambda>e. edid_output e = output) (ob_edid_integrity ob)
     in bindE (check
          (present (ob_probe_candidate ob) (\<lambda>c. pc_output c = output \<and>
             pc_internal_output c = internal \<and> pc_preferred_mode c = mode \<and>
             pc_profile c = pak_profile key) \<and>
           length matches = 1 \<and>
           present edid (\<lambda>e. edid_base_hash e \<noteq> None \<and>
             edid_integrity_of e \<in> PROBE_ADMISSIBLE_EDID_INTEGRITIES))
          (ValueError ''probe effect lacks exact broken-extension identity proof'')) (\<lambda>_.
        build_context ((plain_context s ob [])
          \<lparr> rq_probe_base_hash := edid_base_hash (the edid),
            rq_probe_edid_integrity := Some (edid_integrity_of (the edid)) \<rparr>)))"

definition application_context ::
  "state \<Rightarrow> canonical_observation \<Rightarrow> application_attempt_key \<Rightarrow> string \<Rightarrow> mapping_proof \<Rightarrow>
   observation_key \<Rightarrow> request_context result" where
  "application_context s ob key profile mapping ok =
     bindE (check (aak_physical_epoch key = physical_epoch s \<and>
              mp_physical_epoch mapping = physical_epoch s \<and> mp_observation_key mapping = ok)
       (ValueError ''application effect proof is outside its admitted epoch'')) (\<lambda>_.
     let matching = filter (\<lambda>m. pm_profile m = profile \<and> pm_mapping m = mp_outputs mapping)
           (ob_eligible_profiles ob)
     in bindE (check (length matching = 1)
          (ValueError ''application effect lacks one exact saved-profile proof'')) (\<lambda>_.
        build_context ((plain_context s ob (mp_outputs mapping))
          \<lparr> rq_profile_configuration_hashes := pm_configuration_hashes (hd matching) \<rparr>)))"

definition desktop_proof ::
  "state \<Rightarrow> canonical_observation \<Rightarrow> transition_id \<Rightarrow> string \<Rightarrow> plan_hash \<Rightarrow> observation_key \<Rightarrow>
   (candidate_selection \<times> planning_action) result" where
  "desktop_proof s ob tid profile h ok =
     (case (candidate s, planning s) of
        (Some c, Some p) \<Rightarrow>
          bindE (check
            (cs_observation_key c = ok \<and>
             mp_physical_epoch (cs_mapping c) = physical_epoch s \<and>
             pl_transition_id p = tid \<and> pl_plan_hash p = Some h \<and> pl_profile p = profile \<and>
             pik_physical_epoch (pl_input_key p) = physical_epoch s \<and>
             pik_observation_key (pl_input_key p) = ok \<and>
             pik_mapping (pl_input_key p) = mp_outputs (cs_mapping c) \<and>
             pik_active_outputs (pl_input_key p) = ob_x_active_outputs ob)
            (ValueError ''desktop effect lacks its exact mapping and plan proof''))
          (\<lambda>_. Inr (c, p))
      | _ \<Rightarrow> Inl (ValueError ''desktop effect lacks its exact mapping and plan proof''))"

definition desktop_context ::
  "state \<Rightarrow> canonical_observation \<Rightarrow> candidate_selection \<Rightarrow> planning_action \<Rightarrow>
   request_context" where
  "desktop_context s ob c p =
     (plain_context s ob (mp_outputs (cs_mapping c)))
       \<lparr> rq_layout := Some (pik_layout (pl_input_key p)),
         rq_planning_action_id := Some (action_id p) \<rparr>"

definition finalization_proof ::
  "state \<Rightarrow> canonical_observation \<Rightarrow> transition_id \<Rightarrow> transition_key \<Rightarrow> string \<Rightarrow> plan_hash \<Rightarrow>
   (preparation_action \<times> int) result" where
  "finalization_proof s ob tid tkey profile h =
     (let lacks = Inl (ValueError ''finalization effect lacks matching prepared proof'')
      in case (preparation s, verify_since_ms s) of
           (Some prep, Some since) \<Rightarrow>
             if preparation_state s = PREPARED \<and> lifecycle prep = COMPLETED \<and>
                da_transition_id prep = tid \<and> da_transition_key prep = tkey \<and>
                da_plan_hash prep = h \<and> da_profile prep = profile \<and>
                since \<le> ob_observed_at_ms ob
             then Inr (prep, ob_observed_at_ms ob - since) else lacks
         | _ \<Rightarrow> lacks)"

fun worker_request_context :: "state \<Rightarrow> effect \<Rightarrow> request_context result" where
  "worker_request_context s (ActivateProbe a key output internal mode g ok) =
     bindE (admitted_observation s ok g) (\<lambda>ob. probe_context s ob key output internal mode)"
| "worker_request_context s (ApplyProfile a key profile mapping g ok) =
     bindE (admitted_observation s ok g) (\<lambda>ob. application_context s ob key profile mapping ok)"
| "worker_request_context s (PrepareDesktop a tid tkey profile h g ok) =
     bindE (admitted_observation s ok g) (\<lambda>ob.
     bindE (desktop_proof s ob tid profile h ok) (\<lambda>(c, p).
     build_context (desktop_context s ob c p)))"
| "worker_request_context s (FinalizeDesktop a tid tkey profile h g ok) =
     bindE (admitted_observation s ok g) (\<lambda>ob.
     bindE (desktop_proof s ob tid profile h ok) (\<lambda>(c, p).
     bindE (finalization_proof s ob tid tkey profile h) (\<lambda>(prep, proof_ms).
     build_context ((desktop_context s ob c p)
       \<lparr> rq_preparation_action_id := Some (action_id prep),
         rq_proof_duration_ms := Some proof_ms \<rparr>))))"
| "worker_request_context s _ = Inl (TypeError ''not a dispatch effect'')"

end
