(* ===== verification/Controller_Effects.thy ===== *)
theory Controller_Effects
  imports Controller Request_Context
begin

text \<open>
  Carrying out the effects of a decision: observing, planning, dispatching a worker
  behind the generation fence, stopping one, and revoking a plan. \<open>proc\<close> is the
  processing of a further event, \<^verbatim>\<open>_process_event\<close>.
\<close>

type_synonym processor = "event \<Rightarrow> decision rt"

text \<open>\<^verbatim>\<open>await self._process_event(...)\<close> with its decision dropped.\<close>

definition process :: "processor \<Rightarrow> event \<Rightarrow> unit rt" where
  "process proc e = bindR (proc e) (\<lambda>_. ret ())"

definition process_now ::
  "environment \<Rightarrow> processor \<Rightarrow> (event_metadata \<Rightarrow> event) \<Rightarrow> unit rt" where
  "process_now env proc f = bindR (event_now env f) (process proc)"

definition event_at :: "int \<Rightarrow> (event_metadata \<Rightarrow> event) \<Rightarrow> event rt" where
  "event_at now_ms f =
     bindR (gets (\<lambda>w. boot_id (w_state w))) (\<lambda>boot.
     bindR (lift (metadata_at now_ms boot)) (\<lambda>m. lift (construct event_post_init (f m))))"

definition process_at :: "int \<Rightarrow> processor \<Rightarrow> (event_metadata \<Rightarrow> event) \<Rightarrow> unit rt" where
  "process_at now_ms proc f = bindR (event_at now_ms f) (process proc)"

text \<open>\<^verbatim>\<open>max(started_ms, self._clock.monotonic_ms())\<close>.\<close>

definition finished_ms :: "environment \<Rightarrow> int \<Rightarrow> int rt" where
  "finished_ms env started_ms = bindR (monotonic_ms env) (\<lambda>t. ret (max started_ms t))"

section \<open>Observing\<close>

definition deliver_observation ::
  "processor \<Rightarrow> canonical_observation \<Rightarrow> int \<Rightarrow> unit rt" where
  "deliver_observation proc ob now_ms =
     bindR (gets (\<lambda>w. boot_id (w_state w))) (\<lambda>boot.
     if ob_boot_id ob \<noteq> boot
     then
       thenR (modify (\<lambda>w. w\<lparr>w_pending_boot := Some ob\<rparr>))
       (bindR (lift (metadata_at now_ms (ob_boot_id ob))) (\<lambda>m.
        bindR (lift (construct event_post_init (BootChanged m boot))) (process proc)))
     else
       bindR (lift (metadata_at now_ms (ob_boot_id ob))) (\<lambda>m.
       bindR (lift (construct event_post_init (ObservationCompleted m ob))) (process proc)))"

definition request_observation :: "environment \<Rightarrow> processor \<Rightarrow> unit rt" where
  "request_observation env proc =
     bindR (gets w_pending_boot) (\<lambda>pending.
     thenR (modify (\<lambda>w. w\<lparr>w_pending_boot := None\<rparr>))
     (case pending of
        Some ob \<Rightarrow> bindR (monotonic_ms env) (deliver_observation proc ob)
      | None \<Rightarrow>
          bindR (monotonic_ms env) (\<lambda>started_ms.
          bindR (await env (env_observe env)) (\<lambda>answer.
          bindR (finished_ms env started_ms) (\<lambda>now_ms.
          case answer of
            Inr ob \<Rightarrow> deliver_observation proc ob now_ms
          | Inl e \<Rightarrow>
              thenR (audit env)
              (process_at now_ms proc (\<lambda>m. ObservationFailed m
                 (bounded_reason ''observation'' (exception_detail e)))))))))"

section \<open>Planning\<close>

definition launch_plan :: "action_id \<Rightarrow> planning_input_key \<Rightarrow> unit rt" where
  "launch_plan a key = modify (\<lambda>w. w\<lparr>
     w_planning_tasks := AList.update a
       \<lparr>plan_key = key, plan_boot = boot_id (w_state w)\<rparr> (w_planning_tasks w),
     w_trace := w_trace w @ [PlanStarted a]\<rparr>)"

definition plan_dispatched :: "state \<Rightarrow> action_id \<Rightarrow> bool" where
  "plan_dispatched s a \<longleftrightarrow> present (planning s) (\<lambda>p. action_id p = a \<and> lifecycle p = DISPATCHED)"

definition request_plan ::
  "environment \<Rightarrow> processor \<Rightarrow> action_id \<Rightarrow> planning_input_key \<Rightarrow> unit rt" where
  "request_plan env proc a key =
     bindR (gets w_planning_tasks) (\<lambda>ts.
     skip_if (map_of ts a \<noteq> None)
       (thenR (process_now env proc (\<lambda>m. PlanRequested m a key))
       (bindR (gets w_state) (\<lambda>s. skip_if (\<not> plan_dispatched s a) (launch_plan a key)))))"

definition discard_plan :: "environment \<Rightarrow> action_id \<Rightarrow> unit rt" where
  "discard_plan env a =
     bindR (await env (env_revoke_plan env)) (\<lambda>revoked.
     case revoked of
       Some _ \<Rightarrow> audit env
     | None \<Rightarrow>
         bindR (gets w_planning_tasks) (\<lambda>ts.
         thenR (if map_of ts a \<noteq> None then meanwhile env else ret ())
         (bindR (await env (env_discard_plan env)) (\<lambda>discarded.
          if discarded = None then ret () else audit env))))"

section \<open>The generation fence\<close>

definition record_dirty_admission :: "environment \<Rightarrow> processor \<Rightarrow> action_id \<Rightarrow> unit rt" where
  "record_dirty_admission env proc a =
     thenR (modify (\<lambda>w. w\<lparr>w_fence_depth := w_fence_depth w + 1\<rparr>))
     (finally_do
        (bindR (metadata env) (\<lambda>m.
         bindR (gets w_generation) (\<lambda>g.
         bindR (lift (construct event_post_init (AdmissionDirtied m a (EventGeneration g))))
           (process proc))))
        (\<lambda>w. w\<lparr>w_fence_depth := w_fence_depth w - 1\<rparr>))"

fun drain :: "processor \<Rightarrow> nat \<Rightarrow> unit rt" where
  "drain proc 0 = ret ()"
| "drain proc (Suc n) = bindR get_nowait (\<lambda>e. thenR (process proc e) (drain proc n))"

definition drain_pre_dispatch_events :: "processor \<Rightarrow> unit rt" where
  "drain_pre_dispatch_events proc =
     bindR (gets (\<lambda>w. length (queue (w_scheduler w)))) (drain proc)"

definition pre_dispatch_fence ::
  "environment \<Rightarrow> processor \<Rightarrow> action_id \<Rightarrow> event_generation \<Rightarrow> bool rt" where
  "pre_dispatch_fence env proc a g =
     thenR (meanwhile env)
     (thenR (modify (\<lambda>w. w\<lparr>w_fence_depth := w_fence_depth w + 1\<rparr>))
     (thenR (finally_do (drain_pre_dispatch_events proc)
               (\<lambda>w. w\<lparr>w_fence_depth := w_fence_depth w - 1\<rparr>))
     (bindR (gets w_generation) (\<lambda>current.
      if EventGeneration current \<noteq> g
      then thenR (record_dirty_admission env proc a) (ret False)
      else gets (\<lambda>w. effect_is_current (w_state w) a g)))))"

section \<open>Dispatching a worker\<close>

fun dispatched_event :: "effect \<Rightarrow> worker_unit \<Rightarrow> event_metadata \<Rightarrow> event" where
  "dispatched_event (ActivateProbe a k out internal mode g ok) u m = ProbeDispatched m a u"
| "dispatched_event (ApplyProfile a k p mapping g ok) u m = ApplicationDispatched m a u"
| "dispatched_event (PrepareDesktop a t tk p h g ok) u m = PreparationDispatched m a u"
| "dispatched_event (FinalizeDesktop a t tk p h g ok) u m = FinalizationDispatched m a u"
| "dispatched_event _ u m = FinalizationDispatched m (unit_action_id u) u"

definition reject_dispatch :: "environment \<Rightarrow> processor \<Rightarrow> action_id \<Rightarrow> string \<Rightarrow> unit rt" where
  "reject_dispatch env proc a reason =
     thenR (audit env) (process_now env proc (\<lambda>m. DispatchRejected m a reason))"

definition discard_prepared :: "environment \<Rightarrow> unit rt" where
  "discard_prepared env =
     bindR (await env (env_discard_prepared env)) (\<lambda>r. if r = None then ret () else audit env)"

definition record_null_dispatch ::
  "environment \<Rightarrow> processor \<Rightarrow> effect \<Rightarrow> action_id \<Rightarrow> unit rt" where
  "record_null_dispatch env proc e a =
     bindR (monotonic_ms env) (\<lambda>now_ms.
     bindR (gets w_records) (\<lambda>records.
     bindR (lift (record_would_dispatch records e a now_ms)) (\<lambda>(_, records').
     thenR (modify (\<lambda>w. w\<lparr>w_records := records'\<rparr>))
     (thenR (audit env)
     (process_now env proc (\<lambda>m. DispatchRejected m a
        ''null dispatcher: worker launch intentionally unavailable''))))))"

text \<open>\<^verbatim>\<open>write_request\<close>, with the validation of the prepared dispatch it returns.\<close>

definition write_dispatch_request ::
  "environment \<Rightarrow> processor \<Rightarrow> effect \<Rightarrow> action_id \<Rightarrow> prepared_dispatch option rt" where
  "write_dispatch_request env proc e a =
     (let reject = (\<lambda>reason. thenR (reject_dispatch env proc a reason) (ret None));
          detail = (\<lambda>x. bounded_reason ''request_write'' (exception_detail x))
      in bindR (gets w_state) (\<lambda>s.
         case worker_request_context s e of
           Inl x \<Rightarrow> reject (detail (exn_of x))
         | Inr context \<Rightarrow>
             bindR (await env (env_write_request env)) (\<lambda>answer.
             case answer of
               Inl (Inl x) \<Rightarrow> reject (detail x)
             | Inl (Inr x) \<Rightarrow> reject (dae_text x)
             | Inr prepared \<Rightarrow>
                 (case PreparedDispatch_post_init prepared of
                    Inl x \<Rightarrow> reject (detail (exn_of x))
                  | Inr _ \<Rightarrow>
                      if pd_action_id prepared = a then ret (Some prepared)
                      else thenR (discard_prepared env)
                        (reject (detail (Exn ''ValueError''
                           ''prepared request has a different action ID'')))))))"

definition acknowledge_dispatch ::
  "environment \<Rightarrow> processor \<Rightarrow> effect \<Rightarrow> action_id \<Rightarrow> prepared_dispatch \<Rightarrow> int \<Rightarrow> unit rt" where
  "acknowledge_dispatch env proc e a prepared started_ms =
     bindR (finished_ms env started_ms) (\<lambda>now_ms.
     thenR (modify (\<lambda>w. w\<lparr>w_worker_started := AList.update a now_ms (w_worker_started w)\<rparr>))
     (process_at now_ms proc (dispatched_event e (pd_unit prepared))))"

definition mark_dispatch_uncertain ::
  "environment \<Rightarrow> processor \<Rightarrow> effect \<Rightarrow> action_id \<Rightarrow> prepared_dispatch \<Rightarrow> string \<Rightarrow> exn \<Rightarrow> int \<Rightarrow>
   unit rt" where
  "mark_dispatch_uncertain env proc e a prepared boundary x started_ms =
     (let reason = bounded_reason boundary (exception_detail x) in
      bindR (finished_ms env started_ms) (\<lambda>now_ms.
      thenR (modify (\<lambda>w. w\<lparr>w_worker_started := AList.update a now_ms (w_worker_started w)\<rparr>))
      (thenR (process_at now_ms proc (dispatched_event e (pd_unit prepared)))
      (thenR (process_now env proc (\<lambda>m. WorkerStatusUnknown m a reason))
      (audit env)))))"

definition complete_definitely_rejected_start ::
  "environment \<Rightarrow> processor \<Rightarrow> effect \<Rightarrow> action_id \<Rightarrow> prepared_dispatch \<Rightarrow> string \<Rightarrow>
   worker_completion \<Rightarrow> int \<Rightarrow> unit rt" where
  "complete_definitely_rejected_start env proc e a prepared text completion started_ms =
     (if wc_action_id completion \<noteq> a \<or> wc_terminal_lifecycle completion \<noteq> FAILED
      then mark_dispatch_uncertain env proc e a prepared ''unit_start_terminal_result''
             (Exn ''DispatchAdapterError'' text) started_ms
      else
        thenR (acknowledge_dispatch env proc e a prepared started_ms)
        (bindR (finished_ms env started_ms) (\<lambda>now_ms.
         bindR (gets (\<lambda>w. boot_id (w_state w))) (\<lambda>boot.
         bindR (lift (metadata_at now_ms boot)) (\<lambda>m.
         bindR (lift (finished_event completion m)) (\<lambda>ev.
         thenR (process proc ev) (audit env)))))))"

definition handle_final_fence_rejection ::
  "environment \<Rightarrow> processor \<Rightarrow> action_id \<Rightarrow> event_generation \<Rightarrow> unit rt" where
  "handle_final_fence_rejection env proc a g =
     thenR (discard_prepared env)
     (bindR (gets w_generation) (\<lambda>current.
      bindR (gets w_state) (\<lambda>s.
      if EventGeneration current \<noteq> g then record_dirty_admission env proc a
      else if effect_is_current s a g
      then reject_dispatch env proc a (bounded_reason ''unit_start'' (exception_detail
             (Exn ''RuntimeError'' ''adapter rejected a passing final fence'')))
      else ret ())))"

text \<open>
  \<^verbatim>\<open>dispatcher.start(prepared, fence)\<close> by its contract: the fence is asked after the
  awaits of the adapter, and a passing fence is followed by the submission at once.
\<close>

datatype start_answer =
    Accepted | FenceRejected | StartError string "worker_completion option"
  | StartException exn | StartUnexpected string

fun submission_answer :: "submission \<Rightarrow> start_answer" where
  "submission_answer SubmissionAccepted = Accepted"
| "submission_answer (SubmissionFailed x c) =
     (case WorkerCompletion_post_init c of
        Inl e \<Rightarrow> StartException (exn_of e)
      | Inr _ \<Rightarrow> StartError (dae_text x) (Some c))"
| "submission_answer (SubmissionUncertain x) = StartException x"
| "submission_answer (SubmissionUnexpected v) = StartUnexpected v"

definition start_worker ::
  "environment \<Rightarrow> effect \<Rightarrow> action_id \<Rightarrow> event_generation \<Rightarrow> prepared_dispatch \<Rightarrow> start_answer rt" where
  "start_worker env e a g prepared =
     bindR (await env (env_start env)) (\<lambda>script.
     case script of
       StartDeclined \<Rightarrow> ret FenceRejected
     | StartRefused x \<Rightarrow> ret (StartError (dae_text x) None)
     | StartLost x \<Rightarrow> ret (StartException x)
     | StartSubmits submission \<Rightarrow>
         bindR (gets (\<lambda>w. final_dispatch_fence_passes w a g)) (\<lambda>passes.
         if \<not> passes then ret FenceRejected
         else
           thenR (modify (\<lambda>w. w\<lparr>w_trace := w_trace w @
             [Submitted e (pd_unit prepared) (w_generation w)]\<rparr>))
           (thenR (meanwhile env) (ret (submission_answer submission)))))"

definition start_prepared ::
  "environment \<Rightarrow> processor \<Rightarrow> effect \<Rightarrow> action_id \<Rightarrow> event_generation \<Rightarrow> prepared_dispatch \<Rightarrow> int \<Rightarrow>
   unit rt" where
  "start_prepared env proc e a g prepared started_ms =
     bindR (start_worker env e a g prepared) (\<lambda>answer.
     case answer of
       Accepted \<Rightarrow> acknowledge_dispatch env proc e a prepared started_ms
     | FenceRejected \<Rightarrow> handle_final_fence_rejection env proc a g
     | StartError text None \<Rightarrow>
         thenR (discard_prepared env) (reject_dispatch env proc a text)
     | StartError text (Some c) \<Rightarrow>
         complete_definitely_rejected_start env proc e a prepared text c started_ms
     | StartException x \<Rightarrow>
         mark_dispatch_uncertain env proc e a prepared ''unit_start'' x started_ms
     | StartUnexpected v \<Rightarrow>
         mark_dispatch_uncertain env proc e a prepared ''unit_start_result''
           (Exn ''TypeError'' (''unexpected start result: '' @ v)) started_ms)"

definition dispatch ::
  "environment \<Rightarrow> processor \<Rightarrow> effect \<Rightarrow> action_id \<Rightarrow> event_generation \<Rightarrow> unit rt" where
  "dispatch env proc e a g =
     bindR (pre_dispatch_fence env proc a g) (\<lambda>open.
     if \<not> open then ret ()
     else if env_null_dispatcher env then record_null_dispatch env proc e a
     else
       bindR (monotonic_ms env) (\<lambda>started_ms.
       bindR (write_dispatch_request env proc e a) (\<lambda>prepared.
       case prepared of
         None \<Rightarrow> ret ()
       | Some p \<Rightarrow>
           bindR (pre_dispatch_fence env proc a g) (\<lambda>still_open.
           if \<not> still_open then discard_prepared env
           else start_prepared env proc e a g p started_ms))))"

end
