(* ===== verification/Controller_Loop.thy ===== *)
theory Controller_Loop
  imports Controller_Effects
begin

text \<open>
  Stopping a worker, the dispatch over the effects, and the event loop of
  \<^verbatim>\<open>SerializedController\<close>: one event at a time, each with the events its effects need.
  The nesting of events is bounded by fuel; \<open>Exhausted\<close> says that more was needed.
\<close>

section \<open>Stopping\<close>

definition report_unknown ::
  "environment \<Rightarrow> processor \<Rightarrow> action_id \<Rightarrow> string \<Rightarrow> unit rt" where
  "report_unknown env proc a reason =
     process_now env proc (\<lambda>m. WorkerStatusUnknown m a reason)"

definition stopping_worker :: "state \<Rightarrow> action_id \<Rightarrow> (worker_unit \<times> action_lifecycle) option option" where
  "stopping_worker s a =
     (case worker_slot s (aid_kind a) of
        None \<Rightarrow> None
      | Some slot \<Rightarrow> Some (case slot of
          None \<Rightarrow> None
        | Some x \<Rightarrow>
            if action_id x = a \<and> lifecycle x = STOPPING
            then map_option (\<lambda>u. (u, case terminal_after_stop x of
                   None \<Rightarrow> CANCELLED | Some l \<Rightarrow> l)) (worker_unit x)
            else None))"

text \<open>The dictionary of the four worker slots has no entry for a plan.\<close>

definition plan_key_error :: exn where
  "plan_key_error = Exn ''KeyError''
     (''<ActionKind.PLAN: '' @ [CHR 0x27] @ ''plan'' @ [CHR 0x27] @ ''>'')"

definition acknowledge_stop ::
  "environment \<Rightarrow> processor \<Rightarrow> action_id \<Rightarrow> exn + worker_completion option \<Rightarrow> unit rt" where
  "acknowledge_stop env proc a answer =
     (case answer of
        Inl x \<Rightarrow> report_unknown env proc a
          (bounded_reason ''result_after_stop'' (exception_detail x))
      | Inr None \<Rightarrow> report_unknown env proc a
          ''result_after_stop: inactive worker lacks its exact result''
      | Inr (Some c) \<Rightarrow>
          if wc_action_id c \<noteq> a
          then report_unknown env proc a
            ''result_after_stop: inactive worker lacks its exact result''
          else process_now env proc (\<lambda>m. WorkerCancellationAcknowledged m a
                 (wc_terminal_lifecycle c) (wc_exit_status c)))"

definition query_after_stop :: "environment \<Rightarrow> processor \<Rightarrow> action_id \<Rightarrow> unit rt" where
  "query_after_stop env proc a =
     bindR (await env (env_activity env)) (\<lambda>answer.
     case answer of
       Inl x \<Rightarrow> report_unknown env proc a
         (bounded_reason ''query_after_stop'' (exception_detail x))
     | Inr ACTIVE \<Rightarrow> ret ()
     | Inr (UnexpectedActivity v) \<Rightarrow> report_unknown env proc a
         (bounded_reason ''query_after_stop'' (''unexpected worker activity: '' @ v))
     | Inr INACTIVE \<Rightarrow>
         bindR (await env (env_completion env)) (\<lambda>completion.
         acknowledge_stop env proc a (checked completion_post_init completion)))"

definition stop_action :: "environment \<Rightarrow> processor \<Rightarrow> action_id \<Rightarrow> unit rt" where
  "stop_action env proc a =
     (if env_null_dispatcher env
      then report_unknown env proc a
        ''null dispatcher cannot prove worker inactivity or outcome''
      else
        bindR (gets w_state) (\<lambda>s.
        case stopping_worker s a of
          None \<Rightarrow> raise plan_key_error
        | Some None \<Rightarrow> ret ()
        | Some (Some (u, l)) \<Rightarrow>
            thenR (modify (\<lambda>w. w\<lparr>w_trace := w_trace w @ [StopSent a l]\<rparr>))
            (bindR (await env (env_stop env)) (\<lambda>failure.
             case failure of
               Some x \<Rightarrow> report_unknown env proc a (bounded_reason ''stop'' (exception_detail x))
             | None \<Rightarrow> query_after_stop env proc a))))"

section \<open>One effect\<close>

fun handle_effect :: "environment \<Rightarrow> processor \<Rightarrow> effect \<Rightarrow> unit rt" where
  "handle_effect env proc (RequestObservation reason) = request_observation env proc"
| "handle_effect env proc (Schedule deadline) = ret ()"
| "handle_effect env proc (RequestPlan a t key profile) = request_plan env proc a key"
| "handle_effect env proc (StopAction a) = stop_action env proc a"
| "handle_effect env proc (DiscardPlan a h) = discard_plan env a"
| "handle_effect env proc (ActivateProbe a key output internal mode g ok) =
     bindR (gets w_fence_depth) (\<lambda>depth. skip_if (depth \<noteq> 0)
       (dispatch env proc (ActivateProbe a key output internal mode g ok) a g))"
| "handle_effect env proc (ApplyProfile a key profile mapping g ok) =
     bindR (gets w_fence_depth) (\<lambda>depth. skip_if (depth \<noteq> 0)
       (dispatch env proc (ApplyProfile a key profile mapping g ok) a g))"
| "handle_effect env proc (PrepareDesktop a t tk profile h g ok) =
     bindR (gets w_fence_depth) (\<lambda>depth. skip_if (depth \<noteq> 0)
       (dispatch env proc (PrepareDesktop a t tk profile h g ok) a g))"
| "handle_effect env proc (FinalizeDesktop a t tk profile h g ok) =
     bindR (gets w_fence_depth) (\<lambda>depth. skip_if (depth \<noteq> 0)
       (dispatch env proc (FinalizeDesktop a t tk profile h g ok) a g))"

section \<open>One event\<close>

primrec process_event :: "nat \<Rightarrow> environment \<Rightarrow> event \<Rightarrow> decision rt" where
  "process_event 0 env e = exhausted"
| "process_event (Suc fuel) env e =
     bindR (commit env e) (\<lambda>d.
     thenR (for_each (handle_effect env (process_event fuel env)) (dec_effects d))
     (thenR rearm (ret d)))"

section \<open>The service\<close>

definition start_controller :: "environment \<Rightarrow> unit rt" where
  "start_controller env =
     bindR (gets w_started) (\<lambda>started. skip_if started
       (thenR (modify (\<lambda>w. w\<lparr>w_started := True\<rparr>))
       (thenR rearm
       (bindR (gets w_state) (\<lambda>s.
        bindR (event_now env (\<lambda>m. ControllerStarted m (controller_instance s))) (\<lambda>e.
        thenR (modify (put e)) reconcile_worker_monitor))))))"

text \<open>
  \<^verbatim>\<open>await self._queue.get()\<close> suspends until a producer has put an event; a round in
  which none has leaves the consumer suspended.
\<close>

definition process_next :: "nat \<Rightarrow> environment \<Rightarrow> unit rt" where
  "process_next fuel env =
     thenR (meanwhile env)
     (bindR (gets (\<lambda>w. queue (w_scheduler w))) (\<lambda>es. skip_if (es = [])
        (bindR get_nowait (\<lambda>e. process (process_event fuel env) e))))"

text \<open>A number of rounds of \<^verbatim>\<open>run\<close>; the loop itself only ends by an exception.\<close>

primrec run_service :: "nat \<Rightarrow> nat \<Rightarrow> environment \<Rightarrow> unit rt" where
  "run_service 0 fuel env = ret ()"
| "run_service (Suc n) fuel env = thenR (process_next fuel env) (run_service n fuel env)"

definition process_available :: "nat \<Rightarrow> environment \<Rightarrow> nat rt" where
  "process_available fuel env =
     bindR (gets (\<lambda>w. length (queue (w_scheduler w)))) (\<lambda>count.
     thenR (drain (process_event fuel env) count) (ret count))"

text \<open>
  Shutdown: whether a revocation failed, and whether a planning task was cancelled. A task
  whose revocation failed is left alone.
\<close>

fun revoke_plans :: "environment \<Rightarrow> action_id list \<Rightarrow> (bool \<times> bool) rt" where
  "revoke_plans env [] = ret (False, False)"
| "revoke_plans env (a # as) =
     bindR (await env (env_revoke_plan env)) (\<lambda>failure.
     thenR (if failure = None then ret () else audit env)
     (bindR (revoke_plans env as) (\<lambda>(failed, cancelled).
      ret (failed \<or> failure \<noteq> None, cancelled \<or> failure = None))))"

definition RUNTIME_AUTHORITY :: string where
  "RUNTIME_AUTHORITY = ''RuntimeAuthorityError''"

definition close_controller :: "environment \<Rightarrow> unit rt" where
  "close_controller env =
     bindR (gets (\<lambda>w. map fst (w_planning_tasks w))) (\<lambda>as.
     bindR (revoke_plans env as) (\<lambda>(failed, cancelled).
     bindR (gets (\<lambda>w. cancelled \<or> w_monitors w \<noteq> [])) (\<lambda>waits.
     thenR (modify (\<lambda>w. w\<lparr>w_planning_tasks := [], w_monitors := []\<rparr>))
     (bindR (if waits then await env (env_cancel_pending env) else ret False) (\<lambda>pending.
      thenR (modify (\<lambda>w. w\<lparr>w_scheduler := close (w_scheduler w)\<rparr>))
      (thenR (meanwhile env)
      (if failed
       then raise (Exn RUNTIME_AUTHORITY
         ''cannot safely cancel planning after revocation failure'')
       else if pending
       then raise (Exn RUNTIME_AUTHORITY
         ''controller tasks did not acknowledge bounded cancellation'')
       else ret ())))))))"

text \<open>The controller as it is built on a recovered state.\<close>

definition new_world :: "state \<Rightarrow> world" where
  "new_world s =
     \<lparr> w_state = s, w_scheduler = new_scheduler,
       w_generation = event_generation_value (event_generation s), w_planning_tasks = [],
       w_monitors = [], w_worker_started = [], w_pending_boot = None, w_fence_depth = 0,
       w_started = False, w_records = [], w_tick = 0, w_trace = [] \<rparr>"

text \<open>\<^verbatim>\<open>run\<close> for a number of rounds, from construction on.\<close>

definition service :: "state \<Rightarrow> nat \<Rightarrow> nat \<Rightarrow> environment \<Rightarrow> unit outcome \<times> world" where
  "service s n fuel env = thenR (start_controller env) (run_service n fuel env) (new_world s)"

end
