(* ===== verification/Controller_Protocol.thy ===== *)
theory Controller_Protocol
  imports Controller_Loop
begin

text \<open>
  What the controller promises at its boundary, as a deterministic acceptor of its trace:
  states are persisted by reducing the last persisted one, a worker is only submitted
  while the persisted state holds its admission at the published generation, and the next
  event after a submission is its acknowledgement. The controller, with its queue, tasks,
  awaits and exceptions, is shown to follow this protocol in the next theory; here are the
  protocol and the triples for proving it.
\<close>

section \<open>The protocol\<close>

text \<open>
  \<open>p_published\<close> is the generation in the finalizer's file fence, unknown between a commit
  and its publication; it never falls below \<open>p_floor\<close> within a boot. \<open>p_open\<close> is a
  submission whose acknowledgement is due. \<open>p_shadow\<close> says that the dispatcher is the null
  dispatcher; the protocol starts from a state with such a flag.
\<close>

record protocol =
  p_state :: state
  p_decided :: "effect list"
  p_published :: "int option"
  p_floor :: int
  p_open :: "(effect \<times> worker_unit) option"
  p_shadow :: bool

definition state_generation :: "state \<Rightarrow> int" where
  "state_generation s = event_generation_value (event_generation s)"

type_synonym origin = "state \<times> bool"

definition protocol_start :: "origin \<Rightarrow> protocol" where
  "protocol_start s = \<lparr> p_state = fst s, p_decided = [], p_published = None,
     p_floor = state_generation (fst s), p_open = None, p_shadow = snd s \<rparr>"

definition answers :: "(effect \<times> worker_unit) option \<Rightarrow> event \<Rightarrow> bool" where
  "answers due e \<longleftrightarrow>
     (case due of None \<Rightarrow> True | Some (x, u) \<Rightarrow> e = dispatched_event x u (event_metadata_of e))"

definition submittable :: "protocol \<Rightarrow> effect \<Rightarrow> worker_unit \<Rightarrow> int \<Rightarrow> bool" where
  "submittable p x u g \<longleftrightarrow>
     \<not> p_shadow p \<and> p_open p = None \<and> x \<in> set (p_decided p) \<and> p_published p = Some g \<and>
     admitted_generation x = Some (EventGeneration g) \<and>
     effect_action_id x = Some (unit_action_id u) \<and>
     effect_is_current (p_state p) (unit_action_id u) (EventGeneration g)"

fun protocol_step :: "protocol \<Rightarrow> boundary \<Rightarrow> protocol option" where
  "protocol_step p (Committed e t) =
     (case reduce (p_state p) e of
        Inl _ \<Rightarrow> None
      | Inr d \<Rightarrow>
          if dec_state d = t \<and> answers (p_open p) e
          then Some \<lparr> p_state = t, p_decided = p_decided p @ dec_effects d,
                 p_published = None,
                 p_floor = (if is_boot_changed e then state_generation t else p_floor p),
                 p_open = None, p_shadow = p_shadow p \<rparr>
          else None)"
| "protocol_step p (Published g) =
     (if state_generation (p_state p) \<le> g \<and> p_floor p \<le> g
      then Some (p\<lparr>p_published := Some g, p_floor := g\<rparr>) else None)"
| "protocol_step p (Submitted x u g) =
     (if submittable p x u g then Some (p\<lparr>p_open := Some (x, u)\<rparr>) else None)"
| "protocol_step p (StopSent a l) =
     (case stopping_worker (p_state p) a of
        Some (Some (u, l')) \<Rightarrow>
          if \<not> p_shadow p \<and> p_open p = None \<and> l' = l then Some p else None
      | _ \<Rightarrow> None)"
| "protocol_step p (PlanStarted a) =
     (if p_open p = None \<and> plan_dispatched (p_state p) a then Some p else None)"

fun follow :: "protocol \<Rightarrow> boundary list \<Rightarrow> protocol option" where
  "follow p [] = Some p"
| "follow p (b # bs) = (case protocol_step p b of None \<Rightarrow> None | Some q \<Rightarrow> follow q bs)"

lemma follow_append:
  "follow p (bs @ cs) = (case follow p bs of None \<Rightarrow> None | Some q \<Rightarrow> follow q cs)"
  by (induction bs arbitrary: p) (simp_all split: option.split)

lemma follow_snoc: "follow p bs = Some q \<Longrightarrow> follow p (bs @ [b]) = protocol_step q b"
  by (simp add: follow_append split: option.split)

lemma follow_appendD:
  assumes "follow p (bs @ cs) \<noteq> None"
  obtains q where "follow p bs = Some q" and "follow q cs \<noteq> None"
  using assms by (auto simp: follow_append split: option.splits)

lemma follow_ConsD:
  assumes "follow p (b # bs) \<noteq> None"
  obtains q where "protocol_step p b = Some q" and "follow q bs \<noteq> None"
  using assms by (auto split: option.splits)

section \<open>The world and the protocol\<close>

text \<open>
  \<open>stands s due D w\<close>: the trace of \<open>w\<close> was accepted from \<open>s\<close>, the protocol's state is
  the authoritative one, \<open>due\<close> is the open submission, the effects \<open>D\<close> were decided, and
  the published generation is the current one, which is behind neither the state's nor
  what was published before.
\<close>

definition stands ::
  "origin \<Rightarrow> (effect \<times> worker_unit) option \<Rightarrow> effect set \<Rightarrow> world \<Rightarrow> bool" where
  "stands s due D w \<longleftrightarrow>
     (\<exists>p. follow (protocol_start s) (w_trace w) = Some p \<and> p_state p = w_state w \<and>
        p_open p = due \<and> p_shadow p = snd s \<and> D \<subseteq> set (p_decided p) \<and>
        (p_published p = Some (w_generation w) \<or> p_published p = None \<and> p_decided p = []) \<and>
        state_generation (w_state w) \<le> w_generation w \<and> p_floor p \<le> w_generation w)"

definition legal :: "origin \<Rightarrow> world \<Rightarrow> bool" where
  "legal s w \<longleftrightarrow>
     (\<exists>p. follow (protocol_start s) (w_trace w) = Some p \<and> p_state p = w_state w)"

lemma stands_legal: "stands s due D w \<Longrightarrow> legal s w"
  by (auto simp: stands_def legal_def)

lemma stands_new: "stands (s, null) None {} (new_world s)"
  by (simp add: stands_def new_world_def protocol_start_def state_generation_def)

lemma stands_subset: "stands s due D w \<Longrightarrow> D' \<subseteq> D \<Longrightarrow> stands s due D' w"
  unfolding stands_def by blast

text \<open>Nothing but the state, the generation and the trace matters.\<close>

lemma stands_cong:
  "w_state w' = w_state w \<Longrightarrow> w_generation w' = w_generation w \<Longrightarrow> w_trace w' = w_trace w \<Longrightarrow>
   stands s due D w' = stands s due D w"
  by (simp add: stands_def)

section \<open>Triples\<close>

text \<open>
  \<open>valid s P m Q\<close>: from a world with \<open>P\<close>, \<open>m\<close> returns \<open>x\<close> in a world with \<open>Q x\<close>, or it
  raises or runs out of fuel and its trace is still accepted.
\<close>

fun ends_well :: "origin \<Rightarrow> ('a \<Rightarrow> world \<Rightarrow> bool) \<Rightarrow> 'a outcome \<times> world \<Rightarrow> bool" where
  "ends_well s Q (Returned x, w) \<longleftrightarrow> Q x w"
| "ends_well s Q (Raised e, w) \<longleftrightarrow> legal s w"
| "ends_well s Q (Exhausted, w) \<longleftrightarrow> legal s w"

definition valid ::
  "origin \<Rightarrow> (world \<Rightarrow> bool) \<Rightarrow> 'a rt \<Rightarrow> ('a \<Rightarrow> world \<Rightarrow> bool) \<Rightarrow> bool" where
  "valid s P m Q \<longleftrightarrow> (\<forall>w. P w \<longrightarrow> ends_well s Q (m w))"

abbreviation keeps :: "origin \<Rightarrow> (world \<Rightarrow> bool) \<Rightarrow> 'a rt \<Rightarrow> bool" where
  "keeps s P m \<equiv> valid s P m (\<lambda>_. P)"

named_theorems triple \<open>rules for the controller's steps\<close>

lemma ends_well_mono:
  "ends_well s Q rw \<Longrightarrow> (\<And>x w. Q x w \<Longrightarrow> Q' x w) \<Longrightarrow> ends_well s Q' rw"
  by (cases "(s, Q, rw)" rule: ends_well.cases) auto

lemma valid_bind:
  assumes "valid s P m Q" and "\<And>x. valid s (Q x) (f x) R"
  shows "valid s P (bindR m f) R"
  unfolding valid_def
proof (intro allI impI)
  fix w
  assume "P w"
  then have *: "ends_well s Q (m w)" using assms(1) by (simp add: valid_def)
  obtain r w' where m: "m w = (r, w')" by (cases "m w")
  show "ends_well s R (bindR m f w)"
    using * assms(2) m by (cases r) (auto simp: bindR_def valid_def)
qed

lemma valid_conseq:
  "valid s P m Q \<Longrightarrow> (\<And>w. P' w \<Longrightarrow> P w) \<Longrightarrow> (\<And>x w. Q x w \<Longrightarrow> Q' x w) \<Longrightarrow> valid s P' m Q'"
  unfolding valid_def by (blast intro: ends_well_mono)

lemma valid_then: "valid s P m (\<lambda>_. Q) \<Longrightarrow> valid s Q n R \<Longrightarrow> valid s P (thenR m n) R"
  unfolding thenR_def by (rule valid_bind)

lemma valid_ret: "(\<And>w. P w \<Longrightarrow> Q x w) \<Longrightarrow> valid s P (ret x) Q"
  by (simp add: valid_def ret_def)

lemma valid_modify: "(\<And>w. P w \<Longrightarrow> Q () (f w)) \<Longrightarrow> valid s P (modify f) Q"
  by (simp add: valid_def modify_def)

lemma valid_gets: "(\<And>w. P w \<Longrightarrow> Q (f w) w) \<Longrightarrow> valid s P (gets f) Q"
  by (simp add: valid_def gets_def)

lemma valid_if:
  "(b \<Longrightarrow> valid s P m Q) \<Longrightarrow> (\<not> b \<Longrightarrow> valid s P n Q) \<Longrightarrow> valid s P (if b then m else n) Q"
  by simp

lemma valid_pure: "(b \<Longrightarrow> valid s P m Q) \<Longrightarrow> valid s (\<lambda>w. P w \<and> b) m Q"
  by (auto simp: valid_def)

lemma valid_finally:
  assumes "valid s P m Q" and "\<And>x w. Q x w \<Longrightarrow> R x (f w)"
    and "\<And>w. w_trace (f w) = w_trace w \<and> w_state (f w) = w_state w"
  shows "valid s P (finally_do m f) R"
  unfolding valid_def
proof (intro allI impI)
  fix w
  assume "P w"
  then have *: "ends_well s Q (m w)" using assms(1) by (simp add: valid_def)
  obtain r w' where m: "m w = (r, w')" by (cases "m w")
  show "ends_well s R (finally_do m f w)"
    using * assms(2,3) m by (cases r) (auto simp: finally_do_def legal_def)
qed

lemma valid_raise: "(\<And>w. P w \<Longrightarrow> legal s w) \<Longrightarrow> valid s P (raise e) Q"
  by (simp add: valid_def raise_def)

lemma valid_exhausted: "(\<And>w. P w \<Longrightarrow> legal s w) \<Longrightarrow> valid s P exhausted Q"
  by (simp add: valid_def exhausted_def)

lemma valid_lift:
  "(\<And>w. P w \<Longrightarrow> legal s w) \<Longrightarrow> (\<And>x w. r = Inr x \<Longrightarrow> P w \<Longrightarrow> Q x w) \<Longrightarrow> valid s P (lift r) Q"
  by (auto simp: lift_def valid_def ret_def raise_def split: sum.split)

section \<open>Steps that keep the standing\<close>

text \<open>A world the protocol cannot tell from another.\<close>

definition unseen :: "(world \<Rightarrow> world) \<Rightarrow> bool" where
  "unseen f \<longleftrightarrow> (\<forall>w. w_state (f w) = w_state w \<and> w_generation (f w) = w_generation w \<and>
     w_trace (f w) = w_trace w)"

lemma stands_unseen: "unseen f \<Longrightarrow> stands s due D (f w) = stands s due D w"
  unfolding unseen_def by (intro stands_cong) auto

lemma keeps_ask [triple]: "keeps s (stands s due D) (ask f)"
  by (simp add: valid_def ask_def stands_cong [where w' = "w\<lparr>w_tick := n\<rparr>" for w n])

lemma keeps_gets [triple]: "keeps s P (gets f)"
  by (rule valid_gets)

lemma keeps_ret [triple]: "keeps s P (ret x)"
  by (rule valid_ret)

lemma keeps_raise [triple]: "valid s (stands s due D) (raise e) Q"
  by (rule valid_raise) (rule stands_legal)

lemma keeps_lift [triple]: "keeps s (stands s due D) (lift r)"
  by (rule valid_lift) (auto intro: stands_legal)

lemma keeps_unseen: "unseen f \<Longrightarrow> keeps s (stands s due D) (modify f)"
  by (rule valid_modify) (simp add: stands_unseen)

lemma keeps_option [triple]:
  "(x = None \<Longrightarrow> valid s P m Q) \<Longrightarrow> (\<And>y. x = Some y \<Longrightarrow> valid s P (f y) Q) \<Longrightarrow>
   valid s P (case x of None \<Rightarrow> m | Some y \<Rightarrow> f y) Q"
  by (cases x) auto

lemma keeps_sum [triple]:
  "(\<And>y. x = Inl y \<Longrightarrow> valid s P (g y) Q) \<Longrightarrow> (\<And>y. x = Inr y \<Longrightarrow> valid s P (f y) Q) \<Longrightarrow>
   valid s P (case x of Inl y \<Rightarrow> g y | Inr y \<Rightarrow> f y) Q"
  by (cases x) auto

lemma keeps_prod [triple]:
  "(\<And>y z. x = (y, z) \<Longrightarrow> valid s P (f y z) Q) \<Longrightarrow> valid s P (case x of (y, z) \<Rightarrow> f y z) Q"
  by (cases x) auto

lemma keeps_activity [triple]:
  "(x = ACTIVE \<Longrightarrow> valid s P m Q) \<Longrightarrow> (x = INACTIVE \<Longrightarrow> valid s P n Q) \<Longrightarrow>
   (\<And>v. x = UnexpectedActivity v \<Longrightarrow> valid s P (f v) Q) \<Longrightarrow>
   valid s P (case x of ACTIVE \<Rightarrow> m | INACTIVE \<Rightarrow> n | UnexpectedActivity v \<Rightarrow> f v) Q"
  by (cases x) auto

lemma keeps_bind [triple]:
  "keeps s P m \<Longrightarrow> (\<And>x. valid s P (f x) R) \<Longrightarrow> valid s P (bindR m f) R"
  by (rule valid_bind)

lemma keeps_then [triple]: "keeps s P m \<Longrightarrow> valid s P n R \<Longrightarrow> valid s P (thenR m n) R"
  by (rule valid_then)

lemmas [triple] = valid_if

lemma keeps_for_each:
  "(\<And>x. x \<in> set xs \<Longrightarrow> keeps s P (f x)) \<Longrightarrow> keeps s P (for_each f xs)"
  by (induction xs) (auto intro: triple)

lemma keeps_skip_if [triple]: "(\<not> b \<Longrightarrow> keeps s P m) \<Longrightarrow> keeps s P (skip_if b m)"
  by (simp add: skip_if_def keeps_ret)

end
