(* ===== verification/Controller_Safe.thy ===== *)
theory Controller_Safe
  imports Controller_Protocol
begin

text \<open>
  The controller follows its protocol. The handlers are verified once for any event
  processor with the protocol's contract, and the contract is proved for the processor of
  the code by induction on its fuel.
\<close>

section \<open>The other tasks\<close>

text \<open>A producer may publish a generation, and nothing else of it is seen.\<close>

lemma stands_published:
  assumes "stands s due D w" and "w_generation w \<le> g"
  shows "stands s due D (publish_generation (w\<lparr>w_generation := g\<rparr>))"
  using assms by (auto simp: stands_def publish_generation_def follow_snoc)

lemma unseen_put_built: "unseen (put_built f n b)"
  by (auto simp: unseen_def put_built_def put_def split: sum.split)

lemma unseen_put_result: "unseen (put_result r)"
  by (auto simp: unseen_def put_result_def put_def split: option.split sum.split)

lemmas unseen_puts = unseen_put_built [unfolded unseen_def, rule_format]
  unseen_put_result [unfolded unseen_def, rule_format]

lemma stands_produce: "stands s due D w \<Longrightarrow> stands s due D (produce null p w)"
proof (cases p)
  case (Hint n)
  moreover assume "stands s due D w"
  then have "stands s due D (publish_generation (w\<lparr>w_generation := w_generation w + 1\<rparr>))"
    by (rule stands_published) simp
  ultimately show ?thesis
    by (simp add: notify_drm_hint_def Let_def stands_unseen [OF unseen_put_built])
qed (auto simp: stands_unseen [OF unseen_put_built] stands_unseen [OF unseen_put_result] Let_def
      split: task_status.split option.split elim!: stands_cong [THEN iffD2, rotated -1])

lemma stands_produces:
  "stands s due D w \<Longrightarrow> stands s due D (foldl (\<lambda>w p. produce null p w) w ps)"
  by (induction ps arbitrary: w) (auto intro: stands_produce)

lemma keeps_meanwhile [triple]: "keeps s (stands s due D) (meanwhile env)"
  unfolding valid_def meanwhile_def
  by (auto simp: Let_def stands_cong [where w' = "w\<lparr>w_tick := n\<rparr>" for w n] intro: stands_produces)

lemma keeps_await [triple]: "keeps s (stands s due D) (await env f)"
  unfolding await_def by (intro triple)

section \<open>Building events\<close>

lemma keeps_must [triple]: "keeps s (stands s due D) (must f)"
  unfolding must_def by (intro triple)

lemma keeps_audit [triple]: "keeps s (stands s due D) (audit env)"
  unfolding audit_def by (intro triple)

lemma keeps_monotonic_ms [triple]: "keeps s (stands s due D) (monotonic_ms env)"
  unfolding monotonic_ms_def by (intro triple)

lemma keeps_finished_ms [triple]: "keeps s (stands s due D) (finished_ms env t)"
  unfolding finished_ms_def by (intro triple)

lemma keeps_metadata [triple]: "keeps s (stands s due D) (metadata env)"
  unfolding metadata_def by (intro triple)

lemma keeps_get_nowait [triple]: "keeps s (stands s due D) get_nowait"
  by (auto simp: valid_def get_nowait_def stands_legal split: list.split
      elim: stands_cong [THEN iffD2, rotated -1])

text \<open>The event a build returns is the one asked for.\<close>

lemma valid_built:
  "valid s (stands s due D) (lift (construct event_post_init (f m)))
     (\<lambda>e w. stands s due D w \<and> e = f m)"
  by (rule valid_lift) (auto intro: stands_legal)

lemma valid_event_now:
  "valid s (stands s due D) (event_now env f) (\<lambda>e w. stands s due D w \<and> (\<exists>m. e = f m))"
  unfolding event_now_def
  by (rule valid_bind [OF keeps_metadata]) (rule valid_conseq [OF valid_built], auto)

lemma valid_event_at:
  "valid s (stands s due D) (event_at n f) (\<lambda>e w. stands s due D w \<and> (\<exists>m. e = f m))"
  unfolding event_at_def
  by (rule valid_bind [OF keeps_gets], rule valid_bind [OF keeps_lift])
    (rule valid_conseq [OF valid_built], auto)

section \<open>Committing\<close>

lemma answers_None [simp]: "answers None e"
  by (simp add: answers_def)

lemma answers_dispatched [simp]: "answers (Some (x, u)) (dispatched_event x u m)"
  by (cases x) (simp_all add: answers_def)

text \<open>The new state with its effects decided, and its generation not yet published.\<close>

definition unpublished :: "origin \<Rightarrow> effect set \<Rightarrow> world \<Rightarrow> bool" where
  "unpublished s D w \<longleftrightarrow>
     (\<exists>p. follow (protocol_start s) (w_trace w) = Some p \<and> p_state p = w_state w \<and>
        p_open p = None \<and> p_shadow p = snd s \<and> D \<subseteq> set (p_decided p) \<and>
        state_generation (w_state w) \<le> w_generation w \<and> p_floor p \<le> w_generation w)"

lemma stands_publish_generation: "unpublished s D w \<Longrightarrow> stands s None D (publish_generation w)"
  by (auto simp: unpublished_def stands_def publish_generation_def follow_snoc)

lemma adopt_generation_ge: "state_generation t \<le> adopt_generation e t g"
  by (simp add: adopt_generation_def state_generation_def Let_def)

lemma adopt_generation_keeps: "\<not> is_boot_changed e \<Longrightarrow> g \<le> adopt_generation e t g"
  by (simp add: adopt_generation_def Let_def)

lemma persist_unpublished:
  assumes "stands s due D w" and "reduce (w_state w) e = Inr d" and "answers due e"
  shows "unpublished s (D \<union> set (dec_effects d)) (w\<lparr>
     w_trace := w_trace w @ [Committed e (dec_state d)], w_state := dec_state d,
     w_generation := adopt_generation e (dec_state d) (w_generation w)\<rparr>)"
  using assms
  by (auto simp: stands_def unpublished_def follow_snoc adopt_generation_ge
      intro: order_trans [OF _ adopt_generation_keeps])

lemma valid_persist:
  "valid s (\<lambda>w. stands s due D w \<and> answers due e \<and> reduce (w_state w) e = Inr d)
     (persist env e (dec_state d)) (\<lambda>_. unpublished s (D \<union> set (dec_effects d)))"
  unfolding persist_def must_def
proof (rule valid_then [OF valid_bind])
  let ?P = "\<lambda>w. stands s due D w \<and> answers due e \<and> reduce (w_state w) e = Inr d"
  show "keeps s ?P (ask (env_save env))"
    by (simp add: valid_def ask_def stands_cong [where w' = "w\<lparr>w_tick := n\<rparr>" for w n])
  show "keeps s ?P (case r of None \<Rightarrow> ret () | Some e \<Rightarrow> raise e)" for r
    by (auto simp: intro: valid_ret valid_raise stands_legal split: option.split)
qed (auto intro!: valid_modify persist_unpublished)

lemma keeps_rearm [triple]: "keeps s (stands s due D) rearm"
  unfolding rearm_def
  by (intro triple keeps_unseen) (simp add: unseen_def)

lemma keeps_reconcile [triple]: "keeps s (stands s due D) reconcile_worker_monitor"
  unfolding reconcile_worker_monitor_def by (rule keeps_unseen) (simp add: unseen_def)

lemma unseen_forget_worker: "unseen (forget_worker e)"
  by (auto simp: unseen_def forget_worker_def split: option.split)

lemma valid_commit:
  "valid s (\<lambda>w. stands s due D w \<and> answers due e) (commit env e)
     (\<lambda>d. stands s None (D \<union> set (dec_effects d)))"
  unfolding commit_def
proof (rule valid_bind)
  show "valid s (\<lambda>w. stands s due D w \<and> answers due e) (gets w_state)
      (\<lambda>x w. stands s due D w \<and> answers due e \<and> w_state w = x)"
    by (rule valid_gets) simp
next
  fix x
  show "valid s (\<lambda>w. stands s due D w \<and> answers due e \<and> w_state w = x)
     (bindR (lift (reduce x e)) (\<lambda>d.
     thenR (persist env e (dec_state d))
     (thenR (modify publish_generation)
     (thenR (audit env)
     (thenR (modify (forget_worker e))
     (thenR rearm
     (thenR reconcile_worker_monitor
     (ret d)))))))) (\<lambda>d. stands s None (D \<union> set (dec_effects d)))"
    apply (rule valid_bind [where Q = "\<lambda>d w. stands s due D w \<and> answers due e \<and> reduce (w_state w) e = Inr d"])
     apply (rule valid_lift; auto intro: stands_legal)
    apply (rule valid_then [OF valid_persist])
    apply (rule valid_then [OF valid_modify], erule stands_publish_generation)
    apply (intro triple keeps_unseen unseen_forget_worker valid_ret)
    apply assumption
    done
qed

section \<open>The handlers, for any event processor\<close>

locale event_processor =
  fixes s :: origin and env :: environment and proc :: processor
  assumes shadow: "snd s = env_null_dispatcher env"
    and proc_answers:
    "valid s (\<lambda>w. stands s due D w \<and> answers due e) (proc e) (\<lambda>_. stands s None D)"
begin

lemma keeps_process [triple]: "keeps s (stands s None D) (process proc e)"
  unfolding process_def
  by (rule keeps_bind [OF valid_conseq [OF proc_answers [where due = None]]])
    (auto intro: keeps_ret)

lemma keeps_process_now [triple]: "keeps s (stands s None D) (process_now env proc f)"
  unfolding process_now_def
  by (rule valid_bind [OF valid_conseq [OF valid_event_now, where Q' = "\<lambda>_. stands s None D"]])
    (auto intro: triple)

lemma keeps_process_at [triple]: "keeps s (stands s None D) (process_at n proc f)"
  unfolding process_at_def
  by (rule valid_bind [OF valid_conseq [OF valid_event_at, where Q' = "\<lambda>_. stands s None D"]])
    (auto intro: triple)

lemma keeps_deliver [triple]: "keeps s (stands s None D) (deliver_observation proc ob n)"
  unfolding deliver_observation_def
  by (intro triple keeps_unseen) (simp add: unseen_def)

lemma keeps_request_observation [triple]:
  "keeps s (stands s None D) (request_observation env proc)"
  unfolding request_observation_def
  by (intro triple keeps_unseen) (simp add: unseen_def)

lemma keeps_launch_plan:
  "plan_dispatched t a \<Longrightarrow> valid s (\<lambda>w. stands s None D w \<and> w_state w = t) (launch_plan a key)
     (\<lambda>_. stands s None D)"
  unfolding launch_plan_def
  by (rule valid_modify) (auto simp: stands_def follow_snoc)

lemma keeps_request_plan [triple]: "keeps s (stands s None D) (request_plan env proc a key)"
proof -
  have "keeps s (stands s None D)
      (bindR (gets w_state) (\<lambda>t. skip_if (\<not> plan_dispatched t a) (launch_plan a key)))"
    by (rule valid_bind [where Q = "\<lambda>t w. stands s None D w \<and> w_state w = t"])
      (auto simp: skip_if_def intro: valid_gets valid_ret keeps_launch_plan)
  then show ?thesis
    unfolding request_plan_def
    by (rule keeps_bind [OF keeps_gets, OF keeps_skip_if, OF keeps_then, OF keeps_process_now])
qed

lemma keeps_discard_plan [triple]: "keeps s (stands s due D) (discard_plan env a)"
  unfolding discard_plan_def by (intro triple)

lemma keeps_stop_sent:
  "\<not> env_null_dispatcher env \<Longrightarrow> stopping_worker t a = Some (Some (u, l)) \<Longrightarrow>
   valid s (\<lambda>w. stands s None D w \<and> w_state w = t)
     (modify (\<lambda>w. w\<lparr>w_trace := w_trace w @ [StopSent a l]\<rparr>)) (\<lambda>_. stands s None D)"
  by (rule valid_modify) (auto simp: stands_def follow_snoc shadow)

lemma keeps_report_unknown [triple]: "keeps s (stands s None D) (report_unknown env proc a r)"
  unfolding report_unknown_def by (intro triple)

lemma keeps_query_after_stop [triple]: "keeps s (stands s None D) (query_after_stop env proc a)"
  unfolding query_after_stop_def acknowledge_stop_def by (intro triple)

lemma keeps_stop_action [triple]: "keeps s (stands s None D) (stop_action env proc a)"
proof -
  let ?at = "\<lambda>t w. stands s None D w \<and> w_state w = t"
  have "keeps s (stands s None D) (bindR (gets w_state) (\<lambda>t.
        case stopping_worker t a of
          None \<Rightarrow> raise plan_key_error
        | Some None \<Rightarrow> ret ()
        | Some (Some (u, l)) \<Rightarrow>
            thenR (modify (\<lambda>w. w\<lparr>w_trace := w_trace w @ [StopSent a l]\<rparr>))
            (bindR (await env (env_stop env)) (\<lambda>failure.
             case failure of
               Some x \<Rightarrow> report_unknown env proc a (bounded_reason ''stop'' (exception_detail x))
             | None \<Rightarrow> query_after_stop env proc a))))"
    if live: "\<not> env_null_dispatcher env"
  proof (rule valid_bind [where Q = ?at])
    show "valid s (stands s None D) (gets w_state) ?at" by (rule valid_gets) simp
    show "valid s (?at t) (case stopping_worker t a of
          None \<Rightarrow> raise plan_key_error
        | Some None \<Rightarrow> ret ()
        | Some (Some (u, l)) \<Rightarrow>
            thenR (modify (\<lambda>w. w\<lparr>w_trace := w_trace w @ [StopSent a l]\<rparr>))
            (bindR (await env (env_stop env)) (\<lambda>failure.
             case failure of
               Some x \<Rightarrow> report_unknown env proc a (bounded_reason ''stop'' (exception_detail x))
             | None \<Rightarrow> query_after_stop env proc a))) (\<lambda>_. stands s None D)" for t
      by (intro keeps_option keeps_prod valid_ret valid_raise valid_then [OF keeps_stop_sent [OF live]])
        (auto intro: stands_legal triple)
  qed
  then show ?thesis unfolding stop_action_def by (auto intro: triple)
qed

section \<open>Dispatching\<close>

lemma keeps_fenced [triple]:
  "keeps s (stands s due D) m \<Longrightarrow> keeps s (stands s due D) (finally_do m
     (\<lambda>w. w\<lparr>w_fence_depth := w_fence_depth w - 1\<rparr>))"
  by (erule valid_finally) (auto elim: stands_cong [THEN iffD2, rotated -1])

lemma keeps_raise_fence [triple]:
  "keeps s (stands s due D) (modify (\<lambda>w. w\<lparr>w_fence_depth := w_fence_depth w + 1\<rparr>))"
  by (rule keeps_unseen) (simp add: unseen_def)

lemma keeps_record_dirty_admission [triple]:
  "keeps s (stands s None D) (record_dirty_admission env proc a)"
  unfolding record_dirty_admission_def by (intro triple)

lemma keeps_drain [triple]: "keeps s (stands s None D) (drain proc n)"
  by (induction n) (auto intro: triple)

lemma keeps_pre_dispatch_fence [triple]:
  "keeps s (stands s None D) (pre_dispatch_fence env proc a g)"
  unfolding pre_dispatch_fence_def drain_pre_dispatch_events_def by (intro triple)

lemma keeps_reject_dispatch [triple]:
  "keeps s (stands s None D) (reject_dispatch env proc a reason)"
  unfolding reject_dispatch_def by (intro triple)

lemma keeps_discard_prepared [triple]: "keeps s (stands s due D) (discard_prepared env)"
  unfolding discard_prepared_def by (intro triple)

lemma keeps_records [triple]:
  "keeps s (stands s due D) (modify (\<lambda>w. w\<lparr>w_records := records\<rparr>))"
  by (rule keeps_unseen) (simp add: unseen_def)

lemma keeps_worker_started [triple]:
  "keeps s (stands s due D)
     (modify (\<lambda>w. w\<lparr>w_worker_started := AList.update a n (w_worker_started w)\<rparr>))"
  by (rule keeps_unseen) (simp add: unseen_def)

lemma keeps_record_null_dispatch [triple]:
  "keeps s (stands s None D) (record_null_dispatch env proc e a)"
  unfolding record_null_dispatch_def by (intro triple)

lemma keeps_handle_final_fence_rejection [triple]:
  "keeps s (stands s None D) (handle_final_fence_rejection env proc a g)"
  unfolding handle_final_fence_rejection_def by (intro triple)

text \<open>A prepared dispatch has passed its constructor, so its unit is the action's.\<close>

lemma valid_write_dispatch_request:
  "valid s (stands s None D) (write_dispatch_request env proc e a)
     (\<lambda>r w. stands s None D w \<and> (\<forall>p. r = Some p \<longrightarrow> unit_action_id (pd_unit p) = a))"
proof -
  let ?Q = "\<lambda>r w. stands s None D w \<and> (\<forall>p. r = Some p \<longrightarrow> unit_action_id (pd_unit p) = a)"
  have none: "valid s (stands s None D) (ret None) ?Q" by (rule valid_ret) simp
  have some: "valid s (stands s None D) (ret (Some p)) ?Q"
    if "PreparedDispatch_post_init p = Inr u" and "pd_action_id p = a" for p u
  proof (rule valid_ret)
    have "passes (PreparedDispatch_post_init p)" using that(1) by (simp add: passes_def)
    then show "?Q (Some p) w" if "stands s None D w" for w
      using \<open>pd_action_id p = a\<close> that by (simp add: PreparedDispatch_post_init_def)
  qed
  show ?thesis
    unfolding write_dispatch_request_def Let_def
    by (intro triple none some)
qed

text \<open>The submission is allowed by the protocol in the very step the fence passes.\<close>

lemma stands_submitted:
  assumes "stands s None D w" and "\<not> env_null_dispatcher env" and "final_dispatch_fence_passes w a g" and "e \<in> D"
    and "effect_action_id e = Some a" and "admitted_generation e = Some g"
    and "unit_action_id u = a"
  shows "stands s (Some (e, u)) D (w\<lparr>w_trace := w_trace w @ [Submitted e u (w_generation w)]\<rparr>)"
  using assms
  by (auto simp: stands_def follow_snoc submittable_def final_dispatch_fence_passes_def shadow)

fun due_after ::
  "effect \<Rightarrow> worker_unit \<Rightarrow> start_answer \<Rightarrow> (effect \<times> worker_unit) option \<Rightarrow> bool"
where
  "due_after e u FenceRejected due \<longleftrightarrow> due = None"
| "due_after e u (StartError text None) due \<longleftrightarrow> due = None"
| "due_after e u (StartException x) due \<longleftrightarrow> due = None \<or> due = Some (e, u)"
| "due_after e u answer due \<longleftrightarrow> due = Some (e, u)"

lemma due_after_submission: "due_after e u (submission_answer x) (Some (e, u))"
  by (cases x) (auto split: sum.split)

lemma valid_submit:
  assumes "e \<in> D" and "effect_action_id e = Some a" and "admitted_generation e = Some g"
    and "unit_action_id (pd_unit p) = a" and "\<not> env_null_dispatcher env"
  shows "valid s (\<lambda>w. stands s None D w \<and> final_dispatch_fence_passes w a g)
     (thenR (modify (\<lambda>w. w\<lparr>w_trace := w_trace w @ [Submitted e (pd_unit p) (w_generation w)]\<rparr>))
       (thenR (meanwhile env) (ret (submission_answer x))))
     (\<lambda>r w. \<exists>due. due_after e (pd_unit p) r due \<and> stands s due D w)"
proof (rule valid_then)
  show "valid s (\<lambda>w. stands s None D w \<and> final_dispatch_fence_passes w a g)
     (modify (\<lambda>w. w\<lparr>w_trace := w_trace w @ [Submitted e (pd_unit p) (w_generation w)]\<rparr>))
     (\<lambda>_. stands s (Some (e, pd_unit p)) D)"
    using assms by (auto intro: valid_modify stands_submitted)
  show "valid s (stands s (Some (e, pd_unit p)) D)
      (thenR (meanwhile env) (ret (submission_answer x)))
      (\<lambda>r w. \<exists>due. due_after e (pd_unit p) r due \<and> stands s due D w)"
    by (intro triple valid_ret) (blast intro: due_after_submission)
qed

lemma valid_start_worker:
  assumes "e \<in> D" and "effect_action_id e = Some a" and "admitted_generation e = Some g"
    and "unit_action_id (pd_unit p) = a" and "\<not> env_null_dispatcher env"
  shows "valid s (stands s None D) (start_worker env e a g p)
     (\<lambda>r w. \<exists>due. due_after e (pd_unit p) r due \<and> stands s due D w)"
    (is "valid s ?P _ ?Q")
proof -
  have settled: "valid s ?P (ret r) ?Q" if "due_after e (pd_unit p) r None" for r
    using that by (blast intro: valid_ret)
  have fence: "valid s ?P (gets (\<lambda>w. final_dispatch_fence_passes w a g))
      (\<lambda>b w. ?P w \<and> (b \<longrightarrow> final_dispatch_fence_passes w a g))"
    by (rule valid_gets) simp
  have submits: "valid s (\<lambda>w. ?P w \<and> (b \<longrightarrow> final_dispatch_fence_passes w a g))
      (if \<not> b then ret FenceRejected
       else thenR (modify (\<lambda>w. w\<lparr>w_trace := w_trace w @ [Submitted e (pd_unit p) (w_generation w)]\<rparr>))
              (thenR (meanwhile env) (ret (submission_answer x)))) ?Q" for b x
    using valid_submit [OF assms] settled [of FenceRejected]
    by (cases b) (auto intro: valid_conseq)
  have script: "valid s ?P (case script of
       StartDeclined \<Rightarrow> ret FenceRejected
     | StartRefused x \<Rightarrow> ret (StartError (dae_text x) None)
     | StartLost x \<Rightarrow> ret (StartException x)
     | StartSubmits submission \<Rightarrow>
         bindR (gets (\<lambda>w. final_dispatch_fence_passes w a g)) (\<lambda>passes.
         if \<not> passes then ret FenceRejected
         else
           thenR (modify (\<lambda>w. w\<lparr>w_trace := w_trace w @
             [Submitted e (pd_unit p) (w_generation w)]\<rparr>))
           (thenR (meanwhile env) (ret (submission_answer submission))))) ?Q" for script
    by (cases script) (simp_all add: settled valid_bind [OF fence submits])
  show ?thesis
    unfolding start_worker_def by (rule keeps_bind [OF keeps_await script])
qed

text \<open>The due acknowledgement may be given, whether or not one is due.\<close>

definition payable :: "effect \<Rightarrow> worker_unit \<Rightarrow> (effect \<times> worker_unit) option \<Rightarrow> bool" where
  "payable e u due \<longleftrightarrow> due = None \<or> due = Some (e, u)"

lemma valid_process_dispatched:
  assumes "payable e u due"
  shows "valid s (stands s due D) (process_at n proc (dispatched_event e u)) (\<lambda>_. stands s None D)"
  unfolding process_at_def process_def
proof (rule valid_bind [OF valid_event_at])
  fix ev
  have "stands s due D w \<and> answers due ev"
    if "stands s due D w \<and> (\<exists>m. ev = dispatched_event e u m)" for w
    using that assms by (auto simp: payable_def)
  then show "valid s (\<lambda>w. stands s due D w \<and> (\<exists>m. ev = dispatched_event e u m))
      (bindR (proc ev) (\<lambda>_. ret ())) (\<lambda>_. stands s None D)"
    by (rule valid_bind [OF valid_conseq [OF proc_answers, where Q' = "\<lambda>_. stands s None D"]])
      (auto intro: keeps_ret)
qed

lemma valid_acknowledge_dispatch:
  "payable e (pd_unit p) due \<Longrightarrow>
   valid s (stands s due D) (acknowledge_dispatch env proc e a p n) (\<lambda>_. stands s None D)"
  unfolding acknowledge_dispatch_def
  by (intro triple valid_process_dispatched)

lemma valid_mark_dispatch_uncertain:
  "payable e (pd_unit p) due \<Longrightarrow>
   valid s (stands s due D) (mark_dispatch_uncertain env proc e a p b x n) (\<lambda>_. stands s None D)"
  unfolding mark_dispatch_uncertain_def Let_def
  by (intro triple valid_then [OF valid_process_dispatched])

lemma valid_complete_definitely_rejected_start:
  "payable e (pd_unit p) due \<Longrightarrow>
   valid s (stands s due D) (complete_definitely_rejected_start env proc e a p text c n)
     (\<lambda>_. stands s None D)"
  unfolding complete_definitely_rejected_start_def
  by (intro triple valid_mark_dispatch_uncertain valid_then [OF valid_acknowledge_dispatch])

lemma keeps_start_prepared:
  assumes "e \<in> D" and "effect_action_id e = Some a" and "admitted_generation e = Some g"
    and "unit_action_id (pd_unit p) = a" and "\<not> env_null_dispatcher env"
  shows "keeps s (stands s None D) (start_prepared env proc e a g p n)"
  unfolding start_prepared_def
proof (rule valid_bind [OF valid_start_worker [OF assms]])
  fix r
  have settle: "valid s (\<lambda>w. \<exists>due. due_after e (pd_unit p) r due \<and> stands s due D w) m
      (\<lambda>_. stands s None D)"
    if "\<And>due. due_after e (pd_unit p) r due \<Longrightarrow>
      valid s (stands s due D) m (\<lambda>_. stands s None D)" for m :: "unit rt"
    using that by (auto simp: valid_def)
  show "valid s (\<lambda>w. \<exists>due. due_after e (pd_unit p) r due \<and> stands s due D w)
     (case r of
       Accepted \<Rightarrow> acknowledge_dispatch env proc e a p n
     | FenceRejected \<Rightarrow> handle_final_fence_rejection env proc a g
     | StartError text None \<Rightarrow>
         thenR (discard_prepared env) (reject_dispatch env proc a text)
     | StartError text (Some c) \<Rightarrow>
         complete_definitely_rejected_start env proc e a p text c n
     | StartException x \<Rightarrow> mark_dispatch_uncertain env proc e a p ''unit_start'' x n
     | StartUnexpected v \<Rightarrow>
         mark_dispatch_uncertain env proc e a p ''unit_start_result''
           (Exn ''TypeError'' (''unexpected start result: '' @ v)) n) (\<lambda>_. stands s None D)"
    by (rule settle, cases "(e, pd_unit p, r, None :: (effect \<times> worker_unit) option)"
          rule: due_after.cases)
      (auto simp: payable_def intro: valid_acknowledge_dispatch valid_mark_dispatch_uncertain
        valid_complete_definitely_rejected_start triple)
qed

lemma keeps_dispatch:
  assumes "e \<in> D" and "effect_action_id e = Some a" and "admitted_generation e = Some g"
  shows "keeps s (stands s None D) (dispatch env proc e a g)"
proof (cases "env_null_dispatcher env")
  case True
  then show ?thesis unfolding dispatch_def by (auto intro: triple)
next
  case live: False
  have "valid s (\<lambda>w. stands s None D w \<and> (\<forall>p. r = Some p \<longrightarrow> unit_action_id (pd_unit p) = a))
      (case r of None \<Rightarrow> ret ()
       | Some p \<Rightarrow> bindR (pre_dispatch_fence env proc a g) (\<lambda>still_open.
           if \<not> still_open then discard_prepared env
           else start_prepared env proc e a g p n)) (\<lambda>_. stands s None D)" for r n
    by (cases r) (simp_all add: valid_ret, intro triple valid_pure keeps_start_prepared assms live)
  then have "valid s (stands s None D)
      (bindR (monotonic_ms env) (\<lambda>n. bindR (write_dispatch_request env proc e a) (\<lambda>r.
         case r of None \<Rightarrow> ret ()
         | Some p \<Rightarrow> bindR (pre_dispatch_fence env proc a g) (\<lambda>still_open.
             if \<not> still_open then discard_prepared env
             else start_prepared env proc e a g p n)))) (\<lambda>_. stands s None D)"
    by (rule keeps_bind [OF keeps_monotonic_ms valid_bind [OF valid_write_dispatch_request]])
  then show ?thesis
    unfolding dispatch_def
    by (intro keeps_bind [OF keeps_pre_dispatch_fence] valid_if keeps_ret
        keeps_record_null_dispatch)
qed

text \<open>The contract of one effect.\<close>

lemma keeps_handle_effect:
  "e \<in> D \<Longrightarrow> keeps s (stands s None D) (handle_effect env proc e)"
  by (cases e) (auto intro!: triple keeps_dispatch)

end

section \<open>The controller\<close>

lemma process_event_answers:
  assumes "snd s = env_null_dispatcher env"
  shows "valid s (\<lambda>w. stands s due D w \<and> answers due e) (process_event fuel env e)
     (\<lambda>_. stands s None D)"
proof (induction fuel arbitrary: due D e)
  case 0
  then show ?case by (auto intro: valid_exhausted stands_legal)
next
  case (Suc fuel)
  then have p: "event_processor s env (process_event fuel env)"
    using assms by unfold_locales
  show ?case
    unfolding process_event.simps
  proof (rule valid_bind [OF valid_commit])
    fix d :: decision
    let ?D = "D \<union> set (dec_effects d)"
    have "keeps s (stands s None ?D)
        (thenR (for_each (handle_effect env (process_event fuel env)) (dec_effects d))
           (thenR rearm (ret d)))"
      by (intro triple keeps_for_each event_processor.keeps_handle_effect [OF p]) simp
    then show "valid s (stands s None ?D)
        (thenR (for_each (handle_effect env (process_event fuel env)) (dec_effects d))
           (thenR rearm (ret d))) (\<lambda>_. stands s None D)"
      by (rule valid_conseq) (auto elim: stands_subset)
  qed
qed

interpretation runtime: event_processor "(s, env_null_dispatcher env)" env "process_event fuel env"
  for s env fuel
  by unfold_locales (auto intro: process_event_answers)

end
