(* ===== verification/Controller_Scenario.thy ===== *)
theory Controller_Scenario
  imports Controller_Loop Scenario
begin

text \<open>
  A service of the controller evaluated: it starts, observes the docked monitor, admits
  the application of its profile, submits the worker and acknowledges the submission. The
  environment answers every adapter call at once.
\<close>

definition sample_application :: action_id where
  "sample_application = sample_action APPLICATION 1"

definition sample_prepared :: prepared_dispatch where
  "sample_prepared = \<lparr> pd_action_id = sample_application,
     pd_unit = sample_unit sample_application, pd_reference = ''request'',
     pd_request_sha256 = None \<rparr>"

definition sample_environment :: environment where
  "sample_environment = \<lparr>
     env_null_dispatcher = False, env_clock = \<lambda>n. 100 + int n, env_meanwhile = \<lambda>n. [],
     env_save = \<lambda>_. None, env_audit = \<lambda>_. None,
     env_observe = \<lambda>_. Inr (sample_observation 1 100 False),
     env_write_request = \<lambda>_. Inr sample_prepared,
     env_start = \<lambda>_. StartSubmits SubmissionAccepted,
     env_discard_prepared = \<lambda>_. None, env_stop = \<lambda>_. None,
     env_activity = \<lambda>_. Inr ACTIVE, env_completion = \<lambda>_. Inr None,
     env_revoke_plan = \<lambda>_. None, env_discard_plan = \<lambda>_. None,
     env_cancel_pending = \<lambda>_. False \<rparr>"

definition sample_trace :: "boundary list" where
  "sample_trace = w_trace (snd (service sample_start 1 4 sample_environment))"

fun is_submission :: "boundary \<Rightarrow> bool" where
  "is_submission (Submitted x u g) = True"
| "is_submission _ = False"

text \<open>A submission directly followed by a commit, and two publications in one boot.\<close>

fun submits_and_commits :: "boundary list \<Rightarrow> bool" where
  "submits_and_commits (Submitted x u g # Committed e t # bs) = True"
| "submits_and_commits (b # bs) = submits_and_commits bs"
| "submits_and_commits [] = False"

fun publishes_again :: "boundary list \<Rightarrow> bool" where
  "publishes_again (Published g # Committed e t # Published h # bs) = (\<not> is_boot_changed e)"
| "publishes_again (b # bs) = publishes_again bs"
| "publishes_again [] = False"

definition sample_checks :: "boundary list \<Rightarrow> bool" where
  "sample_checks tr \<longleftrightarrow> submits_and_commits tr \<and> publishes_again tr"

lemma sample_checked: "sample_checks sample_trace"
  by code_simp

lemma submits_and_commitsD:
  "submits_and_commits tr \<Longrightarrow>
   \<exists>pre x u g e t post. tr = pre @ Submitted x u g # Committed e t # post"
proof (induction tr rule: submits_and_commits.induct)
  case (1 x u g e t bs)
  show ?case by (rule exI [of _ "[]"]) simp
qed (simp_all, (metis append_Cons)+)

lemma publishes_againD:
  "publishes_again tr \<Longrightarrow>
   \<exists>pre g e t h post. tr = pre @ Published g # Committed e t # Published h # post \<and>
     \<not> is_boot_changed e"
proof (induction tr rule: publishes_again.induct)
  case (1 g e t h bs)
  then show ?case by (intro exI [of _ "[]"]) auto
qed (simp_all, (metis append_Cons)+)

section \<open>Shadow mode, and a planner\<close>

definition sample_shadow :: environment where
  "sample_shadow = sample_environment\<lparr>env_null_dispatcher := True\<rparr>"

text \<open>The null dispatcher records the application it would have dispatched.\<close>

lemma sample_shadow_records:
  "map wd_kind (w_records (snd (service sample_start 1 4 sample_shadow))) = [WOULD_APPLY]"
  by code_simp

text \<open>After the application, the first observation of its result starts a planner.\<close>

definition sample_verifying :: environment where
  "sample_verifying = sample_environment\<lparr>env_clock := \<lambda>n. 1000 + int n,
     env_observe := \<lambda>_. Inr (sample_observation 2 1000 True)\<rparr>"

definition sample_plan_trace :: "boundary list" where
  "sample_plan_trace = w_trace (snd (service (sample_state 3) 1 4 sample_verifying))"

fun starts_plan :: "boundary list \<Rightarrow> bool" where
  "starts_plan (PlanStarted a # bs) = True"
| "starts_plan (b # bs) = starts_plan bs"
| "starts_plan [] = False"

lemma sample_starts_plan: "starts_plan sample_plan_trace"
  by code_simp

lemma starts_planD: "starts_plan tr \<Longrightarrow> \<exists>pre a post. tr = pre @ PlanStarted a # post"
proof (induction tr rule: starts_plan.induct)
  case (1 a bs)
  show ?case by (rule exI [of _ "[]"]) simp
qed (simp_all, (metis append_Cons)+)

end
