(* ===== verification/Controller_Guarantees.thy ===== *)
theory Controller_Guarantees
  imports Controller_Safe Controller_Scenario
begin

text \<open>
  The properties of the running controller, from its construction on a recovered state,
  for every behaviour of the adapters and of the other tasks.
\<close>

section \<open>The service follows the protocol\<close>

lemma keeps_put: "keeps s (stands s due D) (modify (put e))"
  by (rule keeps_unseen) (simp add: unseen_def put_def)

lemma keeps_start_controller: "keeps s (stands s None D) (start_controller env)"
  unfolding start_controller_def
  by (intro triple valid_bind [OF valid_conseq [OF valid_event_now, where Q' = "\<lambda>_. stands s None D"]]
      keeps_put keeps_unseen)
    (auto simp: unseen_def intro: triple)

lemma keeps_process_next:
  "keeps (s, env_null_dispatcher env) (stands (s, env_null_dispatcher env) None D)
     (process_next fuel env)"
  unfolding process_next_def by (intro triple runtime.keeps_process)

lemma keeps_run_service:
  "keeps (s, env_null_dispatcher env) (stands (s, env_null_dispatcher env) None D)
     (run_service n fuel env)"
  by (induction n) (auto intro: triple keeps_process_next)

lemma service_legal: "legal (s, env_null_dispatcher env) (snd (service s n fuel env))"
proof -
  let ?o = "(s, env_null_dispatcher env)"
  have "keeps ?o (stands ?o None {}) (thenR (start_controller env) (run_service n fuel env))"
    by (intro triple keeps_start_controller keeps_run_service)
  then have "ends_well ?o (\<lambda>_. stands ?o None {}) (service s n fuel env)"
    unfolding valid_def service_def using stands_new by blast
  then show ?thesis
    by (cases "service s n fuel env"; cases "fst (service s n fuel env)") (auto dest: stands_legal)
qed

section \<open>Reading a trace\<close>

text \<open>The last persisted state, the events it is the result of, and the fence file.\<close>

fun persisted :: "state \<Rightarrow> boundary list \<Rightarrow> state" where
  "persisted s [] = s"
| "persisted s (Committed e t # bs) = persisted t bs"
| "persisted s (_ # bs) = persisted s bs"

fun committed_events :: "boundary list \<Rightarrow> event list" where
  "committed_events [] = []"
| "committed_events (Committed e t # bs) = e # committed_events bs"
| "committed_events (_ # bs) = committed_events bs"


fun is_publication :: "boundary \<Rightarrow> bool" where
  "is_publication (Published g) = True"
| "is_publication _ = False"

fun changes_boot :: "boundary \<Rightarrow> bool" where
  "changes_boot (Committed e t) = is_boot_changed e"
| "changes_boot _ = False"

fun acknowledgement_metadata :: "boundary \<Rightarrow> event_metadata" where
  "acknowledgement_metadata (Committed e t) = event_metadata_of e"
| "acknowledgement_metadata _ = \<lparr> processed_at_ms = 0, md_boot_id = BootId 0 \<rparr>"


lemma follow_persisted: "follow p bs = Some q \<Longrightarrow> p_state q = persisted (p_state p) bs"
  by (induction bs arbitrary: p rule: committed_events.induct)
    (auto split: option.splits sum.splits if_splits)




lemma follow_floor:
  "follow p bs = Some q \<Longrightarrow> list_all (\<lambda>b. \<not> changes_boot b) bs \<Longrightarrow> p_floor p \<le> p_floor q"
  by (induction bs arbitrary: p rule: committed_events.induct)
    (force split: option.splits sum.splits if_splits)+

text \<open>A split of the service's trace is a split of an accepted one.\<close>

lemma service_split:
  assumes "w_trace (snd (service s n fuel env)) = pre @ b # post"
  obtains p q where "follow (protocol_start (s, env_null_dispatcher env)) pre = Some p" and "protocol_step p b = Some q"
    and "follow q post \<noteq> None"
proof -
  have "follow (protocol_start (s, env_null_dispatcher env)) (pre @ b # post) \<noteq> None"
    using service_legal [of s env n fuel] assms by (auto simp: legal_def)
  then show ?thesis by (elim follow_appendD follow_ConsD) (rule that)
qed

section \<open>What the service guarantees\<close>


text \<open>
  Every state the service persists, before any of its effects is carried out, satisfies
  the whole of \<^verbatim>\<open>assert_controller_invariants\<close>.\<close>

theorem service_persists_valid_states:
  "list_all (\<lambda>b. case b of Committed e t \<Rightarrow> passes (assert_controller_invariants t) | _ \<Rightarrow> True)
     (w_trace (snd (service s n fuel env)))"
proof -
  have "passes (assert_controller_invariants t)"
    if mem: "Committed e t \<in> set (w_trace (snd (service s n fuel env)))" for e t
  proof -
    obtain pre post where "w_trace (snd (service s n fuel env)) = pre @ Committed e t # post"
      using split_list [OF mem] by blast
    then obtain p q where "protocol_step p (Committed e t) = Some q" by (rule service_split)
    then show ?thesis by (auto split: sum.splits if_splits dest: reduce_decided)
  qed
  then show ?thesis by (auto simp: list_all_iff split: boundary.split)
qed



lemma publications_keep:
  "follow p bs = Some q \<Longrightarrow> list_all is_publication bs \<Longrightarrow> p_open q = p_open p \<and> p_state q = p_state p"
  by (induction bs arbitrary: p rule: committed_events.induct) (auto split: option.splits if_splits)

text \<open>C13
  Once a worker has been submitted, nothing but hints publishing their generation happens
  before its acknowledgement: the next thing the controller does is to reduce, in the
  state that was fenced, and to persist the dispatch of that unit. No timer, result or
  other event of the queue, no stop and no second submission comes between.\<close>

theorem submissions_are_acknowledged_next:
  assumes "w_trace (snd (service s n fuel env)) = pre @ Submitted x u g # mid @ b # post"
    and "list_all is_publication mid" and "\<not> is_publication b"
  shows "returns (reduce (persisted s pre) (dispatched_event x u (acknowledgement_metadata b)))
    (\<lambda>d. b = Committed (dispatched_event x u (acknowledgement_metadata b)) (dec_state d))"
proof -
  obtain p q where p: "follow (protocol_start (s, env_null_dispatcher env)) pre = Some p"
    and q: "protocol_step p (Submitted x u g) = Some q" "follow q (mid @ b # post) \<noteq> None"
    using assms(1) by (rule service_split)
  then obtain r t where r: "follow q mid = Some r" and t: "protocol_step r b = Some t"
    by (elim follow_appendD follow_ConsD)
  have open_r: "p_open r = Some (x, u)" "p_state r = persisted s pre"
    using publications_keep [OF r assms(2)] q(1) follow_persisted [OF p]
    by (auto simp: protocol_start_def split: if_splits)
  show ?thesis
    using t open_r assms(3)
    by (cases b) (auto simp: answers_def returns_def submittable_def split: sum.splits if_splits
        option.splits prod.splits)
qed

theorem submissions_are_acknowledged_next_witness:
  "\<exists>pre x u g e t post. sample_trace = pre @ Submitted x u g # Committed e t # post \<and>
     returns (reduce (persisted sample_start pre) (dispatched_event x u (event_metadata_of e)))
       (\<lambda>d. e = dispatched_event x u (event_metadata_of e) \<and> t = dec_state d)"
proof -
  obtain pre x u g e t post where tr: "sample_trace = pre @ Submitted x u g # Committed e t # post"
    using sample_checked submits_and_commitsD unfolding sample_checks_def by blast
  with submissions_are_acknowledged_next
    [of sample_start 1 4 sample_environment pre x u g "[]" "Committed e t" post]
  have "returns (reduce (persisted sample_start pre) (dispatched_event x u (event_metadata_of e)))
      (\<lambda>d. Committed e t = Committed (dispatched_event x u (event_metadata_of e)) (dec_state d))"
    by (simp add: sample_trace_def)
  then have "returns (reduce (persisted sample_start pre)
      (dispatched_event x u (event_metadata_of e)))
      (\<lambda>d. e = dispatched_event x u (event_metadata_of e) \<and> t = dec_state d)"
    by (rule returns_mono) simp
  with tr show ?thesis by blast
qed

text \<open>C17
  Between two publications without a change of boot, the generation in the fence file does
  not fall: a worker whose admission a hint has overtaken never finds its generation there
  again.\<close>

theorem fence_never_reopens:
  assumes "w_trace (snd (service s n fuel env)) = pre @ Published g # mid @ Published h # post"
    and "list_all (\<lambda>b. \<not> changes_boot b) mid"
  shows "g \<le> h"
proof -
  obtain p q where q: "protocol_step p (Published g) = Some q"
      "follow q (mid @ Published h # post) \<noteq> None"
    using assms(1) by (rule service_split)
  then obtain r t where r: "follow q mid = Some r" and t: "protocol_step r (Published h) = Some t"
    by (elim follow_appendD follow_ConsD)
  from follow_floor [OF r assms(2)] q(1) t show ?thesis by (auto split: if_splits)
qed

theorem fence_never_reopens_witness:
  "\<exists>pre g e t h post. sample_trace = pre @ Published g # Committed e t # Published h # post \<and>
     g \<le> h"
proof -
  obtain pre g e t h post
    where tr: "sample_trace = pre @ Published g # Committed e t # Published h # post"
      and "\<not> is_boot_changed e"
    using sample_checked publishes_againD unfolding sample_checks_def by blast
  with fence_never_reopens
    [of sample_start 1 4 sample_environment pre g "[Committed e t]" h post]
  have "g \<le> h" by (simp add: sample_trace_def)
  with tr show ?thesis by blast
qed

lemma follow_shadow: "follow p bs = Some q \<Longrightarrow> p_shadow q = p_shadow p"
  by (induction bs arbitrary: p rule: committed_events.induct)
    (auto split: option.splits sum.splits if_splits)

fun acts_on_workers :: "boundary \<Rightarrow> bool" where
  "acts_on_workers (Submitted x u g) = True"
| "acts_on_workers (StopSent a l) = True"
| "acts_on_workers _ = False"

text \<open>C21
  With the null dispatcher the service neither submits nor stops a worker, whatever it
  observes and decides.\<close>

theorem shadow_mode_never_acts:
  assumes "env_null_dispatcher env"
  shows "list_all (\<lambda>b. \<not> acts_on_workers b) (w_trace (snd (service s n fuel env)))"
proof -
  have "\<not> acts_on_workers b" if mem: "b \<in> set (w_trace (snd (service s n fuel env)))" for b
  proof -
    obtain pre post where "w_trace (snd (service s n fuel env)) = pre @ b # post"
      using split_list [OF mem] by blast
    then obtain p q where "follow (protocol_start (s, env_null_dispatcher env)) pre = Some p"
      and step: "protocol_step p b = Some q" by (rule service_split)
    then have "p_shadow p" using follow_shadow assms by (fastforce simp: protocol_start_def)
    with step show ?thesis
      by (cases b) (auto simp: submittable_def split: option.splits if_splits)
  qed
  then show ?thesis by (simp add: list_all_iff)
qed

theorem shadow_mode_never_acts_witness:
  "map wd_kind (w_records (snd (service sample_start 1 4 sample_shadow))) = [WOULD_APPLY] \<and>
   list_all (\<lambda>b. \<not> acts_on_workers b) (w_trace (snd (service sample_start 1 4 sample_shadow)))"
proof -
  have "env_null_dispatcher sample_shadow" by (simp add: sample_shadow_def)
  then show ?thesis using sample_shadow_records shadow_mode_never_acts by blast
qed

text \<open>C25
  A worker is only stopped, and a planner only started, while the persisted state says so:
  the worker is stopping, with the lifecycle its end will be recorded under, and the plan
  has been requested.\<close>

theorem stops_and_plans_follow_the_state:
  assumes "w_trace (snd (service s n fuel env)) = pre @ b # post"
  shows "case b of
      StopSent a l \<Rightarrow> \<exists>u. stopping_worker (persisted s pre) a = Some (Some (u, l))
    | PlanStarted a \<Rightarrow> plan_dispatched (persisted s pre) a
    | _ \<Rightarrow> True"
proof -
  obtain p q where p: "follow (protocol_start (s, env_null_dispatcher env)) pre = Some p"
    and step: "protocol_step p b = Some q"
    using assms by (rule service_split)
  with follow_persisted [OF p] show ?thesis
    by (cases b) (auto simp: protocol_start_def split: option.splits if_splits)
qed

theorem stops_and_plans_follow_the_state_witness:
  "\<exists>pre a post. sample_plan_trace = pre @ PlanStarted a # post \<and>
     plan_dispatched (persisted (sample_state 3) pre) a"
proof -
  obtain pre a post where tr: "sample_plan_trace = pre @ PlanStarted a # post"
    using sample_starts_plan starts_planD by blast
  with stops_and_plans_follow_the_state [of "sample_state 3" 1 4 sample_verifying pre "PlanStarted a"]
  show ?thesis by (auto simp: sample_plan_trace_def)
qed

end
