(* ===== verification/Request_Guarantees.thy ===== *)
theory Request_Guarantees
  imports Request_Context Scenario
begin

text \<open>
  What a worker may rely on in its request: the request is built from the persisted state
  only when that state still proves the admission.
\<close>

section \<open>The proofs inside a request\<close>













end
