(* ===== verification/Layout_Text.thy ===== *)
theory Layout_Text
  imports Py_Strings
begin

text \<open>
  The text operations of \<^verbatim>\<open>desktop/layout.py\<close>: lines and whitespace of \<^verbatim>\<open>str\<close>, its
  regular expressions as matching functions, and the pure POSIX paths it names layout
  files with. Strings are code points below 256, as in \<open>Py_Strings\<close>.
\<close>

section \<open>Loops that can raise\<close>

fun foldE :: "('s \<Rightarrow> 'a \<Rightarrow> 's result) \<Rightarrow> 's \<Rightarrow> 'a list \<Rightarrow> 's result" where
  "foldE f s [] = Inr s"
| "foldE f s (x # xs) = bindE (f s x) (\<lambda>s'. foldE f s' xs)"

fun mapE :: "('a \<Rightarrow> 'b result) \<Rightarrow> 'a list \<Rightarrow> 'b list result" where
  "mapE f [] = Inr []"
| "mapE f (x # xs) = bindE (f x) (\<lambda>y. bindE (mapE f xs) (\<lambda>ys. Inr (y # ys)))"

lemma foldE_invariant:
  assumes "foldE f s xs = Inr t" and "I s"
    and "\<And>s x u. x \<in> set xs \<Longrightarrow> I s \<Longrightarrow> f s x = Inr u \<Longrightarrow> I u"
  shows "I t"
  using assms by (induction xs arbitrary: s) (auto simp: bindE_eq_Inr)

lemma foldE_append: "foldE f s (xs @ ys) = bindE (foldE f s xs) (\<lambda>t. foldE f t ys)"
  by (induction xs arbitrary: s) (simp_all add: bindE_assoc)

lemma foldE_cong [fundef_cong]:
  "s = s' \<Longrightarrow> xs = ys \<Longrightarrow> (\<And>t x. x \<in> set ys \<Longrightarrow> f t x = g t x) \<Longrightarrow> foldE f s xs = foldE g s' ys"
  by (induction ys arbitrary: s s' xs) (auto simp: bindE_def split: sum.split)

lemma mapE_cong [fundef_cong]:
  "xs = ys \<Longrightarrow> (\<And>x. x \<in> set ys \<Longrightarrow> f x = g x) \<Longrightarrow> mapE f xs = mapE g ys"
  by (induction ys arbitrary: xs) (auto simp: bindE_def split: sum.split)

lemma mapE_Inr: "mapE f xs = Inr ys \<Longrightarrow> list_all2 (\<lambda>x y. f x = Inr y) xs ys"
  by (induction xs arbitrary: ys) (auto simp: bindE_eq_Inr)

lemma mapE_set: "mapE f xs = Inr ys \<Longrightarrow> y \<in> set ys \<Longrightarrow> \<exists>x \<in> set xs. f x = Inr y"
  by (induction xs arbitrary: ys) (auto simp: bindE_eq_Inr)

lemma mapE_length: "mapE f xs = Inr ys \<Longrightarrow> length ys = length xs"
  by (induction xs arbitrary: ys) (auto simp: bindE_eq_Inr)

lemma partition_at_append:
  "partition_at c s = (l, found, r) \<Longrightarrow>
   s = l @ (if found then c # r else []) \<and> (\<not> found \<longrightarrow> r = [])"
  by (induction s arbitrary: l found r) (auto split: prod.splits if_splits)

section \<open>Characters\<close>

abbreviation (input) SP :: char where "SP \<equiv> CHR '' ''"

definition LF :: char where "LF = CHR 0x0A"
definition CR :: char where "CR = CHR 0x0D"
definition QUOTE :: char where "QUOTE = CHR 0x27"

definition ascii_digit :: "char \<Rightarrow> bool" where
  "ascii_digit c \<longleftrightarrow> (let n = (of_char c :: nat) in 48 \<le> n \<and> n \<le> 57)"

definition ascii_letter :: "char \<Rightarrow> bool" where
  "ascii_letter c \<longleftrightarrow> ascii_alnum c \<and> \<not> ascii_digit c"

definition ascii_lower :: "char \<Rightarrow> bool" where
  "ascii_lower c \<longleftrightarrow> (let n = (of_char c :: nat) in 97 \<le> n \<and> n \<le> 122)"

text \<open>The boundaries of \<^verbatim>\<open>str.splitlines\<close> below U+0100; CR LF counts as one.\<close>

definition is_line_end :: "char \<Rightarrow> bool" where
  "is_line_end c \<longleftrightarrow> of_char c \<in> {10, 11, 12, 13, 28, 29, 30, 133 :: nat}"

section \<open>Lines and whitespace\<close>

text \<open>\<^verbatim>\<open>splitlines(keepends=True)\<close>; the accumulator is the line so far, reversed.\<close>

fun lines_from :: "string \<Rightarrow> string \<Rightarrow> string list" where
  "lines_from w [] = (if w = [] then [] else [rev w])"
| "lines_from w (c # cs) =
     (if c = CR
      then (case cs of
              d # ds \<Rightarrow> if d = LF then rev (LF # CR # w) # lines_from [] ds
                       else rev (CR # w) # lines_from [] cs
            | [] \<Rightarrow> [rev (CR # w)])
      else if is_line_end c then rev (c # w) # lines_from [] cs
      else lines_from (c # w) cs)"

definition splitlines_keep :: "string \<Rightarrow> string list" where
  "splitlines_keep s = lines_from [] s"

text \<open>A line without its boundary.\<close>

definition chomp :: "string \<Rightarrow> string" where
  "chomp l =
     (case rev l of
        [] \<Rightarrow> []
      | c # cs \<Rightarrow>
          if \<not> is_line_end c then l
          else if c = LF \<and> cs \<noteq> [] \<and> hd cs = CR then rev (tl cs) else rev cs)"

definition splitlines :: "string \<Rightarrow> string list" where
  "splitlines s = map chomp (splitlines_keep s)"

definition lstrip :: "string \<Rightarrow> string" where
  "lstrip s = dropWhile char_isspace s"

definition rstrip :: "string \<Rightarrow> string" where
  "rstrip s = rev (dropWhile char_isspace (rev s))"

definition strip :: "string \<Rightarrow> string" where
  "strip s = rstrip (lstrip s)"

definition spaces :: "string \<Rightarrow> nat" where
  "spaces s = length (takeWhile (\<lambda>c. c = SP) s)"

definition after_spaces :: "string \<Rightarrow> string" where
  "after_spaces s = dropWhile (\<lambda>c. c = SP) s"

definition starts_with :: "string \<Rightarrow> string \<Rightarrow> bool" where
  "starts_with p s \<longleftrightarrow> take (length p) s = p"

definition ends_with :: "string \<Rightarrow> string \<Rightarrow> bool" where
  "ends_with p s \<longleftrightarrow> length p \<le> length s \<and> drop (length s - length p) s = p"

fun contains :: "string \<Rightarrow> string \<Rightarrow> bool" where
  "contains p [] = (p = [])"
| "contains p (c # cs) = (starts_with p (c # cs) \<or> contains p cs)"

text \<open>\<^verbatim>\<open>s.removeprefix(p)\<close> and \<^verbatim>\<open>s.removesuffix("\n")\<close>.\<close>

definition removeprefix :: "string \<Rightarrow> string \<Rightarrow> string" where
  "removeprefix p s = (if starts_with p s then drop (length p) s else s)"

definition remove_newline :: "string \<Rightarrow> string" where
  "remove_newline s = (if s \<noteq> [] \<and> last s = LF then butlast s else s)"

text \<open>\<^verbatim>\<open>s.replace(old, new)\<close> for a non-empty \<^verbatim>\<open>old\<close>: left to right, without overlap.\<close>

function replace_all :: "string \<Rightarrow> string \<Rightarrow> string \<Rightarrow> string" where
  "replace_all old new [] = []"
| "replace_all old new (c # cs) =
     (if old \<noteq> [] \<and> starts_with old (c # cs)
      then new @ replace_all old new (drop (length old) (c # cs))
      else c # replace_all old new cs)"
  by pat_completeness auto
termination
  by (relation "measure (\<lambda>(old, new, s). length s)") auto

text \<open>\<^verbatim>\<open>len(s.encode("utf-8"))\<close> below U+0100.\<close>

definition utf8_size :: "string \<Rightarrow> int" where
  "utf8_size s = sum_list (map (\<lambda>c. if char_isascii c then 1 else 2) s)"

text \<open>Bytes: the text they decode to, or that many bytes that are not UTF-8.\<close>

datatype text_bytes = Utf8 string | NotUtf8 int

fun byte_count :: "text_bytes \<Rightarrow> int" where
  "byte_count (Utf8 s) = utf8_size s"
| "byte_count (NotUtf8 n) = n"

text \<open>\<^verbatim>\<open>{s!r}\<close>: quoted with an apostrophe unless only apostrophes occur.\<close>

definition hex_escape :: "char \<Rightarrow> string" where
  "hex_escape c = [CHR 0x5C, CHR ''x''] @ hex_digits 2 (of_char c)"

definition repr_char :: "char \<Rightarrow> char \<Rightarrow> string" where
  "repr_char q c =
     (let n = (of_char c :: nat) in
      if c = q \<or> n = 92 then [CHR 0x5C, c]
      else if n = 10 then [CHR 0x5C, CHR ''n''] else if n = 13 then [CHR 0x5C, CHR ''r''] else if n = 9 then [CHR 0x5C, CHR ''t'']
      else if n < 32 \<or> (127 \<le> n \<and> n \<le> 160) \<or> n = 173 then hex_escape c
      else [c])"

definition py_repr :: "string \<Rightarrow> string" where
  "py_repr s =
     (let q = (if QUOTE \<in> set s \<and> CHR 0x22 \<notin> set s then CHR 0x22 else QUOTE)
      in q # concat (map (repr_char q) s) @ [q])"

section \<open>Regular expressions\<close>

text \<open>\<^verbatim>\<open>^[ ]*<INCLUDE[ ]+([^<>]+?)>[ ]*$\<close>: the indentation and the path.\<close>

definition match_include :: "string \<Rightarrow> (string \<times> string) option" where
  "match_include s =
     (let body = after_spaces s in
      if \<not> starts_with ''<INCLUDE'' body then None
      else
        let rest = drop 8 body; n = spaces rest in
        (case partition_at (CHR ''>'') (after_spaces rest) of (p, closed, tail) \<Rightarrow>
           if n = 0 \<or> \<not> closed \<or> CHR ''<'' \<in> set p \<or> after_spaces tail \<noteq> [] then None
           else if p \<noteq> [] then Some (replicate (spaces s) SP, p)
           else if n > 1 then Some (replicate (spaces s) SP, [SP]) else None))"

definition key_char :: "char \<Rightarrow> bool" where
  "key_char c \<longleftrightarrow> ascii_alnum c \<or> c = CHR ''_''"

text \<open>\<^verbatim>\<open>^([ ]*)([A-Za-z_][A-Za-z0-9_]*):(?:[ ]*(.*))?$\<close> on one line: key and value.\<close>

definition match_key_value :: "string \<Rightarrow> (string \<times> string) option" where
  "match_key_value s =
     (let body = after_spaces s; key = takeWhile key_char body; rest = dropWhile key_char body in
      if key = [] \<or> ascii_digit (hd key) \<or> rest = [] \<or> hd rest \<noteq> CHR '':'' then None
      else Some (key, after_spaces (tl rest)))"

definition name_char :: "char \<Rightarrow> bool" where
  "name_char c \<longleftrightarrow> key_char c \<or> c = CHR ''-''"

definition is_name :: "string \<Rightarrow> bool" where
  "is_name s \<longleftrightarrow> s \<noteq> [] \<and> list_all name_char s \<and> (ascii_letter (hd s) \<or> hd s = CHR ''_'')"

text \<open>\<^verbatim>\<open>^&(name)[ ]+(.+)$\<close> and \<^verbatim>\<open>^\*(name)$\<close>.\<close>

definition match_anchor :: "string \<Rightarrow> (string \<times> string) option" where
  "match_anchor s =
     (if s = [] \<or> hd s \<noteq> CHR ''&'' then None
      else
        let name = takeWhile name_char (tl s); rest = dropWhile name_char (tl s); v = after_spaces rest in
        if \<not> is_name name \<or> spaces rest = 0 then None
        else if v \<noteq> [] then Some (name, v)
        else if spaces rest > 1 then Some (name, [SP]) else None)"

definition match_alias :: "string \<Rightarrow> string option" where
  "match_alias s =
     (if s \<noteq> [] \<and> hd s = CHR ''*'' \<and> is_name (tl s) then Some (tl s) else None)"

definition unsigned :: "string \<Rightarrow> string" where
  "unsigned s = (if s \<noteq> [] \<and> hd s \<in> {CHR ''+'', CHR ''-''} then tl s else s)"

definition is_digits :: "string \<Rightarrow> bool" where
  "is_digits s \<longleftrightarrow> s \<noteq> [] \<and> list_all ascii_digit s"

text \<open>\<^verbatim>\<open>^[+-]?[0-9]+$\<close> and \<^verbatim>\<open>^[+-]?(?:[0-9]+(?:\.[0-9]+)?|\.[0-9]+)$\<close>.\<close>

definition is_integer_text :: "string \<Rightarrow> bool" where
  "is_integer_text s \<longleftrightarrow> is_digits (unsigned s)"

definition is_decimal_text :: "string \<Rightarrow> bool" where
  "is_decimal_text s \<longleftrightarrow>
     (case partition_at (CHR ''.'') (unsigned s) of (whole, dot, frac) \<Rightarrow>
        if dot then (whole = [] \<or> is_digits whole) \<and> is_digits frac else is_digits whole)"

text \<open>\<^verbatim>\<open>int(s)\<close> on such a text; the interpreter refuses more than 4300 digits.\<close>

fun digits_value :: "int \<Rightarrow> string \<Rightarrow> int" where
  "digits_value n [] = n"
| "digits_value n (c # cs) = digits_value (10 * n + (of_char c - 48)) cs"

definition MAX_INT_DIGITS :: nat where "MAX_INT_DIGITS = 4300"

definition int_of_text :: "string \<Rightarrow> int" where
  "int_of_text s =
     (if s \<noteq> [] \<and> hd s = CHR ''-'' then - digits_value 0 (unsigned s)
      else digits_value 0 (unsigned s))"

text \<open>\<^verbatim>\<open><[A-Za-z][A-Za-z0-9_]*>\<close>, searched from the left.\<close>

fun find_placeholder :: "string \<Rightarrow> string option" where
  "find_placeholder [] = None"
| "find_placeholder (c # cs) =
     (let name = takeWhile key_char cs; rest = dropWhile key_char cs in
      if c = CHR ''<'' \<and> name \<noteq> [] \<and> ascii_letter (hd name) \<and> rest \<noteq> [] \<and> hd rest = CHR ''>''
      then Some (c # name @ ''>'')
      else find_placeholder cs)"

text \<open>\<^verbatim>\<open>^([a-z0-9][a-z0-9-]*):$\<close>, \<^verbatim>\<open>^[A-Za-z0-9][A-Za-z0-9+_.-]*$\<close> and
  \<^verbatim>\<open>^[^\s\x00-\x1f\x7f]+$\<close>.\<close>

definition match_sublayout_key :: "string \<Rightarrow> string option" where
  "match_sublayout_key s =
     (let key = butlast s in
      if s \<noteq> [] \<and> last s = CHR '':'' \<and> key \<noteq> [] \<and>
         list_all (\<lambda>c. ascii_lower c \<or> ascii_digit c \<or> c = CHR ''-'') key \<and> hd key \<noteq> CHR ''-''
      then Some key else None)"

definition is_layout_name :: "string \<Rightarrow> bool" where
  "is_layout_name s \<longleftrightarrow>
     s \<noteq> [] \<and> ascii_alnum (hd s) \<and> list_all (\<lambda>c. ascii_alnum c \<or> c \<in> set ''+_.-'') s"

definition is_output_name :: "string \<Rightarrow> bool" where
  "is_output_name s \<longleftrightarrow>
     s \<noteq> [] \<and> list_all (\<lambda>c. \<not> char_isspace c \<and> (of_char c :: nat) > 31 \<and> of_char c \<noteq> (127 :: nat)) s"

text \<open>\<^verbatim>\<open>re.search(r"[ ]+#", line)\<close> cuts a comment off.\<close>

fun before_comment :: "string \<Rightarrow> string option" where
  "before_comment [] = None"
| "before_comment (c # cs) =
     (if c = SP \<and> after_spaces cs \<noteq> [] \<and> hd (after_spaces cs) = CHR ''#'' then Some []
      else map_option (\<lambda>s. c # s) (before_comment cs))"

definition without_comment :: "string \<Rightarrow> string" where
  "without_comment line =
     (case before_comment line of None \<Rightarrow> line | Some s \<Rightarrow> rstrip s)"

section \<open>Pure POSIX paths\<close>

text \<open>The root (empty, \<^verbatim>\<open>/\<close> or \<^verbatim>\<open>//\<close>) and the components of \<^verbatim>\<open>PurePosixPath\<close>.\<close>

record pure_path =
  path_root :: string
  path_tail :: "string list"

fun split_at :: "char \<Rightarrow> string \<Rightarrow> string \<Rightarrow> string list" where
  "split_at sep w [] = [rev w]"
| "split_at sep w (c # cs) =
     (if c = sep then rev w # split_at sep [] cs else split_at sep (c # w) cs)"

definition split_root :: "string \<Rightarrow> string \<times> string" where
  "split_root s =
     (if take 1 s \<noteq> ''/'' then ([], s)
      else if take 2 s \<noteq> ''//'' \<or> take 3 s = ''///'' then (''/'', drop 1 s)
      else (''//'', drop 2 s))"

definition parse_path :: "string \<Rightarrow> pure_path" where
  "parse_path s =
     (case split_root s of (root, rel) \<Rightarrow>
        \<lparr> path_root = root,
          path_tail = filter (\<lambda>x. x \<noteq> [] \<and> x \<noteq> ''.'') (split_at (CHR ''/'') [] rel) \<rparr>)"

definition as_posix :: "pure_path \<Rightarrow> string" where
  "as_posix p =
     (if path_root p \<noteq> [] then path_root p @ join_str ''/'' (path_tail p)
      else if path_tail p = [] then ''.'' else join_str ''/'' (path_tail p))"

definition is_absolute :: "pure_path \<Rightarrow> bool" where
  "is_absolute p \<longleftrightarrow> path_root p \<noteq> []"

definition parts :: "pure_path \<Rightarrow> string list" where
  "parts p = (if path_root p \<noteq> [] then path_root p # path_tail p else path_tail p)"

definition path_name :: "pure_path \<Rightarrow> string" where
  "path_name p = (if path_tail p = [] then [] else last (path_tail p))"

text \<open>The stem and the suffix of a file name; the suffix keeps its dot.\<close>

definition split_suffix :: "string \<Rightarrow> string \<times> string" where
  "split_suffix name =
     (case rpartition_at (CHR ''.'') name of (stem, dot, ext) \<Rightarrow>
        if dot \<and> stem \<noteq> [] \<and> ext \<noteq> [] then (stem, CHR ''.'' # ext) else (name, []))"

definition path_suffix :: "pure_path \<Rightarrow> string" where
  "path_suffix p = snd (split_suffix (path_name p))"

definition with_suffix :: "string \<Rightarrow> pure_path \<Rightarrow> pure_path result" where
  "with_suffix ext p =
     (let stem = fst (split_suffix (path_name p)) in
      if stem = []
      then Inl (ValueError (''PurePosixPath('' @ py_repr (as_posix p) @ '') has an empty name''))
      else Inr (p\<lparr>path_tail := butlast (path_tail p) @ [stem @ ext]\<rparr>))"

text \<open>\<^verbatim>\<open>base / p\<close> for a relative \<^verbatim>\<open>p\<close>.\<close>

definition join_path :: "string list \<Rightarrow> pure_path \<Rightarrow> pure_path" where
  "join_path base p = p\<lparr>path_tail := base @ path_tail p\<rparr>"

end
