(* ===== verification/Layout_Decimal.thy ===== *)
theory Layout_Decimal
  imports Layout_Text
begin

text \<open>
  Python's \<^verbatim>\<open>Decimal\<close> as far as \<^verbatim>\<open>desktop/layout.py\<close> uses it: exact construction from
  plain text, addition and multiplication rounded half-even to the 28 digits of the
  default context, truncation to an integer, and rendering. Exponents stay far from the
  limits of the context, because a scalar is bounded.
\<close>

section \<open>Representation\<close>

text \<open>
  The value is the coefficient, which is not negative, with the sign, times ten to the
  exponent.
\<close>

datatype decimal = Decimal (dec_negative: bool) (dec_coefficient: int) (dec_exponent: int)

definition PRECISION :: nat where "PRECISION = 28"

definition digit_count :: "int \<Rightarrow> nat" where
  "digit_count n = length (int_digits n)"

text \<open>Dropping \<^verbatim>\<open>k\<close> digits, half to even.\<close>

definition round_half_even :: "int \<Rightarrow> nat \<Rightarrow> int" where
  "round_half_even n k =
     (let q = n div 10 ^ k; r = n mod 10 ^ k in
      if 2 * r > 10 ^ k \<or> (2 * r = 10 ^ k \<and> odd q) then q + 1 else q)"

text \<open>\<^verbatim>\<open>_fix\<close>: at most 28 digits.\<close>

definition dec_fix :: "decimal \<Rightarrow> decimal" where
  "dec_fix d =
     (case d of Decimal s c e \<Rightarrow>
        let k = digit_count c - PRECISION in
        if k = 0 then d
        else
          let c' = round_half_even c k in
          if digit_count c' > PRECISION then Decimal s (c' div 10) (e + int k + 1)
          else Decimal s c' (e + int k))"

section \<open>Arithmetic\<close>

definition dec_of_int :: "int \<Rightarrow> decimal" where
  "dec_of_int n = Decimal (n < 0) \<bar>n\<bar> 0"

text \<open>The signed coefficient at a smaller exponent.\<close>

definition scaled :: "decimal \<Rightarrow> int \<Rightarrow> int" where
  "scaled d e =
     (case d of Decimal s c x \<Rightarrow> (if s then - 1 else 1) * c * 10 ^ nat (x - e))"

definition dec_minus :: "decimal \<Rightarrow> decimal \<Rightarrow> decimal" where
  "dec_minus a b =
     (let e = min (dec_exponent a) (dec_exponent b); v = scaled a e - scaled b e
      in dec_fix (Decimal (v < 0) \<bar>v\<bar> e))"

definition dec_times :: "decimal \<Rightarrow> decimal \<Rightarrow> decimal" where
  "dec_times a b =
     dec_fix (Decimal (dec_negative a \<noteq> dec_negative b)
       (dec_coefficient a * dec_coefficient b) (dec_exponent a + dec_exponent b))"

text \<open>
  Division of at most 28 digits by a hundred is exact; the exponent the source then
  chooses for the value is not observed.
\<close>

definition dec_percent :: "decimal \<Rightarrow> decimal" where
  "dec_percent d = (case d of Decimal s c e \<Rightarrow> Decimal s c (e - 2))"

definition dec_le :: "decimal \<Rightarrow> decimal \<Rightarrow> bool" where
  "dec_le a b \<longleftrightarrow>
     (let e = min (dec_exponent a) (dec_exponent b) in scaled a e \<le> scaled b e)"

abbreviation (input) dec_zero :: decimal where "dec_zero \<equiv> Decimal False 0 0"
abbreviation (input) HUNDRED :: decimal where "HUNDRED \<equiv> Decimal False 100 0"

definition dec_is_zero :: "decimal \<Rightarrow> bool" where
  "dec_is_zero d \<longleftrightarrow> dec_coefficient d = 0"

text \<open>\<^verbatim>\<open>int(d)\<close> truncates towards zero.\<close>

definition dec_truncate :: "decimal \<Rightarrow> int" where
  "dec_truncate d =
     (case d of Decimal s c e \<Rightarrow>
        (if s then - 1 else 1) *
        (if e \<ge> 0 then c * 10 ^ nat e else c div 10 ^ nat (- e)))"

section \<open>Text\<close>

text \<open>\<^verbatim>\<open>Decimal(s)\<close> for a text that matches the pattern.\<close>

definition dec_of_text :: "string \<Rightarrow> decimal" where
  "dec_of_text s =
     (case partition_at (CHR ''.'') (unsigned s) of (whole, dot, frac) \<Rightarrow>
        Decimal (s \<noteq> [] \<and> hd s = CHR ''-'') (digits_value 0 (whole @ frac)) (- int (length frac)))"

text \<open>\<^verbatim>\<open>str(d)\<close>: positional unless the exponent is positive or the value is tiny.\<close>

definition dec_str :: "decimal \<Rightarrow> string" where
  "dec_str d =
     (case d of Decimal s c e \<Rightarrow>
        let ds = int_digits c; n = int (length ds); left = e + n;
            sign = (if s then ''-'' else []) in
        if e \<le> 0 \<and> left > - 6
        then
          if e = 0 then sign @ ds
          else if left \<le> 0 then sign @ ''0.'' @ replicate (nat (- left)) (CHR ''0'') @ ds
          else sign @ take (nat left) ds @ ''.'' @ drop (nat left) ds
        else
          sign @ take 1 ds @ (if length ds > 1 then ''.'' @ drop 1 ds else []) @ ''E'' @
          (if left - 1 \<ge> 0 then ''+'' else []) @ int_decimal (left - 1))"

text \<open>\<^verbatim>\<open>format(d.normalize(), "f")\<close>: without trailing zeros and exponent.\<close>

function strip_trailing_zeros :: "int \<Rightarrow> int \<Rightarrow> int \<times> int" where
  "strip_trailing_zeros c e =
     (if c \<le> 0 then (0, 0) else if 10 dvd c then strip_trailing_zeros (c div 10) (e + 1) else (c, e))"
  by auto
termination
  by (relation "measure (\<lambda>(c, e). nat c)") auto

declare strip_trailing_zeros.simps [simp del]

definition format_decimal :: "decimal \<Rightarrow> string" where
  "format_decimal d =
     (case dec_fix d of Decimal s c0 e0 \<Rightarrow>
        case strip_trailing_zeros c0 e0 of (c, e) \<Rightarrow>
          let ds = int_digits c; sign = (if s then ''-'' else []);
              left = e + int (length ds);
              rendered =
                (if e \<ge> 0 then sign @ ds @ replicate (nat e) (CHR ''0'')
                 else if left \<le> 0 then sign @ ''0.'' @ replicate (nat (- left)) (CHR ''0'') @ ds
                 else sign @ take (nat left) ds @ ''.'' @ drop (nat left) ds)
          in if rendered = ''-0'' \<or> rendered = [] then ''0'' else rendered)"

section \<open>The numeric fields of a layout\<close>

definition layout_error :: "string \<Rightarrow> 'a result" where
  "layout_error m = Inl (LayoutPlanningError m)"

definition ensure :: "bool \<Rightarrow> string \<Rightarrow> unit result" where
  "ensure b m = check b (LayoutPlanningError m)"

lemma ensure_eq_Inr [simp]: "ensure b m = Inr u \<longleftrightarrow> b"
  by (simp add: ensure_def)

lemma layout_error_neq [simp]: "layout_error m \<noteq> Inr x"
  by (simp add: layout_error_def)

definition nonnegative_integer :: "string \<Rightarrow> string \<Rightarrow> int result" where
  "nonnegative_integer v field =
     (if \<not> is_integer_text v \<or> length (unsigned v) > MAX_INT_DIGITS
      then layout_error (field @ '' must be an integer'')
      else if int_of_text v < 0 then layout_error (field @ '' cannot be negative'')
      else Inr (int_of_text v))"

definition positive_integer :: "string \<Rightarrow> string \<Rightarrow> int result" where
  "positive_integer v field =
     bindE (nonnegative_integer v field) (\<lambda>n.
     if n = 0 then layout_error (field @ '' must be positive'') else Inr n)"

definition decimal_of :: "string \<Rightarrow> string \<Rightarrow> decimal result" where
  "decimal_of v field =
     (if is_decimal_text v then Inr (dec_of_text v)
      else layout_error (field @ '' must be a plain decimal''))"

definition decimal_to_int :: "decimal \<Rightarrow> string \<Rightarrow> int result" where
  "decimal_to_int d field =
     (let n = dec_truncate d in
      if - (2 ^ 63) \<le> n \<and> n < 2 ^ 63 then Inr n
      else layout_error (field @ '' is outside the signed 64-bit range''))"

definition positive_decimal :: "string \<Rightarrow> string \<Rightarrow> string result" where
  "positive_decimal v field =
     bindE (decimal_of v field) (\<lambda>d.
     if dec_le d dec_zero then layout_error (field @ '' must be positive'')
     else Inr (format_decimal d))"

definition dimension :: "string \<Rightarrow> int \<Rightarrow> int result" where
  "dimension v reference =
     (if v \<noteq> [] \<and> last v = CHR ''%''
      then
        bindE (decimal_of (butlast v) ''percentage dimension'') (\<lambda>p.
        if \<not> dec_le dec_zero p \<or> \<not> dec_le p HUNDRED
        then layout_error ''percentage dimension must be within [0, 100]''
        else decimal_to_int (dec_percent (dec_times p (dec_of_int reference)))
               ''percentage dimension'')
      else nonnegative_integer v ''pixel dimension'')"

text \<open>\<^verbatim>\<open>round(Fraction(n, d))\<close> for a positive denominator: half to even.\<close>

definition round_fraction :: "int \<Rightarrow> int \<Rightarrow> int" where
  "round_fraction n d =
     (let q = n div d; r = n mod d in
      if 2 * r < d then q else if 2 * r > d then q + 1 else if even q then q else q + 1)"

definition percent :: "int \<Rightarrow> int \<Rightarrow> int result" where
  "percent v reference =
     (if reference \<le> 0 then layout_error ''percentage reference must be positive''
      else Inr (round_fraction (v * 100) reference))"

end
