(* ===== verification/Layout_Parse.thy ===== *)
theory Layout_Parse
  imports Layout_Decimal "HOL-Library.AList"
begin

text \<open>
  The first half of \<^verbatim>\<open>desktop/layout.py\<close>: canonical layout paths, the expansion of
  includes under its budgets, and the parser of the accepted YAML subset. A file is the
  text its bytes decode to; the depth left for includes is the recursion.
\<close>

section \<open>Limits\<close>

definition MAX_LAYOUT_FILE_BYTES :: int where "MAX_LAYOUT_FILE_BYTES = 262144"
definition MAX_LAYOUT_TOTAL_BYTES :: int where "MAX_LAYOUT_TOTAL_BYTES = 2097152"
definition MAX_LAYOUT_FILES :: nat where "MAX_LAYOUT_FILES = 128"
definition MAX_INCLUDE_DEPTH :: nat where "MAX_INCLUDE_DEPTH = 32"
definition MAX_LAYOUT_SCREENS :: nat where "MAX_LAYOUT_SCREENS = 16"
definition MAX_LAYOUT_LINES :: int where "MAX_LAYOUT_LINES = 20000"
definition MAX_EXPANDED_NODES :: int where "MAX_EXPANDED_NODES = 20000"
definition MAX_WINDOW_RULES :: int where "MAX_WINDOW_RULES = 4096"
definition MAX_WINDOW_COMMANDS :: int where "MAX_WINDOW_COMMANDS = 16384"
definition MAX_SCALAR_CHARS :: int where "MAX_SCALAR_CHARS = 16384"
definition BLOCK_INDENT :: nat where "BLOCK_INDENT = 2"
definition FIELD_INDENT :: nat where "FIELD_INDENT = 4"

definition LAYOUT_ROOT :: "string list" where
  "LAYOUT_ROOT = [''.fluxbox'', ''layouts'']"

definition SCREEN_FIELDS :: "string list" where
  "SCREEN_FIELDS =
     [''assignment'', ''bottom_margin'', ''col1_width_pc_of_active'',
      ''col2_width_pc_of_active'', ''col3_width_pc_of_active'', ''cols_1_2_margin'',
      ''cols_2_3_margin'', ''gkrellm_width'', ''head'', ''left'', ''left_margin'',
      ''logs_height_pc'', ''name'', ''panel_height'', ''right'', ''right_margin'',
      ''right_margin_OLD'', ''row1_height_pc_of_active'', ''row2_height_pc_of_active'',
      ''rows_1_2_margin'', ''scale'', ''single_height_pc_of_active'',
      ''single_width_pc_of_active'', ''top_margin'']"

section \<open>Data\<close>

record layout_screen =
  ls_name :: string
  ls_assignment :: "string option"
  ls_head :: int
  ls_parameters :: "(string \<times> string) list"

definition LayoutScreen_post_init :: "layout_screen \<Rightarrow> unit result" where
  "LayoutScreen_post_init l = checks
     [ensure (\<not> is_blank (ls_name l)) ''layout screen name must not be empty'',
      ensure (case ls_assignment l of None \<Rightarrow> True | Some a \<Rightarrow> \<not> is_blank a)
        ''layout screen assignment must not be empty'',
      ensure (\<not> ls_head l \<le> 0) ''Fluxbox head numbers must be positive'',
      ensure (let keys = map fst (ls_parameters l)
              in keys = sort keys \<and> length keys = length (remdups keys))
        ''layout screen parameters must be sorted and unique'']"

definition bounded_scalar :: "string \<Rightarrow> string \<Rightarrow> unit result" where
  "bounded_scalar v field =
     ensure (\<not> (v = [] \<or> str_isspace v \<or> NUL \<in> set v \<or> int (length v) > MAX_SCALAR_CHARS))
       (field @ '' must be bounded non-empty text'')"

record window_rule =
  wr_matcher :: string
  wr_commands :: "string list"

definition WindowRule_post_init :: "window_rule \<Rightarrow> unit result" where
  "WindowRule_post_init r = checks
     [bounded_scalar (wr_matcher r) ''window matcher'',
      ensure (wr_commands r \<noteq> []) ''window rule must contain at least one command'',
      checks (map (\<lambda>c. bounded_scalar c ''window command'') (wr_commands r))]"

record parsed_layout =
  py_layout :: string
  py_source_path :: string
  py_consumed_paths :: "string list"
  py_expanded_yaml :: string
  py_dpi :: "int option"
  py_ui_scale :: "string option"
  py_font_scale :: "string option"
  py_screens :: "layout_screen list"
  py_window_rules :: "window_rule list"

section \<open>Paths\<close>

definition layout_path :: "string \<Rightarrow> string result" where
  "layout_path layout =
     (let clean = strip layout; candidate = parse_path clean in
      bindE (ensure (clean \<noteq> [] \<and> NUL \<notin> set clean \<and> CHR 0x5C \<notin> set clean)
        ''layout name is malformed'') (\<lambda>_.
      bindE (ensure (as_posix candidate = clean) ''layout name is not canonical'') (\<lambda>_.
      bindE (ensure (\<not> is_absolute candidate \<and> ''..'' \<notin> set (parts candidate))
        ''layout name escapes the layout root'') (\<lambda>_.
      bindE
        (if length (parts candidate) = 1
         then
           bindE (ensure (is_layout_name (path_name candidate))
             ''layout name contains unsupported characters'') (\<lambda>_.
           Inr (join_path LAYOUT_ROOT candidate))
         else if parts candidate = [] then Inl (IndexError ''tuple index out of range'')
         else if hd (parts candidate) = ''layouts'' then Inr (join_path [''.fluxbox''] candidate)
         else if take 2 (parts candidate) \<noteq> LAYOUT_ROOT
         then layout_error ''layout path is outside .fluxbox/layouts''
         else Inr candidate) (\<lambda>rooted.
      bindE (if path_suffix rooted = ''.yaml'' then Inr rooted else with_suffix ''.yaml'' rooted)
        (\<lambda>final. Inr (as_posix final)))))))"

definition include_path :: "string \<Rightarrow> string result" where
  "include_path v =
     (let clean = strip v; candidate = parse_path clean in
      bindE (ensure (clean \<noteq> [] \<and> as_posix candidate = clean \<and> \<not> is_absolute candidate \<and>
          ''..'' \<notin> set (parts candidate) \<and> ''.'' \<notin> set (parts candidate) \<and>
          CHR 0x5C \<notin> set clean \<and> take 2 (parts candidate) \<noteq> LAYOUT_ROOT)
        ''layout include path is malformed'') (\<lambda>_.
      bindE (if path_suffix candidate = ''.yaml'' then Inr candidate
             else with_suffix ''.yaml'' candidate)
        (\<lambda>final. Inr (as_posix (join_path LAYOUT_ROOT final)))))"

text \<open>The injected files, checked in order; the result is the dictionary.\<close>

definition canonical_layout_file :: "string \<Rightarrow> bool" where
  "canonical_layout_file path \<longleftrightarrow>
     (let candidate = parse_path path in
      as_posix candidate = path \<and> \<not> is_absolute candidate \<and> ''..'' \<notin> set (parts candidate) \<and>
      take 2 (parts candidate) = LAYOUT_ROOT \<and> path_suffix candidate = ''.yaml'')"

definition add_file ::
  "(string \<times> text_bytes) list \<Rightarrow> string \<times> text_bytes \<Rightarrow> (string \<times> text_bytes) list result"
where
  "add_file files =
     (\<lambda>(path, content).
        bindE (ensure (canonical_layout_file path)
          ''layout input path is not canonical beneath .fluxbox/layouts'') (\<lambda>_.
        bindE (ensure (path \<notin> set (map fst files)) ''layout input paths contain duplicates'') (\<lambda>_.
        bindE (ensure (byte_count content \<noteq> 0 \<and> byte_count content \<le> MAX_LAYOUT_FILE_BYTES)
          (''layout input '' @ py_repr path @ '' is empty or too large'')) (\<lambda>_.
        Inr (files @ [(path, content)])))))"

definition validated_file_mapping ::
  "(string \<times> text_bytes) list \<Rightarrow> (string \<times> text_bytes) list result" where
  "validated_file_mapping files =
     bindE (ensure (files \<noteq> [] \<and> length files \<le> MAX_LAYOUT_FILES)
       ''layout input file count is outside accepted bounds'') (\<lambda>_.
     bindE (foldE add_file [] files) (\<lambda>m.
     bindE (ensure (sum_list (map (\<lambda>(p, c). byte_count c) files) \<le> MAX_LAYOUT_TOTAL_BYTES)
       ''layout input bytes exceed the aggregate limit'') (\<lambda>_.
     Inr m)))"

definition decode_layout_file :: "string \<Rightarrow> text_bytes \<Rightarrow> string result" where
  "decode_layout_file path content =
     bindE (ensure (byte_count content \<le> MAX_LAYOUT_FILE_BYTES)
       (''layout input '' @ py_repr path @ '' exceeds its size limit'')) (\<lambda>_.
     case content of
       NotUtf8 n \<Rightarrow> layout_error (''layout input '' @ py_repr path @ '' is not UTF-8'')
     | Utf8 text \<Rightarrow>
         bindE (ensure (NUL \<notin> set text \<and> CHR 0x09 \<notin> set text)
           (''layout input '' @ py_repr path @ '' contains NUL or tab'')) (\<lambda>_.
         bindE (ensure (int (length (splitlines text)) \<le> MAX_LAYOUT_LINES)
           (''layout input '' @ py_repr path @ '' exceeds its line limit'')) (\<lambda>_.
         Inr text)))"

definition at_line :: "string \<Rightarrow> nat \<Rightarrow> string \<Rightarrow> string" where
  "at_line path n m = path @ '':'' @ nat_decimal n @ m"

definition configuration_include_paths :: "string \<Rightarrow> text_bytes \<Rightarrow> string list result" where
  "configuration_include_paths path content =
     bindE (decode_layout_file path content) (\<lambda>text.
     bindE (ensure (int (length (splitlines text)) \<le> MAX_LAYOUT_LINES)
       (''layout input '' @ py_repr path @ '' exceeds its line limit'')) (\<lambda>_.
     bindE (foldE (\<lambda>found (n, line).
         if \<not> contains ''<INCLUDE'' line then Inr found
         else (case match_include line of
             None \<Rightarrow> layout_error (at_line path n '': malformed layout include directive'')
           | Some (indent, p) \<Rightarrow> bindE (include_path p) (\<lambda>q. Inr (found @ [q]))))
       [] (enumerate 1 (splitlines text))) (\<lambda>found.
     Inr (sorted_set found))))"

section \<open>Expanding includes\<close>

text \<open>
  \<^verbatim>\<open>_ExpansionBudget\<close> with the retained output and the consumed paths; \<open>included\<close>
  recurses on the depth that is left.
\<close>

record expansion =
  ex_output :: "string list"
  ex_bytes :: int
  ex_lines :: int
  ex_consumed :: "string list"

definition append_line :: "string \<Rightarrow> expansion \<Rightarrow> expansion result" where
  "append_line line x =
     bindE (ensure (ex_bytes x + utf8_size line \<le> MAX_LAYOUT_TOTAL_BYTES)
       ''expanded layout exceeds the byte limit'') (\<lambda>_.
     bindE (ensure (ex_lines x + 1 \<le> MAX_LAYOUT_LINES)
       ''expanded layout exceeds the line limit'') (\<lambda>_.
     Inr (x\<lparr>ex_bytes := ex_bytes x + utf8_size line, ex_lines := ex_lines x + 1,
            ex_output := ex_output x @ [line]\<rparr>)))"

definition expand_line ::
  "(string \<Rightarrow> string \<Rightarrow> expansion \<Rightarrow> expansion result) \<Rightarrow> string \<Rightarrow> string \<Rightarrow> expansion \<Rightarrow>
   nat \<times> string \<Rightarrow> expansion result" where
  "expand_line deeper path indent x =
     (\<lambda>(n, line).
        let candidate = remove_newline line in
        if candidate \<noteq> [] \<and> last candidate = CR
        then layout_error (at_line path n '': CRLF is not accepted'')
        else if \<not> contains ''<INCLUDE'' candidate then append_line (indent @ line) x
        else (case match_include candidate of
            None \<Rightarrow> layout_error (at_line path n '': malformed layout include directive'')
          | Some (own, p) \<Rightarrow> bindE (include_path p) (\<lambda>q. deeper q (indent @ own) x)))"

primrec expand_file ::
  "nat \<Rightarrow> (string \<times> text_bytes) list \<Rightarrow> string list \<Rightarrow> string \<Rightarrow> string \<Rightarrow> expansion \<Rightarrow>
   expansion result" where
  "expand_file 0 files stack path indent x =
     layout_error ''layout include depth exceeds its limit''"
| "expand_file (Suc left) files stack path indent x =
     (if path \<in> set stack
      then layout_error (''layout include cycle: '' @ join_str '' -> '' (stack @ [path]))
      else (case map_of files path of
          None \<Rightarrow> layout_error (''missing injected layout input: '' @ path)
        | Some content \<Rightarrow>
            bindE (decode_layout_file path content) (\<lambda>text.
            foldE (expand_line (expand_file left files (stack @ [path])) path indent)
              (x\<lparr>ex_consumed := List.insert path (ex_consumed x)\<rparr>)
              (enumerate 1 (splitlines_keep text)))))"

definition new_expansion :: expansion where
  "new_expansion = \<lparr> ex_output = [], ex_bytes = 0, ex_lines = 0, ex_consumed = [] \<rparr>"

definition expand_layout :: "(string \<times> text_bytes) list \<Rightarrow> string \<Rightarrow> expansion result" where
  "expand_layout files source =
     expand_file (MAX_INCLUDE_DEPTH + 1) files [] source [] new_expansion"

section \<open>Scalars\<close>

definition NON_PLAIN :: "string list" where
  "NON_PLAIN = [''null'', ''Null'', ''NULL'', ''~'', ''[]'', ''{}'', ''|'', ''>'', ''---'', ''...'']"

definition starts_with_char :: "char list \<Rightarrow> string \<Rightarrow> bool" where
  "starts_with_char cs s \<longleftrightarrow> s \<noteq> [] \<and> hd s \<in> set cs"

definition plain_scalar :: "string \<Rightarrow> string \<Rightarrow> nat \<Rightarrow> bool \<Rightarrow> unit result" where
  "plain_scalar v path n aliases_allowed = checks
     [bounded_scalar v (at_line path n '': scalar''),
      ensure (\<not> (v \<in> set NON_PLAIN \<or>
                 starts_with_char ([CHR 0x22, QUOTE] @ ''[{!|>@'' @ [CHR 0x60]) v \<or>
                 contains '': '' v))
        (at_line path n '': non-plain scalar is forbidden''),
      ensure (aliases_allowed \<or> \<not> (starts_with_char ''&*'' v \<or> contains ''<<:'' v))
        (at_line path n '': aliases are forbidden here'')]"

definition resolve_anchor ::
  "string \<Rightarrow> (string \<times> string) list \<Rightarrow> string \<Rightarrow> nat \<Rightarrow> (string \<times> (string \<times> string) list) result"
where
  "resolve_anchor v anchors path n =
     (case match_anchor v of
        Some (name, raw) \<Rightarrow>
          let resolved = strip raw in
          bindE (ensure (resolved \<noteq> [] \<and> name \<notin> set (map fst anchors))
            (at_line path n '': invalid or repeated YAML anchor'')) (\<lambda>_.
          bindE (plain_scalar resolved path n True) (\<lambda>_.
          Inr (resolved, anchors @ [(name, resolved)])))
      | None \<Rightarrow>
          (case match_alias v of
             Some name \<Rightarrow>
               (case map_of anchors name of
                  None \<Rightarrow> layout_error (at_line path n ('': unknown YAML alias '' @ v))
                | Some w \<Rightarrow> Inr (w, anchors))
           | None \<Rightarrow>
               bindE (plain_scalar v path n True) (\<lambda>_.
               bindE (ensure (\<not> (starts_with_char ''&*'' v \<or> contains '' <<:'' v))
                 (at_line path n '': unsupported YAML alias syntax'')) (\<lambda>_.
               Inr (v, anchors)))))"

section \<open>The parser\<close>

text \<open>The local variables of \<^verbatim>\<open>_parse_expanded\<close>.\<close>

datatype layout_section = SCREENS | WINDOWS

record parser =
  pa_section :: "layout_section option"
  pa_seen :: "layout_section list"
  pa_dpi :: "int option"
  pa_ui_scale :: "string option"
  pa_font_scale :: "string option"
  pa_screens :: "(string \<times> string) list list"
  pa_current_screen :: "(string \<times> string) list option"
  pa_anchors :: "(string \<times> string) list"
  pa_windows :: "window_rule list"
  pa_current_matcher :: "string option"
  pa_current_commands :: "string list"
  pa_nodes :: int
  pa_commands :: int

definition new_parser :: parser where
  "new_parser =
     \<lparr> pa_section = None, pa_seen = [], pa_dpi = None, pa_ui_scale = None, pa_font_scale = None,
       pa_screens = [], pa_current_screen = None, pa_anchors = [], pa_windows = [],
       pa_current_matcher = None, pa_current_commands = [], pa_nodes = 0, pa_commands = 0 \<rparr>"

definition finish_screen :: "parser \<Rightarrow> parser" where
  "finish_screen st =
     (case pa_current_screen st of
        None \<Rightarrow> st
      | Some m \<Rightarrow> st\<lparr>pa_screens := pa_screens st @ [m], pa_current_screen := None\<rparr>)"

definition finish_window :: "parser \<Rightarrow> parser result" where
  "finish_window st =
     (case pa_current_matcher st of
        None \<Rightarrow> Inr st
      | Some m \<Rightarrow>
          bindE (construct WindowRule_post_init
            \<lparr> wr_matcher = m, wr_commands = pa_current_commands st \<rparr>) (\<lambda>r.
          Inr (st\<lparr>pa_windows := pa_windows st @ [r], pa_current_matcher := None,
                  pa_current_commands := []\<rparr>)))"

definition open_section :: "layout_section \<Rightarrow> string \<Rightarrow> string \<Rightarrow> string \<Rightarrow> nat \<Rightarrow> parser \<Rightarrow> parser result"
where
  "open_section sect key v path n st =
     bindE (ensure (v = []) (at_line path n ('': '' @ key @ '' must be a block''))) (\<lambda>_.
     bindE (ensure (sect \<notin> set (pa_seen st)) (''layout repeats '' @ key)) (\<lambda>_.
     bindE (ensure (\<not> (sect = SCREENS \<and> pa_section st \<noteq> None)) ''screens must precede windows'') (\<lambda>_.
     bindE (ensure (\<not> (sect = WINDOWS \<and> pa_section st \<noteq> Some SCREENS))
       ''windows must follow screens'') (\<lambda>_.
     Inr ((finish_screen st)\<lparr>pa_seen := pa_seen st @ [sect], pa_section := Some sect\<rparr>)))))"

definition top_level_scalar :: "string \<Rightarrow> string \<Rightarrow> parser \<Rightarrow> parser result" where
  "top_level_scalar key v st =
     (if key = ''dpi''
      then
        bindE (ensure (pa_dpi st = None) ''layout repeats dpi'') (\<lambda>_.
        bindE (positive_integer v ''layout dpi'') (\<lambda>d. Inr (st\<lparr>pa_dpi := Some d\<rparr>)))
      else if key = ''ui_scale''
      then
        bindE (ensure (pa_ui_scale st = None) ''layout repeats ui_scale'') (\<lambda>_.
        bindE (positive_decimal v ''layout ui_scale'') (\<lambda>d. Inr (st\<lparr>pa_ui_scale := Some d\<rparr>)))
      else if key = ''font_scale''
      then
        bindE (ensure (pa_font_scale st = None) ''layout repeats font_scale'') (\<lambda>_.
        bindE (positive_decimal v ''layout font_scale'') (\<lambda>d. Inr (st\<lparr>pa_font_scale := Some d\<rparr>)))
      else layout_error (''unsupported top-level layout key: '' @ key))"

definition top_level_line :: "string \<Rightarrow> nat \<Rightarrow> string \<Rightarrow> parser \<Rightarrow> parser result" where
  "top_level_line path n line st =
     (case match_key_value line of
        None \<Rightarrow> layout_error (at_line path n '': malformed top-level line'')
      | Some (key, raw) \<Rightarrow>
          let v = strip raw in
          if key = ''screens'' then open_section SCREENS key v path n st
          else if key = ''windows'' then open_section WINDOWS key v path n st
          else
            bindE (ensure (pa_section st = None)
              (at_line path n '': scalar appears after blocks'')) (\<lambda>_.
            top_level_scalar key v st))"

definition screen_line :: "string \<Rightarrow> nat \<Rightarrow> string \<Rightarrow> parser \<Rightarrow> parser result" where
  "screen_line path n line st =
     (if spaces line = BLOCK_INDENT \<and> strip line = ''-''
      then
        let st1 = finish_screen st in
        bindE (ensure (length (pa_screens st1) < MAX_LAYOUT_SCREENS)
          ''layout screen count exceeds its limit'') (\<lambda>_.
        Inr (st1\<lparr>pa_current_screen := Some []\<rparr>))
      else (case pa_current_screen st of
          None \<Rightarrow> layout_error (at_line path n '': malformed screen list indentation'')
        | Some m \<Rightarrow>
            bindE (ensure (spaces line = FIELD_INDENT)
              (at_line path n '': malformed screen list indentation'')) (\<lambda>_.
            case match_key_value line of
              None \<Rightarrow> layout_error (at_line path n '': malformed screen field'')
            | Some (key, raw) \<Rightarrow>
                bindE (ensure (key \<in> set SCREEN_FIELDS)
                  (''unsupported layout screen field: '' @ key)) (\<lambda>_.
                bindE (ensure (strip raw \<noteq> []) (at_line path n '': empty screen field'')) (\<lambda>_.
                bindE (resolve_anchor (strip raw) (pa_anchors st) path n) (\<lambda>(v, anchors).
                Inr (st\<lparr>pa_anchors := anchors,
                        pa_current_screen := Some (AList.update key v m)\<rparr>)))))))"

definition window_line :: "string \<Rightarrow> nat \<Rightarrow> string \<Rightarrow> parser \<Rightarrow> parser result" where
  "window_line path n line st =
     (let stripped = strip line in
      if spaces line = BLOCK_INDENT \<and> starts_with ''- - '' stripped
      then
        bindE (finish_window st) (\<lambda>st1.
        bindE (ensure (int (length (pa_windows st1)) < MAX_WINDOW_RULES)
          ''layout window-rule count exceeds its limit'') (\<lambda>_.
        let matcher = strip (drop 4 stripped) in
        bindE (plain_scalar matcher path n False) (\<lambda>_.
        Inr (st1\<lparr>pa_current_matcher := Some matcher\<rparr>))))
      else if spaces line = FIELD_INDENT \<and> starts_with ''- '' stripped
      then
        bindE (ensure (pa_current_matcher st \<noteq> None)
          (at_line path n '': window command precedes matcher'')) (\<lambda>_.
        let command = strip (drop 2 stripped) in
        bindE (plain_scalar command path n False) (\<lambda>_.
        bindE (ensure (pa_commands st + 1 \<le> MAX_WINDOW_COMMANDS)
          ''layout window-command count exceeds its limit'') (\<lambda>_.
        Inr (st\<lparr>pa_current_commands := pa_current_commands st @ [command],
                pa_commands := pa_commands st + 1\<rparr>))))
      else layout_error (at_line path n '': malformed windows nesting''))"

text \<open>Blank lines and comments are skipped before anything is counted.\<close>

definition is_skipped :: "string \<Rightarrow> bool" where
  "is_skipped original \<longleftrightarrow>
     strip original = [] \<or> starts_with ''#'' (lstrip original) \<or>
     strip (without_comment original) = []"

definition parse_line :: "string \<Rightarrow> parser \<Rightarrow> nat \<times> string \<Rightarrow> parser result" where
  "parse_line path st =
     (\<lambda>(n, original).
        if is_skipped original then Inr st
        else
          let line = without_comment original; st1 = st\<lparr>pa_nodes := pa_nodes st + 1\<rparr> in
          bindE (ensure (pa_nodes st1 \<le> MAX_EXPANDED_NODES)
            ''expanded layout exceeds the node limit'') (\<lambda>_.
          if spaces line = 0 then top_level_line path n line st1
          else (case pa_section st of
              Some SCREENS \<Rightarrow> screen_line path n line st1
            | Some WINDOWS \<Rightarrow> window_line path n line st1
            | None \<Rightarrow> layout_error (at_line path n '': content precedes a block''))))"

definition screen_from_mapping :: "(string \<times> string) list \<Rightarrow> layout_screen result" where
  "screen_from_mapping m =
     (let lacks = (\<lambda>k. layout_error (''layout screen lacks '' @ py_repr k)) in
      case map_of m ''name'' of
        None \<Rightarrow> lacks ''name''
      | Some name \<Rightarrow>
          (case map_of m ''head'' of
             None \<Rightarrow> lacks ''head''
           | Some h \<Rightarrow>
               bindE (positive_integer h ''screen head'') (\<lambda>head.
               construct LayoutScreen_post_init
                 \<lparr> ls_name = name, ls_assignment = map_of m ''assignment'', ls_head = head,
                   ls_parameters = sort_key fst m \<rparr>)))"

text \<open>What \<^verbatim>\<open>_parse_expanded\<close> returns, with the parser's fields in place of a tuple.\<close>

definition parse_expanded ::
  "string \<Rightarrow> string \<Rightarrow> (parser \<times> layout_screen list) result" where
  "parse_expanded path expanded =
     bindE (foldE (parse_line path) new_parser (enumerate 1 (splitlines expanded))) (\<lambda>st0.
     bindE (finish_window (finish_screen st0)) (\<lambda>st.
     bindE (ensure (pa_screens st \<noteq> []) ''layout has no screens'') (\<lambda>_.
     bindE (ensure (set (pa_seen st) = {SCREENS, WINDOWS})
       ''layout requires screens and windows sections'') (\<lambda>_.
     bindE (ensure (pa_windows st \<noteq> []) ''layout has no window rules'') (\<lambda>_.
     bindE (mapE screen_from_mapping (pa_screens st)) (\<lambda>screens.
     Inr (st, screens)))))))"

definition parse_layout :: "string \<Rightarrow> (string \<times> text_bytes) list \<Rightarrow> parsed_layout result" where
  "parse_layout layout files =
     bindE (validated_file_mapping files) (\<lambda>by_path.
     bindE (layout_path layout) (\<lambda>source.
     bindE (expand_layout by_path source) (\<lambda>x.
     let expanded = concat (ex_output x) in
     bindE (parse_expanded source expanded) (\<lambda>(st, screens).
     Inr \<lparr> py_layout = layout, py_source_path = source,
       py_consumed_paths = sorted_set (ex_consumed x), py_expanded_yaml = expanded,
       py_dpi = pa_dpi st, py_ui_scale = pa_ui_scale st, py_font_scale = pa_font_scale st,
       py_screens = screens, py_window_rules = pa_windows st \<rparr>))))"

end
