(* ===== verification/Layout_Resolve.thy ===== *)
theory Layout_Resolve
  imports Layout_Parse
begin

text \<open>
  The second half of \<^verbatim>\<open>desktop/layout.py\<close>: the geometry of the screens of a layout on the
  observed displays, and the expansion of placeholders into window actions.
\<close>

section \<open>Displays\<close>

record display_screen =
  ds_output :: string
  ds_width :: int
  ds_height :: int
  ds_x :: int
  ds_y :: int
  ds_width_mm :: int
  ds_height_mm :: int
  ds_primary :: bool

definition DisplayScreenSnapshot_post_init :: "display_screen \<Rightarrow> unit result" where
  "DisplayScreenSnapshot_post_init d = checks
     [ensure (is_output_name (ds_output d)) ''display output name is malformed'',
      ensure (\<not> (ds_width d \<le> 0 \<or> ds_height d \<le> 0))
        ''display screen dimensions must be positive'',
      ensure (\<not> (ds_width_mm d < 0 \<or> ds_height_mm d < 0))
        ''display physical dimensions cannot be negative'']"

record resolved_screen =
  rs_number :: int
  rs_output :: string
  rs_name :: string
  rs_assignment :: string
  rs_head :: int
  rs_primary :: bool
  rs_x :: int
  rs_y :: int
  rs_width_mm :: int
  rs_height_mm :: int
  rs_source_parameters :: "(string \<times> string) list"
  rs_geometry :: "(string \<times> int) list"

definition NamedString_post_init :: "string \<times> string \<Rightarrow> unit result" where
  "NamedString_post_init = (\<lambda>(name, v).
     ensure (name \<noteq> [] \<and> v \<noteq> []) ''named source value must not be empty'')"

definition NamedInteger_post_init :: "string \<times> int \<Rightarrow> unit result" where
  "NamedInteger_post_init = (\<lambda>(name, v).
     ensure (\<not> is_blank name) ''geometry value name must not be empty'')"

definition ResolvedScreen_post_init :: "resolved_screen \<Rightarrow> unit result" where
  "ResolvedScreen_post_init s = checks
     [ensure (\<not> rs_number s < 0) ''resolved screen number cannot be negative'',
      ensure (let names = map fst (rs_geometry s)
              in names = sort names \<and> length names = length (remdups names))
        ''resolved geometry must be sorted and unique'']"

section \<open>Geometry\<close>

text \<open>\<^verbatim>\<open>layout.parameter(name) or default\<close>.\<close>

definition parameter_or :: "layout_screen \<Rightarrow> string \<Rightarrow> string \<Rightarrow> string" where
  "parameter_or l name d =
     (case map_of (ls_parameters l) name of None \<Rightarrow> d | Some v \<Rightarrow> if v = [] then d else v)"

text \<open>The active region of a screen: what its margins, panel and logs leave.\<close>

record region =
  rg_left_margin :: int
  rg_right_margin :: int
  rg_top_margin :: int
  rg_bottom_margin :: int
  rg_panel_height :: int
  rg_logs_height_pc :: decimal
  rg_logs_height :: int
  rg_cols_1_2_margin :: int
  rg_cols_2_3_margin :: int
  rg_rows_1_2_margin :: int
  rg_active_width :: int
  rg_active_height :: int

text \<open>\<^verbatim>\<open>_decimal_to_int(pc * reference / 100, field)\<close>.\<close>

definition share :: "decimal \<Rightarrow> int \<Rightarrow> string \<Rightarrow> int result" where
  "share pc reference field =
     decimal_to_int (dec_percent (dec_times pc (dec_of_int reference))) field"

definition active_region :: "layout_screen \<Rightarrow> display_screen \<Rightarrow> region result" where
  "active_region l live =
     (let width = ds_width live; height = ds_height live; par = parameter_or l in
      bindE (dimension (par ''left_margin'' ''0'') width) (\<lambda>left_margin.
      bindE (dimension (par ''right_margin'' ''0'') width) (\<lambda>right_margin.
      bindE (dimension (par ''top_margin'' ''0'') height) (\<lambda>top_margin.
      bindE (dimension (par ''bottom_margin'' ''0'') height) (\<lambda>bottom_margin.
      bindE (nonnegative_integer (par ''panel_height'' ''0'') ''panel_height'') (\<lambda>panel_height.
      bindE (decimal_of (par ''logs_height_pc'' ''0'') ''logs_height_pc'') (\<lambda>logs_height_pc.
      bindE (dimension (par ''cols_1_2_margin'' ''0'') width) (\<lambda>cols_1_2_margin.
      bindE (dimension (par ''cols_2_3_margin'' (par ''cols_1_2_margin'' ''0'')) width)
        (\<lambda>cols_2_3_margin.
      bindE (dimension (par ''rows_1_2_margin'' ''0'') height) (\<lambda>rows_1_2_margin.
      bindE (share logs_height_pc height ''logs_height'') (\<lambda>logs_height.
      let active_width = width - left_margin - right_margin;
          active_height = height - top_margin - panel_height - logs_height in
      bindE (ensure (\<not> (active_width \<le> 0 \<or> active_height \<le> 0))
        ''layout margins leave no active screen area'') (\<lambda>_.
      Inr \<lparr> rg_left_margin = left_margin, rg_right_margin = right_margin,
        rg_top_margin = top_margin, rg_bottom_margin = bottom_margin,
        rg_panel_height = panel_height, rg_logs_height_pc = logs_height_pc,
        rg_logs_height = logs_height, rg_cols_1_2_margin = cols_1_2_margin,
        rg_cols_2_3_margin = cols_2_3_margin, rg_rows_1_2_margin = rows_1_2_margin,
        rg_active_width = active_width, rg_active_height = active_height \<rparr>))))))))))))"

definition region_values ::
  "region \<Rightarrow> int \<Rightarrow> layout_screen \<Rightarrow> display_screen \<Rightarrow> (string \<times> int) list result" where
  "region_values r number l live =
     bindE (decimal_to_int (rg_logs_height_pc r) ''logs_height_pc'') (\<lambda>logs_height_pc.
     bindE (percent (rg_active_width r) (ds_width live)) (\<lambda>active_width_pc.
     bindE (percent (rg_active_height r) (ds_height live)) (\<lambda>active_height_pc.
     Inr
       [(''width'', ds_width live), (''height'', ds_height live), (''x_offset'', ds_x live),
        (''y_offset'', ds_y live), (''right'', ds_x live + ds_width live), (''num'', number),
        (''head'', ls_head l), (''left_margin'', rg_left_margin r),
        (''right_margin'', rg_right_margin r), (''top_margin'', rg_top_margin r),
        (''bottom_margin'', rg_bottom_margin r), (''panel_height'', rg_panel_height r),
        (''logs_height_pc'', logs_height_pc), (''logs_height'', rg_logs_height r),
        (''cols_1_2_margin'', rg_cols_1_2_margin r),
        (''cols_2_3_margin'', rg_cols_2_3_margin r),
        (''rows_1_2_margin'', rg_rows_1_2_margin r), (''active_left'', rg_left_margin r),
        (''active_top'', rg_top_margin r), (''active_width'', rg_active_width r),
        (''active_height'', rg_active_height r), (''active_width_pc'', active_width_pc),
        (''active_height_pc'', active_height_pc),
        (''active_middle_x'', rg_left_margin r + rg_active_width r div 2),
        (''active_middle_y'', rg_top_margin r + rg_active_height r div 2),
        (''full_left'', 0), (''full_top'', 0), (''full_width'', ds_width live),
        (''full_height'', ds_height live - rg_panel_height r)])))"

text \<open>The single window, centred in the active region.\<close>

record single_window =
  sw_width_pc :: int
  sw_height_pc :: int
  sw_width :: int
  sw_height :: int
  sw_left :: int
  sw_top :: int

definition dec_positive :: "decimal \<Rightarrow> bool" where
  "dec_positive d \<longleftrightarrow> \<not> dec_le d dec_zero"

definition single_window :: "region \<Rightarrow> layout_screen \<Rightarrow> single_window result" where
  "single_window r l =
     bindE (decimal_of (parameter_or l ''single_width_pc_of_active'' ''100'')
       ''single_width_pc_of_active'') (\<lambda>w_pc.
     bindE (decimal_of (parameter_or l ''single_height_pc_of_active'' ''100'')
       ''single_height_pc_of_active'') (\<lambda>h_pc.
     bindE (ensure (dec_positive w_pc \<and> dec_le w_pc HUNDRED \<and>
              dec_positive h_pc \<and> dec_le h_pc HUNDRED)
       ''single-window percentages must be within (0, 100]'') (\<lambda>_.
     bindE (share w_pc (rg_active_width r) ''single_width'') (\<lambda>w.
     bindE (share h_pc (rg_active_height r) ''single_height'') (\<lambda>h.
     bindE (decimal_to_int w_pc ''single_width_pc_of_active'') (\<lambda>w_int.
     bindE (decimal_to_int h_pc ''single_height_pc_of_active'') (\<lambda>h_int.
     Inr \<lparr> sw_width_pc = w_int, sw_height_pc = h_int, sw_width = w, sw_height = h,
       sw_left = rg_left_margin r + (rg_active_width r - w) div 2,
       sw_top = rg_top_margin r + (rg_active_height r - h) div 2 \<rparr>)))))))"

definition single_values :: "region \<Rightarrow> single_window \<Rightarrow> (string \<times> int) list" where
  "single_values r w =
     [(''single_width_pc_of_active'', sw_width_pc w),
      (''single_height_pc_of_active'', sw_height_pc w), (''single_width'', sw_width w),
      (''single_height'', sw_height w), (''single_left'', sw_left w), (''single_top'', sw_top w),
      (''single_middle_x'', rg_left_margin r + rg_active_width r div 2),
      (''single_middle_y'', rg_top_margin r + rg_active_height r div 2)]"

text \<open>The percentages of the columns and rows; a missing second one is the rest.\<close>

record grid_shares =
  gs_col12_margin_pc :: int
  gs_col23_margin_pc :: int
  gs_row_margin_pc :: int
  gs_col1_pc :: decimal
  gs_col2_pc :: decimal
  gs_col3_pc :: decimal
  gs_row1_pc :: decimal
  gs_row2_pc :: decimal

definition within_percent :: "string \<Rightarrow> decimal \<Rightarrow> unit result" where
  "within_percent name d =
     ensure (dec_le dec_zero d \<and> dec_le d HUNDRED) (name @ '' must be within [0, 100]'')"

definition grid_shares :: "region \<Rightarrow> layout_screen \<Rightarrow> grid_shares result" where
  "grid_shares r l =
     (let par = parameter_or l in
      bindE (percent (rg_cols_1_2_margin r) (rg_active_width r)) (\<lambda>m12.
      bindE (percent (rg_cols_2_3_margin r) (rg_active_width r)) (\<lambda>m23.
      bindE (percent (rg_rows_1_2_margin r) (rg_active_height r)) (\<lambda>mrow.
      bindE (decimal_of (par ''col1_width_pc_of_active'' ''50'') ''col1_width_pc_of_active'') (\<lambda>c1.
      bindE (decimal_of (par ''col3_width_pc_of_active'' ''0'') ''col3_width_pc_of_active'') (\<lambda>c3.
      let c2_default =
            (if \<not> dec_is_zero c3
             then dec_minus (dec_minus (dec_minus (dec_minus HUNDRED c1) c3) (dec_of_int m12))
                    (dec_of_int m23)
             else dec_minus (dec_minus HUNDRED c1) (dec_of_int m12)) in
      bindE (decimal_of (par ''col2_width_pc_of_active'' (dec_str c2_default))
        ''col2_width_pc_of_active'') (\<lambda>c2.
      bindE (decimal_of (par ''row1_height_pc_of_active'' ''50'') ''row1_height_pc_of_active'')
        (\<lambda>r1.
      let r2_default = dec_minus (dec_minus HUNDRED r1) (dec_of_int mrow) in
      bindE (decimal_of (par ''row2_height_pc_of_active'' (dec_str r2_default))
        ''row2_height_pc_of_active'') (\<lambda>r2.
      bindE (checks [within_percent ''col1_width_pc_of_active'' c1,
               within_percent ''col2_width_pc_of_active'' c2,
               within_percent ''col3_width_pc_of_active'' c3,
               within_percent ''row1_height_pc_of_active'' r1,
               within_percent ''row2_height_pc_of_active'' r2]) (\<lambda>_.
      Inr \<lparr> gs_col12_margin_pc = m12, gs_col23_margin_pc = m23, gs_row_margin_pc = mrow,
        gs_col1_pc = c1, gs_col2_pc = c2, gs_col3_pc = c3, gs_row1_pc = r1,
        gs_row2_pc = r2 \<rparr>))))))))))"

text \<open>Columns and rows; the second row has always used the first row's percentage.\<close>

record grid =
  gr_col1_left :: int
  gr_col1_width :: int
  gr_col2_left :: int
  gr_col2_width :: int
  gr_col3_left :: int
  gr_col3_width :: int
  gr_row1_top :: int
  gr_row1_height :: int
  gr_row2_top :: int
  gr_row2_height :: int

definition layout_grid :: "region \<Rightarrow> grid_shares \<Rightarrow> grid result" where
  "layout_grid r g =
     bindE (share (gs_col1_pc g) (rg_active_width r) ''col1_width'') (\<lambda>w1.
     bindE (share (gs_col2_pc g) (rg_active_width r) ''col2_width'') (\<lambda>w2.
     bindE (share (gs_col3_pc g) (rg_active_width r) ''col3_width'') (\<lambda>w3.
     let gutters = rg_cols_1_2_margin r + (if w3 \<noteq> 0 then rg_cols_2_3_margin r else 0) in
     bindE (ensure (\<not> w1 + w2 + w3 + gutters > rg_active_width r)
       ''column widths and gutters exceed active width'') (\<lambda>_.
     bindE (share (gs_row1_pc g) (rg_active_height r) ''row1_height'') (\<lambda>h1.
     bindE (share (gs_row1_pc g) (rg_active_height r) ''row2_height'') (\<lambda>h2.
     bindE (ensure (\<not> h1 + rg_rows_1_2_margin r + h2 > rg_active_height r)
       ''legacy row heights and gutter exceed active height'') (\<lambda>_.
     let col1_left = rg_left_margin r;
         col2_left = col1_left + w1 + rg_cols_1_2_margin r;
         col3_left = col2_left + w2 + rg_cols_2_3_margin r;
         row1_top = rg_top_margin r in
     Inr \<lparr> gr_col1_left = col1_left, gr_col1_width = w1, gr_col2_left = col2_left,
       gr_col2_width = w2, gr_col3_left = col3_left, gr_col3_width = w3,
       gr_row1_top = row1_top, gr_row1_height = h1,
       gr_row2_top = row1_top + h1 + rg_rows_1_2_margin r, gr_row2_height = h2 \<rparr>)))))))"

definition grid_values :: "grid_shares \<Rightarrow> grid \<Rightarrow> (string \<times> int) list result" where
  "grid_values g x =
     bindE (decimal_to_int (gs_col1_pc g) ''col1_width_pc_of_active'') (\<lambda>c1.
     bindE (decimal_to_int (gs_col2_pc g) ''col2_width_pc_of_active'') (\<lambda>c2.
     bindE (decimal_to_int (gs_col3_pc g) ''col3_width_pc_of_active'') (\<lambda>c3.
     bindE (decimal_to_int (gs_row1_pc g) ''row1_height_pc_of_active'') (\<lambda>r1.
     bindE (decimal_to_int (gs_row2_pc g) ''row2_height_pc_of_active'') (\<lambda>r2.
     let col1_right = gr_col1_left x + gr_col1_width x;
         col2_right = gr_col2_left x + gr_col2_width x;
         col3_right = gr_col3_left x + gr_col3_width x;
         row1_bottom = gr_row1_top x + gr_row1_height x;
         row2_bottom = gr_row2_top x + gr_row2_height x in
     Inr
       [(''cols_1_2_margin_pc_of_active'', gs_col12_margin_pc g),
        (''cols_2_3_margin_pc_of_active'', gs_col23_margin_pc g),
        (''rows_1_2_margin_pc_of_active'', gs_row_margin_pc g),
        (''col1_width_pc_of_active'', c1), (''col2_width_pc_of_active'', c2),
        (''col3_width_pc_of_active'', c3), (''row1_height_pc_of_active'', r1),
        (''row2_height_pc_of_active'', r2), (''col1_width'', gr_col1_width x),
        (''col2_width'', gr_col2_width x), (''col3_width'', gr_col3_width x),
        (''col1_left'', gr_col1_left x), (''col1_right'', col1_right),
        (''col2_left'', gr_col2_left x), (''col2_right'', col2_right),
        (''col3_left'', gr_col3_left x), (''col3_right'', col3_right),
        (''col1_middle'', gr_col1_left x + gr_col1_width x div 2),
        (''col2_middle'', gr_col2_left x + gr_col2_width x div 2),
        (''col3_middle'', gr_col3_left x + gr_col3_width x div 2),
        (''cols_1_2_width'', col2_right - gr_col1_left x),
        (''cols_1_2_middle'', gr_col1_left x + (col2_right - gr_col1_left x) div 2),
        (''row1_height'', gr_row1_height x), (''row2_height'', gr_row2_height x),
        (''row1_top'', gr_row1_top x), (''row1_bottom'', row1_bottom),
        (''row2_top'', gr_row2_top x), (''row2_bottom'', row2_bottom),
        (''row1_middle'', gr_row1_top x + gr_row1_height x div 2),
        (''row2_middle'', gr_row2_top x + gr_row2_height x div 2)])))))"

definition resolve_screen ::
  "int \<Rightarrow> layout_screen \<Rightarrow> string \<Rightarrow> display_screen \<Rightarrow> resolved_screen result" where
  "resolve_screen number l assignment live =
     bindE (active_region l live) (\<lambda>r.
     bindE (region_values r number l live) (\<lambda>values1.
     bindE (single_window r l) (\<lambda>w.
     bindE (grid_shares r l) (\<lambda>g.
     bindE (layout_grid r g) (\<lambda>x.
     bindE (grid_values g x) (\<lambda>values3.
     let geometry = sort_key fst (values1 @ single_values r w @ values3) in
     bindE (checks (map NamedString_post_init (ls_parameters l))) (\<lambda>_.
     bindE (checks (map NamedInteger_post_init geometry)) (\<lambda>_.
     construct ResolvedScreen_post_init
       \<lparr> rs_number = number, rs_output = ds_output live, rs_name = ls_name l,
         rs_assignment = assignment, rs_head = ls_head l, rs_primary = ds_primary live,
         rs_x = ds_x live, rs_y = ds_y live, rs_width_mm = ds_width_mm live,
         rs_height_mm = ds_height_mm live, rs_source_parameters = ls_parameters l,
         rs_geometry = geometry \<rparr>))))))))"

section \<open>Placeholders\<close>

definition STICK :: string where "STICK = ''If {Matches (Stuck=no)} {Stick}''"
definition UNSTICK :: string where "UNSTICK = ''If {Matches (Stuck=yes)} {Stick}''"

text \<open>A dictionary is an association list; a later assignment replaces an earlier one.\<close>

type_synonym replacements = "(string \<times> string) list"

definition assign_all :: "replacements \<Rightarrow> (string \<times> string) list \<Rightarrow> replacements" where
  "assign_all d kvs = foldl (\<lambda>d (k, v). AList.update k v d) d kvs"

definition rendered :: "string \<times> string \<Rightarrow> string" where
  "rendered = (\<lambda>(name, v). v @ (if ends_with ''_pc'' name then ''%'' else []))"

definition geometry_text :: "resolved_screen \<Rightarrow> (string \<times> string) list" where
  "geometry_text s = map (\<lambda>(name, v). (name, int_decimal v)) (rs_geometry s)"

definition set_head :: "resolved_screen \<Rightarrow> string" where
  "set_head s = ''SetHead '' @ int_decimal (rs_head s)"

definition text_fields :: "resolved_screen \<Rightarrow> replacements" where
  "text_fields s = assign_all []
     (rs_source_parameters s @ geometry_text s @
      [(''SetHead'', set_head s), (''assignment'', rs_assignment s), (''name'', rs_name s),
       (''output'', rs_output s)])"

definition screen_placeholders :: "resolved_screen \<Rightarrow> (string \<times> string) list" where
  "screen_placeholders s =
     concat (map (\<lambda>prefix. map (\<lambda>(name, v). (''<'' @ prefix @ name @ ''>'', rendered (name, v)))
         (text_fields s))
       [''s'' @ int_decimal (rs_number s) @ ''_'', ''s_'' @ rs_assignment s @ ''_''])"

definition geometry_value :: "resolved_screen \<Rightarrow> string \<Rightarrow> int result" where
  "geometry_value s name =
     (case map_of (rs_geometry s) name of
        None \<Rightarrow> layout_error (''resolved screen has no '' @ py_repr name @ '' geometry'')
      | Some v \<Rightarrow> Inr v)"

definition place_rhs :: "resolved_screen \<Rightarrow> resolved_screen option \<Rightarrow> (string \<times> string) list result"
where
  "place_rhs primary secondary =
     bindE (geometry_value primary ''col3_width'') (\<lambda>w.
     if w > 0
     then
       bindE (geometry_value primary ''col3_left'') (\<lambda>left.
       bindE (geometry_value primary ''row1_top'') (\<lambda>top.
       bindE (geometry_value primary ''active_height'') (\<lambda>height.
       Inr [(''<place_RHS>'',
         ''MacroCmd {SetHead '' @ int_decimal (rs_head primary) @ ''} {MoveTo '' @
         int_decimal left @ '' '' @ int_decimal top @ ''} {ResizeTo '' @ int_decimal w @ '' '' @
         int_decimal height @ ''} {'' @ STICK @ ''}'')])))
     else Inr (case secondary of
         None \<Rightarrow> []
       | Some s \<Rightarrow> [(''<place_RHS>'',
           ''MacroCmd {SetHead '' @ int_decimal (rs_head s) @ ''} {'' @ STICK @ ''}'')]))"

definition placeholder_values :: "resolved_screen list \<Rightarrow> replacements result" where
  "placeholder_values screens =
     (let base = assign_all [(''<stick>'', STICK), (''<unstick>'', UNSTICK)]
            (concat (map screen_placeholders screens));
          assigned = (\<lambda>a. find (\<lambda>s. rs_assignment s = a) screens)
      in case assigned ''primary'' of
           None \<Rightarrow> layout_error ''resolved layout has no primary assignment''
         | Some p \<Rightarrow> bindE (place_rhs p (assigned ''secondary'')) (\<lambda>rhs.
             Inr (assign_all base rhs)))"

definition current_screen_placeholders :: "resolved_screen \<Rightarrow> (string \<times> string) list" where
  "current_screen_placeholders s =
     map (\<lambda>(name, v). (''<sX_'' @ name @ ''>'', rendered (name, v)))
       (assign_all [] (rs_source_parameters s @ geometry_text s @ [(''SetHead'', set_head s)]))"

text \<open>The longest placeholder first, and by code point among those of one length.\<close>

definition replacement_order :: "replacements \<Rightarrow> replacements" where
  "replacement_order d = rev (sort_key (\<lambda>(k, v). length k) (rev (sort_key fst d)))"

definition expand_placeholders :: "replacements \<Rightarrow> string \<Rightarrow> string result" where
  "expand_placeholders d v =
     (let result = foldl (\<lambda>s (k, w). replace_all k w s) v (replacement_order d) in
      case find_placeholder result of
        Some p \<Rightarrow> layout_error (''unknown layout placeholder: '' @ p)
      | None \<Rightarrow> bindE (bounded_scalar result ''expanded Fluxbox scalar'') (\<lambda>_. Inr result))"

definition combine_commands :: "string list \<Rightarrow> string" where
  "combine_commands cs =
     (case cs of
        [c] \<Rightarrow> c
      | _ \<Rightarrow> ''MacroCmd '' @ join_str '' '' (map (\<lambda>c.
          if starts_with ''MacroCmd '' c then removeprefix ''MacroCmd '' c
          else ''{'' @ c @ ''}'') cs))"

section \<open>Actions\<close>

record resolved_action =
  ra_matcher :: string
  ra_commands :: "string list"
  ra_map_command :: string

definition ResolvedWindowAction_post_init :: "resolved_action \<Rightarrow> unit result" where
  "ResolvedWindowAction_post_init a = checks
     [bounded_scalar (ra_matcher a) ''resolved window matcher'',
      ensure (ra_commands a \<noteq> []) ''resolved window action has no commands'',
      bounded_scalar (ra_map_command a) ''resolved Fluxbox map command'',
      ensure (list_all (\<lambda>s. find_placeholder s = None)
          (ra_matcher a # ra_commands a @ [ra_map_command a]))
        ''resolved window action retains a placeholder'']"

text \<open>\<^verbatim>\<open>_ResolvedTextBudget\<close>: bytes and values so far.\<close>

type_synonym text_budget = "int \<times> int"

definition charge :: "text_budget \<Rightarrow> string list \<Rightarrow> text_budget result" where
  "charge b items =
     (let size = sum_list (map utf8_size items) in
      bindE (ensure (fst b + size \<le> MAX_LAYOUT_TOTAL_BYTES)
        ''resolved layout exceeds the byte limit'') (\<lambda>_.
      bindE (ensure (snd b + int (length items) \<le> MAX_WINDOW_COMMANDS)
        ''resolved layout exceeds the value-count limit'') (\<lambda>_.
      Inr (fst b + size, snd b + int (length items)))))"

definition resolve_rule ::
  "replacements \<Rightarrow> text_budget \<times> resolved_action list \<Rightarrow> window_rule \<Rightarrow>
   (text_budget \<times> resolved_action list) result" where
  "resolve_rule d acc rule =
     bindE (expand_placeholders d (wr_matcher rule)) (\<lambda>matcher.
     bindE (mapE (expand_placeholders d) (wr_commands rule)) (\<lambda>commands.
     let map_command = ''Map {'' @ combine_commands commands @ ''} {Matches '' @ matcher @ ''}'' in
     bindE (charge (fst acc) (matcher # commands @ [map_command])) (\<lambda>b.
     bindE (construct ResolvedWindowAction_post_init
       \<lparr> ra_matcher = matcher, ra_commands = commands, ra_map_command = map_command \<rparr>) (\<lambda>a.
     Inr (b, snd acc @ [a])))))"

definition resolve_window_actions ::
  "window_rule list \<Rightarrow> resolved_screen list \<Rightarrow> resolved_action list result" where
  "resolve_window_actions rules screens =
     bindE (placeholder_values screens) (\<lambda>d.
     bindE (foldE (resolve_rule d) ((0, 0), []) rules) (\<lambda>acc. Inr (snd acc)))"

section \<open>A layout on the observed displays\<close>

record resolved_layout =
  rl_layout :: string
  rl_source_path :: string
  rl_consumed_paths :: "string list"
  rl_expanded_yaml :: string
  rl_dpi :: "int option"
  rl_ui_scale :: "string option"
  rl_font_scale :: "string option"
  rl_screens :: "resolved_screen list"
  rl_window_actions :: "resolved_action list"

text \<open>\<^verbatim>\<open>sorted(display_screens, key=lambda item: (item.x, item.y, item.output))\<close>.\<close>

definition left_to_right :: "display_screen list \<Rightarrow> display_screen list" where
  "left_to_right ds = sort_key ds_x (sort_key ds_y (sort_key ds_output ds))"

definition assignment_of :: "nat \<Rightarrow> layout_screen \<Rightarrow> string" where
  "assignment_of n l =
     (if n = 1 then ''primary''
      else (case ls_assignment l of None \<Rightarrow> ls_name l | Some a \<Rightarrow> a))"

definition pair_screen ::
  "nat \<Rightarrow> resolved_screen list \<Rightarrow> nat \<times> layout_screen \<times> display_screen \<Rightarrow>
   resolved_screen list result" where
  "pair_screen n done =
     (\<lambda>(number, l, live).
        let assignment = assignment_of n l in
        bindE (ensure (assignment \<notin> set (map rs_assignment done))
          ''layout screen assignments must be unique'') (\<lambda>_.
        bindE (ensure (ls_head l \<notin> set (map rs_head done))
          ''layout Fluxbox head numbers must be unique'') (\<lambda>_.
        bindE (ensure ((assignment = ''primary'') = ds_primary live)
          (''layout screen '' @ py_repr (ls_name l) @ '' primary assignment differs from X'')) (\<lambda>_.
        bindE (resolve_screen (int number) l assignment live) (\<lambda>s.
        Inr (done @ [s]))))))"

definition resolve_layout :: "parsed_layout \<Rightarrow> display_screen list \<Rightarrow> resolved_layout result" where
  "resolve_layout parsed displays =
     (let ordered = left_to_right displays; n = length ordered in
      bindE (ensure (n = length (py_screens parsed))
        (''display has '' @ nat_decimal n @ '' active screens but layout has '' @
         nat_decimal (length (py_screens parsed)))) (\<lambda>_.
      bindE (ensure (ordered \<noteq> []) ''desktop planning requires at least one active screen'') (\<lambda>_.
      bindE (ensure (length (remdups (map ds_output ordered)) = n)
        ''display snapshot contains duplicate outputs'') (\<lambda>_.
      bindE (ensure (length (filter ds_primary ordered) = 1)
        ''display snapshot requires exactly one primary output'') (\<lambda>_.
      bindE (foldE (pair_screen n) [] (enumerate 0 (zip (py_screens parsed) ordered))) (\<lambda>screens.
      bindE (resolve_window_actions (py_window_rules parsed) screens) (\<lambda>actions.
      Inr \<lparr> rl_layout = py_layout parsed, rl_source_path = py_source_path parsed,
        rl_consumed_paths = py_consumed_paths parsed, rl_expanded_yaml = py_expanded_yaml parsed,
        rl_dpi = py_dpi parsed, rl_ui_scale = py_ui_scale parsed,
        rl_font_scale = py_font_scale parsed, rl_screens = screens,
        rl_window_actions = actions \<rparr>)))))))"

section \<open>Sublayouts\<close>

record sublayouts =
  sb_result :: "(string \<times> string list) list"
  sb_current :: "string option"
  sb_commands :: "string list"
  sb_command_count :: int
  sb_nodes :: int

definition finish_sublayout :: "sublayouts \<Rightarrow> sublayouts result" where
  "finish_sublayout st =
     (case sb_current st of
        None \<Rightarrow> Inr st
      | Some name \<Rightarrow>
          bindE (ensure (sb_commands st \<noteq> []) ''sublayout command array is empty'') (\<lambda>_.
          Inr (st\<lparr>sb_result := sb_result st @ [(name, sb_commands st)]\<rparr>)))"

definition SUBLAYOUTS :: string where "SUBLAYOUTS = ''.fluxbox/sublayouts.yaml''"

definition sublayout_step :: "sublayouts \<Rightarrow> nat \<times> string \<Rightarrow> sublayouts result" where
  "sublayout_step st =
     (\<lambda>(n, original).
        if is_skipped original then Inr st
        else
          let line = without_comment original in
          bindE
            (if spaces line = 0
             then (case match_sublayout_key line of
                 None \<Rightarrow> layout_error (at_line SUBLAYOUTS n '': malformed sublayout key'')
               | Some key \<Rightarrow>
                   bindE (finish_sublayout st) (\<lambda>st1.
                   Inr (st1\<lparr>sb_current := Some key, sb_commands := []\<rparr>)))
             else if spaces line = BLOCK_INDENT \<and> starts_with ''- '' (strip line)
             then
               bindE (ensure (sb_current st \<noteq> None) ''sublayout command precedes its key'') (\<lambda>_.
               let command = strip (drop 2 (strip line)) in
               bindE (plain_scalar command SUBLAYOUTS n False) (\<lambda>_.
               bindE (ensure (sb_command_count st + 1 \<le> MAX_WINDOW_COMMANDS)
                 ''sublayout command count exceeds its limit'') (\<lambda>_.
               Inr (st\<lparr>sb_commands := sb_commands st @ [command],
                       sb_command_count := sb_command_count st + 1\<rparr>))))
             else layout_error (at_line SUBLAYOUTS n '': malformed nesting''))
          (\<lambda>st2.
          bindE (ensure (sb_nodes st2 + 1 \<le> MAX_EXPANDED_NODES)
            ''sublayout expanded-node limit exceeded'') (\<lambda>_.
          Inr (st2\<lparr>sb_nodes := sb_nodes st2 + 1\<rparr>))))"

definition parse_sublayouts :: "text_bytes \<Rightarrow> (string \<times> string list) list result" where
  "parse_sublayouts content =
     bindE (decode_layout_file SUBLAYOUTS content) (\<lambda>text.
     bindE (foldE sublayout_step
       \<lparr> sb_result = [], sb_current = None, sb_commands = [], sb_command_count = 0, sb_nodes = 0 \<rparr>
       (enumerate 1 (splitlines text))) (\<lambda>st0.
     bindE (finish_sublayout st0) (\<lambda>st.
     bindE (ensure (sb_result st \<noteq> [] \<and> distinct (map fst (sb_result st)))
       ''sublayout keys must be non-empty and unique'') (\<lambda>_.
     Inr (sb_result st)))))"

definition resolve_sublayout ::
  "replacements \<Rightarrow> resolved_screen list \<Rightarrow>
   text_budget \<times> (string \<times> string list list) list \<Rightarrow> string \<times> string list \<Rightarrow>
   (text_budget \<times> (string \<times> string list list) list) result" where
  "resolve_sublayout base screens acc =
     (\<lambda>(name, commands).
        bindE (foldE (\<lambda>(b, per_screen) current.
            let d = assign_all base (current_screen_placeholders current) in
            bindE (mapE (expand_placeholders d) commands) (\<lambda>expanded.
            bindE (charge b expanded) (\<lambda>b'. Inr (b', per_screen @ [expanded]))))
          (fst acc, []) screens) (\<lambda>(b, per_screen).
        Inr (b, snd acc @ [(name, per_screen)])))"

definition resolve_sublayouts ::
  "(string \<times> string list) list \<Rightarrow> resolved_screen list \<Rightarrow>
   (string \<times> string list list) list result" where
  "resolve_sublayouts parsed screens =
     bindE (placeholder_values screens) (\<lambda>base.
     bindE (foldE (resolve_sublayout base screens) ((0, 0), []) parsed) (\<lambda>acc.
     Inr (snd acc)))"

end
