(* ===== verification/Layout_Sound.thy ===== *)
theory Layout_Sound
  imports Layout_Resolve
begin

text \<open>
  Lemmas on the layout planner: decimals are monotone under the rounding they meet,
  expansion stays within its budget, and a resolved screen shows the grid it was
  computed from.
\<close>

section \<open>Decimals\<close>

lemma ascii_digit_value: "ascii_digit c \<Longrightarrow> (48 :: int) \<le> of_char c"
proof -
  assume "ascii_digit c"
  then have "48 \<le> (of_char c :: nat)" by (simp add: ascii_digit_def Let_def)
  then have "int 48 \<le> int (of_char c)" by (simp only: of_nat_le_iff)
  then show ?thesis by (simp only: of_nat_of_char of_nat_numeral)
qed

lemma digits_value_nonneg: "0 \<le> n \<Longrightarrow> list_all ascii_digit s \<Longrightarrow> 0 \<le> digits_value n s"
proof (induction s arbitrary: n)
  case (Cons c s)
  then have "0 \<le> 10 * n + (of_char c - 48 :: int)" using ascii_digit_value [of c] by simp
  with Cons show ?case by simp
qed simp

text \<open>A decimal in use has a coefficient that is not negative.\<close>

definition proper :: "decimal \<Rightarrow> bool" where
  "proper d \<longleftrightarrow> 0 \<le> dec_coefficient d"

lemma proper_of_text: "is_decimal_text s \<Longrightarrow> proper (dec_of_text s)"
  unfolding is_decimal_text_def dec_of_text_def proper_def
  by (auto split: prod.splits if_splits simp: is_digits_def intro!: digits_value_nonneg
      dest!: partition_at_append)

lemma decimal_of_proper: "decimal_of v f = Inr d \<Longrightarrow> proper d"
  by (auto simp: decimal_of_def proper_of_text split: if_splits)

lemma round_half_even_nonneg: "0 \<le> n \<Longrightarrow> 0 \<le> round_half_even n k"
  by (auto simp: round_half_even_def Let_def pos_imp_zdiv_nonneg_iff intro: add_nonneg_nonneg)

lemma proper_fix: "proper d \<Longrightarrow> proper (dec_fix d)"
  by (cases d) (auto simp: proper_def dec_fix_def Let_def round_half_even_nonneg
      pos_imp_zdiv_nonneg_iff)

lemma proper_times: "proper a \<Longrightarrow> proper b \<Longrightarrow> proper (dec_times a b)"
  unfolding dec_times_def by (rule proper_fix) (simp add: proper_def)

lemma dec_negative_fix [simp]: "dec_negative (dec_fix d) = dec_negative d"
  by (cases d) (auto simp: dec_fix_def Let_def)

lemma truncate_nonneg: "proper d \<Longrightarrow> \<not> dec_negative d \<Longrightarrow> 0 \<le> dec_truncate d"
  by (cases d) (auto simp: proper_def dec_truncate_def pos_imp_zdiv_nonneg_iff)

lemma truncate_zero: "dec_coefficient d = 0 \<Longrightarrow> dec_truncate d = 0"
  by (cases d) (auto simp: dec_truncate_def)

lemma digit_count_zero [simp]: "digit_count 0 = 1"
  unfolding digit_count_def by (subst int_digits.simps) simp

lemma fix_zero: "dec_coefficient d = 0 \<Longrightarrow> dec_fix d = d"
  by (cases d) (simp add: dec_fix_def PRECISION_def)

lemma percent_parts [simp]:
  "dec_coefficient (dec_percent d) = dec_coefficient d" "dec_negative (dec_percent d) = dec_negative d"
  by (cases d; simp add: dec_percent_def)+

text \<open>Not below zero: positive sign, or zero.\<close>

lemma dec_le_zero_iff: "proper d \<Longrightarrow> dec_le dec_zero d \<longleftrightarrow> dec_coefficient d = 0 \<or> \<not> dec_negative d"
proof (cases d)
  case (Decimal s c e)
  assume "proper d"
  then have "0 \<le> c * 10 ^ nat (e - min 0 e)" "c * 10 ^ nat (e - min 0 e) = 0 \<longleftrightarrow> c = 0"
    using Decimal by (simp_all add: proper_def)
  then show ?thesis using Decimal by (auto simp: dec_le_def scaled_def Let_def)
qed

lemma share_nonneg:
  assumes "share pc n f = Inr v" and "proper pc" and "dec_le dec_zero pc" and "0 \<le> n"
  shows "0 \<le> v"
proof -
  let ?t = "dec_percent (dec_times pc (dec_of_int n))"
  have v: "v = dec_truncate ?t"
    using assms(1) by (auto simp: share_def decimal_to_int_def Let_def split: if_splits)
  have "proper ?t"
    using proper_times [OF assms(2), of "dec_of_int n"] assms(4)
    by (simp add: proper_def dec_of_int_def)
  moreover have "dec_coefficient ?t = 0 \<or> \<not> dec_negative ?t"
  proof (cases "dec_coefficient pc = 0")
    case True
    then show ?thesis by (simp add: dec_times_def fix_zero)
  next
    case False
    then have "\<not> dec_negative pc" using dec_le_zero_iff [OF assms(2)] assms(3) by simp
    then show ?thesis using assms(4) by (simp add: dec_times_def dec_of_int_def)
  qed
  ultimately show ?thesis using v truncate_nonneg truncate_zero by fastforce
qed

lemma nonnegative_integerD: "nonnegative_integer v f = Inr n \<Longrightarrow> 0 \<le> n"
  by (auto simp: nonnegative_integer_def split: if_splits)

lemma dimension_nonneg:
  assumes "dimension v n = Inr m" and "0 \<le> n" shows "0 \<le> m"
proof (cases "v \<noteq> [] \<and> last v = CHR ''%''")
  case True
  then obtain p where "decimal_of (butlast v) ''percentage dimension'' = Inr p"
    "dec_le dec_zero p" "share p n ''percentage dimension'' = Inr m"
    using assms(1) by (auto simp: dimension_def share_def bindE_eq_Inr split: if_splits)
  with share_nonneg decimal_of_proper assms(2) show ?thesis by blast
next
  case False
  then show ?thesis
    using assms(1) nonnegative_integerD by (auto simp: dimension_def split: if_splits)
qed

text \<open>A share of at most a hundred per cent is at most the whole.\<close>

lemma int_digits_lower: "1 \<le> n \<Longrightarrow> 10 ^ (length (int_digits n) - 1) \<le> n"
proof (induction n rule: int_digits.induct)
  case (1 n)
  show ?case
  proof (cases "n < 10")
    case True
    then show ?thesis using 1 by (subst int_digits.simps) simp
  next
    case False
    then have ih: "10 ^ (length (int_digits (n div 10)) - 1) \<le> n div 10" using 1 by simp
    have "length (int_digits n) = Suc (length (int_digits (n div 10)))"
      using False by (subst int_digits.simps) simp
    moreover have "length (int_digits (n div 10)) \<noteq> 0"
      by (subst int_digits.simps) simp
    ultimately have "10 ^ (length (int_digits n) - 1) = 10 * 10 ^ (length (int_digits (n div 10)) - 1)"
      by (metis Suc_diff_1 diff_Suc_1 gr0I power_Suc)
    also have "\<dots> \<le> 10 * (n div 10)" using ih by simp
    also have "\<dots> \<le> n" by simp
    finally show ?thesis .
  qed
qed

lemma round_half_even_le:
  assumes "c \<le> m * 10 ^ k" shows "round_half_even c k \<le> m"
proof -
  have pos: "0 < (10 :: int) ^ k" by simp
  have q: "c div 10 ^ k \<le> m"
    using zdiv_mono1 [OF assms pos] by simp
  moreover have "c mod 10 ^ k = 0" if "c div 10 ^ k = m"
  proof -
    have "c = m * 10 ^ k + c mod 10 ^ k" using that by (metis div_mult_mod_eq)
    then have "c mod 10 ^ k \<le> 0" using assms by linarith
    moreover have "0 \<le> c mod 10 ^ k" using pos by (rule pos_mod_sign)
    ultimately show ?thesis by simp
  qed
  ultimately show ?thesis
    using pos by (cases "c div 10 ^ k = m") (auto simp: round_half_even_def Let_def)
qed

lemma fixed_share_le:
  assumes "0 \<le> c" and "e \<le> 0" and le: "c \<le> 100 * n * 10 ^ nat (- e)" and "n < 10 ^ 26"
  shows "dec_truncate (dec_percent (dec_fix (Decimal False c e))) \<le> n"
proof (cases "digit_count c \<le> 28")
  case True
  have "c div 10 ^ nat (2 - e) \<le> (100 * n * 10 ^ nat (- e)) div 10 ^ nat (2 - e)"
    using le by (intro zdiv_mono1) simp_all
  also have "nat (2 - e) = 2 + nat (- e)" using assms(2) by arith
  finally have "c div 10 ^ nat (2 - e) \<le> n"
    using \<open>nat (2 - e) = 2 + nat (- e)\<close> by (simp add: power_add)
  then show ?thesis
    using True assms(2) by (simp add: dec_fix_def PRECISION_def dec_percent_def dec_truncate_def)
next
  case False
  define k where "k = digit_count c - 28"
  have k: "k > 0" "digit_count c = 28 + k" using False by (auto simp: k_def)
  have "1 \<le> c" using False assms(1) by (cases "c = 0") auto
  then have big: "10 ^ (27 + k) \<le> c" using int_digits_lower [of c] k by (simp add: digit_count_def)
  have room: "e + int k \<le> 0"
  proof (rule ccontr)
    assume "\<not> e + int k \<le> 0"
    then have "nat (- e) + 1 \<le> k" using k(1) by arith
    then have "(10 :: int) ^ (27 + (nat (- e) + 1)) \<le> 10 ^ (27 + k)" by (intro power_increasing) auto
    also have "\<dots> \<le> 100 * n * 10 ^ nat (- e)" using big le by simp
    finally have "10 ^ 28 * 10 ^ nat (- e) \<le> 100 * n * (10 :: int) ^ nat (- e)"
      by (simp add: power_add)
    then have "10 ^ 28 \<le> 100 * n" by (simp only: mult_le_cancel_right) simp
    then show False using assms(4) by simp
  qed
  define m where "m = 100 * n * 10 ^ nat (- e - int k)"
  have "(10 :: int) ^ nat (- e) = 10 ^ nat (- e - int k) * 10 ^ k"
    using room by (simp flip: power_add)
  then have "c \<le> m * 10 ^ k" using le by (simp add: m_def)
  then have r: "round_half_even c k \<le> m" by (rule round_half_even_le)
  have "round_half_even c k div 10 ^ nat (2 - e - int k) \<le> m div 10 ^ nat (2 - e - int k)"
    using r by (intro zdiv_mono1) simp_all
  also have "m div 10 ^ nat (2 - e - int k) = n"
  proof -
    have "nat (2 - e - int k) = 2 + nat (- e - int k)" using room by arith
    then show ?thesis by (simp add: m_def power_add)
  qed
  finally have small: "round_half_even c k div 10 ^ nat (2 - e - int k) \<le> n" .
  have "round_half_even c k div 10 div 10 ^ nat (1 - e - int k) =
      round_half_even c k div 10 ^ nat (2 - e - int k)"
  proof -
    have "nat (2 - e - int k) = Suc (nat (1 - e - int k))" using room by simp
    then show ?thesis by (simp add: zdiv_zmult2_eq)
  qed
  with small room k show ?thesis
    by (auto simp: dec_fix_def PRECISION_def dec_percent_def dec_truncate_def Let_def algebra_simps)
qed

lemma decimal_of_exponent: "decimal_of v f = Inr d \<Longrightarrow> dec_exponent d \<le> 0"
  by (auto simp: decimal_of_def dec_of_text_def split: if_splits prod.splits)

lemma share_le_small:
  assumes "share pc n f = Inr v" and "proper pc" and "dec_exponent pc \<le> 0"
    and "dec_le dec_zero pc" and "dec_le pc HUNDRED" and "0 \<le> n" and "n < 10 ^ 26"
  shows "v \<le> n"
proof -
  obtain s c e where pc: "pc = Decimal s c e" by (cases pc)
  have v: "v = dec_truncate (dec_percent (dec_times pc (dec_of_int n)))"
    using assms(1) by (auto simp: share_def decimal_to_int_def Let_def split: if_splits)
  show ?thesis
  proof (cases "c = 0")
    case True
    then show ?thesis using v pc assms(6) by (simp add: dec_times_def fix_zero truncate_zero)
  next
    case False
    then have "\<not> s" using dec_le_zero_iff [OF assms(2)] assms(4) pc by simp
    moreover have "c \<le> 100 * 10 ^ nat (- e)"
      using assms(3,5) pc \<open>\<not> s\<close> by (simp add: dec_le_def scaled_def Let_def min_def split: if_splits)
    then have "c * n \<le> 100 * n * 10 ^ nat (- e)"
      using mult_right_mono [of c "100 * 10 ^ nat (- e)" n] assms(6) by (simp add: mult.commute mult.left_commute)
    moreover have "0 \<le> c * n" using assms(2,6) pc by (simp add: proper_def)
    ultimately show ?thesis
      using fixed_share_le [of "c * n" e n] assms(3,6,7) pc v
      by (simp add: dec_times_def dec_of_int_def)
  qed
qed

text \<open>A larger reference is beyond the 64-bit range the result is checked against.\<close>

lemma share_le:
  assumes "share pc n f = Inr v" and "proper pc" and "dec_exponent pc \<le> 0"
    and "dec_le dec_zero pc" and "dec_le pc HUNDRED" and "0 \<le> n"
  shows "v \<le> n"
proof (cases "n < 10 ^ 26")
  case True
  with assms show ?thesis by (rule share_le_small)
next
  case False
  have "v < 2 ^ 63"
    using assms(1) by (auto simp: share_def decimal_to_int_def Let_def split: if_splits)
  with False show ?thesis by simp
qed

section \<open>The grid of a screen\<close>

lemma map_of_sort_key:
  assumes "distinct (map fst xs)" shows "map_of (sort_key f xs) = map_of xs"
proof
  fix k
  have "distinct (map fst (sort_key f xs))"
    using assms by (simp add: distinct_map)
  then show "map_of (sort_key f xs) k = map_of xs k"
    using assms by (metis map_of_eq_Some_iff not_None_eq set_sort)
qed

lemma resolve_screenD:
  assumes "resolve_screen number l a live = Inr s"
  obtains r v1 w g x v3 where "active_region l live = Inr r"
    and "region_values r number l live = Inr v1" and "single_window r l = Inr w"
    and "grid_shares r l = Inr g" and "layout_grid r g = Inr x" and "grid_values g x = Inr v3"
    and "map_of (rs_geometry s) = map_of (v1 @ single_values r w @ v3)"
    and "distinct (map fst (v1 @ single_values r w @ v3))"
    and "rs_output s = ds_output live" and "rs_assignment s = a" and "rs_head s = ls_head l"
    and "rs_primary s = ds_primary live" and "rs_number s = number"
    and "rs_name s = ls_name l" and "rs_x s = ds_x live"
proof -
  obtain r v1 w g x v3 where parts: "active_region l live = Inr r"
    "region_values r number l live = Inr v1" "single_window r l = Inr w"
    "grid_shares r l = Inr g" "layout_grid r g = Inr x" "grid_values g x = Inr v3"
    and s: "passes (ResolvedScreen_post_init s)" "rs_geometry s = sort_key fst (v1 @ single_values r w @ v3)"
      "rs_output s = ds_output live" "rs_assignment s = a" "rs_head s = ls_head l"
      "rs_primary s = ds_primary live" "rs_number s = number" "rs_name s = ls_name l"
      "rs_x s = ds_x live"
    using assms unfolding resolve_screen_def by (auto simp: bindE_eq_Inr Let_def)
  have "distinct (map fst (rs_geometry s))"
    using s(1) length_remdups_eq [of "map fst (rs_geometry s)"]
    by (auto simp: ResolvedScreen_post_init_def ensure_def Let_def)
  then have "distinct (map fst (v1 @ single_values r w @ v3))"
    unfolding s(2) by (simp only: distinct_map set_sort distinct_sort)
  then have "map_of (rs_geometry s) = map_of (v1 @ single_values r w @ v3)"
    unfolding s(2) by (rule map_of_sort_key)
  with parts s \<open>distinct (map fst (v1 @ single_values r w @ v3))\<close> show ?thesis using that by blast
qed

text \<open>What the geometry of a resolved screen says under each name.\<close>

definition geometry_of :: "resolved_screen \<Rightarrow> string \<Rightarrow> int" where
  "geometry_of s name = the (map_of (rs_geometry s) name)"

lemma region_valuesD:
  assumes "region_values r number l live = Inr v"
  shows "(''left_margin'', rg_left_margin r) \<in> set v \<and> (''logs_height'', rg_logs_height r) \<in> set v \<and>
    (''width'', ds_width live) \<in> set v \<and> (''height'', ds_height live) \<in> set v \<and>
    (''panel_height'', rg_panel_height r) \<in> set v \<and> (''active_left'', rg_left_margin r) \<in> set v \<and>
    (''active_top'', rg_top_margin r) \<in> set v \<and> (''active_width'', rg_active_width r) \<in> set v \<and>
    (''active_height'', rg_active_height r) \<in> set v"
  using assms by (auto simp: region_values_def bindE_eq_Inr)

lemma grid_valuesD:
  assumes "grid_values g x = Inr v"
  shows "(''col1_left'', gr_col1_left x) \<in> set v \<and>
    (''col1_right'', gr_col1_left x + gr_col1_width x) \<in> set v \<and>
    (''col2_left'', gr_col2_left x) \<in> set v \<and>
    (''col2_right'', gr_col2_left x + gr_col2_width x) \<in> set v \<and>
    (''col3_left'', gr_col3_left x) \<in> set v \<and> (''col3_width'', gr_col3_width x) \<in> set v \<and>
    (''col3_right'', gr_col3_left x + gr_col3_width x) \<in> set v \<and>
    (''row1_top'', gr_row1_top x) \<in> set v \<and>
    (''row1_bottom'', gr_row1_top x + gr_row1_height x) \<in> set v \<and>
    (''row2_top'', gr_row2_top x) \<in> set v \<and>
    (''row2_bottom'', gr_row2_top x + gr_row2_height x) \<in> set v"
  using assms by (auto simp: grid_values_def bindE_eq_Inr Let_def)

lemma single_valuesD:
  "(''single_left'', sw_left w) \<in> set (single_values r w)"
  "(''single_top'', sw_top w) \<in> set (single_values r w)"
  "(''single_width'', sw_width w) \<in> set (single_values r w)"
  "(''single_height'', sw_height w) \<in> set (single_values r w)"
  by (simp_all add: single_values_def)

lemma active_regionD:
  assumes "active_region l live = Inr r" and "0 < ds_width live" and "0 < ds_height live"
  shows "0 \<le> rg_left_margin r \<and> 0 \<le> rg_right_margin r \<and> 0 \<le> rg_top_margin r \<and>
    0 \<le> rg_panel_height r \<and> 0 \<le> rg_cols_1_2_margin r \<and> 0 \<le> rg_cols_2_3_margin r \<and>
    0 \<le> rg_rows_1_2_margin r \<and> 0 < rg_active_width r \<and> 0 < rg_active_height r \<and>
    rg_active_width r = ds_width live - rg_left_margin r - rg_right_margin r \<and>
    rg_active_height r =
      ds_height live - rg_top_margin r - rg_panel_height r - rg_logs_height r"
  using assms unfolding active_region_def
  by (auto simp: bindE_eq_Inr Let_def nonnegative_integerD elim!: dimension_nonneg)

lemma grid_sharesD:
  assumes "grid_shares r l = Inr g"
  shows "proper (gs_col1_pc g) \<and> proper (gs_col2_pc g) \<and> proper (gs_col3_pc g) \<and>
    proper (gs_row1_pc g) \<and> dec_le dec_zero (gs_col1_pc g) \<and> dec_le dec_zero (gs_col2_pc g) \<and>
    dec_le dec_zero (gs_col3_pc g) \<and> dec_le dec_zero (gs_row1_pc g)"
  using assms unfolding grid_shares_def
  by (auto simp: bindE_eq_Inr Let_def within_percent_def ensure_def decimal_of_proper passes_def)

lemma layout_gridD:
  assumes "layout_grid r g = Inr x" and "grid_shares r l = Inr g"
    and "0 \<le> rg_active_width r" and "0 \<le> rg_active_height r"
  shows "0 \<le> gr_col1_width x \<and> 0 \<le> gr_col2_width x \<and> 0 \<le> gr_col3_width x \<and>
    0 \<le> gr_row1_height x \<and> 0 \<le> gr_row2_height x \<and>
    gr_col1_width x + gr_col2_width x + gr_col3_width x + rg_cols_1_2_margin r +
      (if gr_col3_width x \<noteq> 0 then rg_cols_2_3_margin r else 0) \<le> rg_active_width r \<and>
    gr_row1_height x + rg_rows_1_2_margin r + gr_row2_height x \<le> rg_active_height r \<and>
    gr_col1_left x = rg_left_margin r \<and>
    gr_col2_left x = gr_col1_left x + gr_col1_width x + rg_cols_1_2_margin r \<and>
    gr_col3_left x = gr_col2_left x + gr_col2_width x + rg_cols_2_3_margin r \<and>
    gr_row1_top x = rg_top_margin r \<and>
    gr_row2_top x = gr_row1_top x + gr_row1_height x + rg_rows_1_2_margin r"
  using assms grid_sharesD [OF assms(2)] unfolding layout_grid_def
  by (auto simp: bindE_eq_Inr Let_def elim!: share_nonneg)

lemma single_windowD:
  assumes "single_window r l = Inr w"
    and "0 \<le> rg_active_width r" and "0 \<le> rg_active_height r"
  shows "0 \<le> sw_width w \<and> sw_width w \<le> rg_active_width r \<and>
    0 \<le> sw_height w \<and> sw_height w \<le> rg_active_height r \<and>
    sw_left w = rg_left_margin r + (rg_active_width r - sw_width w) div 2 \<and>
    sw_top w = rg_top_margin r + (rg_active_height r - sw_height w) div 2"
proof -
  obtain pw ph where "decimal_of (parameter_or l ''single_width_pc_of_active'' ''100'')
       ''single_width_pc_of_active'' = Inr pw"
    "decimal_of (parameter_or l ''single_height_pc_of_active'' ''100'')
       ''single_height_pc_of_active'' = Inr ph"
    and pos: "dec_positive pw" "dec_le pw HUNDRED" "dec_positive ph" "dec_le ph HUNDRED"
    and shares: "share pw (rg_active_width r) ''single_width'' = Inr (sw_width w)"
      "share ph (rg_active_height r) ''single_height'' = Inr (sw_height w)"
      "sw_left w = rg_left_margin r + (rg_active_width r - sw_width w) div 2"
      "sw_top w = rg_top_margin r + (rg_active_height r - sw_height w) div 2"
    using assms(1) unfolding single_window_def by (auto simp: bindE_eq_Inr)
  then have p: "proper pw" "dec_exponent pw \<le> 0" "proper ph" "dec_exponent ph \<le> 0"
    by (auto simp: decimal_of_proper decimal_of_exponent)
  have "dec_le dec_zero d" if "dec_positive d" for d
    using that by (auto simp: dec_positive_def dec_le_def Let_def min.commute)
  with p pos shares assms(2-) show ?thesis
    using share_nonneg [OF shares(1)] share_nonneg [OF shares(2)]
      share_le [OF shares(1)] share_le [OF shares(2)] by auto
qed

end
