(* ===== verification/Layout_Paths.thy ===== *)
theory Layout_Paths
  imports Layout_Parse
begin

text \<open>
  Layout paths and include expansion: every path the planner forms stays beneath
  \<^verbatim>\<open>.fluxbox/layouts\<close>, and expansion ends without its depth limit and within its budget.
\<close>

section \<open>Canonical paths\<close>

abbreviation (input) SLASH :: char where "SLASH \<equiv> CHR ''/''"

text \<open>A component of a parsed path.\<close>

definition component :: "string \<Rightarrow> bool" where
  "component c \<longleftrightarrow> c \<noteq> [] \<and> c \<noteq> ''.'' \<and> SLASH \<notin> set c"

lemma split_at_components: "c \<in> set (split_at sep w s) \<Longrightarrow> sep \<notin> set w \<Longrightarrow> sep \<notin> set c"
  by (induction sep w s rule: split_at.induct) (auto split: if_splits)

lemma parse_path_components: "c \<in> set (path_tail (parse_path s)) \<Longrightarrow> component c"
  by (auto simp: parse_path_def component_def split: prod.splits dest: split_at_components)

lemma split_at_word: "sep \<notin> set c \<Longrightarrow> split_at sep w (c @ s) = split_at sep (rev c @ w) s"
  by (induction c arbitrary: w) auto

lemma split_at_join:
  "xs \<noteq> [] \<Longrightarrow> \<forall>c \<in> set xs. SLASH \<notin> set c \<Longrightarrow> split_at SLASH [] (join_str ''/'' xs) = xs"
proof (induction xs rule: list_nonempty_induct)
  case (single x)
  then show ?case using split_at_word [of SLASH x "[]" "[]"] by simp
next
  case (cons x xs)
  then obtain y ys where xs: "xs = y # ys" by (cases xs) auto
  with cons show ?case
    using split_at_word [of SLASH x "[]" "''/'' @ join_str ''/'' xs"] by simp
qed

lemma join_str_hd: "xs \<noteq> [] \<Longrightarrow> hd xs \<noteq> [] \<Longrightarrow> take 1 (join_str ''/'' xs) = take 1 (hd xs)"
  by (cases xs; cases "tl xs"; cases "hd xs") auto

lemma parse_as_posix:
  assumes "path_root p = []" and "path_tail p \<noteq> []" and "\<forall>c \<in> set (path_tail p). component c"
  shows "parse_path (as_posix p) = p"
proof -
  let ?s = "join_str ''/'' (path_tail p)"
  have first: "component (hd (path_tail p))" using assms(2,3) by simp
  then have "take 1 ?s = take 1 (hd (path_tail p))"
    using assms(2) by (intro join_str_hd) (auto simp: component_def)
  moreover have "take 1 (hd (path_tail p)) \<noteq> ''/''"
    using first by (cases "hd (path_tail p)") (auto simp: component_def)
  ultimately have "split_root ?s = ([], ?s)" by (simp add: split_root_def)
  moreover have "split_at SLASH [] ?s = path_tail p"
    using assms(2,3) by (intro split_at_join) (auto simp: component_def)
  moreover have "filter (\<lambda>x. x \<noteq> [] \<and> x \<noteq> ''.'') (path_tail p) = path_tail p"
    using assms(3) by (intro filter_True) (auto simp: component_def)
  ultimately show ?thesis using assms(1,2) by (simp add: parse_path_def as_posix_def)
qed

lemma split_suffix_yaml: "stem \<noteq> [] \<Longrightarrow> split_suffix (stem @ ''.yaml'') = (stem, ''.yaml'')"
  by (simp add: split_suffix_def rpartition_at_def)

lemma rev_eq_append: "rev s = xs @ ys \<Longrightarrow> s = rev ys @ rev xs"
  by (metis rev_append rev_rev_ident)

lemma split_suffix_parts: "split_suffix name = (stem, ext) \<Longrightarrow> name = stem @ ext"
  by (auto simp: split_suffix_def rpartition_at_def split: prod.splits if_splits
      dest!: partition_at_append rev_eq_append)

text \<open>A path beneath the layout root.\<close>

definition beneath_root :: "pure_path \<Rightarrow> bool" where
  "beneath_root p \<longleftrightarrow> path_root p = [] \<and> take 2 (path_tail p) = LAYOUT_ROOT \<and>
     length (path_tail p) > 2 \<and> ''..'' \<notin> set (path_tail p) \<and>
     (\<forall>c \<in> set (path_tail p). component c)"

lemma canonical_beneath:
  assumes "beneath_root p" and "path_suffix p = ''.yaml''"
  shows "canonical_layout_file (as_posix p)"
proof -
  have "path_tail p \<noteq> []" using assms(1) by (auto simp: beneath_root_def LAYOUT_ROOT_def)
  then have "parse_path (as_posix p) = p"
    using assms(1) by (intro parse_as_posix) (auto simp: beneath_root_def)
  then show ?thesis
    using assms by (simp add: canonical_layout_file_def Let_def beneath_root_def is_absolute_def
        parts_def)
qed

lemma beneath_with_suffix:
  assumes "beneath_root p" and "with_suffix ''.yaml'' p = Inr q"
  shows "beneath_root q \<and> path_suffix q = ''.yaml''"
proof -
  let ?stem = "fst (split_suffix (path_name p))"
  have stem: "?stem \<noteq> []" and q: "q = p\<lparr>path_tail := butlast (path_tail p) @ [?stem @ ''.yaml'']\<rparr>"
    using assms(2) by (auto simp: with_suffix_def Let_def split: if_splits)
  have ne: "path_tail p \<noteq> []" using assms(1) by (auto simp: beneath_root_def LAYOUT_ROOT_def)
  have "set ?stem \<subseteq> set (last (path_tail p))"
    using split_suffix_parts [of "path_name p" ?stem "snd (split_suffix (path_name p))"] ne
    by (metis path_name_def prod.collapse set_append sup_ge1)
  then have "component (?stem @ ''.yaml'')"
    using assms(1) ne stem by (auto simp: component_def beneath_root_def)
  moreover have "?stem @ ''.yaml'' \<noteq> ''..''" by (cases ?stem) auto
  moreover have "take 2 (butlast (path_tail p) @ [?stem @ ''.yaml'']) = take 2 (path_tail p)"
    using assms(1) by (simp add: beneath_root_def take_butlast)
  ultimately show ?thesis
    using assms(1) stem q
    by (auto simp: beneath_root_def path_suffix_def path_name_def split_suffix_yaml
        dest: in_set_butlastD)
qed

lemma suffixed_beneath:
  assumes "beneath_root p"
    and "(if path_suffix p = ''.yaml'' then Inr p else with_suffix ''.yaml'' p) = Inr q"
  shows "canonical_layout_file (as_posix q)"
  using assms beneath_with_suffix canonical_beneath by (auto split: if_splits)

lemma with_suffix_join:
  assumes "path_tail p \<noteq> []" and "with_suffix ext p = Inr q"
  shows "with_suffix ext (join_path base p) = Inr (join_path base q)"
  using assms
  by (auto simp: with_suffix_def join_path_def path_name_def Let_def butlast_append split: if_splits)

lemma parsed_beneath:
  assumes "path_root p = []" and "path_tail p \<noteq> []" and "''..'' \<notin> set (path_tail p)"
    and "\<forall>c \<in> set (path_tail p). component c"
  shows "beneath_root (join_path LAYOUT_ROOT p)"
  using assms by (auto simp: beneath_root_def join_path_def LAYOUT_ROOT_def component_def)

lemma include_path_canonical: "include_path v = Inr q \<Longrightarrow> canonical_layout_file q"
proof -
  assume ok: "include_path v = Inr q"
  let ?c = "parse_path (strip v)"
  obtain final where c: "path_root ?c = []" "''..'' \<notin> set (path_tail ?c)"
    and f: "(if path_suffix ?c = ''.yaml'' then Inr ?c else with_suffix ''.yaml'' ?c) = Inr final"
    and q: "q = as_posix (join_path LAYOUT_ROOT final)"
    using ok by (auto simp: include_path_def bindE_eq_Inr Let_def is_absolute_def parts_def)
  have ne: "path_tail ?c \<noteq> []"
    using f by (auto simp: with_suffix_def path_suffix_def path_name_def split_suffix_def
        rpartition_at_def split: if_splits)
  have "beneath_root (join_path LAYOUT_ROOT ?c)"
    using c ne by (intro parsed_beneath) (auto dest: parse_path_components)
  moreover have "path_suffix (join_path LAYOUT_ROOT ?c) = path_suffix ?c"
    using ne by (simp add: path_suffix_def path_name_def join_path_def)
  ultimately show ?thesis
    unfolding q using f ne with_suffix_join suffixed_beneath
    by (intro suffixed_beneath [of "join_path LAYOUT_ROOT ?c"]) (auto split: if_splits)
qed

lemma layout_path_canonical:
  assumes "layout_path l = Inr q"
  shows "canonical_layout_file q \<or> strip l = ''.fluxbox/layouts''"
proof -
  let ?c = "parse_path (strip l)"
  obtain rooted final where c: "as_posix ?c = strip l" "path_root ?c = []"
      "''..'' \<notin> set (path_tail ?c)"
    and r: "(if length (parts ?c) = 1
         then bindE (ensure (is_layout_name (path_name ?c))
             ''layout name contains unsupported characters'') (\<lambda>_.
           Inr (join_path LAYOUT_ROOT ?c))
         else if parts ?c = [] then Inl (IndexError ''tuple index out of range'')
         else if hd (parts ?c) = ''layouts'' then Inr (join_path [''.fluxbox''] ?c)
         else if take 2 (parts ?c) \<noteq> LAYOUT_ROOT
         then layout_error ''layout path is outside .fluxbox/layouts''
         else Inr ?c) = Inr rooted"
    and f: "(if path_suffix rooted = ''.yaml'' then Inr rooted
       else with_suffix ''.yaml'' rooted) = Inr final"
    and q: "q = as_posix final"
    using assms by (auto simp: layout_path_def bindE_eq_Inr Let_def is_absolute_def parts_def)
  have comps: "\<forall>x \<in> set (path_tail ?c). component x" by (auto dest: parse_path_components)
  have parts: "parts ?c = path_tail ?c" using c(2) by (simp add: parts_def)
  consider (single) "length (path_tail ?c) = 1" "rooted = join_path LAYOUT_ROOT ?c"
    | (layouts) xs where "path_tail ?c = ''layouts'' # xs" "xs \<noteq> []"
        "rooted = join_path [''.fluxbox''] ?c"
    | (rooted) "take 2 (path_tail ?c) = LAYOUT_ROOT" "rooted = ?c"
    using r unfolding parts
    by (cases "path_tail ?c"; cases "tl (path_tail ?c)") (auto simp: bindE_eq_Inr split: if_splits)
  then have "beneath_root rooted \<or> path_tail ?c = LAYOUT_ROOT"
  proof cases
    case single
    then show ?thesis using c comps by (intro disjI1) (auto intro!: parsed_beneath)
  next
    case layouts
    then show ?thesis
      using c comps by (auto simp: beneath_root_def join_path_def LAYOUT_ROOT_def component_def)
  next
    case rooted
    then have "2 \<le> length (path_tail ?c)" by (cases "path_tail ?c"; cases "tl (path_tail ?c)") (auto simp: LAYOUT_ROOT_def)
    then show ?thesis
      using rooted c comps by (cases "length (path_tail ?c) = 2") (auto simp: beneath_root_def)
  qed
  then show ?thesis
  proof
    assume "beneath_root rooted"
    then show ?thesis using suffixed_beneath f q by auto
  next
    assume "path_tail ?c = LAYOUT_ROOT"
    then have "strip l = ''.fluxbox/layouts''"
      using c(1,2) by (simp add: as_posix_def LAYOUT_ROOT_def)
    then show ?thesis ..
  qed
qed

section \<open>Expansion\<close>

text \<open>What has been charged is what has been kept.\<close>

definition within_budget :: "(string \<times> text_bytes) list \<Rightarrow> expansion \<Rightarrow> bool" where
  "within_budget files x \<longleftrightarrow>
     ex_bytes x = sum_list (map utf8_size (ex_output x)) \<and>
     ex_lines x = int (length (ex_output x)) \<and>
     ex_bytes x \<le> MAX_LAYOUT_TOTAL_BYTES \<and> ex_lines x \<le> MAX_LAYOUT_LINES \<and>
     set (ex_consumed x) \<subseteq> set (map fst files)"

lemma append_line_budget: "append_line l x = Inr y \<Longrightarrow> within_budget files x \<Longrightarrow> within_budget files y"
  by (auto simp: append_line_def bindE_eq_Inr within_budget_def)

lemma expand_line_budget:
  assumes "expand_line deeper path indent x nl = Inr y" and "within_budget files x"
    and "\<And>p i x y. deeper p i x = Inr y \<Longrightarrow> within_budget files x \<Longrightarrow> within_budget files y"
  shows "within_budget files y"
  using assms
  by (cases nl) (auto simp: expand_line_def Let_def bindE_eq_Inr intro: append_line_budget
      split: if_splits option.splits prod.splits)

lemma expand_file_budget:
  "expand_file left files stack path indent x = Inr y \<Longrightarrow> within_budget files x \<Longrightarrow>
   within_budget files y"
proof (induction left arbitrary: stack path indent x y)
  case (Suc left)
  obtain content body where content: "map_of files path = Some content"
    and run: "foldE (expand_line (expand_file left files (stack @ [path])) path indent)
      (x\<lparr>ex_consumed := List.insert path (ex_consumed x)\<rparr>)
      (enumerate 1 (splitlines_keep body)) = Inr y"
    using Suc.prems(1) by (auto simp: bindE_eq_Inr split: if_splits option.splits)
  have "path \<in> set (map fst files)" using content by (force dest: map_of_SomeD)
  then have "within_budget files (x\<lparr>ex_consumed := List.insert path (ex_consumed x)\<rparr>)"
    using Suc.prems(2) by (auto simp: within_budget_def)
  with run show ?case
    by (rule foldE_invariant) (blast intro: expand_line_budget Suc.IH)
qed simp

lemma expand_layout_budget: "expand_layout files source = Inr x \<Longrightarrow> within_budget files x"
  unfolding expand_layout_def
  by (erule expand_file_budget)
    (simp add: within_budget_def new_expansion_def MAX_LAYOUT_TOTAL_BYTES_def MAX_LAYOUT_LINES_def)

text \<open>
  The cycle check bounds the depth by the number of files: more depth changes nothing.
\<close>

definition unvisited :: "(string \<times> text_bytes) list \<Rightarrow> string list \<Rightarrow> nat" where
  "unvisited files stack = card (set (map fst files) - set stack)"

lemma unvisited_less:
  assumes "map_of files path = Some content" and "path \<notin> set stack"
  shows "unvisited files (stack @ [path]) < unvisited files stack"
proof -
  have "path \<in> set (map fst files)" using assms(1) by (force dest: map_of_SomeD)
  then have "set (map fst files) - set (stack @ [path]) \<subset> set (map fst files) - set stack"
    using assms(2) by auto
  then show ?thesis unfolding unvisited_def by (rule psubset_card_mono [rotated]) simp
qed

lemma expand_line_cong:
  "(\<And>p i x. deeper p i x = deeper' p i x) \<Longrightarrow>
   expand_line deeper path indent x nl = expand_line deeper' path indent x nl"
  by (cases nl) (simp add: expand_line_def Let_def split: option.split)

lemma expand_file_fuel:
  "unvisited files stack < left \<Longrightarrow> unvisited files stack < left' \<Longrightarrow>
   expand_file left files stack path indent x = expand_file left' files stack path indent x"
proof (induction left arbitrary: left' stack path indent x)
  case (Suc left)
  then obtain more where left': "left' = Suc more" by (cases left') auto
  show ?case
  proof (cases "path \<in> set stack \<or> map_of files path = None")
    case False
    then obtain content where content: "map_of files path = Some content" by auto
    have "unvisited files (stack @ [path]) < left" "unvisited files (stack @ [path]) < more"
      using unvisited_less [OF content, of stack] False Suc.prems left' by auto
    then have "expand_line (expand_file left files (stack @ [path])) path indent x nl =
        expand_line (expand_file more files (stack @ [path])) path indent x nl" for x nl
      by (intro expand_line_cong Suc.IH)
    then show ?thesis
      using False content left' by (simp cong: foldE_cong)
  qed (auto simp: left' split: option.split)
qed simp

end
