(* ===== verification/Layout_Runs.thy ===== *)
theory Layout_Runs
  imports Layout_Sound Layout_Paths
begin

text \<open>
  What resolving a layout returns: actions charged to the budget and screens paired with
  displays, and a small layout on one display that the witnesses resolve.
\<close>

section \<open>Resolved actions and screens\<close>

definition action_texts :: "resolved_action \<Rightarrow> string list" where
  "action_texts a = ra_matcher a # ra_commands a @ [ra_map_command a]"

definition action_closed :: "resolved_action \<Rightarrow> bool" where
  "action_closed a \<longleftrightarrow> ra_commands a \<noteq> [] \<and>
     list_all (\<lambda>s. find_placeholder s = None) (action_texts a)"

definition charged :: "text_budget \<times> resolved_action list \<Rightarrow> bool" where
  "charged acc \<longleftrightarrow>
     fst (fst acc) = sum_list (map utf8_size (concat (map action_texts (snd acc)))) \<and>
     snd (fst acc) = int (length (concat (map action_texts (snd acc)))) \<and>
     fst (fst acc) \<le> MAX_LAYOUT_TOTAL_BYTES \<and> snd (fst acc) \<le> MAX_WINDOW_COMMANDS \<and>
     list_all action_closed (snd acc)"

lemma resolve_rule_charged:
  assumes "resolve_rule d acc rule = Inr acc'" and "charged acc"
  shows "charged acc'"
proof -
  let ?a = "\<lambda>matcher commands. \<lparr> ra_matcher = matcher, ra_commands = commands, ra_map_command =
    ''Map {'' @ combine_commands commands @ ''} {Matches '' @ matcher @ ''}'' \<rparr>"
  have "\<exists>m cs b. charge (fst acc) (action_texts (?a m cs)) = Inr b \<and>
      passes (ResolvedWindowAction_post_init (?a m cs)) \<and> acc' = (b, snd acc @ [?a m cs])"
    using assms(1) unfolding resolve_rule_def
    by (elim bindE_InrE) (auto simp: bindE_eq_Inr Let_def action_texts_def)
  then obtain a b where b: "charge (fst acc) (action_texts a) = Inr b"
    and a: "passes (ResolvedWindowAction_post_init a)" "acc' = (b, snd acc @ [a])"
    by blast
  have "action_closed a"
    using a(1) by (simp add: ResolvedWindowAction_post_init_def ensure_def action_closed_def
        action_texts_def)
  with a(2) b assms(2) show ?thesis
    by (auto simp: charged_def charge_def bindE_eq_Inr Let_def)
qed

lemma resolve_window_actions_charged:
  assumes "resolve_window_actions rules screens = Inr actions"
  obtains b where "charged (b, actions)"
proof -
  obtain d acc where run: "foldE (resolve_rule d) ((0, 0), []) rules = Inr acc"
    and actions: "actions = snd acc"
    using assms by (auto simp: resolve_window_actions_def bindE_eq_Inr)
  have "charged ((0, 0), [])"
    by (simp add: charged_def MAX_LAYOUT_TOTAL_BYTES_def MAX_WINDOW_COMMANDS_def)
  with run have "charged acc" by (rule foldE_invariant) (rule resolve_rule_charged)
  with actions that show ?thesis by (metis prod.collapse)
qed

lemma resolve_rule_length:
  "resolve_rule d acc rule = Inr acc' \<Longrightarrow> length (snd acc') = Suc (length (snd acc))"
  unfolding resolve_rule_def by (auto simp: bindE_eq_Inr Let_def)

lemma resolve_rules_length:
  "foldE (resolve_rule d) acc rules = Inr acc' \<Longrightarrow>
   length (snd acc') = length (snd acc) + length rules"
  by (induction rules arbitrary: acc) (auto simp: bindE_eq_Inr dest!: resolve_rule_length)

lemma resolve_window_actions_length:
  "resolve_window_actions rules screens = Inr actions \<Longrightarrow> length actions = length rules"
  by (auto simp: resolve_window_actions_def bindE_eq_Inr dest!: resolve_rules_length)

text \<open>A screen drawn from its numbered layout entry and display.\<close>

definition paired :: "nat \<times> layout_screen \<times> display_screen \<Rightarrow> resolved_screen \<Rightarrow> bool" where
  "paired = (\<lambda>(number, l, live) s.
     (\<exists>a. resolve_screen (int number) l a live = Inr s) \<and>
     ((rs_assignment s = ''primary'') = rs_primary s))"

lemma pairedD:
  assumes "paired x s"
  shows "rs_number s = int (fst x)" "rs_name s = ls_name (fst (snd x))"
    "rs_head s = ls_head (fst (snd x))" "rs_output s = ds_output (snd (snd x))"
    "rs_x s = ds_x (snd (snd x))" "rs_primary s = ds_primary (snd (snd x))"
    "(rs_assignment s = ''primary'') = rs_primary s"
  using assms by (auto simp: paired_def elim: resolve_screenD split: prod.splits)

lemma pair_screenD:
  assumes "pair_screen n done x = Inr r"
  obtains s where "r = done @ [s]" and "paired x s"
    and "rs_assignment s \<notin> set (map rs_assignment done)" and "rs_head s \<notin> set (map rs_head done)"
proof -
  obtain number l live where x: "x = (number, l, live)" by (cases x)
  let ?a = "assignment_of n l"
  obtain s where s: "resolve_screen (int number) l ?a live = Inr s" and r: "r = done @ [s]"
    and new: "?a \<notin> set (map rs_assignment done)" "ls_head l \<notin> set (map rs_head done)"
    and primary: "(?a = ''primary'') = ds_primary live"
    using assms x by (auto simp: pair_screen_def bindE_eq_Inr Let_def)
  from s have "rs_assignment s = ?a" "rs_head s = ls_head l" "rs_primary s = ds_primary live"
    by (elim resolve_screenD; simp)+
  with that r new primary s x show ?thesis by (auto simp: paired_def)
qed

lemma pair_screens:
  assumes "foldE (pair_screen n) done xs = Inr r"
    and "distinct (map rs_assignment done)" and "distinct (map rs_head done)"
  shows "\<exists>new. r = done @ new \<and> list_all2 paired xs new \<and> distinct (map rs_assignment r) \<and>
    distinct (map rs_head r)"
  using assms
proof (induction xs arbitrary: "done")
  case (Cons x xs)
  then obtain mid where mid: "pair_screen n done x = Inr mid"
    and rest: "foldE (pair_screen n) mid xs = Inr r"
    by (auto simp: bindE_eq_Inr)
  obtain s where s: "mid = done @ [s]" "paired x s"
    "rs_assignment s \<notin> set (map rs_assignment done)" "rs_head s \<notin> set (map rs_head done)"
    using mid by (rule pair_screenD)
  then have "\<exists>new. r = mid @ new \<and> list_all2 paired xs new \<and> distinct (map rs_assignment r) \<and>
      distinct (map rs_head r)"
    using Cons.prems by (intro Cons.IH rest) auto
  then show ?case using s by auto
qed auto

lemma resolve_layoutD:
  assumes "resolve_layout parsed displays = Inr layout"
  shows "length (py_screens parsed) = length displays \<and>
    length (filter ds_primary (left_to_right displays)) = 1 \<and>
    list_all2 paired (enumerate 0 (zip (py_screens parsed) (left_to_right displays)))
      (rl_screens layout) \<and>
    distinct (map rs_assignment (rl_screens layout)) \<and> distinct (map rs_head (rl_screens layout)) \<and>
    resolve_window_actions (py_window_rules parsed) (rl_screens layout) =
      Inr (rl_window_actions layout)"
proof -
  let ?n = "length (left_to_right displays)"
  have "length (left_to_right displays) = length displays" by (simp add: left_to_right_def)
  moreover obtain screens where "foldE (pair_screen ?n) []
      (enumerate 0 (zip (py_screens parsed) (left_to_right displays))) = Inr screens"
    and "rl_screens layout = screens" and "?n = length (py_screens parsed)"
    and "length (filter ds_primary (left_to_right displays)) = 1"
    and "resolve_window_actions (py_window_rules parsed) screens = Inr (rl_window_actions layout)"
    using assms unfolding resolve_layout_def by (auto simp: bindE_eq_Inr Let_def)
  ultimately show ?thesis using pair_screens [of ?n "[]"] by auto
qed

section \<open>A sample layout\<close>

definition document :: "string list \<Rightarrow> text_bytes" where
  "document ls = Utf8 (concat (map (\<lambda>l. l @ [LF]) ls))"

definition sample_files :: "(string \<times> text_bytes) list" where
  "sample_files =
     [(''.fluxbox/layouts/a.yaml'', document
        [''dpi: 96'', ''screens:'', ''  -'', ''    head: 1'', ''    <INCLUDE b>'',
         ''windows:'', ''  - - (X)'', ''    - At <s0_single_left>'']),
      (''.fluxbox/layouts/b.yaml'', document [''name: m'', ''left_margin: 5%''])]"

definition sample_display :: display_screen where
  "sample_display =
     \<lparr> ds_output = ''eDP-1'', ds_width = 1920, ds_height = 1080, ds_x = 0, ds_y = 0,
       ds_width_mm = 300, ds_height_mm = 200, ds_primary = True \<rparr>"

definition sample_parsed :: parsed_layout where
  "sample_parsed =
     \<lparr> py_layout = ''a'', py_source_path = ''.fluxbox/layouts/a.yaml'',
       py_consumed_paths = [''.fluxbox/layouts/a.yaml''], py_expanded_yaml = [],
       py_dpi = None, py_ui_scale = None, py_font_scale = None,
       py_screens = [\<lparr> ls_name = ''m'', ls_assignment = None, ls_head = 1,
         ls_parameters = [(''head'', ''1''), (''left_margin'', ''5%''), (''name'', ''m''),
           (''single_width_pc_of_active'', ''33.3''), (''top_margin'', ''10'')] \<rparr>],
       py_window_rules = [\<lparr> wr_matcher = ''(X)'', wr_commands = [''Raise'', ''MacroCmd {Stick}''] \<rparr>] \<rparr>"

definition sample_screen :: resolved_screen where
  "sample_screen =
     projr (resolve_screen 0 (hd (py_screens sample_parsed)) ''primary'' sample_display)"

lemma sample_resolves:
  "returns (resolve_screen 0 (hd (py_screens sample_parsed)) ''primary'' sample_display)
     (\<lambda>s. map_of (rs_geometry s) ''logs_height'' = Some 0 \<and>
        geometry_value s ''col3_width'' = Inr 0)"
  by code_simp

lemma sample_screen:
  "resolve_screen 0 (hd (py_screens sample_parsed)) ''primary'' sample_display = Inr sample_screen"
  "map_of (rs_geometry sample_screen) ''logs_height'' = Some 0"
  "geometry_value sample_screen ''col3_width'' = Inr 0"
  using sample_resolves unfolding sample_screen_def returns_def by auto

text \<open>A text without a placeholder is its own expansion.\<close>

definition opens :: "replacements \<Rightarrow> bool" where
  "opens d \<longleftrightarrow> (\<forall>k \<in> set (map fst d). k \<noteq> [] \<and> hd k = CHR ''<'')"

lemma starts_with_other: "hd old \<noteq> c \<Longrightarrow> old \<noteq> [] \<Longrightarrow> \<not> starts_with old (c # s)"
  by (cases old) (auto simp: starts_with_def)

lemma replace_all_plain:
  "old \<noteq> [] \<Longrightarrow> hd old = CHR ''<'' \<Longrightarrow> CHR ''<'' \<notin> set s \<Longrightarrow> replace_all old new s = s"
proof (induction s)
  case (Cons c s)
  then have "\<not> starts_with old (c # s)" by (intro starts_with_other) auto
  with Cons show ?case by simp
qed simp

lemma find_placeholder_plain: "CHR ''<'' \<notin> set s \<Longrightarrow> find_placeholder s = None"
  by (induction s) auto

lemma opens_Cons: "opens ((k, v) # d) \<longleftrightarrow> (k \<noteq> [] \<and> hd k = CHR ''<'') \<and> opens d"
  by (simp add: opens_def)

lemma opens_Nil [simp]: "opens []"
  by (simp add: opens_def)

lemma opens_update: "opens d \<Longrightarrow> opens [(k, v)] \<Longrightarrow> opens (AList.update k v d)"
proof (induction d)
  case (Cons p d)
  then show ?case by (cases p) (simp add: opens_Cons)
qed simp

lemma opens_assign_all:
  "opens d \<Longrightarrow> opens kvs \<Longrightarrow> opens (assign_all d kvs)"
  unfolding assign_all_def
proof (induction kvs arbitrary: d)
  case (Cons kv kvs)
  obtain k v where kv: "kv = (k, v)" by (cases kv)
  then have "opens [(k, v)]" "opens kvs" using Cons.prems(2) by (auto simp: opens_def)
  then have "opens (foldl (\<lambda>d (k, v). AList.update k v d) (AList.update k v d) kvs)"
    using Cons.prems(1) by (intro Cons.IH opens_update)
  then show ?case by (simp add: kv)
qed simp

lemma expand_plain:
  assumes "opens d" and "CHR ''<'' \<notin> set v"
  shows "expand_placeholders d v = bindE (bounded_scalar v ''expanded Fluxbox scalar'') (\<lambda>_. Inr v)"
proof -
  have "foldl (\<lambda>s (k, w). replace_all k w s) v r = v" if "set r \<subseteq> set d" for r
    using that
  proof (induction r)
    case (Cons kw r)
    obtain k w where kw: "kw = (k, w)" by (cases kw)
    then have "k \<in> set (map fst d)" using Cons.prems by force
    then have "replace_all k w v = v"
      using assms by (intro replace_all_plain) (auto simp: opens_def)
    with Cons kw show ?case by simp
  qed simp
  moreover have "set (replacement_order d) \<subseteq> set d" by (simp add: replacement_order_def)
  ultimately show ?thesis
    using assms by (simp add: expand_placeholders_def find_placeholder_plain)
qed

lemma opens_append: "opens (xs @ ys) \<longleftrightarrow> opens xs \<and> opens ys"
  unfolding opens_def map_append set_append by blast

lemma opens_concat: "opens (concat xss) \<longleftrightarrow> (\<forall>xs \<in> set xss. opens xs)"
  by (induction xss) (simp_all add: opens_append)

lemma opens_fields: "opens (map (\<lambda>(name, v). (''<'' @ p @ name @ ''>'', f (name, v))) xs)"
  unfolding opens_def by (induction xs) (simp_all add: case_prod_unfold)

lemma opens_screens: "opens (concat (map screen_placeholders ss))"
proof -
  have "opens (screen_placeholders s)" for s
    unfolding screen_placeholders_def opens_concat list.map list.set ball_simps
    by (intro conjI opens_fields TrueI)
  then show ?thesis by (auto simp: opens_concat)
qed

lemma placeholder_values_primary:
  assumes "rs_assignment s = ''primary''" and "geometry_value s ''col3_width'' = Inr 0"
  obtains d where "placeholder_values [s] = Inr d" and "opens d"
proof -
  have "opens [(''<stick>'', STICK), (''<unstick>'', UNSTICK)]" by (simp add: opens_def)
  then have "opens (assign_all (assign_all [(''<stick>'', STICK), (''<unstick>'', UNSTICK)]
      (concat (map screen_placeholders [s]))) [])"
    by (intro opens_assign_all opens_screens) (simp_all add: opens_def)
  with assms that show ?thesis
    by (simp add: placeholder_values_def place_rhs_def Let_def)
qed

lemma sample_rule:
  assumes "opens d"
  shows "resolve_rule d ((0, 0), []) (hd (py_window_rules sample_parsed)) =
    Inr ((68, 4), [\<lparr> ra_matcher = ''(X)'', ra_commands = [''Raise'', ''MacroCmd {Stick}''],
      ra_map_command = ''Map {MacroCmd {Raise} {Stick}} {Matches (X)}'' \<rparr>])"
proof -
  have plain: "expand_placeholders d ''(X)'' = Inr ''(X)''"
    "expand_placeholders d ''Raise'' = Inr ''Raise''"
    "expand_placeholders d ''MacroCmd {Stick}'' = Inr ''MacroCmd {Stick}''"
    by (subst expand_plain [OF assms]; code_simp)+
  show ?thesis
    unfolding resolve_rule_def sample_parsed_def
    by (simp add: plain) code_simp
qed

lemma ensure_True [simp]: "ensure True m = Inr ()"
  by (simp add: ensure_def check_def)

lemma sample_screen_primary: "rs_assignment sample_screen = ''primary''"
  using sample_screen(1) by (rule resolve_screenD) simp

definition sample_layout :: resolved_layout where
  "sample_layout = projr (resolve_layout sample_parsed [sample_display])"

lemma sample_layout:
  "resolve_layout sample_parsed [sample_display] = Inr sample_layout"
  "rl_screens sample_layout = [sample_screen]" "length (rl_window_actions sample_layout) = 1"
proof -
  obtain d where d: "placeholder_values [sample_screen] = Inr d" "opens d"
    using placeholder_values_primary sample_screen_primary sample_screen(3) by blast
  obtain r l where rules: "py_window_rules sample_parsed = [r]"
    and screens: "py_screens sample_parsed = [l]"
    by (simp add: sample_parsed_def)
  obtain a where "resolve_window_actions (py_window_rules sample_parsed) [sample_screen] = Inr [a]"
    using sample_rule [OF d(2)] by (simp add: resolve_window_actions_def d(1) rules)
  moreover have "foldE (pair_screen 1) []
      (enumerate 0 (zip (py_screens sample_parsed) [sample_display])) = Inr [sample_screen]"
    using sample_screen(1)
    by (simp add: screens pair_screen_def assignment_of_def sample_display_def)
  ultimately have "\<exists>L. resolve_layout sample_parsed [sample_display] = Inr L \<and>
      rl_screens L = [sample_screen] \<and> length (rl_window_actions L) = 1"
    by (simp add: resolve_layout_def left_to_right_def Let_def screens sample_display_def)
  then show "resolve_layout sample_parsed [sample_display] = Inr sample_layout"
    "rl_screens sample_layout = [sample_screen]" "length (rl_window_actions sample_layout) = 1"
    by (auto simp: sample_layout_def)
qed

end
