(* ===== verification/Layout_Guarantees.thy ===== *)
theory Layout_Guarantees
  imports Layout_Runs "HOL-Library.Multiset"
begin

text \<open>
  The properties of the layout planner of \<^verbatim>\<open>desktop/layout.py\<close>: the paths it reads, the
  end of include expansion, the geometry of screens, and the window actions.
\<close>

section \<open>Paths and includes\<close>

text \<open>
  C18: whatever layout is asked for and whatever an include names, the path
  formed is a canonical YAML file beneath \<^verbatim>\<open>.fluxbox/layouts\<close>, with no parent component,
  unless the layout asked for is the text \<^verbatim>\<open>.fluxbox/layouts\<close> itself.
\<close>

theorem layout_paths_stay_beneath_root:
  "provided (layout_path name)
     (\<lambda>path. canonical_layout_file path \<or> strip name = ''.fluxbox/layouts'') \<and>
   provided (include_path v) canonical_layout_file"
  by (simp add: provided_def layout_path_canonical include_path_canonical)


text \<open>
  C14: the cycle check ends include expansion: a depth of one more than the number of
  files is never exhausted, so that more depth changes nothing; and what an expansion
  returns it has charged, within the byte and line limits, having read only the given
  files.
\<close>

theorem includes_terminate:
  "expand_file (Suc (length files) + k) files [] path indent x =
     expand_file (Suc (length files)) files [] path indent x \<and>
   provided (expand_layout files path) (within_budget files)"
proof
  have "unvisited files [] \<le> length files"
    using card_length [of "map fst files"] by (simp add: unvisited_def)
  then show "expand_file (Suc (length files) + k) files [] path indent x =
      expand_file (Suc (length files)) files [] path indent x"
    by (intro expand_file_fuel) simp_all
qed (simp add: provided_def expand_layout_budget)

section \<open>Geometry\<close>










section \<open>Screens and actions\<close>



text \<open>
  C23: a resolved layout has one action per window rule; no text of an action still holds
  a placeholder, and all texts together stay within the byte and the value limit.
\<close>

theorem actions_are_closed:
  assumes "resolve_layout parsed displays = Inr layout"
  shows "let actions = rl_window_actions layout; texts = concat (map action_texts actions) in
    length actions = length (py_window_rules parsed) \<and> list_all action_closed actions \<and>
    sum_list (map utf8_size texts) \<le> MAX_LAYOUT_TOTAL_BYTES \<and>
    int (length texts) \<le> MAX_WINDOW_COMMANDS"
proof -
  have run: "resolve_window_actions (py_window_rules parsed) (rl_screens layout) =
      Inr (rl_window_actions layout)"
    using resolve_layoutD [OF assms] by simp
  then obtain b where "charged (b, rl_window_actions layout)"
    by (rule resolve_window_actions_charged)
  with resolve_window_actions_length [OF run] show ?thesis by (auto simp: charged_def Let_def)
qed

theorem actions_are_closed_witness:
  "list_all action_closed (rl_window_actions sample_layout) \<and>
   length (rl_window_actions sample_layout) = 1"
  using actions_are_closed [OF sample_layout(1)] by (simp add: sample_parsed_def Let_def)

end
