(* ===== verification/Spec2Isabelle.thy ===== *)
theory Spec2Isabelle
  imports Guarantees Defects Timers Bijection Recovery_Guarantees Controller_Guarantees
    Request_Guarantees Layout_Guarantees
begin

text \<open>
  A verification of the core of the monitor controller, the Python package
  \<^verbatim>\<open>src/.local/lib/monitor-controller/monitor_controller\<close> (paths below are relative to
  it). The controller watches which monitors are plugged in, decides which display
  profile to probe, apply, plan, prepare and finalize, and supervises the worker
  processes that do it.

  \<^item> The program. Everything the controller decides is computed by one pure function,
    \<^verbatim>\<open>reduce(state, event)\<close> of \<^verbatim>\<open>reducer.py\<close>, over the frozen dataclasses of
    \<^verbatim>\<open>model.py\<close>; every decision is checked by \<^verbatim>\<open>assert_controller_invariants\<close> of
    \<^verbatim>\<open>invariants.py\<close>. \<^verbatim>\<open>SerializedController\<close> of \<^verbatim>\<open>runtime/controller.py\<close> takes events
    from a queue one at a time, reduces them, persists the state, publishes the
    generation that fences its workers, and only then carries out the effects: it asks
    for observations, starts planners and workers, and stops them; what comes back is the
    next event. Timer events come from \<^verbatim>\<open>runtime/scheduler.py\<close>. After a restart
    \<^verbatim>\<open>runtime/recovery.py\<close> reconciles the persisted state with the workers that are
    still alive, replaying finished workers through \<^verbatim>\<open>reduce\<close>. Observations are matched
    to saved profiles by the bijection search of \<^verbatim>\<open>observer/mapping.py\<close>. What a plan
    contains is computed from the Fluxbox layouts by \<^verbatim>\<open>desktop/layout.py\<close>.

  \<^item> The model of decisions. \<open>Prelude\<close>, \<open>Py_Strings\<close>: errors as values, constructor
    validation (every dataclass construction or \<^verbatim>\<open>replace\<close> is
    \<open>construct X_post_init\<close>), the string functions. \<open>Model_Values\<close>, \<open>Model_Observation\<close>,
    \<open>Model_State\<close>, \<open>Model_Events\<close>: \<^verbatim>\<open>model.py\<close>, one record or datatype per class with the
    names of the source. \<open>Invariants\<close>: \<^verbatim>\<open>invariants.py\<close>. \<open>Reducer_Core\<close> to \<open>Reducer\<close>:
    \<^verbatim>\<open>reducer.py\<close>, one definition per function, the long ones split at their branches.
    \<open>Scheduler\<close>: \<^verbatim>\<open>runtime/scheduler.py\<close> as a step relation over its tasks. \<open>Recovery\<close>:
    \<^verbatim>\<open>runtime/recovery.py\<close>. \<open>Bijection\<close>: \<^verbatim>\<open>observer/mapping.py\<close>.

  \<^item> The model of the runtime. \<open>Dispatch\<close>: \<^verbatim>\<open>runtime/dispatcher.py\<close>. \<open>Runtime_World\<close>,
    \<open>Producers\<close>, \<open>Controller\<close>, \<open>Request_Context\<close>, \<open>Controller_Effects\<close>,
    \<open>Controller_Loop\<close>: \<^verbatim>\<open>runtime/controller.py\<close>, each method a program that passes the
    world on, returns or raises. The world has the fields of the controller and the trace
    of what it did outside. Clocks, stores, supervisor, observer and planner are a record
    \<open>environment\<close> of functions of a tick that every consultation advances: what the
    adapter answers, and what the other tasks did before the answer. The properties hold
    for every environment, hence for every answer, failure and interleaving at an
    \<^verbatim>\<open>await\<close>. An event that an effect causes at once is reduced inside the effect; the
    nesting is bounded by the fuel of \<open>process_event\<close>, and a run that needs more ends in
    \<open>Exhausted\<close>. Every property of a run is a property of its trace so far, so it holds
    at every fuel, of runs cut short too.

  \<^item> The model of layouts. \<open>Layout_Text\<close>: lines, regular expressions and pure paths.
    \<open>Layout_Decimal\<close>: the decimal arithmetic at its 28 digits. \<open>Layout_Parse\<close>,
    \<open>Layout_Resolve\<close>: \<^verbatim>\<open>desktop/layout.py\<close>, from the injected files to screens with their
    geometry and window actions. The depth that \<open>expand_file\<close> recurses on is the
    \<^verbatim>\<open>MAX_INCLUDE_DEPTH\<close> of the source.

  \<^item> All of these are executable; the witnesses evaluate whole scenarios with them
    (\<open>Scenario\<close>, \<open>Controller_Scenario\<close>, \<open>Layout_Runs\<close>).

  \<^item> The lemmas. \<open>Reducer_Frames\<close>, \<open>Reducer_Sound\<close>, \<open>Sound_Observe\<close>, \<open>Sound_Workers\<close>,
    \<open>Reducer_Decisions\<close>: every handler changes only its part of the state and its
    effects are explained by the state it returns. \<open>Reducer_Runs\<close>: what a decision keeps
    a run keeps (locale \<open>stepwise\<close>). \<open>Liveness\<close>: every decision leaves a reason to wake.
    \<open>Recovery_Sound\<close>: merging by identity, the marks, the branches of recovery.
    \<open>Identities\<close>: identities and their texts. \<open>Controller_Protocol\<close>: an acceptor of
    traces that says in which order a controller may act. \<open>Controller_Safe\<close>: every
    program of the runtime follows it (locale \<open>event_processor\<close>, over whatever processes
    the nested events). \<open>Layout_Paths\<close>: canonical paths, depth and budget of expansion.
    \<open>Layout_Sound\<close>: the signs and sizes that rounding keeps. \<open>Layout_Runs\<close>: what
    resolving a layout returns.

  \<^item> The properties. \<open>Authority\<close>: when external intent ends and when a profile, probe,
    preparation or finalization may be requested. \<open>Guarantees\<close>: the invariants, the
    exclusion of display mutations, the safety rules, effects, counters and identities.
    \<open>Controller_Guarantees\<close>: the service is a run of the reducer, its submissions are
    fenced and acknowledged, its fence never reopens. \<open>Request_Guarantees\<close>: what a worker
    is told proves its admission. \<open>Timers\<close>: the composition of scheduler and reducer,
    progress and waiting times. \<open>Bijection\<close>: the search decides existence and uniqueness.
    \<open>Recovery_Guarantees\<close>: soundness of a restart, the quarantine, agreement as the price
    of authority. \<open>Layout_Guarantees\<close>: paths, expansion, geometry and actions of layouts.
    \<open>Defects\<close>: a branch of the reducer that can only raise.

  \<^item> Limits. Strings are lists of code points below 256, so the Unicode classes of
    \<^verbatim>\<open>str.isspace\<close> and \<^verbatim>\<open>str.isdigit\<close> are those of Latin-1, and layout files are
    Latin-1 texts. Python integers are \<open>int\<close>. A UUID is a 128-bit word. Where a class is
    chosen by the kind of an identity the model chooses by the kind, and a record of the
    wrong kind is refused by its validation as in the source. Sets that Python iterates
    in no fixed order are lists in a fixed one where only their elements matter (the
    reasons of recovery). Apart from the fuel and the depth above, every function of the
    model terminates structurally or by a measure.

  \<^item> Not modelled. Of the runtime: the contents and durations of audit records, the
    journal, and the check that one task consumes the queue. Systemd, subprocesses and
    the transaction files (\<^verbatim>\<open>runtime/systemd.py\<close>, \<^verbatim>\<open>runtime/transactions.py\<close>), the JSON
    codec, the observers that run xrandr and autorandr, the renderers of
    \<^verbatim>\<open>desktop/planner.py\<close> and its neighbours, the workers, simulation and command line:
    input and output against programs and files outside the repository, or renderers
    whose result the reducer only sees as a hash. The scripts under \<^verbatim>\<open>src/bin\<close> are
    independent of the controller.
\<close>

end
